(* ===== verification/Prelude.thy ===== *)
theory Prelude
  imports Main "HOL-Library.Word" "HOL-Library.List_Lexorder" "HOL-Library.Char_ord"
    "HOL-Library.Product_Lexorder"
begin

text \<open>
  Shared vocabulary of the development: Rust's \<open>Result\<close> and the \<open>?\<close> operator, the two shapes of
  fallible loop the code uses (a fold whose local state is dropped on error, and a loop over a
  \<open>&mut self\<close> method, whose state survives the error), \<open>HashSet::insert\<close> used as a duplicate
  test, and the locales that state the contracts of such loops once.
\<close>

named_theorems result_simps \<open>rewrite rules for \<open>Result\<close> values\<close>
named_theorems model_defs \<open>definitions that proofs unfold\<close>

section \<open>Result\<close>

datatype ('e, 'a) result = Err 'e | Ok 'a

primrec and_then :: "('e, 'a) result \<Rightarrow> ('a \<Rightarrow> ('e, 'b) result) \<Rightarrow> ('e, 'b) result" where
  "and_then (Err e) f = Err e"
| "and_then (Ok a) f = f a"

text \<open>
  \<open>Validatable::into_valid\<close> of \<open>common/valid.rs\<close>: a value that \<open>validate\<close> accepts, as it is. The wrapper
  \<open>Valid\<close> hands out the value for reading only.
\<close>

definition into_valid :: "('a \<Rightarrow> ('e, unit) result) \<Rightarrow> 'a \<Rightarrow> ('e, 'a) result" where
  [simp]: "into_valid validate x = and_then (validate x) (\<lambda>_. Ok x)"

primrec map_err :: "('e \<Rightarrow> 'f) \<Rightarrow> ('e, 'a) result \<Rightarrow> ('f, 'a) result" where
  "map_err f (Err e) = Err (f e)"
| "map_err f (Ok a) = Ok a"

primrec is_ok :: "('e, 'a) result \<Rightarrow> bool" where
  "is_ok (Err e) = False"
| "is_ok (Ok a) = True"

primrec ok_or :: "'e \<Rightarrow> 'a option \<Rightarrow> ('e, 'a) result" where
  "ok_or e None = Err e"
| "ok_or e (Some a) = Ok a"

definition ensure :: "bool \<Rightarrow> 'e \<Rightarrow> ('e, unit) result" where
  "ensure b e = (if b then Ok () else Err e)"

lemma and_then_eq_Ok [result_simps]:
  "and_then r f = Ok b \<longleftrightarrow> (\<exists>a. r = Ok a \<and> f a = Ok b)"
  by (cases r) auto

lemma and_then_eq_Err [result_simps]:
  "and_then r f = Err e \<longleftrightarrow> r = Err e \<or> (\<exists>a. r = Ok a \<and> f a = Err e)"
  by (cases r) auto

lemma is_ok_and_then [result_simps]:
  "is_ok (and_then r f) \<longleftrightarrow> (\<exists>a. r = Ok a \<and> is_ok (f a))"
  by (cases r) auto

lemma is_ok_and_then_const: "is_ok (and_then r (\<lambda>_. q)) \<longleftrightarrow> is_ok r \<and> is_ok q"
  by (cases r) auto

lemma is_ok_iff: "is_ok r \<longleftrightarrow> (\<exists>a. r = Ok a)"
  by (cases r) auto

lemma is_ok_unit: "is_ok r \<longleftrightarrow> r = Ok ()"
  by (cases r) auto

lemma ensure_Ok [simp]: "ensure b e = Ok u \<longleftrightarrow> b"
  by (simp add: ensure_def)

lemma ensure_Err [simp]: "ensure b e = Err e' \<longleftrightarrow> \<not> b \<and> e' = e"
  by (auto simp: ensure_def)

lemma is_ok_ensure [simp]: "is_ok (ensure b e) \<longleftrightarrow> b"
  by (simp add: ensure_def)

lemma ok_or_Ok [simp]: "ok_or e x = Ok a \<longleftrightarrow> x = Some a"
  by (cases x) auto

lemma ok_or_Err [simp]: "ok_or e x = Err e' \<longleftrightarrow> x = None \<and> e' = e"
  by (cases x) auto

section \<open>Fallible loops\<close>

text \<open>\<open>for x in xs { s = f(s, x)?; }\<close>, where \<open>s\<close> is local to the function.\<close>

fun try_fold :: "('s \<Rightarrow> 'a \<Rightarrow> ('e, 's) result) \<Rightarrow> 's \<Rightarrow> 'a list \<Rightarrow> ('e, 's) result" where
  "try_fold f s [] = Ok s"
| "try_fold f s (x # xs) = and_then (f s x) (\<lambda>s'. try_fold f s' xs)"

text \<open>
  \<open>for x in xs { self.f(x)?; }\<close>, where \<open>f\<close> takes \<open>&mut self\<close>: the state is returned with the
  result, because the changes made before an error stay.
\<close>

fun try_each :: "('a \<Rightarrow> 's \<Rightarrow> ('e, 'b) result \<times> 's) \<Rightarrow> 'a list \<Rightarrow> 's
    \<Rightarrow> ('e, unit) result \<times> 's" where
  "try_each f [] s = (Ok (), s)"
| "try_each f (x # xs) s =
     (case f x s of
        (Err e, s') \<Rightarrow> (Err e, s')
      | (Ok _, s') \<Rightarrow> try_each f xs s')"

text \<open>\<open>for x in xs { f(x)?; }\<close>, where the loop only checks.\<close>

definition check_each :: "('a \<Rightarrow> ('e, unit) result) \<Rightarrow> 'a list \<Rightarrow> ('e, unit) result" where
  "check_each f xs = try_fold (\<lambda>_. f) () xs"

lemma is_ok_check_each [result_simps]: "is_ok (check_each f xs) \<longleftrightarrow> (\<forall>x\<in>set xs. is_ok (f x))"
  unfolding check_each_def by (induction xs) (auto simp: result_simps is_ok_unit)

text \<open>What a loop adds to a set is what its steps add.\<close>

lemma try_fold_collect:
  assumes "\<And>s x s'. step s x = Ok s' \<Longrightarrow> f s' = f s \<union> g x"
  shows "try_fold step s xs = Ok s' \<Longrightarrow> f s' = f s \<union> (\<Union>x\<in>set xs. g x)"
proof (induction xs arbitrary: s)
  case (Cons x xs)
  then show ?case by (auto simp: result_simps dest!: assms)
qed simp

lemma foldl_collect:
  assumes "\<And>s x. f (step s x) = f s \<union> g x"
  shows "f (foldl step s xs) = f s \<union> (\<Union>x\<in>set xs. g x)"
  by (induction xs arbitrary: s) (auto simp: assms)

text \<open>\<open>iter.map(f).collect::<Result<Vec<_>, _>>()\<close>: the first error wins.\<close>

fun try_map :: "('a \<Rightarrow> ('e, 'b) result) \<Rightarrow> 'a list \<Rightarrow> ('e, 'b list) result" where
  "try_map f [] = Ok []"
| "try_map f (x # xs) = and_then (f x) (\<lambda>y. and_then (try_map f xs) (\<lambda>ys. Ok (y # ys)))"

lemma try_map_Ok: "try_map f xs = Ok ys \<longleftrightarrow> list_all2 (\<lambda>x y. f x = Ok y) xs ys"
proof (induction xs arbitrary: ys)
  case Nil
  then show ?case by auto
next
  case (Cons x xs)
  then show ?case by (cases ys) (auto simp: result_simps)
qed

lemma try_fold_append:
  "try_fold f s (xs @ ys) = and_then (try_fold f s xs) (\<lambda>s'. try_fold f s' ys)"
proof (induction xs arbitrary: s)
  case (Cons x xs)
  then show ?case by (cases "f s x") auto
qed simp

lemma try_fold_map: "try_fold f s (map h xs) = try_fold (\<lambda>s x. f s (h x)) s xs"
  by (induction xs arbitrary: s) simp_all

lemma try_fold_concat_map:
  "try_fold f s (concat (map g xs)) = try_fold (\<lambda>s x. try_fold f s (g x)) s xs"
  by (induction xs arbitrary: s) (simp_all add: try_fold_append)

text \<open>A step that keeps a property keeps it through the loop.\<close>

lemma try_fold_inv:
  "(\<And>s x s'. P s \<Longrightarrow> step s x = Ok s' \<Longrightarrow> P s') \<Longrightarrow> P s \<Longrightarrow> try_fold step s xs = Ok s' \<Longrightarrow> P s'"
  by (induction xs arbitrary: s) (auto simp: result_simps)

lemma try_fold_Err:
  "(\<And>s x. step s x = Err e \<Longrightarrow> Q e) \<Longrightarrow> try_fold step s xs = Err e \<Longrightarrow> Q e"
  by (induction xs arbitrary: s) (auto simp: result_simps)

text \<open>Parts with different owners that have no duplicates themselves have none together.\<close>

lemma distinct_owned_concat:
  assumes "distinct (map fst m)" and "\<forall>kv\<in>set m. distinct (f kv) \<and> (\<forall>x\<in>set (f kv). own x = fst kv)"
  shows "distinct (concat (map f m))"
  using assms by (induction m) force+

text \<open>\<open>iter.all(|x| set.insert(x))\<close>: stops at the first element already present.\<close>

fun all_insert :: "'a list \<Rightarrow> 'a set \<Rightarrow> bool \<times> 'a set" where
  "all_insert [] s = (True, s)"
| "all_insert (x # xs) s = (if x \<in> s then (False, s) else all_insert xs (insert x s))"

lemma fst_all_insert [simp]:
  "fst (all_insert xs s) \<longleftrightarrow> distinct xs \<and> set xs \<inter> s = {}"
  by (induction xs arbitrary: s) auto

lemma snd_all_insert: "fst (all_insert xs s) \<Longrightarrow> snd (all_insert xs s) = s \<union> set xs"
  by (induction xs arbitrary: s) (auto simp del: fst_all_insert split: if_splits)

text \<open>\<open>x.map(|v| set.insert(v)).unwrap_or(true)\<close>: is the optional value new?\<close>

definition insert_opt :: "'a option \<Rightarrow> 'a set \<Rightarrow> bool \<times> 'a set" where
  "insert_opt x s = (case x of None \<Rightarrow> (True, s) | Some a \<Rightarrow> (a \<notin> s, insert a s))"

text \<open>
  Two sets of values that are kept apart, such as IPv4 and IPv6 addresses, are one set of tagged
  values; what an element claims in them is a list of tagged values.
\<close>

definition both :: "'a set \<Rightarrow> 'b set \<Rightarrow> ('a + 'b) set" where
  "both A B = Inl ` A \<union> Inr ` B"

definition both_opt :: "'a option \<Rightarrow> 'b option \<Rightarrow> ('a + 'b) list" where
  "both_opt x y = (case x of None \<Rightarrow> [] | Some a \<Rightarrow> [Inl a]) @ (case y of None \<Rightarrow> [] | Some b \<Rightarrow> [Inr b])"

lemma insert_opt_both:
  "fst (insert_opt x A) \<and> fst (insert_opt y B) \<longleftrightarrow>
     distinct (both_opt x y) \<and> set (both_opt x y) \<inter> both A B = {}"
  by (auto simp: insert_opt_def both_def both_opt_def split: option.splits)

lemma insert_opt_both_set:
  "both (snd (insert_opt x A)) (snd (insert_opt y B)) = both A B \<union> set (both_opt x y)"
  by (auto simp: insert_opt_def both_def both_opt_def split: option.splits)

lemma both_empty [simp]: "both {} {} = {}"
  by (simp add: both_def)

text \<open>A property that every step of a \<open>for\<close> loop keeps holds after the loop.\<close>

lemma foldl_inv: "(\<And>s d. P s \<Longrightarrow> P (f s d)) \<Longrightarrow> P s \<Longrightarrow> P (foldl f s ds)"
  by (induction ds arbitrary: s) auto

text \<open>
  An updater's field: a deleted property is gone, whatever the updater sets; otherwise a value set
  replaces the old one.
\<close>

definition updated :: "'a option \<Rightarrow> bool \<Rightarrow> 'a option \<Rightarrow> 'a option" where
  "updated new del old = (if del then None else case new of None \<Rightarrow> old | Some v \<Rightarrow> Some v)"

definition updated_list :: "'a list option \<Rightarrow> bool \<Rightarrow> 'a list \<Rightarrow> 'a list" where
  "updated_list new del old = (if del then [] else case new of None \<Rightarrow> old | Some v \<Rightarrow> v)"

section \<open>Contracts of loops\<close>

text \<open>
  A step that keeps an invariant of the state on success and on error, run in a loop, keeps it.
\<close>

locale invariant_step =
  fixes step :: "'a \<Rightarrow> 's \<Rightarrow> ('e, 'b) result \<times> 's"
    and inv :: "'s \<Rightarrow> bool"
  assumes step_inv: "inv s \<Longrightarrow> inv (snd (step x s))"
begin

lemma loop_inv: "inv s \<Longrightarrow> inv (snd (try_each step xs s))"
proof (induction xs arbitrary: s)
  case (Cons x xs)
  obtain r s' where st: "step x s = (r, s')" by force
  with step_inv [OF Cons.prems, of x] have "inv s'" by simp
  with Cons.IH show ?case by (cases r) (simp_all add: st)
qed simp

end

text \<open>
  Every validation loop of the code collects what the elements claim for themselves (addresses,
  interfaces, ports, areas) in hash sets and stops at a claim made twice. The contract of one
  step says when it succeeds and what it adds to the sets; the loop then succeeds exactly when
  all claims together are free of duplicates.
\<close>

locale claim_collector_on =
  fixes step :: "'s \<Rightarrow> 'a \<Rightarrow> ('e, 's) result"
    and claims :: "'a \<Rightarrow> 'k list"
    and seen :: "'s \<Rightarrow> 'k set"
    and ok :: "'a \<Rightarrow> bool"
    and good :: "'a \<Rightarrow> bool"
  assumes good_step_ok: "good x \<Longrightarrow> is_ok (step s x) \<longleftrightarrow>
      ok x \<and> distinct (claims x) \<and> set (claims x) \<inter> seen s = {}"
    and good_step_seen: "good x \<Longrightarrow> step s x = Ok s' \<Longrightarrow> seen s' = seen s \<union> set (claims x)"
begin

lemma fold_seen_on:
  "\<forall>x\<in>set xs. good x \<Longrightarrow> try_fold step s xs = Ok s'
    \<Longrightarrow> seen s' = seen s \<union> set (concat (map claims xs))"
proof (induction xs arbitrary: s)
  case (Cons x xs)
  then show ?case by (auto simp: result_simps dest!: good_step_seen [rotated])
qed simp

lemma fold_ok_on:
  "\<forall>x\<in>set xs. good x \<Longrightarrow> is_ok (try_fold step s xs) \<longleftrightarrow>
     (\<forall>x\<in>set xs. ok x) \<and> distinct (concat (map claims xs))
     \<and> set (concat (map claims xs)) \<inter> seen s = {}"
proof (induction xs arbitrary: s)
  case (Cons x xs)
  then have good: "good x" by simp
  show ?case
  proof (cases "step s x")
    case (Err e)
    with good_step_ok [OF good, of s] show ?thesis by auto
  next
    case (Ok s')
    with Cons good_step_ok [OF good, of s] good_step_seen [OF good Ok] show ?thesis by auto
  qed
qed simp

end

text \<open>Most steps keep the contract whatever the element is.\<close>

locale claim_collector =
  fixes step :: "'s \<Rightarrow> 'a \<Rightarrow> ('e, 's) result"
    and claims :: "'a \<Rightarrow> 'k list"
    and seen :: "'s \<Rightarrow> 'k set"
    and ok :: "'a \<Rightarrow> bool"
  assumes step_ok: "is_ok (step s x) \<longleftrightarrow>
      ok x \<and> distinct (claims x) \<and> set (claims x) \<inter> seen s = {}"
    and step_seen: "step s x = Ok s' \<Longrightarrow> seen s' = seen s \<union> set (claims x)"

sublocale claim_collector \<subseteq> unconditional: claim_collector_on step claims seen ok "\<lambda>_. True"
  by unfold_locales (auto simp: step_ok step_seen)

context claim_collector
begin

lemma fold_seen:
  "try_fold step s xs = Ok s' \<Longrightarrow> seen s' = seen s \<union> set (concat (map claims xs))"
  by (rule unconditional.fold_seen_on) simp

lemma fold_ok:
  "is_ok (try_fold step s xs) \<longleftrightarrow>
     (\<forall>x\<in>set xs. ok x) \<and> distinct (concat (map claims xs))
     \<and> set (concat (map claims xs)) \<inter> seen s = {}"
  by (rule unconditional.fold_ok_on) simp

lemma fold_ok_empty:
  "seen s = {} \<Longrightarrow> is_ok (try_fold step s xs) \<longleftrightarrow>
     (\<forall>x\<in>set xs. ok x) \<and> distinct (concat (map claims xs))"
  by (simp add: fold_ok)

end

end
