(* ===== verification/BTree_Map.thy ===== *)
theory BTree_Map
  imports Prelude
begin

text \<open>
  Rust's \<open>BTreeMap\<close>, as the code uses it: an association list kept strictly sorted by key, so
  that iteration is in key order. The contract the components rely on is the locale
  \<open>keyed_map\<close>; the operations below are its interpretation.
\<close>

type_synonym ('k, 'v) btree_map = "('k \<times> 'v) list"

section \<open>Operations\<close>

fun bt_get :: "('k::linorder, 'v) btree_map \<Rightarrow> 'k \<Rightarrow> 'v option" where
  "bt_get [] k = None"
| "bt_get ((k', v) # m) k = (if k = k' then Some v else bt_get m k)"

fun bt_insert :: "'k::linorder \<Rightarrow> 'v \<Rightarrow> ('k, 'v) btree_map \<Rightarrow> ('k, 'v) btree_map" where
  "bt_insert k v [] = [(k, v)]"
| "bt_insert k v ((k', v') # m) =
     (if k < k' then (k, v) # (k', v') # m
      else if k = k' then (k, v) # m
      else (k', v') # bt_insert k v m)"

fun bt_remove :: "'k::linorder \<Rightarrow> ('k, 'v) btree_map \<Rightarrow> ('k, 'v) btree_map" where
  "bt_remove k [] = []"
| "bt_remove k ((k', v) # m) = (if k = k' then m else (k', v) # bt_remove k m)"

definition bt_contains_key :: "('k::linorder, 'v) btree_map \<Rightarrow> 'k \<Rightarrow> bool" where
  "bt_contains_key m k \<longleftrightarrow> bt_get m k \<noteq> None"

abbreviation bt_keys :: "('k, 'v) btree_map \<Rightarrow> 'k list" where
  "bt_keys m \<equiv> map fst m"

abbreviation bt_values :: "('k, 'v) btree_map \<Rightarrow> 'v list" where
  "bt_values m \<equiv> map snd m"

text \<open>\<open>extend\<close> and \<open>collect\<close>: later entries overwrite earlier ones with the same key.\<close>

definition bt_extend :: "('k::linorder, 'v) btree_map \<Rightarrow> ('k \<times> 'v) list \<Rightarrow> ('k, 'v) btree_map" where
  "bt_extend m kvs = fold (\<lambda>(k, v). bt_insert k v) kvs m"

definition bt_wf :: "('k::linorder, 'v) btree_map \<Rightarrow> bool" where
  "bt_wf m \<longleftrightarrow> sorted_wrt (<) (bt_keys m)"

section \<open>Laws\<close>

lemma bt_wf_Nil [simp]: "bt_wf []"
  by (simp add: bt_wf_def)

lemma bt_wf_Cons: "bt_wf ((k, v) # m) \<longleftrightarrow> (\<forall>k'\<in>set (bt_keys m). k < k') \<and> bt_wf m"
  by (simp add: bt_wf_def)

lemma bt_wf_distinct: "bt_wf m \<Longrightarrow> distinct (bt_keys m)"
  by (simp add: bt_wf_def strict_sorted_iff)

lemma bt_get_map_of: "bt_get m k = map_of m k"
  by (induction m k rule: bt_get.induct) auto

lemma bt_get_None: "bt_get m k = None \<longleftrightarrow> k \<notin> set (bt_keys m)"
  by (simp add: bt_get_map_of map_of_eq_None_iff)

lemma bt_get_Some: "bt_wf m \<Longrightarrow> bt_get m k = Some v \<longleftrightarrow> (k, v) \<in> set m"
  by (simp add: bt_get_map_of bt_wf_distinct)

lemma bt_get_SomeD: "bt_get m k = Some v \<Longrightarrow> (k, v) \<in> set m"
  by (simp add: bt_get_map_of map_of_SomeD)

lemma bt_contains_key_iff: "bt_contains_key m k \<longleftrightarrow> k \<in> set (bt_keys m)"
  by (simp add: bt_contains_key_def bt_get_None)

lemma bt_keys_insert: "set (bt_keys (bt_insert k v m)) = insert k (set (bt_keys m))"
  by (induction k v m rule: bt_insert.induct) auto

lemma bt_keys_remove: "set (bt_keys (bt_remove k m)) \<subseteq> set (bt_keys m)"
  by (induction k m rule: bt_remove.induct) auto

lemma bt_wf_insert: "bt_wf m \<Longrightarrow> bt_wf (bt_insert k v m)"
proof (induction k v m rule: bt_insert.induct)
  case (2 k v k' v' m)
  then show ?case using bt_keys_insert [of k v m] by (auto simp: bt_wf_Cons)
qed (simp add: bt_wf_def)

lemma bt_wf_remove: "bt_wf m \<Longrightarrow> bt_wf (bt_remove k m)"
proof (induction k m rule: bt_remove.induct)
  case (2 k k' v m)
  then show ?case using bt_keys_remove [of k m] by (auto 0 3 simp: bt_wf_Cons)
qed simp

lemma bt_get_insert: "bt_get (bt_insert k v m) k' = (if k' = k then Some v else bt_get m k')"
  by (induction k v m rule: bt_insert.induct) auto

lemma bt_get_remove:
  "bt_wf m \<Longrightarrow> bt_get (bt_remove k m) k' = (if k' = k then None else bt_get m k')"
proof (induction k m rule: bt_remove.induct)
  case (2 k k'' v m)
  have "k'' \<notin> set (bt_keys m)" using 2 by (auto simp: bt_wf_Cons)
  then have "bt_get m k'' = None" by (simp add: bt_get_None)
  with 2 show ?case by (auto simp: bt_wf_Cons)
qed simp

text \<open>A well-formed map is determined by its lookups.\<close>

lemma bt_ext:
  assumes "bt_wf m" and "bt_wf n" and "\<And>k. bt_get m k = bt_get n k"
  shows "m = n"
proof -
  have "map_of m = map_of n" using assms(3) by (simp add: bt_get_map_of fun_eq_iff)
  then have "set m = set n"
    using assms(1,2) by (metis bt_wf_distinct map_of_inject_set)
  moreover have "sorted (bt_keys m)" and "sorted (bt_keys n)"
    using assms(1,2) by (auto simp: bt_wf_def strict_sorted_iff)
  moreover have "inj_on fst (set m)" and "distinct (bt_keys m)" and "distinct (bt_keys n)"
    using assms(1,2) bt_wf_distinct by (auto simp: distinct_map)
  ultimately show ?thesis
    by (intro map_sorted_distinct_set_unique [where f = fst]) simp_all
qed

lemma bt_insert_same: "bt_wf m \<Longrightarrow> bt_get m k = Some v \<Longrightarrow> bt_insert k v m = m"
  by (rule bt_ext) (auto simp: bt_wf_insert bt_get_insert)

lemma bt_remove_insert:
  "bt_wf m \<Longrightarrow> bt_get m k = None \<Longrightarrow> bt_remove k (bt_insert k v m) = m"
  by (rule bt_ext) (auto simp: bt_wf_insert bt_wf_remove bt_get_insert bt_get_remove)

lemma bt_insert_insert:
  "bt_wf m \<Longrightarrow> bt_insert k w (bt_insert k v m) = bt_insert k w m"
  by (rule bt_ext) (auto simp: bt_wf_insert bt_get_insert)

section \<open>The contract\<close>

text \<open>
  What the components rely on: lookups after an insertion and a removal, well-formedness kept,
  and iteration that enumerates exactly the bindings.
\<close>

locale keyed_map =
  fixes get :: "'m \<Rightarrow> 'k \<Rightarrow> 'v option"
    and put :: "'k \<Rightarrow> 'v \<Rightarrow> 'm \<Rightarrow> 'm"
    and del :: "'k \<Rightarrow> 'm \<Rightarrow> 'm"
    and wf :: "'m \<Rightarrow> bool"
    and pairs :: "'m \<Rightarrow> ('k \<times> 'v) list"
  assumes get_put: "get (put k v m) k' = (if k' = k then Some v else get m k')"
    and get_del: "wf m \<Longrightarrow> get (del k m) k' = (if k' = k then None else get m k')"
    and wf_put: "wf m \<Longrightarrow> wf (put k v m)"
    and wf_del: "wf m \<Longrightarrow> wf (del k m)"
    and pairs_get: "wf m \<Longrightarrow> (k, v) \<in> set (pairs m) \<longleftrightarrow> get m k = Some v"
    and pairs_distinct: "wf m \<Longrightarrow> distinct (map fst (pairs m))"
begin

text \<open>A property of every binding survives an insertion of a good binding and any removal.\<close>

lemma all_put:
  assumes "wf m" and "\<forall>(k, v)\<in>set (pairs m). P k v" and "P k v"
  shows "\<forall>(k', v')\<in>set (pairs (put k v m)). P k' v'"
  using assms by (auto simp: pairs_get wf_put get_put split: if_splits)

lemma all_del:
  assumes "wf m" and "\<forall>(k, v)\<in>set (pairs m). P k v"
  shows "\<forall>(k', v')\<in>set (pairs (del k m)). P k' v'"
  using assms by (auto simp: pairs_get wf_del get_del split: if_splits)

lemma all_get:
  assumes "wf m" and "\<forall>(k, v)\<in>set (pairs m). P k v" and "get m k = Some v"
  shows "P k v"
  using assms by (auto simp: pairs_get [symmetric])

lemma put_fresh:
  "wf m \<Longrightarrow> get m k = None \<Longrightarrow> set (pairs (put k v m)) = insert (k, v) (set (pairs m))"
  by (auto simp: pairs_get wf_put get_put split: if_splits)

lemma set_pairs_put:
  "wf m \<Longrightarrow> set (pairs (put k v m)) = insert (k, v) {(k', v') \<in> set (pairs m). k' \<noteq> k}"
  by (auto simp: pairs_get wf_put get_put split: if_splits)

lemma set_pairs_del:
  "wf m \<Longrightarrow> set (pairs (del k m)) = {(k', v') \<in> set (pairs m). k' \<noteq> k}"
  by (auto simp: pairs_get wf_del get_del split: if_splits)

end

interpretation bt: keyed_map
  "bt_get :: ('k::linorder, 'v) btree_map \<Rightarrow> 'k \<Rightarrow> 'v option" bt_insert bt_remove bt_wf "\<lambda>m. m"
  by unfold_locales
    (simp_all add: bt_get_insert bt_get_remove bt_wf_insert bt_wf_remove bt_get_Some
      bt_wf_distinct)

section \<open>Bulk insertion\<close>

lemma bt_wf_extend: "bt_wf m \<Longrightarrow> bt_wf (bt_extend m kvs)"
  unfolding bt_extend_def by (induction kvs arbitrary: m) (auto simp: bt_wf_insert)

lemma bt_get_extend:
  "bt_get (bt_extend m kvs) k = (case map_of (rev kvs) k of None \<Rightarrow> bt_get m k | Some v \<Rightarrow> Some v)"
  unfolding bt_extend_def
proof (induction kvs arbitrary: m)
  case (Cons kv kvs)
  then show ?case
    by (cases kv) (auto simp: bt_get_insert map_add_def split: option.splits)
qed simp

text \<open>Inserting the bindings of a well-formed map, in any order, rebuilds the map.\<close>

lemma bt_extend_rebuild:
  assumes wf: "bt_wf m" and perm: "set kvs = set m" and dist: "distinct (map fst kvs)"
  shows "bt_extend [] kvs = m"
proof (rule bt_ext)
  show "bt_wf (bt_extend [] kvs)" by (simp add: bt_wf_extend)
  fix k
  have "map_of (rev kvs) = map_of m"
    using perm dist bt_wf_distinct [OF wf]
    by (metis distinct_rev map_of_inject_set rev_map set_rev)
  then show "bt_get (bt_extend [] kvs) k = bt_get m k"
    using bt_get_map_of [of m k] by (simp add: bt_get_extend split: option.splits)
qed (fact wf)

end
