(* ===== verification/Net_Types.thy ===== *)
theory Net_Types
  imports BTree_Map Rust_Str
begin

text \<open>
  Addresses of the standard library (\<open>Ipv4Addr\<close>, \<open>Ipv6Addr\<close>, \<open>IpAddr\<close>) and the boundary to the
  crates that are not part of this repository (\<open>proxmox-network-types\<close>, \<open>proxmox-wireguard\<close>).
  Values of those crates' types are opaque: they are wrapped elements of the type parameter \<open>'x\<close>,
  and every function of the crates that the code calls is a field of the record \<open>env\<close>, which the
  definitions take as an argument. \<open>env\<close> also holds the iteration order of the two kinds of hash
  set the code iterates over, which the standard library leaves open.
\<close>

type_synonym ipv4_addr = "32 word"
type_synonym ipv6_addr = "128 word"

datatype ip_addr = IpV4 ipv4_addr | IpV6 ipv6_addr

definition is_ipv4 :: "ip_addr \<Rightarrow> bool" where
  "is_ipv4 ip = (case ip of IpV4 _ \<Rightarrow> True | IpV6 _ \<Rightarrow> False)"

definition is_ipv6 :: "ip_addr \<Rightarrow> bool" where
  "is_ipv6 ip = (case ip of IpV4 _ \<Rightarrow> False | IpV6 _ \<Rightarrow> True)"

section \<open>Opaque values of other crates\<close>

datatype 'x ipv4_cidr = Ipv4Cidr 'x
datatype 'x ipv6_cidr = Ipv6Cidr 'x
datatype 'x ip_range = IpRange 'x
datatype 'x ip_range_error = IpRangeError 'x
datatype 'x public_key = PublicKey 'x
datatype 'x private_key = PrivateKey 'x
datatype 'x service_endpoint = ServiceEndpoint 'x
datatype 'x hostname_or_ip = HostnameOrIpAddr 'x
datatype 'x mac_address = MacAddress 'x

text \<open>The code matches on the two variants of \<open>Cidr\<close>.\<close>

datatype 'x cidr = CidrIpv4 "'x ipv4_cidr" | CidrIpv6 "'x ipv6_cidr"

definition cidr_is_ipv4 :: "'x cidr \<Rightarrow> bool" where
  "cidr_is_ipv4 c = (case c of CidrIpv4 _ \<Rightarrow> True | CidrIpv6 _ \<Rightarrow> False)"

definition cidr_is_ipv6 :: "'x cidr \<Rightarrow> bool" where
  "cidr_is_ipv6 c = (case c of CidrIpv4 _ \<Rightarrow> False | CidrIpv6 _ \<Rightarrow> True)"

record 'x env =
  v4_contains_address :: "'x ipv4_cidr \<Rightarrow> ipv4_addr \<Rightarrow> bool"
  v6_contains_address :: "'x ipv6_cidr \<Rightarrow> ipv6_addr \<Rightarrow> bool"
  v4_overlaps :: "'x ipv4_cidr \<Rightarrow> 'x ipv4_cidr \<Rightarrow> bool"
  v6_overlaps :: "'x ipv6_cidr \<Rightarrow> 'x ipv6_cidr \<Rightarrow> bool"
  v4_canonical :: "'x ipv4_cidr \<Rightarrow> 'x ipv4_cidr"
  v6_canonical :: "'x ipv6_cidr \<Rightarrow> 'x ipv6_cidr"
  v4_address :: "'x ipv4_cidr \<Rightarrow> ipv4_addr"
  v6_address :: "'x ipv6_cidr \<Rightarrow> ipv6_addr"
  v4_mask :: "'x ipv4_cidr \<Rightarrow> 8 word"
  v6_mask :: "'x ipv6_cidr \<Rightarrow> 8 word"
  v4_new :: "ipv4_addr \<Rightarrow> 8 word \<Rightarrow> 'x ipv4_cidr option"
  v6_new :: "ipv6_addr \<Rightarrow> 8 word \<Rightarrow> 'x ipv6_cidr option"
  v4_from :: "ipv4_addr \<Rightarrow> 'x ipv4_cidr"
  v6_from :: "ipv6_addr \<Rightarrow> 'x ipv6_cidr"
  cidr_contains_address :: "'x cidr \<Rightarrow> ip_addr \<Rightarrow> bool"
  cidr_from :: "ip_addr \<Rightarrow> 'x cidr"
  cidr_parse :: "string \<Rightarrow> 'x cidr option"
  ip_range_new :: "ip_addr \<Rightarrow> ip_addr \<Rightarrow> ('x ip_range_error, 'x ip_range) result"
  public_key_of :: "'x private_key \<Rightarrow> 'x public_key"
  endpoint_new :: "string \<Rightarrow> 16 word \<Rightarrow> 'x service_endpoint"
  host_to_string :: "'x hostname_or_ip \<Rightarrow> string"
  hash_iter_ids :: "string set \<Rightarrow> string list"
  hash_iter_pairs :: "(string \<times> string) set \<Rightarrow> (string \<times> string) list"

text \<open>
  What the standard library promises of a hash set's iteration: every element once, in an order
  that is not specified.
\<close>

definition hash_iter_ok :: "'x env \<Rightarrow> bool" where
  "hash_iter_ok e \<longleftrightarrow>
     (\<forall>S. finite S \<longrightarrow> set (hash_iter_ids e S) = S \<and> distinct (hash_iter_ids e S))
     \<and> (\<forall>S. finite S \<longrightarrow> set (hash_iter_pairs e S) = S \<and> distinct (hash_iter_pairs e S))"

lemma hash_iter_ids_set: "hash_iter_ok e \<Longrightarrow> finite S \<Longrightarrow> set (hash_iter_ids e S) = S"
  by (simp add: hash_iter_ok_def)

lemma hash_iter_pairs_set: "hash_iter_ok e \<Longrightarrow> finite S \<Longrightarrow> set (hash_iter_pairs e S) = S"
  by (simp add: hash_iter_ok_def)

lemma hash_iter_ids_Nil: "hash_iter_ok e \<Longrightarrow> finite S \<Longrightarrow> hash_iter_ids e S = [] \<longleftrightarrow> S = {}"
  by (metis hash_iter_ids_set set_empty)

lemma hash_iter_pairs_Nil: "hash_iter_ok e \<Longrightarrow> finite S \<Longrightarrow> hash_iter_pairs e S = [] \<longleftrightarrow> S = {}"
  by (metis hash_iter_pairs_set set_empty)

section \<open>Orders of the map keys\<close>

text \<open>
  \<open>BTreeMap\<close> needs an order on its keys. \<open>IpAddr\<close> and \<open>Cidr\<close> order IPv4 before IPv6, as derived
  orders of their variants do; within a family the order is the one of the payload.
\<close>

instantiation ip_addr :: linorder
begin

definition less_eq_ip_addr :: "ip_addr \<Rightarrow> ip_addr \<Rightarrow> bool" where
  "less_eq_ip_addr a b =
     (case (a, b) of
        (IpV4 x, IpV4 y) \<Rightarrow> x \<le> y
      | (IpV4 _, IpV6 _) \<Rightarrow> True
      | (IpV6 _, IpV4 _) \<Rightarrow> False
      | (IpV6 x, IpV6 y) \<Rightarrow> x \<le> y)"

definition less_ip_addr :: "ip_addr \<Rightarrow> ip_addr \<Rightarrow> bool" where
  "less_ip_addr a b \<longleftrightarrow> a \<le> b \<and> \<not> b \<le> a"

instance
  by standard (auto simp: less_eq_ip_addr_def less_ip_addr_def split: ip_addr.splits)

end

primrec cidr_key :: "'x cidr \<Rightarrow> bool \<times> 'x" where
  "cidr_key (CidrIpv4 c) = (False, case c of Ipv4Cidr x \<Rightarrow> x)"
| "cidr_key (CidrIpv6 c) = (True, case c of Ipv6Cidr x \<Rightarrow> x)"

lemma cidr_key_inj: "cidr_key a = cidr_key b \<longleftrightarrow> a = b"
  by (cases a; cases b) (auto split: ipv4_cidr.splits ipv6_cidr.splits)

instantiation cidr :: (linorder) linorder
begin

definition less_eq_cidr :: "'a cidr \<Rightarrow> 'a cidr \<Rightarrow> bool" where
  "less_eq_cidr a b \<longleftrightarrow> cidr_key a \<le> cidr_key b"

definition less_cidr :: "'a cidr \<Rightarrow> 'a cidr \<Rightarrow> bool" where
  "less_cidr a b \<longleftrightarrow> cidr_key a < cidr_key b"

instance
proof
  fix a b c :: "'a cidr"
  show "a < b \<longleftrightarrow> a \<le> b \<and> \<not> b \<le> a" by (auto simp: less_eq_cidr_def less_cidr_def)
  show "a \<le> a" by (simp add: less_eq_cidr_def)
  show "a \<le> b \<Longrightarrow> b \<le> c \<Longrightarrow> a \<le> c" unfolding less_eq_cidr_def by (rule order_trans)
  show "a \<le> b \<Longrightarrow> b \<le> a \<Longrightarrow> a = b"
    unfolding less_eq_cidr_def by (metis antisym cidr_key_inj)
  show "a \<le> b \<or> b \<le> a" unfolding less_eq_cidr_def by (rule linear)
qed

end

section \<open>A concrete environment\<close>

text \<open>
  For the witnesses: networks are a pair of address and mask, both widened to 128 bits, and the
  functions compute what the crates document. Two networks overlap when they agree on the bits
  both masks keep.
\<close>

type_synonym sample = "128 word \<times> 128 word"

definition mask_bits :: "nat \<Rightarrow> nat \<Rightarrow> 128 word" where
  "mask_bits width n = push_bit (width - n) (mask n)"

definition net_match :: "sample \<Rightarrow> 128 word \<Rightarrow> bool" where
  "net_match net a \<longleftrightarrow> and (fst net) (snd net) = and a (snd net)"

definition net_overlap :: "sample \<Rightarrow> sample \<Rightarrow> bool" where
  "net_overlap a b \<longleftrightarrow>
     and (and (fst a) (snd a)) (snd b) = and (and (fst b) (snd b)) (snd a)"

definition net_v4 :: "ipv4_addr \<Rightarrow> nat \<Rightarrow> sample ipv4_cidr" where
  "net_v4 a n = Ipv4Cidr (ucast a, mask_bits 32 n)"

definition net_v6 :: "ipv6_addr \<Rightarrow> nat \<Rightarrow> sample ipv6_cidr" where
  "net_v6 a n = Ipv6Cidr (a, mask_bits 128 n)"

definition sample_env :: "sample env" where
  "sample_env = \<lparr>
     v4_contains_address = (\<lambda>c a. case c of Ipv4Cidr n \<Rightarrow> net_match n (ucast a)),
     v6_contains_address = (\<lambda>c a. case c of Ipv6Cidr n \<Rightarrow> net_match n a),
     v4_overlaps = (\<lambda>c d. case (c, d) of (Ipv4Cidr n, Ipv4Cidr m) \<Rightarrow> net_overlap n m),
     v6_overlaps = (\<lambda>c d. case (c, d) of (Ipv6Cidr n, Ipv6Cidr m) \<Rightarrow> net_overlap n m),
     v4_canonical = (\<lambda>c. case c of Ipv4Cidr (a, m) \<Rightarrow> Ipv4Cidr (and a m, m)),
     v6_canonical = (\<lambda>c. case c of Ipv6Cidr (a, m) \<Rightarrow> Ipv6Cidr (and a m, m)),
     v4_address = (\<lambda>c. case c of Ipv4Cidr (a, m) \<Rightarrow> ucast a),
     v6_address = (\<lambda>c. case c of Ipv6Cidr (a, m) \<Rightarrow> a),
     v4_mask = (\<lambda>c. case c of Ipv4Cidr (a, m) \<Rightarrow>
        of_nat (length (filter (\<lambda>n. bit m n) [0..<32]))),
     v6_mask = (\<lambda>c. case c of Ipv6Cidr (a, m) \<Rightarrow>
        of_nat (length (filter (\<lambda>n. bit m n) [0..<128]))),
     v4_new = (\<lambda>a n. if unat n \<le> 32 then Some (net_v4 a (unat n)) else None),
     v6_new = (\<lambda>a n. if unat n \<le> 128 then Some (net_v6 a (unat n)) else None),
     v4_from = (\<lambda>a. net_v4 a 32),
     v6_from = (\<lambda>a. net_v6 a 128),
     cidr_contains_address = (\<lambda>c ip. case (c, ip) of
        (CidrIpv4 (Ipv4Cidr n), IpV4 a) \<Rightarrow> net_match n (ucast a)
      | (CidrIpv6 (Ipv6Cidr n), IpV6 a) \<Rightarrow> net_match n a
      | _ \<Rightarrow> False),
     cidr_from = (\<lambda>ip. case ip of
        IpV4 a \<Rightarrow> CidrIpv4 (net_v4 a 32) | IpV6 a \<Rightarrow> CidrIpv6 (net_v6 a 128)),
     cidr_parse = (\<lambda>s. if s = ''10.0.0.0/24'' then Some (CidrIpv4 (net_v4 0x0A000000 24))
       else None),
     ip_range_new = (\<lambda>a b. case (a, b) of
        (IpV4 x, IpV4 y) \<Rightarrow>
          if x \<le> y then Ok (IpRange (ucast x, ucast y)) else Err (IpRangeError (0, 0))
      | (IpV6 x, IpV6 y) \<Rightarrow> if x \<le> y then Ok (IpRange (x, y)) else Err (IpRangeError (0, 0))
      | _ \<Rightarrow> Err (IpRangeError (0, 0))),
     public_key_of = (\<lambda>k. case k of PrivateKey (a, b) \<Rightarrow> PublicKey (a + 1, b)),
     endpoint_new = (\<lambda>h p. ServiceEndpoint (of_nat (length h), ucast p)),
     host_to_string = (\<lambda>h. case h of HostnameOrIpAddr (a, b) \<Rightarrow> dec (unat a)),
     hash_iter_ids = sorted_list_of_set,
     hash_iter_pairs = sorted_list_of_set \<rparr>"

lemma sample_hash_iter: "hash_iter_ok sample_env"
  by (simp add: hash_iter_ok_def sample_env_def)

lemma net_match_overlap: "net_match m a \<Longrightarrow> net_match n a \<Longrightarrow> net_overlap m n"
  unfolding net_match_def net_overlap_def bit_eq_iff bit_and_iff by blast

end
