(* ===== verification/Sdn_Types.thy ===== *)
theory Sdn_Types
  imports Net_Types
begin

text \<open>
  The crate \<open>proxmox-sdn-types\<close>: OSPF areas, numbers with an optional sign, WireGuard keep-alive
  intervals, and the textual form of IPv4 addresses they are read from and printed to
  (\<open>Ipv4Addr::from_str\<close> and its \<open>Display\<close> are the standard library's).
\<close>

text \<open>The intervals of OpenFabric; the API schema bounds them.\<close>

type_synonym csnp_interval = "16 word"
type_synonym hello_interval = "16 word"
type_synonym hello_multiplier = "16 word"

section \<open>IPv4 addresses as text\<close>

definition ipv4_octets :: "ipv4_addr \<Rightarrow> 8 word list" where
  "ipv4_octets a = map (\<lambda>i. ucast (drop_bit i a)) [24, 16, 8, 0]"

definition ipv4_from_octets :: "8 word \<Rightarrow> 8 word \<Rightarrow> 8 word \<Rightarrow> 8 word \<Rightarrow> ipv4_addr" where
  "ipv4_from_octets a b c d =
     or (push_bit 24 (ucast a)) (or (push_bit 16 (ucast b)) (or (push_bit 8 (ucast c)) (ucast d)))"

definition ipv4_display :: "ipv4_addr \<Rightarrow> string" where
  "ipv4_display a = join_with ''.'' (map (\<lambda>o8. dec (unat o8)) (ipv4_octets a))"

text \<open>One octet: one to three digits, without a leading zero, at most 255.\<close>

definition parse_octet :: "string \<Rightarrow> 8 word option" where
  "parse_octet s =
     (if s = [] \<or> 3 < length s \<or> (1 < length s \<and> hd s = CHR ''0'') then None
      else case digits_value 0 s of
             None \<Rightarrow> None
           | Some n \<Rightarrow> if n \<le> 255 then Some (of_nat n) else None)"

definition ipv4_parse :: "string \<Rightarrow> ipv4_addr option" where
  "ipv4_parse s =
     (case map parse_octet (split_on (CHR ''.'') s) of
        [Some a, Some b, Some c, Some d] \<Rightarrow> Some (ipv4_from_octets a b c d)
      | _ \<Rightarrow> None)"

lemma ipv4_from_octets_octets:
  "ipv4_octets a = [w, x, y, z] \<Longrightarrow> ipv4_from_octets w x y z = a"
proof (rule bit_word_eqI)
  fix n
  assume o8: "ipv4_octets a = [w, x, y, z]" and n: "n < LENGTH(32)"
  consider "n < 8" | "8 \<le> n" "n < 16" | "16 \<le> n" "n < 24" | "24 \<le> n" "n < 32"
    using n by (cases "n < 8"; cases "n < 16"; cases "n < 24") auto
  then show "bit (ipv4_from_octets w x y z) n \<longleftrightarrow> bit a n"
    using o8
    by cases (auto simp: ipv4_octets_def ipv4_from_octets_def bit_or_iff bit_push_bit_iff
      bit_ucast_iff bit_drop_bit_eq)
qed

lemma ipv4_octets_list: "\<exists>w x y z. ipv4_octets a = [w, x, y, z]"
  by (simp add: ipv4_octets_def)

lemma dec_small:
  "n < 1000 \<Longrightarrow> length (dec n) \<le> 3"
  "n < 100 \<Longrightarrow> length (dec n) \<le> 2"
  "n < 10 \<Longrightarrow> length (dec n) = 1"
  by (auto simp: dec.simps [of n] dec.simps [of "n div 10"] dec.simps [of "n div 10 div 10"])

lemma dec_no_leading_zero: "1 < length (dec n) \<Longrightarrow> hd (dec n) \<noteq> CHR ''0''"
proof (induction n rule: dec.induct)
  case (1 n)
  show ?case
  proof (cases "n < 10")
    case True
    with 1 show ?thesis by (simp add: dec.simps [of n])
  next
    case False
    show ?thesis
    proof (cases "n div 10 < 10")
      case True
      have "code (digit_char (n div 10)) \<noteq> code (CHR ''0'')" using True False by simp
      then have "digit_char (n div 10) \<noteq> CHR ''0''" by metis
      then show ?thesis using True False by (simp add: dec.simps [of n] dec.simps [of "n div 10"])
    next
      case big: False
      then have "1 < length (dec (n div 10))" by (simp add: dec.simps [of "n div 10"] Suc_lessI)
      with False "1.IH" show ?thesis by (simp add: dec.simps [of n])
    qed
  qed
qed

lemma parse_octet_dec: "parse_octet (dec (unat (w :: 8 word))) = Some w"
proof -
  have b: "unat w < 256" using unsigned_less [where ?'a = nat, of w] by simp
  then have "length (dec (unat w)) \<le> 3" using dec_small by simp
  with b show ?thesis
    using dec_no_leading_zero [of "unat w"] by (auto simp: parse_octet_def digits_value_dec)
qed

lemma ipv4_parse_display: "ipv4_parse (ipv4_display a) = Some a"
proof -
  obtain w x y z where o8: "ipv4_octets a = [w, x, y, z]" using ipv4_octets_list by blast
  have "split_on (CHR ''.'') (ipv4_display a) = map (\<lambda>o8. dec (unat o8)) [w, x, y, z]"
    unfolding ipv4_display_def o8 by (rule split_on_join) (auto simp: dec_not_in)
  then show ?thesis
    using ipv4_from_octets_octets [OF o8] by (simp add: ipv4_parse_def parse_octet_dec)
qed

section \<open>OSPF areas\<close>

datatype area = AreaNumber "32 word" | AreaIpAddress ipv4_addr

datatype area_error = NotAnArea

definition area_from_str :: "string \<Rightarrow> (area_error, area) result" where
  "area_from_str s =
     (case ipv4_parse s of
        Some ip \<Rightarrow> Ok (AreaIpAddress ip)
      | None \<Rightarrow>
          (case parse_u32 s of
             Some number \<Rightarrow> Ok (AreaNumber number)
           | None \<Rightarrow> Err NotAnArea))"

definition area_display :: "area \<Rightarrow> string" where
  "area_display a = (case a of AreaNumber n \<Rightarrow> dec (unat n) | AreaIpAddress i \<Rightarrow> ipv4_display i)"

text \<open>\<open>Ipv4Addr::from(u32)\<close> keeps the bits.\<close>

definition get_ipv4_representation :: "area \<Rightarrow> ipv4_addr" where
  "get_ipv4_representation a = (case a of AreaNumber n \<Rightarrow> n | AreaIpAddress ip \<Rightarrow> ip)"

datatype network_type = Broadcast | NonBroadcast | PointToPoint | PointToMultipoint

lemma ipv4_parse_dec: "ipv4_parse (dec n) = None"
proof -
  have "split_on (CHR ''.'') (dec n) = [dec n]" by (rule split_on_no_sep) (simp add: dec_not_in)
  then show ?thesis by (simp add: ipv4_parse_def split: option.splits)
qed

text \<open>Parsing the printed form of an OSPF area gives the area back, with the notation (number or
  dotted quad) it was entered in.\<close>

theorem area_roundtrip: "area_from_str (area_display a) = Ok a"
  by (cases a)
    (simp_all add: area_from_str_def area_display_def ipv4_parse_display ipv4_parse_dec parse_u32_dec)

section \<open>Keep-alive intervals\<close>

datatype persistent_keepalive = PersistentKeepalive "16 word"

definition is_off :: "persistent_keepalive \<Rightarrow> bool" where
  "is_off k = (case k of PersistentKeepalive n \<Rightarrow> n = 0)"

definition keepalive_raw :: "persistent_keepalive \<Rightarrow> 16 word" where
  "keepalive_raw k = (case k of PersistentKeepalive n \<Rightarrow> n)"

section \<open>Numbers with an optional sign\<close>

datatype modify_number = Absolute "32 word" | Relative "32 word"

datatype modify_number_error = InvalidNumber

definition modify_number_display :: "modify_number \<Rightarrow> string" where
  "modify_number_display m =
     (case m of
        Absolute n \<Rightarrow> dec (unat n)
      | Relative n \<Rightarrow>
          if sint n < 0 then ''-'' @ dec (nat (- sint n)) else ''+'' @ dec (nat (sint n)))"

definition modify_number_from_str :: "string \<Rightarrow> (modify_number_error, modify_number) result" where
  "modify_number_from_str s =
     (if starts_with ''+'' s \<or> starts_with ''-'' s
      then map_err (\<lambda>_. InvalidNumber)
             (ok_or () (map_option (\<lambda>n. Relative (word_of_int n)) (parse_signed 32 s)))
      else map_err (\<lambda>_. InvalidNumber) (ok_or () (map_option Absolute (parse_u32 s))))"

lemma sint32_bounds: "- 2147483648 \<le> sint (n :: 32 word)" "sint (n :: 32 word) < 2147483648"
  using sint_ge [of n] sint_lt [of n] by simp_all

text \<open>A signed or unsigned metric value survives printing and parsing, at every value of its
  32 bits; the sign decides which kind of number it is read as.\<close>

theorem modify_number_roundtrip: "modify_number_from_str (modify_number_display m) = Ok m"
proof (cases m)
  case (Absolute n)
  obtain c cs where d: "dec (unat n) = c # cs" "is_ascii_digit c" using dec_head by blast
  then have "c \<noteq> CHR ''+''" and "c \<noteq> CHR ''-''" by auto
  with d have "\<not> starts_with ''+'' (dec (unat n))" "\<not> starts_with ''-'' (dec (unat n))"
    by (simp_all add: starts_with_def)
  with Absolute show ?thesis
    by (simp add: modify_number_display_def modify_number_from_str_def parse_u32_dec)
next
  case (Relative n)
  show ?thesis
  proof (cases "sint n < 0")
    case True
    then show ?thesis
      using sint32_bounds [of n] Relative
      by (simp add: modify_number_display_def modify_number_from_str_def starts_with_def
          parse_signed_def digits_value_dec)
  next
    case False
    then show ?thesis
      using sint32_bounds [of n] Relative
      by (simp add: modify_number_display_def modify_number_from_str_def starts_with_def
          parse_signed_def parse_unsigned_def digits_value_dec)
  qed
qed

end
