(* ===== verification/Fabric_Types.thy ===== *)
theory Fabric_Types
  imports Sdn_Types
begin

text \<open>
  The data model of an SDN fabric configuration (\<open>sdn/fabric/section_config\<close>): fabric and node
  sections with their common properties, the properties of the four protocols, the enums that
  join them, and the error type of \<open>sdn/fabric/mod.rs\<close>. Identifiers are their strings; a
  \<open>PropertyString<T>\<close> is its content. Field names carry a prefix for the struct they belong to.
\<close>

type_synonym fabric_id = string
type_synonym node_id = string
type_synonym interface_name = string
type_synonym prefix_list_id = string
type_synonym route_map_id = string

section \<open>Sections\<close>

record ('x, 'p) fabric_section =
  fs_id :: fabric_id
  fs_ip_prefix :: "'x ipv4_cidr option"
  fs_ip6_prefix :: "'x ipv6_cidr option"
  fs_properties :: 'p

record node_section_id =
  nsi_fabric_id :: fabric_id
  nsi_node_id :: node_id

record 'p node_section =
  ns_id :: node_section_id
  ns_ip :: "ipv4_addr option"
  ns_ip6 :: "ipv6_addr option"
  ns_properties :: 'p

definition node_section_id_display :: "node_section_id \<Rightarrow> string" where
  "node_section_id_display i = nsi_fabric_id i @ ''_'' @ nsi_node_id i"

section \<open>Openfabric\<close>

record openfabric_properties =
  of_hello_interval :: "hello_interval option"
  of_csnp_interval :: "csnp_interval option"
  of_route_filter :: "prefix_list_id option"

datatype openfabric_deletable_properties = OfHelloInterval | OfCsnpInterval | OfRouteFilter

record 'x openfabric_interface_properties =
  ofi_name :: interface_name
  ofi_hello_multiplier :: "hello_multiplier option"
  ofi_ip :: "'x ipv4_cidr option"
  ofi_ip6 :: "'x ipv6_cidr option"

record 'x openfabric_node_properties =
  ofn_interfaces :: "'x openfabric_interface_properties list"

datatype openfabric_node_deletable_properties = OfInterfaces

section \<open>OSPF\<close>

datatype ospf_redistribution_source =
  OspfBgp | OspfConnected | OspfIsis | OspfKernel | OspfOpenfabric | OspfOspf | OspfStatic

record ospf_redistribution =
  ored_source :: ospf_redistribution_source
  ored_metric :: "32 word option"
  ored_route_map :: "string option"

record ospf_properties =
  ospf_area :: area
  ospf_route_filter :: "prefix_list_id option"
  ospf_redistribute :: "ospf_redistribution list"

datatype ospf_deletable_properties = OspfRouteFilter | OspfRedistribute

record 'x ospf_interface_properties =
  ospfi_name :: interface_name
  ospfi_ip :: "'x ipv4_cidr option"
  ospfi_network_type :: "network_type option"

record 'x ospf_node_properties =
  ospfn_interfaces :: "'x ospf_interface_properties list"

datatype ospf_node_deletable_properties = OspfInterfaces

section \<open>BGP\<close>

datatype bgp_redistribution_source =
  BgpConnected | BgpIsis | BgpKernel | BgpOpenfabric | BgpOspf | BgpOspf6 | BgpStatic

record bgp_redistribution =
  bred_source :: bgp_redistribution_source
  bred_metric :: "32 word option"
  bred_route_map :: "route_map_id option"

record bgp_properties =
  bgp_bfd :: bool
  bgp_redistribute :: "bgp_redistribution list"
  bgp_route_map_in :: "route_map_id option"
  bgp_route_map_out :: "route_map_id option"
  bgp_route_filter :: "prefix_list_id option"

datatype bgp_deletable_properties =
  BgpRedistribute | BgpRouteFilter | BgpRouteMapIn | BgpRouteMapOut

record bgp_node_properties =
  bgpn_asn :: "32 word"
  bgpn_interfaces :: "interface_name list"

record external_bgp_node =
  bgpx_peer_ip :: "ipv4_addr option"

datatype bgp_node = BgpInternal bgp_node_properties | BgpExternal external_bgp_node

datatype bgp_node_deletable_properties = BgpInterfaces

section \<open>WireGuard\<close>

record wireguard_properties =
  wg_persistent_keepalive :: "persistent_keepalive option"

datatype wireguard_deletable_properties = WgPersistentKeepalive

record 'x wireguard_interface_properties =
  wgi_name :: interface_name
  wgi_listen_port :: "16 word"
  wgi_public_key :: "'x public_key"
  wgi_ip :: "'x ipv4_cidr option"
  wgi_ip6 :: "'x ipv6_cidr option"
  wgi_ip6_ll :: "bool option"

record 'x internal_peer =
  ip_node :: node_id
  ip_node_iface :: interface_name
  ip_iface :: interface_name
  ip_endpoint :: "'x hostname_or_ip option"
  ip_allowed_ips :: "'x cidr list"
  ip_skip_route_generation :: "bool option"

record 'x external_peer =
  ep_node :: node_id
  ep_endpoint :: "'x service_endpoint option"
  ep_iface :: interface_name
  ep_allowed_ips :: "'x cidr list"
  ep_skip_route_generation :: "bool option"

datatype 'x wireguard_node_peer = PeerInternal "'x internal_peer" | PeerExternal "'x external_peer"

record 'x internal_wireguard_node =
  wgn_endpoint :: "'x hostname_or_ip option"
  wgn_interfaces :: "'x wireguard_interface_properties list"
  wgn_peers :: "'x wireguard_node_peer list"
  wgn_allowed_ips :: "'x cidr list"

record 'x external_wireguard_node =
  wgx_public_key :: "'x public_key"
  wgx_endpoint :: "'x service_endpoint"
  wgx_allowed_ips :: "'x cidr list"

datatype 'x wireguard_node =
  WgInternal "'x internal_wireguard_node" | WgExternal "'x external_wireguard_node"

datatype wireguard_node_deletable_properties = WgInterfaces | WgEndpoint | WgPeers | WgAllowedIps

definition peer_iface :: "'x wireguard_node_peer \<Rightarrow> interface_name" where
  "peer_iface p = (case p of PeerInternal i \<Rightarrow> ip_iface i | PeerExternal x \<Rightarrow> ep_iface x)"

definition peer_node :: "'x wireguard_node_peer \<Rightarrow> node_id" where
  "peer_node p = (case p of PeerInternal i \<Rightarrow> ip_node i | PeerExternal x \<Rightarrow> ep_node x)"

definition peer_skip_route_generation :: "'x wireguard_node_peer \<Rightarrow> bool" where
  "peer_skip_route_generation p =
     (case (case p of PeerInternal i \<Rightarrow> ip_skip_route_generation i
            | PeerExternal x \<Rightarrow> ep_skip_route_generation x) of
        None \<Rightarrow> False | Some b \<Rightarrow> b)"

definition peer_allowed_ips :: "'x wireguard_node_peer \<Rightarrow> 'x cidr list" where
  "peer_allowed_ips p =
     (case p of PeerInternal i \<Rightarrow> ip_allowed_ips i | PeerExternal x \<Rightarrow> ep_allowed_ips x)"

definition peer_node_iface :: "'x wireguard_node_peer \<Rightarrow> interface_name option" where
  "peer_node_iface p = (case p of PeerInternal i \<Rightarrow> Some (ip_node_iface i) | PeerExternal _ \<Rightarrow> None)"

definition wireguard_node_allowed_ips :: "'x wireguard_node \<Rightarrow> 'x cidr list" where
  "wireguard_node_allowed_ips n =
     (case n of WgInternal i \<Rightarrow> wgn_allowed_ips i | WgExternal x \<Rightarrow> wgx_allowed_ips x)"

definition persistent_keepalive_is_off :: "persistent_keepalive option \<Rightarrow> bool" where
  "persistent_keepalive_is_off v = (case v of None \<Rightarrow> True | Some k \<Rightarrow> is_off k)"

section \<open>Fabrics and nodes of any protocol\<close>

datatype 'x fabric =
  FabricOpenfabric "('x, openfabric_properties) fabric_section"
| FabricOspf "('x, ospf_properties) fabric_section"
| FabricWireGuard "('x, wireguard_properties) fabric_section"
| FabricBgp "('x, bgp_properties) fabric_section"

datatype 'x node =
  NodeOpenfabric "'x openfabric_node_properties node_section"
| NodeOspf "'x ospf_node_properties node_section"
| NodeWireGuard "'x wireguard_node node_section"
| NodeBgp "bgp_node node_section"

definition fabric_id :: "'x fabric \<Rightarrow> fabric_id" where
  "fabric_id f = (case f of
     FabricOpenfabric s \<Rightarrow> fs_id s | FabricOspf s \<Rightarrow> fs_id s
   | FabricWireGuard s \<Rightarrow> fs_id s | FabricBgp s \<Rightarrow> fs_id s)"

definition fabric_ip_prefix :: "'x fabric \<Rightarrow> 'x ipv4_cidr option" where
  "fabric_ip_prefix f = (case f of
     FabricOpenfabric s \<Rightarrow> fs_ip_prefix s | FabricOspf s \<Rightarrow> fs_ip_prefix s
   | FabricWireGuard s \<Rightarrow> fs_ip_prefix s | FabricBgp s \<Rightarrow> fs_ip_prefix s)"

definition fabric_ip6_prefix :: "'x fabric \<Rightarrow> 'x ipv6_cidr option" where
  "fabric_ip6_prefix f = (case f of
     FabricOpenfabric s \<Rightarrow> fs_ip6_prefix s | FabricOspf s \<Rightarrow> fs_ip6_prefix s
   | FabricWireGuard s \<Rightarrow> fs_ip6_prefix s | FabricBgp s \<Rightarrow> fs_ip6_prefix s)"

definition set_ip_prefix :: "'x ipv4_cidr \<Rightarrow> 'x fabric \<Rightarrow> 'x fabric" where
  "set_ip_prefix c f = (case f of
     FabricOpenfabric s \<Rightarrow> FabricOpenfabric (s\<lparr>fs_ip_prefix := Some c\<rparr>)
   | FabricOspf s \<Rightarrow> FabricOspf (s\<lparr>fs_ip_prefix := Some c\<rparr>)
   | FabricWireGuard s \<Rightarrow> FabricWireGuard (s\<lparr>fs_ip_prefix := Some c\<rparr>)
   | FabricBgp s \<Rightarrow> FabricBgp (s\<lparr>fs_ip_prefix := Some c\<rparr>))"

definition set_ip6_prefix :: "'x ipv6_cidr \<Rightarrow> 'x fabric \<Rightarrow> 'x fabric" where
  "set_ip6_prefix c f = (case f of
     FabricOpenfabric s \<Rightarrow> FabricOpenfabric (s\<lparr>fs_ip6_prefix := Some c\<rparr>)
   | FabricOspf s \<Rightarrow> FabricOspf (s\<lparr>fs_ip6_prefix := Some c\<rparr>)
   | FabricWireGuard s \<Rightarrow> FabricWireGuard (s\<lparr>fs_ip6_prefix := Some c\<rparr>)
   | FabricBgp s \<Rightarrow> FabricBgp (s\<lparr>fs_ip6_prefix := Some c\<rparr>))"

definition node_section_id :: "'x node \<Rightarrow> node_section_id" where
  "node_section_id n = (case n of
     NodeOpenfabric s \<Rightarrow> ns_id s | NodeOspf s \<Rightarrow> ns_id s
   | NodeWireGuard s \<Rightarrow> ns_id s | NodeBgp s \<Rightarrow> ns_id s)"

definition node_ip :: "'x node \<Rightarrow> ipv4_addr option" where
  "node_ip n = (case n of
     NodeOpenfabric s \<Rightarrow> ns_ip s | NodeOspf s \<Rightarrow> ns_ip s
   | NodeWireGuard s \<Rightarrow> ns_ip s | NodeBgp s \<Rightarrow> ns_ip s)"

definition node_ip6 :: "'x node \<Rightarrow> ipv6_addr option" where
  "node_ip6 n = (case n of
     NodeOpenfabric s \<Rightarrow> ns_ip6 s | NodeOspf s \<Rightarrow> ns_ip6 s
   | NodeWireGuard s \<Rightarrow> ns_ip6 s | NodeBgp s \<Rightarrow> ns_ip6 s)"

lemmas fabric_accessor_defs = fabric_id_def fabric_ip_prefix_def fabric_ip6_prefix_def
  set_ip_prefix_def set_ip6_prefix_def

lemmas node_accessor_defs = node_section_id_def node_ip_def node_ip6_def

lemma fabric_set_prefix_simps [simp]:
  "fabric_id (set_ip_prefix c f) = fabric_id f"
  "fabric_id (set_ip6_prefix c6 f) = fabric_id f"
  "fabric_ip_prefix (set_ip_prefix c f) = Some c"
  "fabric_ip6_prefix (set_ip6_prefix c6 f) = Some c6"
  "fabric_ip6_prefix (set_ip_prefix c f) = fabric_ip6_prefix f"
  "fabric_ip_prefix (set_ip6_prefix c6 f) = fabric_ip_prefix f"
  by (simp_all add: fabric_accessor_defs split: fabric.splits)

section \<open>The section configuration\<close>

datatype 'x config_section =
  SectionOpenfabricFabric "('x, openfabric_properties) fabric_section"
| SectionOspfFabric "('x, ospf_properties) fabric_section"
| SectionWireGuardFabric "('x, wireguard_properties) fabric_section"
| SectionBgpFabric "('x, bgp_properties) fabric_section"
| SectionOpenfabricNode "'x openfabric_node_properties node_section"
| SectionOspfNode "'x ospf_node_properties node_section"
| SectionWireGuardNode "'x wireguard_node node_section"
| SectionBgpNode "bgp_node node_section"

datatype ('f, 'n) fabric_or_node = Fabric 'f | Node 'n

definition fabric_or_node_from :: "'x config_section \<Rightarrow> ('x fabric, 'x node) fabric_or_node" where
  "fabric_or_node_from s = (case s of
     SectionOpenfabricFabric f \<Rightarrow> Fabric (FabricOpenfabric f)
   | SectionOspfFabric f \<Rightarrow> Fabric (FabricOspf f)
   | SectionWireGuardFabric f \<Rightarrow> Fabric (FabricWireGuard f)
   | SectionBgpFabric f \<Rightarrow> Fabric (FabricBgp f)
   | SectionOpenfabricNode n \<Rightarrow> Node (NodeOpenfabric n)
   | SectionOspfNode n \<Rightarrow> Node (NodeOspf n)
   | SectionWireGuardNode n \<Rightarrow> Node (NodeWireGuard n)
   | SectionBgpNode n \<Rightarrow> Node (NodeBgp n))"

definition section_from_fabric :: "'x fabric \<Rightarrow> 'x config_section" where
  "section_from_fabric f = (case f of
     FabricOpenfabric s \<Rightarrow> SectionOpenfabricFabric s
   | FabricOspf s \<Rightarrow> SectionOspfFabric s
   | FabricWireGuard s \<Rightarrow> SectionWireGuardFabric s
   | FabricBgp s \<Rightarrow> SectionBgpFabric s)"

definition section_from_node :: "'x node \<Rightarrow> 'x config_section" where
  "section_from_node n = (case n of
     NodeOpenfabric s \<Rightarrow> SectionOpenfabricNode s
   | NodeOspf s \<Rightarrow> SectionOspfNode s
   | NodeWireGuard s \<Rightarrow> SectionWireGuardNode s
   | NodeBgp s \<Rightarrow> SectionBgpNode s)"

lemma fabric_or_node_from_section [simp]:
  "fabric_or_node_from (section_from_fabric f) = Fabric f"
  "fabric_or_node_from (section_from_node n) = Node n"
  by (simp_all add: fabric_or_node_from_def section_from_fabric_def section_from_node_def
      split: fabric.splits node.splits)

section \<open>Errors\<close>

text \<open>
  The variants of \<open>FabricConfigError\<close>. Where the code formats an address or a network into the
  message, the variant holds the value itself. \<open>PanicUnreachable\<close> is no variant of the code: it stands for the panic of
  an \<open>unreachable!()\<close>.
\<close>

datatype 'x fabric_config_error =
  FabricDoesNotExist fabric_id
| NodeDoesNotExist node_id fabric_id
| NodeIpOutsideFabricRange ip_addr "'x cidr"
| ProtocolMismatch
| DuplicateFabric fabric_id
| DuplicateNode node_id fabric_id
| DuplicateNodeIp fabric_id
| FabricNoIpPrefixForNode fabric_id ip_addr
| NodeNoIpForFabricPrefix string "'x cidr"
| FabricNoIpPrefix fabric_id
| NodeNoIp string
| DuplicateInterface
| Ipv6Unsupported string
| FabricIdMismatch
| DuplicateOspfArea
| DuplicateBgpRouterId node_id node_id ipv4_addr
| InvalidBgpRouterId node_id
| OverlappingIp4Prefix "'x ipv4_cidr" fabric_id "'x ipv4_cidr" fabric_id
| OverlappingIp6Prefix "'x ipv6_cidr" fabric_id "'x ipv6_cidr" fabric_id
| InvalidLocalInterfaceReference interface_name
| InvalidRemoteInterfaceReference interface_name node_id
| InvalidExternalNodeReference node_id
| DuplicatePort "16 word"
| PanicUnreachable

end
