(* ===== verification/Fabric_Entry.thy ===== *)
theory Fabric_Entry
  imports Fabric_Types
begin

text \<open>
  \<open>Entry\<close> and \<open>FabricEntry\<close> of \<open>sdn/fabric/mod.rs\<close>: one fabric with its nodes, keyed by node id.
  Every method that takes \<open>&mut self\<close> returns its result and the new entry, also on error. The
  invariant \<open>entry_wf\<close> is what the phantom type parameters of \<open>Entry<F, N>\<close> and the private fields
  are there to keep: one protocol per entry, nodes stored under their own id and belonging to the
  entry's fabric.
\<close>

section \<open>Updaters of nodes\<close>

datatype 'd node_deletable_properties = NodeDelIp | NodeDelIp6 | NodeDelProtocol 'd

record ('u, 'd) node_data_updater =
  ndu_ip :: "ipv4_addr option"
  ndu_ip6 :: "ipv6_addr option"
  ndu_properties :: 'u
  ndu_delete :: "'d node_deletable_properties list"

record 'x openfabric_node_updater =
  ofnu_interfaces :: "'x openfabric_interface_properties list option"

record 'x ospf_node_updater =
  ospfnu_interfaces :: "'x ospf_interface_properties list option"

record bgp_node_updater =
  bgpnu_asn :: "32 word option"
  bgpnu_interfaces :: "interface_name list option"

record 'x internal_wireguard_node_updater =
  wgnu_endpoint :: "'x hostname_or_ip option"
  wgnu_interfaces :: "'x wireguard_interface_properties list option"
  wgnu_peers :: "'x wireguard_node_peer list option"
  wgnu_allowed_ips :: "'x cidr list option"

record 'x external_wireguard_node_updater =
  wgxu_public_key :: "'x public_key option"
  wgxu_endpoint :: "'x service_endpoint option"
  wgxu_allowed_ips :: "'x cidr list option"

datatype 'x wireguard_node_updater =
  WgInternalUpdater "'x internal_wireguard_node_updater"
| WgExternalUpdater "'x external_wireguard_node_updater"

datatype 'x node_updater =
  NodeUpdaterOpenfabric
    "('x openfabric_node_updater, openfabric_node_deletable_properties) node_data_updater"
| NodeUpdaterOspf "('x ospf_node_updater, ospf_node_deletable_properties) node_data_updater"
| NodeUpdaterWireGuard
    "('x wireguard_node_updater, wireguard_node_deletable_properties) node_data_updater"
| NodeUpdaterBgp "(bgp_node_updater, bgp_node_deletable_properties) node_data_updater"

section \<open>Entries\<close>

record 'x entry =
  en_fabric :: "'x fabric"
  en_nodes :: "(node_id, 'x node) btree_map"

definition entry_new :: "'x fabric \<Rightarrow> 'x entry" where
  "entry_new f = \<lparr>en_fabric = f, en_nodes = []\<rparr>"

definition entry_add_node ::
  "'x node \<Rightarrow> 'x entry \<Rightarrow> ('x fabric_config_error, unit) result \<times> 'x entry" where
  "entry_add_node n e =
     (let nid = node_section_id n in
      if bt_contains_key (en_nodes e) (nsi_node_id nid)
      then (Err (DuplicateNode (nsi_node_id nid) (fabric_id (en_fabric e))), e)
      else if nsi_fabric_id nid \<noteq> fabric_id (en_fabric e)
      then (Err FabricIdMismatch, e)
      else (Ok (), e\<lparr>en_nodes := bt_insert (nsi_node_id nid) n (en_nodes e)\<rparr>))"

definition entry_get_node :: "'x entry \<Rightarrow> node_id \<Rightarrow> ('x fabric_config_error, 'x node) result" where
  "entry_get_node e nid =
     ok_or (NodeDoesNotExist nid (fabric_id (en_fabric e))) (bt_get (en_nodes e) nid)"

definition entry_delete_node ::
  "node_id \<Rightarrow> 'x entry \<Rightarrow> ('x fabric_config_error, 'x node) result \<times> 'x entry" where
  "entry_delete_node nid e =
     (case bt_get (en_nodes e) nid of
        None \<Rightarrow> (Err (NodeDoesNotExist nid (fabric_id (en_fabric e))), e)
      | Some n \<Rightarrow> (Ok n, e\<lparr>en_nodes := bt_remove nid (en_nodes e)\<rparr>))"

definition entry_into_pair :: "'x entry \<Rightarrow> 'x fabric \<times> 'x node list" where
  "entry_into_pair e = (en_fabric e, bt_values (en_nodes e))"

text \<open>
  The typed views of an entry (macro \<open>impl_entry\<close>): the code panics when the stored variant is not
  the expected one.
\<close>

definition ospf_fabric_section ::
  "'x entry \<Rightarrow> ('x fabric_config_error, ('x, ospf_properties) fabric_section) result" where
  "ospf_fabric_section e =
     (case en_fabric e of FabricOspf s \<Rightarrow> Ok s | _ \<Rightarrow> Err PanicUnreachable)"

definition wireguard_node_section ::
  "'x entry \<Rightarrow> node_id \<Rightarrow> ('x fabric_config_error, 'x wireguard_node node_section) result" where
  "wireguard_node_section e nid =
     and_then (entry_get_node e nid)
       (\<lambda>n. case n of NodeWireGuard s \<Rightarrow> Ok s | _ \<Rightarrow> Err PanicUnreachable)"

datatype 'x fabric_entry =
  EntryOpenfabric "'x entry" | EntryOspf "'x entry" | EntryWireGuard "'x entry" | EntryBgp "'x entry"

definition fe_from_fabric :: "'x fabric \<Rightarrow> 'x fabric_entry" where
  "fe_from_fabric f = (case f of
     FabricOpenfabric _ \<Rightarrow> EntryOpenfabric (entry_new f)
   | FabricOspf _ \<Rightarrow> EntryOspf (entry_new f)
   | FabricWireGuard _ \<Rightarrow> EntryWireGuard (entry_new f)
   | FabricBgp _ \<Rightarrow> EntryBgp (entry_new f))"

definition fe_fabric :: "'x fabric_entry \<Rightarrow> 'x fabric" where
  "fe_fabric fe = (case fe of
     EntryOpenfabric e \<Rightarrow> en_fabric e | EntryOspf e \<Rightarrow> en_fabric e
   | EntryWireGuard e \<Rightarrow> en_fabric e | EntryBgp e \<Rightarrow> en_fabric e)"

definition fe_set_fabric :: "'x fabric \<Rightarrow> 'x fabric_entry \<Rightarrow> 'x fabric_entry" where
  "fe_set_fabric f fe = (case fe of
     EntryOpenfabric e \<Rightarrow> EntryOpenfabric (e\<lparr>en_fabric := f\<rparr>)
   | EntryOspf e \<Rightarrow> EntryOspf (e\<lparr>en_fabric := f\<rparr>)
   | EntryWireGuard e \<Rightarrow> EntryWireGuard (e\<lparr>en_fabric := f\<rparr>)
   | EntryBgp e \<Rightarrow> EntryBgp (e\<lparr>en_fabric := f\<rparr>))"

definition fe_nodes :: "'x fabric_entry \<Rightarrow> (node_id, 'x node) btree_map" where
  "fe_nodes fe = (case fe of
     EntryOpenfabric e \<Rightarrow> en_nodes e | EntryOspf e \<Rightarrow> en_nodes e
   | EntryWireGuard e \<Rightarrow> en_nodes e | EntryBgp e \<Rightarrow> en_nodes e)"

definition fe_add_node ::
  "'x node \<Rightarrow> 'x fabric_entry \<Rightarrow> ('x fabric_config_error, unit) result \<times> 'x fabric_entry" where
  "fe_add_node n fe = (case (fe, n) of
     (EntryOpenfabric e, NodeOpenfabric _) \<Rightarrow> map_prod (\<lambda>r. r) EntryOpenfabric (entry_add_node n e)
   | (EntryOspf e, NodeOspf _) \<Rightarrow> map_prod (\<lambda>r. r) EntryOspf (entry_add_node n e)
   | (EntryWireGuard e, NodeWireGuard _) \<Rightarrow> map_prod (\<lambda>r. r) EntryWireGuard (entry_add_node n e)
   | (EntryBgp e, NodeBgp _) \<Rightarrow> map_prod (\<lambda>r. r) EntryBgp (entry_add_node n e)
   | _ \<Rightarrow> (Err ProtocolMismatch, fe))"

definition fe_get_node ::
  "'x fabric_entry \<Rightarrow> node_id \<Rightarrow> ('x fabric_config_error, 'x node) result" where
  "fe_get_node fe nid = (case fe of
     EntryOpenfabric e \<Rightarrow> entry_get_node e nid | EntryOspf e \<Rightarrow> entry_get_node e nid
   | EntryWireGuard e \<Rightarrow> entry_get_node e nid | EntryBgp e \<Rightarrow> entry_get_node e nid)"

definition fe_delete_node ::
  "node_id \<Rightarrow> 'x fabric_entry \<Rightarrow> ('x fabric_config_error, 'x node) result \<times> 'x fabric_entry" where
  "fe_delete_node nid fe = (case fe of
     EntryOpenfabric e \<Rightarrow> map_prod (\<lambda>r. r) EntryOpenfabric (entry_delete_node nid e)
   | EntryOspf e \<Rightarrow> map_prod (\<lambda>r. r) EntryOspf (entry_delete_node nid e)
   | EntryWireGuard e \<Rightarrow> map_prod (\<lambda>r. r) EntryWireGuard (entry_delete_node nid e)
   | EntryBgp e \<Rightarrow> map_prod (\<lambda>r. r) EntryBgp (entry_delete_node nid e))"

definition fe_into_section_config :: "'x fabric_entry \<Rightarrow> 'x fabric \<times> 'x node list" where
  "fe_into_section_config fe = (case fe of
     EntryOpenfabric e \<Rightarrow> entry_into_pair e | EntryOspf e \<Rightarrow> entry_into_pair e
   | EntryWireGuard e \<Rightarrow> entry_into_pair e | EntryBgp e \<Rightarrow> entry_into_pair e)"

text \<open>Writing a node back through the reference that \<open>get_node_mut\<close> returns.\<close>

definition fe_put_node :: "node_id \<Rightarrow> 'x node \<Rightarrow> 'x fabric_entry \<Rightarrow> 'x fabric_entry" where
  "fe_put_node nid n fe = (case fe of
     EntryOpenfabric e \<Rightarrow> EntryOpenfabric (e\<lparr>en_nodes := bt_insert nid n (en_nodes e)\<rparr>)
   | EntryOspf e \<Rightarrow> EntryOspf (e\<lparr>en_nodes := bt_insert nid n (en_nodes e)\<rparr>)
   | EntryWireGuard e \<Rightarrow> EntryWireGuard (e\<lparr>en_nodes := bt_insert nid n (en_nodes e)\<rparr>)
   | EntryBgp e \<Rightarrow> EntryBgp (e\<lparr>en_nodes := bt_insert nid n (en_nodes e)\<rparr>))"

section \<open>Updating a node\<close>

definition set_node_addresses ::
  "ipv4_addr option \<Rightarrow> ipv6_addr option \<Rightarrow> 'p node_section \<Rightarrow> 'p node_section" where
  "set_node_addresses ip ip6 s =
     (let s = (case ip of None \<Rightarrow> s | Some a \<Rightarrow> s\<lparr>ns_ip := Some a\<rparr>)
      in case ip6 of None \<Rightarrow> s | Some a \<Rightarrow> s\<lparr>ns_ip6 := Some a\<rparr>)"

definition update_openfabric_node ::
  "('x openfabric_node_updater, openfabric_node_deletable_properties) node_data_updater
    \<Rightarrow> 'x openfabric_node_properties node_section \<Rightarrow> 'x openfabric_node_properties node_section" where
  "update_openfabric_node u s =
     (let s = set_node_addresses (ndu_ip u) (ndu_ip6 u) s;
          s = (case ofnu_interfaces (ndu_properties u) of
                 None \<Rightarrow> s
               | Some is \<Rightarrow> s\<lparr>ns_properties := (ns_properties s)\<lparr>ofn_interfaces := is\<rparr>\<rparr>)
      in foldl (\<lambda>s d. case d of
             NodeDelIp \<Rightarrow> s\<lparr>ns_ip := None\<rparr>
           | NodeDelIp6 \<Rightarrow> s\<lparr>ns_ip6 := None\<rparr>
           | NodeDelProtocol OfInterfaces \<Rightarrow>
               s\<lparr>ns_properties := (ns_properties s)\<lparr>ofn_interfaces := []\<rparr>\<rparr>)
           s (ndu_delete u))"

definition update_ospf_node ::
  "('x ospf_node_updater, ospf_node_deletable_properties) node_data_updater
    \<Rightarrow> 'x ospf_node_properties node_section \<Rightarrow> 'x ospf_node_properties node_section" where
  "update_ospf_node u s =
     (let s = set_node_addresses (ndu_ip u) (ndu_ip6 u) s;
          s = (case ospfnu_interfaces (ndu_properties u) of
                 None \<Rightarrow> s
               | Some is \<Rightarrow> s\<lparr>ns_properties := (ns_properties s)\<lparr>ospfn_interfaces := is\<rparr>\<rparr>)
      in foldl (\<lambda>s d. case d of
             NodeDelIp \<Rightarrow> s\<lparr>ns_ip := None\<rparr>
           | NodeDelIp6 \<Rightarrow> s\<lparr>ns_ip6 := None\<rparr>
           | NodeDelProtocol OspfInterfaces \<Rightarrow>
               s\<lparr>ns_properties := (ns_properties s)\<lparr>ospfn_interfaces := []\<rparr>\<rparr>)
           s (ndu_delete u))"

definition update_internal_wireguard_node ::
  "'x internal_wireguard_node_updater \<Rightarrow> wireguard_node_deletable_properties node_deletable_properties list
    \<Rightarrow> 'x internal_wireguard_node \<Rightarrow> 'x internal_wireguard_node" where
  "update_internal_wireguard_node u delete n =
     (let n = (case wgnu_interfaces u of None \<Rightarrow> n | Some is \<Rightarrow> n\<lparr>wgn_interfaces := is\<rparr>);
          n = (case wgnu_endpoint u of None \<Rightarrow> n | Some p \<Rightarrow> n\<lparr>wgn_endpoint := Some p\<rparr>);
          n = (case wgnu_peers u of None \<Rightarrow> n | Some ps \<Rightarrow> n\<lparr>wgn_peers := ps\<rparr>);
          n = (case wgnu_allowed_ips u of None \<Rightarrow> n | Some a \<Rightarrow> n\<lparr>wgn_allowed_ips := a\<rparr>)
      in foldl (\<lambda>n d. case d of
             NodeDelProtocol WgInterfaces \<Rightarrow> n\<lparr>wgn_interfaces := []\<rparr>
           | NodeDelProtocol WgEndpoint \<Rightarrow> n\<lparr>wgn_endpoint := None\<rparr>
           | NodeDelProtocol WgPeers \<Rightarrow> n\<lparr>wgn_peers := []\<rparr>
           | NodeDelProtocol WgAllowedIps \<Rightarrow> n\<lparr>wgn_allowed_ips := []\<rparr>
           | _ \<Rightarrow> n) n delete)"

definition update_external_wireguard_node ::
  "'x external_wireguard_node_updater \<Rightarrow> wireguard_node_deletable_properties node_deletable_properties list
    \<Rightarrow> 'x external_wireguard_node
    \<Rightarrow> ('x fabric_config_error, unit) result \<times> 'x external_wireguard_node" where
  "update_external_wireguard_node u delete n =
     (let n = (case wgxu_endpoint u of None \<Rightarrow> n | Some p \<Rightarrow> n\<lparr>wgx_endpoint := p\<rparr>);
          n = (case wgxu_public_key u of None \<Rightarrow> n | Some k \<Rightarrow> n\<lparr>wgx_public_key := k\<rparr>);
          n = (case wgxu_allowed_ips u of None \<Rightarrow> n | Some a \<Rightarrow> n\<lparr>wgx_allowed_ips := a\<rparr>)
      in try_each (\<lambda>d n. case d of
             NodeDelProtocol WgAllowedIps \<Rightarrow> (Ok (), n\<lparr>wgx_allowed_ips := []\<rparr>)
           | NodeDelProtocol _ \<Rightarrow> (Err ProtocolMismatch, n)
           | _ \<Rightarrow> (Ok (), n)) delete n)"

definition update_wireguard_node ::
  "('x wireguard_node_updater, wireguard_node_deletable_properties) node_data_updater
    \<Rightarrow> 'x wireguard_node node_section
    \<Rightarrow> ('x fabric_config_error, unit) result \<times> 'x wireguard_node node_section" where
  "update_wireguard_node u s =
     (let s = set_node_addresses (ndu_ip u) (ndu_ip6 u) s;
          s = foldl (\<lambda>s d. case d of
                 NodeDelIp \<Rightarrow> s\<lparr>ns_ip := None\<rparr>
               | NodeDelIp6 \<Rightarrow> s\<lparr>ns_ip6 := None\<rparr>
               | NodeDelProtocol _ \<Rightarrow> s) s (ndu_delete u)
      in case (ns_properties s, ndu_properties u) of
           (WgInternal n, WgInternalUpdater iu) \<Rightarrow>
             (Ok (), s\<lparr>ns_properties := WgInternal (update_internal_wireguard_node iu (ndu_delete u) n)\<rparr>)
         | (WgExternal n, WgExternalUpdater xu) \<Rightarrow>
             (case update_external_wireguard_node xu (ndu_delete u) n of
                (r, n') \<Rightarrow> (r, s\<lparr>ns_properties := WgExternal n'\<rparr>))
         | _ \<Rightarrow> (Err ProtocolMismatch, s))"

definition update_bgp_node ::
  "(bgp_node_updater, bgp_node_deletable_properties) node_data_updater
    \<Rightarrow> bgp_node node_section
    \<Rightarrow> ('x fabric_config_error, unit) result \<times> bgp_node node_section" where
  "update_bgp_node u s =
     (case ns_properties s of
        BgpExternal _ \<Rightarrow> (Err ProtocolMismatch, s)
      | BgpInternal props \<Rightarrow>
          (let s = set_node_addresses (ndu_ip u) (ndu_ip6 u) s;
               props = (case bgpnu_asn (ndu_properties u) of
                          None \<Rightarrow> props | Some a \<Rightarrow> props\<lparr>bgpn_asn := a\<rparr>);
               props = (case bgpnu_interfaces (ndu_properties u) of
                          None \<Rightarrow> props | Some is \<Rightarrow> props\<lparr>bgpn_interfaces := is\<rparr>);
               (s, props) = foldl (\<lambda>(s, props) d. case d of
                    NodeDelIp \<Rightarrow> (s\<lparr>ns_ip := None\<rparr>, props)
                  | NodeDelIp6 \<Rightarrow> (s\<lparr>ns_ip6 := None\<rparr>, props)
                  | NodeDelProtocol BgpInterfaces \<Rightarrow> (s, props\<lparr>bgpn_interfaces := []\<rparr>))
                  (s, props) (ndu_delete u)
           in (Ok (), s\<lparr>ns_properties := BgpInternal props\<rparr>)))"

definition update_node_value ::
  "'x node_updater \<Rightarrow> 'x node \<Rightarrow> ('x fabric_config_error, unit) result \<times> 'x node" where
  "update_node_value u n = (case (n, u) of
     (NodeOpenfabric s, NodeUpdaterOpenfabric v) \<Rightarrow> (Ok (), NodeOpenfabric (update_openfabric_node v s))
   | (NodeOspf s, NodeUpdaterOspf v) \<Rightarrow> (Ok (), NodeOspf (update_ospf_node v s))
   | (NodeWireGuard s, NodeUpdaterWireGuard v) \<Rightarrow>
       map_prod (\<lambda>r. r) NodeWireGuard (update_wireguard_node v s)
   | (NodeBgp s, NodeUpdaterBgp v) \<Rightarrow> map_prod (\<lambda>r. r) NodeBgp (update_bgp_node v s)
   | _ \<Rightarrow> (Err ProtocolMismatch, n))"

definition fe_update_node ::
  "node_id \<Rightarrow> 'x node_updater \<Rightarrow> 'x fabric_entry
    \<Rightarrow> ('x fabric_config_error, unit) result \<times> 'x fabric_entry" where
  "fe_update_node nid u fe =
     (case fe_get_node fe nid of
        Err e \<Rightarrow> (Err e, fe)
      | Ok n \<Rightarrow> (case update_node_value u n of (r, n') \<Rightarrow> (r, fe_put_node nid n' fe)))"

section \<open>The invariant of entries\<close>

datatype protocol = Openfabric | Ospf | WireGuard | Bgp

definition fabric_protocol :: "'x fabric \<Rightarrow> protocol" where
  "fabric_protocol f = (case f of
     FabricOpenfabric _ \<Rightarrow> Openfabric | FabricOspf _ \<Rightarrow> Ospf
   | FabricWireGuard _ \<Rightarrow> WireGuard | FabricBgp _ \<Rightarrow> Bgp)"

definition node_protocol :: "'x node \<Rightarrow> protocol" where
  "node_protocol n = (case n of
     NodeOpenfabric _ \<Rightarrow> Openfabric | NodeOspf _ \<Rightarrow> Ospf
   | NodeWireGuard _ \<Rightarrow> WireGuard | NodeBgp _ \<Rightarrow> Bgp)"

definition fe_protocol :: "'x fabric_entry \<Rightarrow> protocol" where
  "fe_protocol fe = (case fe of
     EntryOpenfabric _ \<Rightarrow> Openfabric | EntryOspf _ \<Rightarrow> Ospf
   | EntryWireGuard _ \<Rightarrow> WireGuard | EntryBgp _ \<Rightarrow> Bgp)"

definition node_in_place :: "protocol \<Rightarrow> fabric_id \<Rightarrow> node_id \<Rightarrow> 'x node \<Rightarrow> bool" where
  "node_in_place p fid k n \<longleftrightarrow>
     node_protocol n = p \<and> node_section_id n = \<lparr>nsi_fabric_id = fid, nsi_node_id = k\<rparr>"

definition fe_wf :: "'x fabric_entry \<Rightarrow> bool" where
  "fe_wf fe \<longleftrightarrow>
     fabric_protocol (fe_fabric fe) = fe_protocol fe \<and> bt_wf (fe_nodes fe)
     \<and> (\<forall>(k, n)\<in>set (fe_nodes fe).
          node_in_place (fe_protocol fe) (fabric_id (fe_fabric fe)) k n)"

lemmas fe_accessor_defs = fe_fabric_def fe_nodes_def fe_protocol_def

lemmas fe_operation_defs = fe_add_node_def fe_get_node_def fe_delete_node_def fe_put_node_def
  fe_set_fabric_def fe_from_fabric_def fe_into_section_config_def

lemma fe_get_node_nodes:
  "fe_get_node fe k = ok_or (NodeDoesNotExist k (fabric_id (fe_fabric fe))) (bt_get (fe_nodes fe) k)"
  by (simp add: fe_get_node_def entry_get_node_def fe_accessor_defs split: fabric_entry.splits)

lemma fe_put_node_simps [simp]:
  "fe_fabric (fe_put_node k n fe) = fe_fabric fe"
  "fe_protocol (fe_put_node k n fe) = fe_protocol fe"
  "fe_nodes (fe_put_node k n fe) = bt_insert k n (fe_nodes fe)"
  by (simp_all add: fe_put_node_def fe_accessor_defs split: fabric_entry.splits)

lemma fe_set_fabric_simps [simp]:
  "fe_fabric (fe_set_fabric f fe) = f"
  "fe_protocol (fe_set_fabric f fe) = fe_protocol fe"
  "fe_nodes (fe_set_fabric f fe) = fe_nodes fe"
  by (simp_all add: fe_set_fabric_def fe_accessor_defs split: fabric_entry.splits)

lemma fe_from_fabric_simps [simp]:
  "fe_fabric (fe_from_fabric f) = f"
  "fe_protocol (fe_from_fabric f) = fabric_protocol f"
  "fe_nodes (fe_from_fabric f) = []"
  by (simp_all add: fe_from_fabric_def fe_accessor_defs fabric_protocol_def entry_new_def
      split: fabric.splits)

lemma fe_into_section_config_eq:
  "fe_into_section_config fe = (fe_fabric fe, bt_values (fe_nodes fe))"
  by (simp add: fe_into_section_config_def entry_into_pair_def fe_accessor_defs
      split: fabric_entry.splits)

text \<open>
  The four cases of an operation on an entry behave alike; these equations describe them once.
\<close>

lemma fe_add_node_eq:
  "fe_add_node n fe =
     (if node_protocol n \<noteq> fe_protocol fe then (Err ProtocolMismatch, fe)
      else if bt_contains_key (fe_nodes fe) (nsi_node_id (node_section_id n))
      then (Err (DuplicateNode (nsi_node_id (node_section_id n)) (fabric_id (fe_fabric fe))), fe)
      else if nsi_fabric_id (node_section_id n) \<noteq> fabric_id (fe_fabric fe)
      then (Err FabricIdMismatch, fe)
      else (Ok (), fe_put_node (nsi_node_id (node_section_id n)) n fe))"
  by (cases fe; cases n)
    (simp_all add: fe_add_node_def entry_add_node_def fe_put_node_def fe_accessor_defs
      node_protocol_def Let_def)

lemma fe_delete_node_eq:
  "fe_delete_node k fe =
     (case bt_get (fe_nodes fe) k of
        None \<Rightarrow> (Err (NodeDoesNotExist k (fabric_id (fe_fabric fe))), fe)
      | Some n \<Rightarrow> (Ok n, snd (fe_delete_node k fe)))"
  by (cases fe) (simp_all add: fe_delete_node_def entry_delete_node_def fe_accessor_defs
      split: option.splits)

lemma fe_delete_node_simps [simp]:
  "fe_fabric (snd (fe_delete_node k fe)) = fe_fabric fe"
  "fe_protocol (snd (fe_delete_node k fe)) = fe_protocol fe"
  by (simp_all add: fe_delete_node_def entry_delete_node_def fe_accessor_defs
      split: fabric_entry.splits option.splits)

lemma bt_remove_absent: "bt_get m k = None \<Longrightarrow> bt_remove k m = m"
  by (induction k m rule: bt_remove.induct) (auto split: if_splits)

lemma fe_nodes_delete_node:
  "fe_nodes (snd (fe_delete_node k fe)) = bt_remove k (fe_nodes fe)"
  by (simp add: fe_delete_node_def entry_delete_node_def fe_accessor_defs bt_remove_absent
      split: fabric_entry.splits option.splits)

section \<open>Operations keep the invariant\<close>

lemma set_node_addresses_simps [simp]:
  "ns_id (set_node_addresses a b s) = ns_id s"
  "ns_properties (set_node_addresses a b s) = ns_properties s"
  by (simp_all add: set_node_addresses_def split: option.splits)

lemma update_openfabric_node_id [simp]: "ns_id (update_openfabric_node u s) = ns_id s"
  unfolding update_openfabric_node_def Let_def
  by (rule foldl_inv)
    (auto split: option.splits node_deletable_properties.splits
      openfabric_node_deletable_properties.splits)

lemma update_ospf_node_id [simp]: "ns_id (update_ospf_node u s) = ns_id s"
  unfolding update_ospf_node_def Let_def
  by (rule foldl_inv)
    (auto split: option.splits node_deletable_properties.splits
      ospf_node_deletable_properties.splits)

lemma delete_addresses_id [simp]:
  "ns_id (foldl (\<lambda>s d. case d of
       NodeDelIp \<Rightarrow> s\<lparr>ns_ip := None\<rparr> | NodeDelIp6 \<Rightarrow> s\<lparr>ns_ip6 := None\<rparr> | NodeDelProtocol _ \<Rightarrow> s)
     s ds) = ns_id s"
  by (rule foldl_inv [where P = "\<lambda>s'. ns_id s' = ns_id s"])
    (auto split: node_deletable_properties.splits)

lemma update_wireguard_node_id [simp]: "ns_id (snd (update_wireguard_node u s)) = ns_id s"
  by (auto simp: update_wireguard_node_def Let_def
      split: prod.splits wireguard_node.splits wireguard_node_updater.splits)

lemma update_bgp_node_id [simp]: "ns_id (snd (update_bgp_node u s)) = ns_id s"
proof -
  let ?f = "\<lambda>(s, props). \<lambda>d. case d of
      NodeDelIp \<Rightarrow> (s\<lparr>ns_ip := None\<rparr>, props)
    | NodeDelIp6 \<Rightarrow> (s\<lparr>ns_ip6 := None\<rparr>, props)
    | NodeDelProtocol BgpInterfaces \<Rightarrow> (s, props\<lparr>bgpn_interfaces := []\<rparr>)"
  have f: "ns_id (fst (foldl ?f (s', props) ds)) = ns_id s'"
    for s' :: "bgp_node node_section" and props ds
    by (rule foldl_inv [where P = "\<lambda>p. ns_id (fst p) = ns_id s'"])
      (auto split: node_deletable_properties.splits bgp_node_deletable_properties.splits)
  show ?thesis
    by (auto simp: update_bgp_node_def Let_def case_prod_beta f split: bgp_node.splits)
qed

lemma update_node_value_in_place:
  "node_in_place p fid k n \<Longrightarrow> node_in_place p fid k (snd (update_node_value u n))"
  by (cases n; cases u)
    (simp_all add: node_in_place_def update_node_value_def node_protocol_def node_section_id_def)

lemma fe_wf_from_fabric: "fe_wf (fe_from_fabric f)"
  by (simp add: fe_wf_def)

lemma fe_wfD:
  assumes "fe_wf fe"
  shows "fabric_protocol (fe_fabric fe) = fe_protocol fe" and "bt_wf (fe_nodes fe)"
    and "\<forall>(k, n)\<in>set (fe_nodes fe).
      node_in_place (fe_protocol fe) (fabric_id (fe_fabric fe)) k n"
  using assms unfolding fe_wf_def by blast+

lemma fe_wfI:
  assumes "fabric_protocol (fe_fabric fe) = fe_protocol fe" and "bt_wf (fe_nodes fe)"
    and "\<forall>(k, n)\<in>set (fe_nodes fe).
      node_in_place (fe_protocol fe) (fabric_id (fe_fabric fe)) k n"
  shows "fe_wf fe"
  unfolding fe_wf_def using assms by blast

lemma fe_wf_get: "fe_wf fe \<Longrightarrow> bt_get (fe_nodes fe) k = Some n
    \<Longrightarrow> node_in_place (fe_protocol fe) (fabric_id (fe_fabric fe)) k n"
  by (rule bt.all_get [OF fe_wfD(2) fe_wfD(3)])

lemma fe_wf_put_node:
  assumes "fe_wf fe" and "node_in_place (fe_protocol fe) (fabric_id (fe_fabric fe)) k n"
  shows "fe_wf (fe_put_node k n fe)"
  by (rule fe_wfI, simp_all only: fe_put_node_simps)
    (intro fe_wfD bt_wf_insert bt.all_put assms)+

lemma fe_wf_add_node: "fe_wf fe \<Longrightarrow> fe_wf (snd (fe_add_node n fe))"
  by (simp add: fe_add_node_eq fe_wf_put_node node_in_place_def)

lemma fe_wf_delete_node:
  assumes "fe_wf fe"
  shows "fe_wf (snd (fe_delete_node k fe))"
  by (rule fe_wfI, simp_all only: fe_delete_node_simps fe_nodes_delete_node)
    (intro fe_wfD bt_wf_remove bt.all_del assms)+

lemma fe_wf_update_node:
  assumes "fe_wf fe"
  shows "fe_wf (snd (fe_update_node k u fe))"
proof (cases "bt_get (fe_nodes fe) k")
  case None
  then show ?thesis using assms by (simp add: fe_update_node_def fe_get_node_nodes)
next
  case (Some n)
  have "node_in_place (fe_protocol fe) (fabric_id (fe_fabric fe)) k (snd (update_node_value u n))"
    by (rule update_node_value_in_place) (rule fe_wf_get [OF assms Some])
  then show ?thesis
    using fe_wf_put_node [OF assms] Some
    by (simp add: fe_update_node_def fe_get_node_nodes case_prod_beta)
qed

lemma fe_wf_set_fabric:
  "fe_wf fe \<Longrightarrow> fabric_protocol f = fe_protocol fe \<Longrightarrow> fabric_id f = fabric_id (fe_fabric fe)
    \<Longrightarrow> fe_wf (fe_set_fabric f fe)"
  by (simp add: fe_wf_def)

text \<open>The typed views never panic on a well-formed entry.\<close>

lemma ospf_fabric_section_Ok:
  "fe_wf (EntryOspf e) \<Longrightarrow> \<exists>s. en_fabric e = FabricOspf s \<and> ospf_fabric_section e = Ok s"
  by (auto simp: fe_wf_def fe_accessor_defs fabric_protocol_def ospf_fabric_section_def
      split: fabric.splits)

lemma wireguard_node_section_Ok:
  "fe_wf (EntryWireGuard e) \<Longrightarrow> bt_get (en_nodes e) k = Some n
    \<Longrightarrow> \<exists>s. n = NodeWireGuard s \<and> wireguard_node_section e k = Ok s"
  using fe_wf_get [of "EntryWireGuard e" k n]
  by (auto simp: fe_accessor_defs node_in_place_def node_protocol_def wireguard_node_section_def
      entry_get_node_def split: node.splits)

end
