(* ===== verification/Fabric_Sections.thy ===== *)
theory Fabric_Sections
  imports Fabric_Entry
begin

text \<open>
  The checks of single fabric and node sections (\<open>sdn/fabric/section_config/{fabric,node}.rs\<close> and
  \<open>protocol/*.rs\<close>), and the BGP router id that \<open>protocol/bgp.rs\<close> derives from a node's addresses.
\<close>

section \<open>Fabric sections\<close>

definition openfabric_fabric_validate ::
  "('x, openfabric_properties) fabric_section \<Rightarrow> ('x fabric_config_error, unit) result" where
  "openfabric_fabric_validate s =
     (if fs_ip_prefix s = None \<and> fs_ip6_prefix s = None
      then Err (FabricNoIpPrefix (fs_id s)) else Ok ())"

definition ospf_fabric_validate ::
  "('x, ospf_properties) fabric_section \<Rightarrow> ('x fabric_config_error, unit) result" where
  "ospf_fabric_validate s =
     (if fs_ip_prefix s = None then Err (FabricNoIpPrefix (fs_id s))
      else if fs_ip6_prefix s \<noteq> None then Err (Ipv6Unsupported ''ospf'')
      else Ok ())"

definition bgp_fabric_validate ::
  "('x, bgp_properties) fabric_section \<Rightarrow> ('x fabric_config_error, unit) result" where
  "bgp_fabric_validate s =
     (if fs_ip_prefix s = None \<and> fs_ip6_prefix s = None
      then Err (FabricNoIpPrefix (fs_id s)) else Ok ())"

definition fabric_validate :: "'x fabric \<Rightarrow> ('x fabric_config_error, unit) result" where
  "fabric_validate f = (case f of
     FabricOpenfabric s \<Rightarrow> openfabric_fabric_validate s
   | FabricOspf s \<Rightarrow> ospf_fabric_validate s
   | FabricWireGuard _ \<Rightarrow> Ok ()
   | FabricBgp s \<Rightarrow> bgp_fabric_validate s)"

section \<open>Node sections\<close>

definition openfabric_node_validate ::
  "'x openfabric_node_properties node_section \<Rightarrow> ('x fabric_config_error, unit) result" where
  "openfabric_node_validate s =
     (if ns_ip s = None \<and> ns_ip6 s = None
      then Err (NodeNoIp (node_section_id_display (ns_id s))) else Ok ())"

definition ospf_node_validate ::
  "'x ospf_node_properties node_section \<Rightarrow> ('x fabric_config_error, unit) result" where
  "ospf_node_validate s =
     (if ns_ip s = None then Err (NodeNoIp (node_section_id_display (ns_id s)))
      else if ns_ip6 s \<noteq> None then Err (Ipv6Unsupported ''ospf'')
      else Ok ())"

text \<open>The names and the listen ports that \<open>InternalWireGuardNode::validate\<close> has seen.\<close>

definition check_wireguard_interface ::
  "interface_name set \<times> 16 word set \<Rightarrow> 'x wireguard_interface_properties
    \<Rightarrow> ('x fabric_config_error, interface_name set \<times> 16 word set) result" where
  "check_wireguard_interface = (\<lambda>(names, ports) i.
     if wgi_name i \<in> names then Err DuplicateInterface
     else if wgi_listen_port i \<in> ports then Err (DuplicatePort (wgi_listen_port i))
     else Ok (insert (wgi_name i) names, insert (wgi_listen_port i) ports))"

definition internal_wireguard_node_validate ::
  "'x internal_wireguard_node \<Rightarrow> ('x fabric_config_error, unit) result" where
  "internal_wireguard_node_validate n =
     and_then (try_fold check_wireguard_interface ({}, {}) (wgn_interfaces n)) (\<lambda>(names, ports).
       check_each (\<lambda>p. if peer_iface p \<notin> names
                        then Err (InvalidLocalInterfaceReference (peer_iface p)) else Ok ())
         (wgn_peers n))"

definition wireguard_node_validate ::
  "'x wireguard_node node_section \<Rightarrow> ('x fabric_config_error, unit) result" where
  "wireguard_node_validate s = (case ns_properties s of
     WgInternal n \<Rightarrow> internal_wireguard_node_validate n
   | WgExternal _ \<Rightarrow> Ok ())"

definition bgp_node_validate :: "bgp_node node_section \<Rightarrow> ('x fabric_config_error, unit) result" where
  "bgp_node_validate s = Ok ()"

definition node_validate :: "'x node \<Rightarrow> ('x fabric_config_error, unit) result" where
  "node_validate n = (case n of
     NodeOpenfabric s \<Rightarrow> openfabric_node_validate s
   | NodeOspf s \<Rightarrow> ospf_node_validate s
   | NodeWireGuard s \<Rightarrow> wireguard_node_validate s
   | NodeBgp s \<Rightarrow> bgp_node_validate s)"

section \<open>What the checks establish\<close>

interpretation wg_interfaces: claim_collector check_wireguard_interface
  "\<lambda>i. [Inl (wgi_name i), Inr (wgi_listen_port i)]" "\<lambda>(names, ports). both names ports" "\<lambda>_. True"
  by unfold_locales (auto simp: check_wireguard_interface_def both_def split: if_splits)

definition internal_wireguard_node_ok :: "'x internal_wireguard_node \<Rightarrow> bool" where
  "internal_wireguard_node_ok n \<longleftrightarrow>
     distinct (map wgi_name (wgn_interfaces n)) \<and> distinct (map wgi_listen_port (wgn_interfaces n))
     \<and> (\<forall>p\<in>set (wgn_peers n). peer_iface p \<in> wgi_name ` set (wgn_interfaces n))"

definition fabric_ok :: "'x fabric \<Rightarrow> bool" where
  "fabric_ok f = (case f of
     FabricOspf s \<Rightarrow> fs_ip_prefix s \<noteq> None \<and> fs_ip6_prefix s = None
   | FabricWireGuard _ \<Rightarrow> True
   | _ \<Rightarrow> fabric_ip_prefix f \<noteq> None \<or> fabric_ip6_prefix f \<noteq> None)"

definition node_ok :: "'x node \<Rightarrow> bool" where
  "node_ok n = (case n of
     NodeOpenfabric s \<Rightarrow> ns_ip s \<noteq> None \<or> ns_ip6 s \<noteq> None
   | NodeOspf s \<Rightarrow> ns_ip s \<noteq> None \<and> ns_ip6 s = None
   | NodeWireGuard s \<Rightarrow> (case ns_properties s of
        WgInternal i \<Rightarrow> internal_wireguard_node_ok i | WgExternal _ \<Rightarrow> True)
   | NodeBgp _ \<Rightarrow> True)"

lemma fabric_validate_iff: "is_ok (fabric_validate f) \<longleftrightarrow> fabric_ok f"
  by (simp add: fabric_validate_def fabric_ok_def openfabric_fabric_validate_def
      ospf_fabric_validate_def bgp_fabric_validate_def fabric_accessor_defs split: fabric.splits)

lemma distinct_both_claims:
  "distinct (concat (map (\<lambda>x. [Inl (f x), Inr (g x)]) xs)) \<longleftrightarrow>
     distinct (map f xs) \<and> distinct (map g xs)"
  by (induction xs) auto

lemma check_wireguard_interface_names:
  "try_fold check_wireguard_interface s xs = Ok s' \<Longrightarrow> fst s' = fst s \<union> wgi_name ` set xs"
proof -
  assume "try_fold check_wireguard_interface s xs = Ok s'"
  then have "fst s' = fst s \<union> (\<Union>i\<in>set xs. {wgi_name i})"
    by (rule try_fold_collect [rotated])
      (auto simp: check_wireguard_interface_def split: prod.splits if_splits)
  then show ?thesis by auto
qed

lemma internal_wireguard_node_validate_iff:
  "is_ok (internal_wireguard_node_validate n) \<longleftrightarrow> internal_wireguard_node_ok n"
proof (cases "try_fold check_wireguard_interface ({}, {}) (wgn_interfaces n)")
  case (Err e)
  with wg_interfaces.fold_ok_empty [of "({}, {})" "wgn_interfaces n"] show ?thesis
    by (auto simp: internal_wireguard_node_validate_def internal_wireguard_node_ok_def
        distinct_both_claims)
next
  case (Ok s)
  have "fst s = wgi_name ` set (wgn_interfaces n)"
    using check_wireguard_interface_names [OF Ok] by simp
  with Ok wg_interfaces.fold_ok_empty [of "({}, {})" "wgn_interfaces n"] show ?thesis
    by (cases s) (auto simp: internal_wireguard_node_validate_def internal_wireguard_node_ok_def
        distinct_both_claims result_simps split: if_splits)
qed

lemma node_validate_iff: "is_ok (node_validate n) \<longleftrightarrow> node_ok n"
  by (auto simp: node_validate_def node_ok_def openfabric_node_validate_def
      ospf_node_validate_def wireguard_node_validate_def bgp_node_validate_def
      internal_wireguard_node_validate_iff split: node.splits wireguard_node.splits)

end
