(* ===== verification/Bgp_Router_Id.thy ===== *)
theory Bgp_Router_Id
  imports Fabric_Types
begin

text \<open>
  The BGP router id of a node (\<open>protocol/bgp.rs\<close>): its IPv4 address, or the 32-bit FNV-1a hash of
  its IPv6 address. The hash multiplies by an odd constant, which is invertible modulo
  \<open>2 ^ 32\<close>, so every round is a bijection of the state; addresses that differ in one octet
  cannot collide.
\<close>

definition ipv6_octets :: "ipv6_addr \<Rightarrow> 8 word list" where
  "ipv6_octets a = map (\<lambda>i. ucast (drop_bit (8 * i) a)) (rev [0..<16])"

definition fnv1a_step :: "32 word \<Rightarrow> 8 word \<Rightarrow> 32 word" where
  "fnv1a_step hash byte = xor hash (ucast byte) * 0x01000193"

definition router_id_from_ipv6 :: "ipv6_addr \<Rightarrow> ipv4_addr" where
  "router_id_from_ipv6 a = foldl fnv1a_step 0x811c9dc5 (ipv6_octets a)"

definition bgp_router_id :: "bgp_node node_section \<Rightarrow> ipv4_addr option" where
  "bgp_router_id s = (case ns_ip s of
     Some ip \<Rightarrow> Some ip
   | None \<Rightarrow> map_option router_id_from_ipv6 (ns_ip6 s))"

lemma fnv_prime_cancel:
  fixes x y :: "32 word"
  shows "x * 0x01000193 = y * 0x01000193 \<longleftrightarrow> x = y"
proof
  assume eq: "x * 0x01000193 = y * 0x01000193"
  have inv: "z * 0x01000193 * 0x359c449b = z" for z :: "32 word"
  proof -
    have "(0x01000193 :: 32 word) * 0x359c449b = 1" by simp
    then show ?thesis by (simp only: mult.assoc mult.right_neutral)
  qed
  from arg_cong [OF eq, of "\<lambda>z. z * 0x359c449b"] show "x = y" by (simp only: inv)
qed (rule arg_cong)

lemma xor_cancel_right: "xor x z = xor y z \<longleftrightarrow> x = (y :: 32 word)"
  by (metis xor.assoc xor.right_neutral xor_self_eq)

lemma xor_cancel_left: "xor z x = xor z y \<longleftrightarrow> x = (y :: 32 word)"
  by (metis xor.commute xor_cancel_right)

lemma ucast_8_32_inj: "(ucast a :: 32 word) = ucast b \<longleftrightarrow> a = (b :: 8 word)"
proof
  assume "(ucast a :: 32 word) = ucast b"
  then have "bit a n = bit b n" if "n < 8" for n
    using that by (auto simp: bit_eq_iff bit_ucast_iff)
  then show "a = b" by (intro bit_word_eqI) simp
qed simp

lemma fnv1a_step_hash: "fnv1a_step h b = fnv1a_step h' b \<longleftrightarrow> h = h'"
  unfolding fnv1a_step_def fnv_prime_cancel by (rule xor_cancel_right)

lemma fnv1a_step_byte: "fnv1a_step h b = fnv1a_step h b' \<longleftrightarrow> b = b'"
  unfolding fnv1a_step_def fnv_prime_cancel xor_cancel_left ucast_8_32_inj ..

lemma fnv1a_hash_inj: "foldl fnv1a_step h bs = foldl fnv1a_step h' bs \<longleftrightarrow> h = h'"
  by (induction bs arbitrary: h h') (simp_all add: fnv1a_step_hash)

lemma fnv1a_octet_inj:
  "foldl fnv1a_step h (as @ b # bs) = foldl fnv1a_step h (as @ b' # bs) \<longleftrightarrow> b = b'"
  by (simp add: fnv1a_hash_inj fnv1a_step_byte)

text \<open>
  Two IPv6 addresses whose octets differ in exactly one place, whichever place it is, get
  different router ids: a fabric that numbers its nodes in one octet of the address never runs
  into a collision of the hash.
\<close>

theorem router_id_one_octet:
  assumes "ipv6_octets a = pre @ x # post" and "ipv6_octets b = pre @ y # post" and "x \<noteq> y"
  shows "router_id_from_ipv6 a \<noteq> router_id_from_ipv6 b"
  using assms(3) by (simp only: router_id_from_ipv6_def assms(1,2) fnv1a_octet_inj) simp

theorem router_id_one_octet_witness:
  "router_id_from_ipv6 0x20010db8000000000000000000000001
     \<noteq> router_id_from_ipv6 0x20010db8000000000000000000000002"
  by (rule router_id_one_octet
      [where pre = "[0x20, 0x01, 0x0d, 0xb8, 0, 0, 0, 0, 0, 0, 0, 0, 0, 0, 0]" and post = "[]"
        and x = 1 and y = 2])
    code_simp+

end
