(* ===== verification/Fabric_Validate.thy ===== *)
theory Fabric_Validate
  imports Fabric_Sections Bgp_Router_Id
begin

text \<open>
  \<open>FabricEntry::validate\<close> of \<open>sdn/fabric/mod.rs\<close>: the collection of WireGuard interfaces, peers
  and interface addresses, the checks of every node against the fabric, and the BGP router ids,
  each as its own loop in the order of the code. \<open>fe_valid\<close> says declaratively what a valid entry
  is; the last section proves that validation accepts exactly the valid entries.
\<close>

section \<open>WireGuard interfaces and peers\<close>

record 'x wireguard_seen =
  ws_interfaces :: "(node_id \<times> interface_name) set"
  ws_external_nodes :: "node_id set"
  ws_internal_peers :: "(node_id \<times> interface_name) set"
  ws_external_peers :: "node_id set"
  ws_v4 :: "'x ipv4_cidr set"
  ws_v6 :: "'x ipv6_cidr set"

definition wireguard_seen_new :: "'x wireguard_seen" where
  "wireguard_seen_new = \<lparr>ws_interfaces = {}, ws_external_nodes = {}, ws_internal_peers = {},
     ws_external_peers = {}, ws_v4 = {}, ws_v6 = {}\<rparr>"

definition collect_interface ::
  "fabric_id \<Rightarrow> node_id \<Rightarrow> 'x wireguard_seen \<Rightarrow> 'x wireguard_interface_properties
    \<Rightarrow> ('x fabric_config_error, 'x wireguard_seen) result" where
  "collect_interface fid nid st i =
     (let st = st\<lparr>ws_interfaces := insert (nid, wgi_name i) (ws_interfaces st)\<rparr>;
          (fresh, v4) = insert_opt (wgi_ip i) (ws_v4 st)
      in if \<not> fresh then Err (DuplicateNodeIp fid)
         else let st = st\<lparr>ws_v4 := v4\<rparr>;
                  (fresh, v6) = insert_opt (wgi_ip6 i) (ws_v6 st)
              in if \<not> fresh then Err (DuplicateNodeIp fid)
                 else Ok (st\<lparr>ws_v6 := v6\<rparr>))"

definition collect_peer :: "'x wireguard_seen \<Rightarrow> 'x wireguard_node_peer \<Rightarrow> 'x wireguard_seen" where
  "collect_peer st p = (case p of
     PeerInternal i \<Rightarrow>
       st\<lparr>ws_internal_peers := insert (ip_node i, ip_node_iface i) (ws_internal_peers st)\<rparr>
   | PeerExternal x \<Rightarrow> st\<lparr>ws_external_peers := insert (ep_node x) (ws_external_peers st)\<rparr>)"

definition collect_node ::
  "'x entry \<Rightarrow> 'x wireguard_seen \<Rightarrow> node_id
    \<Rightarrow> ('x fabric_config_error, 'x wireguard_seen) result" where
  "collect_node e st k =
     and_then (wireguard_node_section e k) (\<lambda>s. case ns_properties s of
        WgInternal n \<Rightarrow>
          and_then (try_fold (collect_interface (fabric_id (en_fabric e)) (nsi_node_id (ns_id s)))
              st (wgn_interfaces n))
            (\<lambda>st. Ok (foldl collect_peer st (wgn_peers n)))
      | WgExternal _ \<Rightarrow>
          Ok (st\<lparr>ws_external_nodes := insert (nsi_node_id (ns_id s)) (ws_external_nodes st)\<rparr>))"

text \<open>\<open>for x in a.difference(b) { return Err(..) }\<close>: the first element of \<open>a\<close> not in \<open>b\<close>.\<close>

definition first_missing :: "'a list \<Rightarrow> 'a set \<Rightarrow> ('a \<Rightarrow> 'e) \<Rightarrow> ('e, unit) result" where
  "first_missing xs b err = (case filter (\<lambda>x. x \<notin> b) xs of [] \<Rightarrow> Ok () | x # _ \<Rightarrow> Err (err x))"

definition wireguard_entry_validate ::
  "'x env \<Rightarrow> 'x entry \<Rightarrow> ('x fabric_config_error, unit) result" where
  "wireguard_entry_validate env e =
     and_then (try_fold (collect_node e) wireguard_seen_new (bt_keys (en_nodes e))) (\<lambda>st.
     and_then (first_missing (hash_iter_pairs env (ws_internal_peers st)) (ws_interfaces st)
         (\<lambda>(nid, iface). InvalidRemoteInterfaceReference iface nid)) (\<lambda>_.
       first_missing (hash_iter_ids env (ws_external_peers st)) (ws_external_nodes st)
         InvalidExternalNodeReference))"

section \<open>Node addresses\<close>

definition check_prefix4 ::
  "'x env \<Rightarrow> 'x fabric \<Rightarrow> 'x node \<Rightarrow> ('x fabric_config_error, unit) result" where
  "check_prefix4 env f n = (case (fabric_ip_prefix f, node_ip n) of
     (None, Some ip) \<Rightarrow> Err (FabricNoIpPrefixForNode (fabric_id f) (IpV4 ip))
   | (Some prefix, None) \<Rightarrow>
       Err (NodeNoIpForFabricPrefix (node_section_id_display (node_section_id n)) (CidrIpv4 prefix))
   | (Some prefix, Some ip) \<Rightarrow>
       if \<not> v4_contains_address env prefix ip
       then Err (NodeIpOutsideFabricRange (IpV4 ip) (CidrIpv4 prefix)) else Ok ()
   | (None, None) \<Rightarrow> Ok ())"

definition check_prefix6 ::
  "'x env \<Rightarrow> 'x fabric \<Rightarrow> 'x node \<Rightarrow> ('x fabric_config_error, unit) result" where
  "check_prefix6 env f n = (case (fabric_ip6_prefix f, node_ip6 n) of
     (None, Some ip) \<Rightarrow> Err (FabricNoIpPrefixForNode (fabric_id f) (IpV6 ip))
   | (Some prefix, None) \<Rightarrow>
       Err (NodeNoIpForFabricPrefix (node_section_id_display (node_section_id n)) (CidrIpv6 prefix))
   | (Some prefix, Some ip) \<Rightarrow>
       if \<not> v6_contains_address env prefix ip
       then Err (NodeIpOutsideFabricRange (IpV6 ip) (CidrIpv6 prefix)) else Ok ()
   | (None, None) \<Rightarrow> Ok ())"

definition check_node ::
  "'x env \<Rightarrow> 'x fabric \<Rightarrow> ipv4_addr set \<times> ipv6_addr set \<Rightarrow> 'x node
    \<Rightarrow> ('x fabric_config_error, ipv4_addr set \<times> ipv6_addr set) result" where
  "check_node env f = (\<lambda>(ips, ip6s) n.
     and_then (node_validate n) (\<lambda>_.
       let (fresh, ips) = insert_opt (node_ip n) ips in
       if \<not> fresh then Err (DuplicateNodeIp (fabric_id f))
       else let (fresh, ip6s) = insert_opt (node_ip6 n) ip6s in
       if \<not> fresh then Err (DuplicateNodeIp (fabric_id f))
       else and_then (check_prefix4 env f n) (\<lambda>_.
            and_then (check_prefix6 env f n) (\<lambda>_. Ok (ips, ip6s)))))"

section \<open>BGP router ids\<close>

text \<open>The loop over the nodes skips what is not an internal BGP node, and nodes without an id.\<close>

definition internal_router_id :: "'x node \<Rightarrow> ipv4_addr option" where
  "internal_router_id n = (case n of
     NodeBgp s \<Rightarrow> (case ns_properties s of BgpInternal _ \<Rightarrow> bgp_router_id s | BgpExternal _ \<Rightarrow> None)
   | _ \<Rightarrow> None)"

definition check_router_id ::
  "(ipv4_addr \<Rightarrow> node_id option) \<Rightarrow> node_id \<times> 'x node
    \<Rightarrow> ('x fabric_config_error, ipv4_addr \<Rightarrow> node_id option) result" where
  "check_router_id seen = (\<lambda>(k, n). case internal_router_id n of
     None \<Rightarrow> Ok seen
   | Some r \<Rightarrow>
       if r = 0 then Err (InvalidBgpRouterId k)
       else (case seen r of
          Some prev \<Rightarrow> Err (DuplicateBgpRouterId prev k r)
        | None \<Rightarrow> Ok (seen(r \<mapsto> k))))"

section \<open>The entry\<close>

definition fe_validate :: "'x env \<Rightarrow> 'x fabric_entry \<Rightarrow> ('x fabric_config_error, unit) result" where
  "fe_validate env fe =
     (let f = fe_fabric fe in
      and_then (case fe of EntryWireGuard e \<Rightarrow> wireguard_entry_validate env e | _ \<Rightarrow> Ok ()) (\<lambda>_.
      and_then (try_fold (check_node env f) ({}, {}) (bt_values (fe_nodes fe))) (\<lambda>_.
      and_then (case fe of
          EntryBgp e \<Rightarrow>
            (and_then (try_fold check_router_id (\<lambda>_. None) (en_nodes e)) (\<lambda>_. Ok ()))
        | _ \<Rightarrow> Ok ()) (\<lambda>_.
      fabric_validate f))))"

section \<open>What a valid entry is\<close>

definition wg_internal :: "'x node \<Rightarrow> 'x internal_wireguard_node option" where
  "wg_internal n = (case n of
     NodeWireGuard s \<Rightarrow> (case ns_properties s of WgInternal i \<Rightarrow> Some i | WgExternal _ \<Rightarrow> None)
   | _ \<Rightarrow> None)"

definition wg_external :: "'x node \<Rightarrow> 'x external_wireguard_node option" where
  "wg_external n = (case n of
     NodeWireGuard s \<Rightarrow> (case ns_properties s of WgInternal _ \<Rightarrow> None | WgExternal x \<Rightarrow> Some x)
   | _ \<Rightarrow> None)"

definition wg_interfaces_of :: "'x node \<Rightarrow> 'x wireguard_interface_properties list" where
  "wg_interfaces_of n = (case wg_internal n of None \<Rightarrow> [] | Some i \<Rightarrow> wgn_interfaces i)"

definition wg_peers_of :: "'x node \<Rightarrow> 'x wireguard_node_peer list" where
  "wg_peers_of n = (case wg_internal n of None \<Rightarrow> [] | Some i \<Rightarrow> wgn_peers i)"

definition peer_resolves ::
  "(node_id, 'x node) btree_map \<Rightarrow> 'x wireguard_node_peer \<Rightarrow> bool" where
  "peer_resolves m p = (case p of
     PeerInternal i \<Rightarrow> \<exists>(k, n)\<in>set m. k = ip_node i \<and> ip_node_iface i \<in> wgi_name ` set (wg_interfaces_of n)
   | PeerExternal x \<Rightarrow> \<exists>(k, n)\<in>set m. k = ep_node x \<and> wg_external n \<noteq> None)"

definition wireguard_valid :: "(node_id, 'x node) btree_map \<Rightarrow> bool" where
  "wireguard_valid m \<longleftrightarrow>
     distinct (concat (map (\<lambda>i. both_opt (wgi_ip i) (wgi_ip6 i))
       (concat (map (\<lambda>(k, n). wg_interfaces_of n) m))))
     \<and> (\<forall>(k, n)\<in>set m. \<forall>p\<in>set (wg_peers_of n). peer_resolves m p)"

definition prefix_ok :: "('p \<Rightarrow> 'a \<Rightarrow> bool) \<Rightarrow> 'p option \<Rightarrow> 'a option \<Rightarrow> bool" where
  "prefix_ok contains prefix ip = (case (prefix, ip) of
     (None, None) \<Rightarrow> True | (Some p, Some a) \<Rightarrow> contains p a | _ \<Rightarrow> False)"

definition node_in_fabric :: "'x env \<Rightarrow> 'x fabric \<Rightarrow> 'x node \<Rightarrow> bool" where
  "node_in_fabric env f n \<longleftrightarrow> node_ok n
     \<and> prefix_ok (v4_contains_address env) (fabric_ip_prefix f) (node_ip n)
     \<and> prefix_ok (v6_contains_address env) (fabric_ip6_prefix f) (node_ip6 n)"

definition node_addresses :: "'x node \<Rightarrow> (ipv4_addr + ipv6_addr) list" where
  "node_addresses n = both_opt (node_ip n) (node_ip6 n)"

definition router_ids :: "'x node list \<Rightarrow> ipv4_addr list" where
  "router_ids ns = concat (map (\<lambda>n. case internal_router_id n of None \<Rightarrow> [] | Some r \<Rightarrow> [r]) ns)"

definition fe_valid :: "'x env \<Rightarrow> 'x fabric_entry \<Rightarrow> bool" where
  "fe_valid env fe \<longleftrightarrow>
     fabric_ok (fe_fabric fe)
     \<and> (\<forall>n\<in>set (bt_values (fe_nodes fe)). node_in_fabric env (fe_fabric fe) n)
     \<and> distinct (concat (map node_addresses (bt_values (fe_nodes fe))))
     \<and> (fe_protocol fe = WireGuard \<longrightarrow> wireguard_valid (fe_nodes fe))
     \<and> (fe_protocol fe = Bgp \<longrightarrow> distinct (router_ids (bt_values (fe_nodes fe)))
          \<and> 0 \<notin> set (router_ids (bt_values (fe_nodes fe))))"

section \<open>The node loop\<close>

lemma check_prefix4_ok:
  "is_ok (check_prefix4 env f n)
    \<longleftrightarrow> prefix_ok (v4_contains_address env) (fabric_ip_prefix f) (node_ip n)"
  by (simp add: check_prefix4_def prefix_ok_def split: option.splits)

lemma check_prefix6_ok:
  "is_ok (check_prefix6 env f n)
    \<longleftrightarrow> prefix_ok (v6_contains_address env) (fabric_ip6_prefix f) (node_ip6 n)"
  by (simp add: check_prefix6_def prefix_ok_def split: option.splits)

lemma check_node_Ok:
  "check_node env f (ips, ip6s) n = Ok s \<longleftrightarrow>
     node_in_fabric env f n \<and> fst (insert_opt (node_ip n) ips) \<and> fst (insert_opt (node_ip6 n) ip6s)
     \<and> s = (snd (insert_opt (node_ip n) ips), snd (insert_opt (node_ip6 n) ip6s))"
  using node_validate_iff [of n] check_prefix4_ok [of env f n] check_prefix6_ok [of env f n]
  by (auto simp: check_node_def node_in_fabric_def result_simps is_ok_unit Let_def
      split: prod.splits)

interpretation nodes: claim_collector "check_node env f" node_addresses
  "\<lambda>(ips, ip6s). both ips ip6s" "node_in_fabric env f"
  for env f
proof unfold_locales
  fix s n
  show "is_ok (check_node env f s n) \<longleftrightarrow> node_in_fabric env f n
      \<and> distinct (node_addresses n) \<and> set (node_addresses n) \<inter> (case s of (x, y) \<Rightarrow> both x y) = {}"
    using insert_opt_both [of "node_ip n" "fst s" "node_ip6 n" "snd s"]
    by (cases s) (auto simp: is_ok_iff check_node_Ok node_addresses_def)
next
  fix s n s'
  assume "check_node env f s n = Ok s'"
  then show "(case s' of (x, y) \<Rightarrow> both x y)
      = (case s of (x, y) \<Rightarrow> both x y) \<union> set (node_addresses n)"
    by (cases s) (simp add: check_node_Ok node_addresses_def insert_opt_both_set)
qed

section \<open>The router id loop\<close>

interpretation router_ids: claim_collector check_router_id
  "\<lambda>(k, n). case internal_router_id n of None \<Rightarrow> [] | Some r \<Rightarrow> [r]" dom
  "\<lambda>(k, n). internal_router_id n \<noteq> Some 0"
  by unfold_locales
    (auto simp: check_router_id_def dom_def split: option.splits if_splits prod.splits)

lemma router_id_loop:
  "is_ok (try_fold check_router_id (\<lambda>_. None) m) \<longleftrightarrow>
     distinct (router_ids (bt_values m)) \<and> 0 \<notin> set (router_ids (bt_values m))"
proof -
  have "concat (map (\<lambda>(k, n). case internal_router_id n of None \<Rightarrow> [] | Some r \<Rightarrow> [r]) m)
      = router_ids (bt_values m)"
    by (simp add: router_ids_def comp_def case_prod_unfold)
  moreover have "(\<forall>(k, n)\<in>set m. internal_router_id n \<noteq> Some 0)
      \<longleftrightarrow> 0 \<notin> set (router_ids (bt_values m))"
    by (force simp: router_ids_def split: option.splits)
  ultimately show ?thesis
    using router_ids.fold_ok_empty [of "\<lambda>_. None" m] by auto
qed

section \<open>The WireGuard loop\<close>

lemma collect_interface_Ok:
  "collect_interface fid k st i = Ok st' \<longleftrightarrow>
     fst (insert_opt (wgi_ip i) (ws_v4 st)) \<and> fst (insert_opt (wgi_ip6 i) (ws_v6 st))
     \<and> st' = st\<lparr>ws_interfaces := insert (k, wgi_name i) (ws_interfaces st),
                ws_v4 := snd (insert_opt (wgi_ip i) (ws_v4 st)),
                ws_v6 := snd (insert_opt (wgi_ip6 i) (ws_v6 st))\<rparr>"
  by (auto simp: collect_interface_def Let_def split: prod.splits)

interpretation interface_addresses: claim_collector "collect_interface fid k"
  "\<lambda>i. both_opt (wgi_ip i) (wgi_ip6 i)" "\<lambda>st. both (ws_v4 st) (ws_v6 st)" "\<lambda>_. True"
  for fid k
  by unfold_locales
    (auto simp: is_ok_iff collect_interface_Ok insert_opt_both [symmetric] insert_opt_both_set)

lemma collect_interfaces_fields:
  assumes "try_fold (collect_interface fid k) st is = Ok st'"
  shows "ws_interfaces st' = ws_interfaces st \<union> (\<lambda>i. (k, wgi_name i)) ` set is"
    and "ws_external_nodes st' = ws_external_nodes st"
    and "ws_internal_peers st' = ws_internal_peers st"
    and "ws_external_peers st' = ws_external_peers st"
proof -
  have "ws_interfaces st' = ws_interfaces st \<union> (\<Union>i\<in>set is. {(k, wgi_name i)})"
    by (rule try_fold_collect [OF _ assms]) (simp add: collect_interface_Ok)
  then show "ws_interfaces st' = ws_interfaces st \<union> (\<lambda>i. (k, wgi_name i)) ` set is" by auto
  have "ws_external_nodes st' = ws_external_nodes st \<union> (\<Union>i\<in>set is. {})"
    by (rule try_fold_collect [OF _ assms]) (simp add: collect_interface_Ok)
  then show "ws_external_nodes st' = ws_external_nodes st" by simp
  have "ws_internal_peers st' = ws_internal_peers st \<union> (\<Union>i\<in>set is. {})"
    by (rule try_fold_collect [OF _ assms]) (simp add: collect_interface_Ok)
  then show "ws_internal_peers st' = ws_internal_peers st" by simp
  have "ws_external_peers st' = ws_external_peers st \<union> (\<Union>i\<in>set is. {})"
    by (rule try_fold_collect [OF _ assms]) (simp add: collect_interface_Ok)
  then show "ws_external_peers st' = ws_external_peers st" by simp
qed

definition internal_refs :: "'x wireguard_node_peer list \<Rightarrow> (node_id \<times> interface_name) set" where
  "internal_refs ps = {(ip_node i, ip_node_iface i) |i. PeerInternal i \<in> set ps}"

definition external_refs :: "'x wireguard_node_peer list \<Rightarrow> node_id set" where
  "external_refs ps = {ep_node x |x. PeerExternal x \<in> set ps}"

lemma collect_peers_fields:
  "ws_internal_peers (foldl collect_peer st ps) = ws_internal_peers st \<union> internal_refs ps"
  "ws_external_peers (foldl collect_peer st ps) = ws_external_peers st \<union> external_refs ps"
  by (induction ps arbitrary: st)
    (auto simp: internal_refs_def external_refs_def collect_peer_def split: wireguard_node_peer.splits)

lemma collect_peers_keep [simp]:
  "ws_interfaces (foldl collect_peer st ps) = ws_interfaces st"
  "ws_external_nodes (foldl collect_peer st ps) = ws_external_nodes st"
  "ws_v4 (foldl collect_peer st ps) = ws_v4 st"
  "ws_v6 (foldl collect_peer st ps) = ws_v6 st"
  by (induction ps arbitrary: st) (auto simp: collect_peer_def split: wireguard_node_peer.splits)

text \<open>
  What the loop collects at one key, in terms of the stored node: on a well-formed entry the typed
  view of the node always exists.
\<close>

definition node_at :: "'x entry \<Rightarrow> node_id \<Rightarrow> 'x node" where
  "node_at e k = (case wireguard_node_section e k of
     Ok s \<Rightarrow> NodeWireGuard s | Err _ \<Rightarrow> NodeBgp \<lparr>ns_id = \<lparr>nsi_fabric_id = [], nsi_node_id = k\<rparr>,
       ns_ip = None, ns_ip6 = None, ns_properties = BgpExternal \<lparr>bgpx_peer_ip = None\<rparr>\<rparr>)"

lemmas wg_of_defs = wg_internal_def wg_external_def wg_interfaces_of_def wg_peers_of_def

lemma collect_node_Ok:
  "collect_node e st k = Ok st' \<longleftrightarrow>
     (\<exists>s. wireguard_node_section e k = Ok s \<and>
       (case ns_properties s of
          WgInternal n \<Rightarrow> \<exists>st''. try_fold (collect_interface (fabric_id (en_fabric e))
              (nsi_node_id (ns_id s))) st (wgn_interfaces n) = Ok st''
            \<and> st' = foldl collect_peer st'' (wgn_peers n)
        | WgExternal _ \<Rightarrow> st' = st\<lparr>ws_external_nodes :=
              insert (nsi_node_id (ns_id s)) (ws_external_nodes st)\<rparr>))"
  by (cases "wireguard_node_section e k")
    (auto simp: collect_node_def result_simps split: wireguard_node.splits)

lemma collect_node_cases:
  assumes "collect_node e st k = Ok st'"
  obtains (internal) s n st'' where "wireguard_node_section e k = Ok s" "ns_properties s = WgInternal n"
      "try_fold (collect_interface (fabric_id (en_fabric e)) (nsi_node_id (ns_id s))) st
         (wgn_interfaces n) = Ok st''"
      "st' = foldl collect_peer st'' (wgn_peers n)"
  | (external) s x where "wireguard_node_section e k = Ok s" "ns_properties s = WgExternal x"
      "st' = st\<lparr>ws_external_nodes := insert (nsi_node_id (ns_id s)) (ws_external_nodes st)\<rparr>"
proof -
  from assms obtain s where "wireguard_node_section e k = Ok s" by (auto simp: collect_node_Ok)
  with assms that show thesis by (cases "ns_properties s") (auto simp: collect_node_Ok)
qed

lemma node_at_simps:
  assumes "wireguard_node_section e k = Ok s"
  shows "ns_properties s = WgInternal n \<Longrightarrow> wg_interfaces_of (node_at e k) = wgn_interfaces n"
    and "ns_properties s = WgInternal n \<Longrightarrow> wg_peers_of (node_at e k) = wgn_peers n"
    and "ns_properties s = WgInternal n \<Longrightarrow> wg_external (node_at e k) = None"
    and "ns_properties s = WgExternal x \<Longrightarrow> wg_interfaces_of (node_at e k) = []"
    and "ns_properties s = WgExternal x \<Longrightarrow> wg_peers_of (node_at e k) = []"
    and "ns_properties s = WgExternal x \<Longrightarrow> wg_external (node_at e k) = Some x"
  using assms by (simp_all add: node_at_def wg_of_defs)

lemma collect_node_is_ok:
  "is_ok (collect_node e st k) \<longleftrightarrow>
     (\<exists>s. wireguard_node_section e k = Ok s \<and>
       (case ns_properties s of
          WgInternal n \<Rightarrow> is_ok (try_fold (collect_interface (fabric_id (en_fabric e))
              (nsi_node_id (ns_id s))) st (wgn_interfaces n))
        | WgExternal _ \<Rightarrow> True))"
  by (cases "wireguard_node_section e k")
    (auto simp: collect_node_def result_simps is_ok_iff split: wireguard_node.splits)

interpretation wg_addresses: claim_collector "collect_node e"
  "\<lambda>k. concat (map (\<lambda>i. both_opt (wgi_ip i) (wgi_ip6 i)) (wg_interfaces_of (node_at e k)))"
  "\<lambda>st. both (ws_v4 st) (ws_v6 st)" "\<lambda>k. is_ok (wireguard_node_section e k)"
  for e
proof unfold_locales
  fix st k
  show "is_ok (collect_node e st k) \<longleftrightarrow> is_ok (wireguard_node_section e k)
      \<and> distinct (concat (map (\<lambda>i. both_opt (wgi_ip i) (wgi_ip6 i)) (wg_interfaces_of (node_at e k))))
      \<and> set (concat (map (\<lambda>i. both_opt (wgi_ip i) (wgi_ip6 i)) (wg_interfaces_of (node_at e k))))
          \<inter> both (ws_v4 st) (ws_v6 st) = {}"
    by (cases "wireguard_node_section e k")
      (auto simp: collect_node_is_ok interface_addresses.fold_ok node_at_def wg_of_defs
        split: wireguard_node.splits)
next
  fix st k st'
  assume "collect_node e st k = Ok st'"
  then show "both (ws_v4 st') (ws_v6 st') = both (ws_v4 st) (ws_v6 st)
      \<union> set (concat (map (\<lambda>i. both_opt (wgi_ip i) (wgi_ip6 i)) (wg_interfaces_of (node_at e k))))"
    by (cases rule: collect_node_cases)
      (simp_all add: node_at_simps interface_addresses.fold_seen)
qed

text \<open>Nodes of a well-formed entry are WireGuard nodes stored under their own id.\<close>

lemma wireguard_section_keyed:
  assumes "fe_wf (EntryWireGuard e)" and "wireguard_node_section e k = Ok s"
  shows "nsi_node_id (ns_id s) = k"
proof -
  from assms(2) obtain n where get: "bt_get (en_nodes e) k = Some n"
    by (auto simp: wireguard_node_section_def entry_get_node_def result_simps)
  with wireguard_node_section_Ok [OF assms(1) get] assms(2) have "n = NodeWireGuard s" by simp
  with fe_wf_get [OF assms(1), of k n] get show ?thesis
    by (simp add: fe_accessor_defs node_in_place_def node_section_id_def)
qed

lemma node_at_stored:
  assumes "fe_wf (EntryWireGuard e)" and "(k, n) \<in> set (en_nodes e)"
  shows "is_ok (wireguard_node_section e k)" and "node_at e k = n"
proof -
  have "bt_wf (en_nodes e)" using fe_wfD(2) [OF assms(1)] by (simp add: fe_accessor_defs)
  then have "bt_get (en_nodes e) k = Some n" using assms(2) by (simp add: bt_get_Some)
  from wireguard_node_section_Ok [OF assms(1) this]
  show "is_ok (wireguard_node_section e k)" and "node_at e k = n"
    by (auto simp: node_at_def)
qed

lemma collect_node_fields:
  assumes "fe_wf (EntryWireGuard e)" and "collect_node e st k = Ok st'"
  shows "ws_interfaces st' = ws_interfaces st
      \<union> (\<lambda>i. (k, wgi_name i)) ` set (wg_interfaces_of (node_at e k))"
    and "ws_external_nodes st' = ws_external_nodes st
      \<union> (if wg_external (node_at e k) = None then {} else {k})"
    and "ws_internal_peers st' = ws_internal_peers st \<union> internal_refs (wg_peers_of (node_at e k))"
    and "ws_external_peers st' = ws_external_peers st \<union> external_refs (wg_peers_of (node_at e k))"
  using assms(2)
  by (cases rule: collect_node_cases;
      simp add: node_at_simps collect_interfaces_fields collect_peers_fields
        wireguard_section_keyed [OF assms(1)] internal_refs_def external_refs_def)+

lemma collect_nodes_fields:
  fixes e :: "'x entry"
  assumes "fe_wf (EntryWireGuard e)"
    and "try_fold (collect_node e) wireguard_seen_new ks = Ok st"
  shows "ws_interfaces st = (\<Union>k\<in>set ks. (\<lambda>i. (k, wgi_name i)) ` set (wg_interfaces_of (node_at e k)))"
    and "ws_external_nodes st = {k \<in> set ks. wg_external (node_at e k) \<noteq> None}"
    and "ws_internal_peers st = (\<Union>k\<in>set ks. internal_refs (wg_peers_of (node_at e k)))"
    and "ws_external_peers st = (\<Union>k\<in>set ks. external_refs (wg_peers_of (node_at e k)))"
proof -
  note fields = collect_node_fields [OF assms(1)]
  have "ws_interfaces st = ws_interfaces (wireguard_seen_new :: 'x wireguard_seen)
      \<union> (\<Union>k\<in>set ks. (\<lambda>i. (k, wgi_name i)) ` set (wg_interfaces_of (node_at e k)))"
    using assms(2) by (rule try_fold_collect [rotated]) (rule fields(1))
  then show "ws_interfaces st = (\<Union>k\<in>set ks. (\<lambda>i. (k, wgi_name i)) ` set (wg_interfaces_of (node_at e k)))"
    by (simp add: wireguard_seen_new_def)
  have "ws_external_nodes st = ws_external_nodes (wireguard_seen_new :: 'x wireguard_seen)
      \<union> (\<Union>k\<in>set ks. if wg_external (node_at e k) = None then {} else {k})"
    using assms(2) by (rule try_fold_collect [rotated]) (rule fields(2))
  then show "ws_external_nodes st = {k \<in> set ks. wg_external (node_at e k) \<noteq> None}"
    by (auto simp: wireguard_seen_new_def split: if_splits)
  have "ws_internal_peers st = ws_internal_peers (wireguard_seen_new :: 'x wireguard_seen)
      \<union> (\<Union>k\<in>set ks. internal_refs (wg_peers_of (node_at e k)))"
    using assms(2) by (rule try_fold_collect [rotated]) (rule fields(3))
  then show "ws_internal_peers st = (\<Union>k\<in>set ks. internal_refs (wg_peers_of (node_at e k)))"
    by (simp add: wireguard_seen_new_def)
  have "ws_external_peers st = ws_external_peers (wireguard_seen_new :: 'x wireguard_seen)
      \<union> (\<Union>k\<in>set ks. external_refs (wg_peers_of (node_at e k)))"
    using assms(2) by (rule try_fold_collect [rotated]) (rule fields(4))
  then show "ws_external_peers st = (\<Union>k\<in>set ks. external_refs (wg_peers_of (node_at e k)))"
    by (simp add: wireguard_seen_new_def)
qed

lemma first_missing_ok: "is_ok (first_missing xs b err) \<longleftrightarrow> set xs \<subseteq> b"
proof (cases "filter (\<lambda>x. x \<notin> b) xs")
  case Nil
  then show ?thesis by (auto simp: first_missing_def filter_empty_conv)
next
  case (Cons x ys)
  then have "x \<in> set xs" and "x \<notin> b" by (auto dest: filter_eq_ConsD)
  with Cons show ?thesis by (auto simp: first_missing_def)
qed

lemma finite_refs [simp]: "finite (internal_refs ps)" "finite (external_refs ps)"
proof -
  have "internal_refs ps \<subseteq> (\<lambda>p. case p of PeerInternal i \<Rightarrow> (ip_node i, ip_node_iface i)) ` set ps"
    by (force simp: internal_refs_def)
  then show "finite (internal_refs ps)" by (rule finite_subset) simp
  have "external_refs ps \<subseteq> (\<lambda>p. case p of PeerExternal x \<Rightarrow> ep_node x) ` set ps"
    by (force simp: external_refs_def)
  then show "finite (external_refs ps)" by (rule finite_subset) simp
qed

lemma refs_resolve:
  "internal_refs ps \<subseteq> {(k, wgi_name i) |k n i. (k, n) \<in> set m \<and> i \<in> set (wg_interfaces_of n)}
     \<and> external_refs ps \<subseteq> {k. \<exists>n. (k, n) \<in> set m \<and> wg_external n \<noteq> None}
   \<longleftrightarrow> (\<forall>p\<in>set ps. peer_resolves m p)"
  unfolding internal_refs_def external_refs_def peer_resolves_def
  by (fastforce split: wireguard_node_peer.splits)

lemma concat_map_nested:
  "concat (map (\<lambda>k. concat (map f (g k))) ks) = concat (map f (concat (map g ks)))"
  by (induction ks) simp_all

lemma wireguard_entry_validate_iff:
  assumes wf: "fe_wf (EntryWireGuard e)" and iter: "hash_iter_ok env"
  shows "is_ok (wireguard_entry_validate env e) \<longleftrightarrow> wireguard_valid (en_nodes e)"
proof -
  let ?ks = "bt_keys (en_nodes e)"
  let ?addr = "\<lambda>i. both_opt (wgi_ip i) (wgi_ip6 i)"
  have at: "node_at e k = n" if "(k, n) \<in> set (en_nodes e)" for k n
    using node_at_stored [OF wf that] by simp
  have addresses: "concat (map (\<lambda>k. concat (map ?addr (wg_interfaces_of (node_at e k)))) ?ks)
      = concat (map ?addr (concat (map (\<lambda>(k, n). wg_interfaces_of n) (en_nodes e))))"
  proof -
    have "map (\<lambda>k. wg_interfaces_of (node_at e k)) ?ks = map (\<lambda>(k, n). wg_interfaces_of n) (en_nodes e)"
      by (auto simp: at)
    then show ?thesis by (simp only: concat_map_nested)
  qed
  have loop: "is_ok (try_fold (collect_node e) wireguard_seen_new ?ks) \<longleftrightarrow>
      distinct (concat (map ?addr (concat (map (\<lambda>(k, n). wg_interfaces_of n) (en_nodes e)))))"
    using wg_addresses.fold_ok_empty [of wireguard_seen_new e ?ks] node_at_stored(1) [OF wf]
    by (auto simp: addresses wireguard_seen_new_def simp del: map_map)
  show ?thesis
  proof (cases "try_fold (collect_node e) wireguard_seen_new ?ks")
    case (Err x)
    with loop show ?thesis by (auto simp: wireguard_entry_validate_def wireguard_valid_def)
  next
    case (Ok st)
    let ?ps = "concat (map (\<lambda>(k, n). wg_peers_of n) (en_nodes e))"
    note fields = collect_nodes_fields [OF wf Ok]
    have ifs: "ws_interfaces st
        = {(k, wgi_name i) |k n i. (k, n) \<in> set (en_nodes e) \<and> i \<in> set (wg_interfaces_of n)}"
      by (force simp: fields(1) at)
    have ext: "ws_external_nodes st = {k. \<exists>n. (k, n) \<in> set (en_nodes e) \<and> wg_external n \<noteq> None}"
      by (force simp: fields(2) at)
    have ip: "ws_internal_peers st = internal_refs ?ps"
      by (force simp: fields(3) at internal_refs_def)
    have ep: "ws_external_peers st = external_refs ?ps"
      by (force simp: fields(4) at external_refs_def)
    have "is_ok (wireguard_entry_validate env e) \<longleftrightarrow>
        internal_refs ?ps \<subseteq> ws_interfaces st \<and> external_refs ?ps \<subseteq> ws_external_nodes st"
      by (simp only: wireguard_entry_validate_def Ok and_then.simps is_ok_and_then_const
          first_missing_ok ip ep hash_iter_pairs_set [OF iter] hash_iter_ids_set [OF iter] finite_refs)
    then have "is_ok (wireguard_entry_validate env e) \<longleftrightarrow> (\<forall>p\<in>set ?ps. peer_resolves (en_nodes e) p)"
      by (simp only: ifs ext refs_resolve)
    with loop Ok show ?thesis by (auto simp: wireguard_valid_def)
  qed
qed

section \<open>Validation accepts exactly the valid entries\<close>

lemma fe_validate_iff:
  assumes "fe_wf fe" and "hash_iter_ok env"
  shows "is_ok (fe_validate env fe) \<longleftrightarrow> fe_valid env fe"
proof -
  let ?ns = "bt_values (fe_nodes fe)"
  have wg: "is_ok (case fe of EntryWireGuard e \<Rightarrow> wireguard_entry_validate env e | _ \<Rightarrow> Ok ())
      \<longleftrightarrow> (fe_protocol fe = WireGuard \<longrightarrow> wireguard_valid (fe_nodes fe))"
    using assms wireguard_entry_validate_iff
    by (auto simp: fe_accessor_defs split: fabric_entry.splits)
  have nodes: "is_ok (try_fold (check_node env (fe_fabric fe)) ({}, {}) ?ns) \<longleftrightarrow>
      (\<forall>n\<in>set ?ns. node_in_fabric env (fe_fabric fe) n) \<and> distinct (concat (map node_addresses ?ns))"
    by (rule nodes.fold_ok_empty) simp
  have rid: "is_ok (case fe of
        EntryBgp e \<Rightarrow> and_then (try_fold check_router_id (\<lambda>_. None) (en_nodes e)) (\<lambda>_. Ok ())
      | _ \<Rightarrow> Ok ()) \<longleftrightarrow>
      (fe_protocol fe = Bgp \<longrightarrow> distinct (router_ids ?ns) \<and> 0 \<notin> set (router_ids ?ns))"
    by (auto simp: fe_accessor_defs is_ok_and_then router_id_loop [symmetric] is_ok_iff result_simps
        split: fabric_entry.splits)
  show ?thesis
    unfolding fe_validate_def Let_def fe_valid_def
    by (simp only: is_ok_and_then_const wg nodes rid fabric_validate_iff) blast
qed

end
