(* ===== verification/Section_Ids.thy ===== *)
theory Section_Ids
  imports Fabric_Types
begin

text \<open>
  Identifiers of sections: the patterns of \<open>FabricId\<close> and \<open>NodeId\<close>
  (\<open>section_config/{fabric,node}.rs\<close>), and \<open>NodeSectionId\<close>, which joins the two with an underscore.
  A pattern is a function from a text to the remainders after its matches; a text matches an
  anchored pattern when one remainder is empty.
\<close>

section \<open>Patterns\<close>

type_synonym pattern = "string \<Rightarrow> string list"

fun one_of :: "(char \<Rightarrow> bool) \<Rightarrow> pattern" where
  "one_of P [] = []"
| "one_of P (c # s) = (if P c then [s] else [])"

fun up_to :: "nat \<Rightarrow> (char \<Rightarrow> bool) \<Rightarrow> pattern" where
  "up_to 0 P s = [s]"
| "up_to (Suc n) P [] = [[]]"
| "up_to (Suc n) P (c # s) = (if P c then up_to n P s @ [c # s] else [c # s])"

definition seq :: "pattern \<Rightarrow> pattern \<Rightarrow> pattern" where
  "seq p q s = concat (map q (p s))"

definition anchored :: "pattern \<Rightarrow> string \<Rightarrow> bool" where
  "anchored p s \<longleftrightarrow> [] \<in> set (p s)"

definition is_id_char :: "char \<Rightarrow> bool" where
  "is_id_char c \<longleftrightarrow> is_ascii_alphanumeric c \<or> c = CHR ''-''"

definition fabric_id_pattern :: pattern where
  "fabric_id_pattern = seq (one_of is_ascii_alphanumeric)
     (seq (up_to 6 is_id_char) (up_to 1 is_ascii_alphanumeric))"

definition node_id_pattern :: pattern where
  "node_id_pattern = seq (one_of is_ascii_alphanumeric)
     (seq (up_to 61 is_id_char) (up_to 1 is_ascii_alphanumeric))"

definition fabric_id_ok :: "string \<Rightarrow> bool" where
  "fabric_id_ok s \<longleftrightarrow> anchored fabric_id_pattern s"

definition node_id_ok :: "string \<Rightarrow> bool" where
  "node_id_ok s \<longleftrightarrow> anchored node_id_pattern s"

section \<open>Node section ids\<close>

datatype section_id_error = MissingSeparator | InvalidFabricId string | InvalidNodeId string

definition node_section_id_from_str :: "string \<Rightarrow> (section_id_error, node_section_id) result" where
  "node_section_id_from_str s = (case split_once (CHR ''_'') s of
     None \<Rightarrow> Err MissingSeparator
   | Some (f, n) \<Rightarrow>
       and_then (if fabric_id_ok f then Ok f else Err (InvalidFabricId f)) (\<lambda>f.
       and_then (if node_id_ok n then Ok n else Err (InvalidNodeId n)) (\<lambda>n.
         Ok \<lparr>nsi_fabric_id = f, nsi_node_id = n\<rparr>)))"

definition node_section_id_ok :: "node_section_id \<Rightarrow> bool" where
  "node_section_id_ok i \<longleftrightarrow> fabric_id_ok (nsi_fabric_id i) \<and> node_id_ok (nsi_node_id i)"

section \<open>Laws\<close>

lemma one_of_split: "r \<in> set (one_of P s) \<Longrightarrow> \<exists>c. P c \<and> s = c # r"
  by (cases s) (auto split: if_splits)

lemma up_to_split: "r \<in> set (up_to n P s) \<Longrightarrow> \<exists>p. s = p @ r \<and> length p \<le> n \<and> (\<forall>c\<in>set p. P c)"
proof (induction n P s rule: up_to.induct)
  case (3 n P c s)
  show ?case
  proof (cases "r = c # s")
    case False
    with 3 obtain p where "P c" "s = p @ r" "length p \<le> n" "\<forall>c\<in>set p. P c"
      by (auto split: if_splits)
    then show ?thesis by (intro exI [of _ "c # p"]) simp
  qed simp
qed auto

lemma id_chars:
  assumes "anchored (seq (one_of is_ascii_alphanumeric)
      (seq (up_to n is_id_char) (up_to 1 is_ascii_alphanumeric))) s"
  shows "s \<noteq> []" and "length s \<le> n + 2" and "\<forall>c\<in>set s. is_id_char c"
proof -
  from assms obtain r r' where "r \<in> set (one_of is_ascii_alphanumeric s)"
    and "r' \<in> set (up_to n is_id_char r)" and "[] \<in> set (up_to 1 is_ascii_alphanumeric r')"
    by (auto simp: anchored_def seq_def)
  then obtain c p q where "s = c # p @ q" "is_ascii_alphanumeric c" "length p \<le> n"
    "\<forall>c\<in>set p. is_id_char c" "length q \<le> 1" "\<forall>c\<in>set q. is_ascii_alphanumeric c"
    by (metis append.right_neutral one_of_split up_to_split)
  then show "s \<noteq> []" and "length s \<le> n + 2" and "\<forall>c\<in>set s. is_id_char c"
    by (auto simp: is_id_char_def)
qed

lemma id_no_underscore: "fabric_id_ok f \<Longrightarrow> CHR ''_'' \<notin> set f"
  using id_chars(3) [of 6 f]
  by (auto simp: fabric_id_ok_def fabric_id_pattern_def is_id_char_def char_class_defs)

lemma node_id_no_underscore: "node_id_ok f \<Longrightarrow> CHR ''_'' \<notin> set f"
  using id_chars(3) [of 61 f]
  by (auto simp: node_id_ok_def node_id_pattern_def is_id_char_def char_class_defs)

lemma node_section_id_from_str_display:
  "fabric_id_ok (nsi_fabric_id i) \<Longrightarrow> node_id_ok (nsi_node_id i)
    \<Longrightarrow> node_section_id_from_str (node_section_id_display i) = Ok i"
  by (simp add: node_section_id_from_str_def node_section_id_display_def id_no_underscore)

text \<open>
  Reading a node section id and writing it are inverse to each other: a text is accepted as
  the id \<open>i\<close> exactly when it is the text of \<open>i\<close> and both parts match their patterns, so no two ids
  share a text and nothing but a text that \<open>Display\<close> writes is accepted.
\<close>

theorem node_section_id_roundtrip:
  "node_section_id_from_str s = Ok i \<longleftrightarrow> s = node_section_id_display i \<and> node_section_id_ok i"
proof
  assume "node_section_id_from_str s = Ok i"
  then show "s = node_section_id_display i \<and> node_section_id_ok i"
    by (auto simp: node_section_id_from_str_def node_section_id_display_def node_section_id_ok_def
        split_once_Some split: option.splits if_splits)
qed (auto simp: node_section_id_ok_def node_section_id_from_str_display)

text \<open>
  The length limits of identifiers follow from the patterns: a fabric id has one to eight
  characters, a node id one to 63, all of them alphanumeric or a hyphen.
\<close>

theorem section_id_limits:
  assumes "node_section_id_from_str s = Ok i"
  shows "1 \<le> length (nsi_fabric_id i) \<and> length (nsi_fabric_id i) \<le> 8
    \<and> 1 \<le> length (nsi_node_id i) \<and> length (nsi_node_id i) \<le> 63
    \<and> list_all is_id_char (nsi_fabric_id i @ nsi_node_id i)"
proof -
  from assms have "fabric_id_ok (nsi_fabric_id i)" and "node_id_ok (nsi_node_id i)"
    by (auto simp: node_section_id_from_str_def split: option.splits if_splits)
  with id_chars [of 6 "nsi_fabric_id i"] id_chars [of 61 "nsi_node_id i"] show ?thesis
    by (auto simp: fabric_id_ok_def fabric_id_pattern_def node_id_ok_def node_id_pattern_def
        Suc_le_eq list_all_iff)
qed

theorem section_id_limits_witness: "length ''wg-net'' \<le> 8"
proof -
  have "node_section_id_from_str ''wg-net_pve1''
      = Ok \<lparr>nsi_fabric_id = ''wg-net'', nsi_node_id = ''pve1''\<rparr>" by code_simp
  from section_id_limits [OF this] show ?thesis by simp
qed

end
