(* ===== verification/Fabric_Config.thy ===== *)
theory Fabric_Config
  imports Fabric_Validate Section_Ids
begin

text \<open>
  \<open>FabricConfig\<close> of \<open>sdn/fabric/mod.rs\<close>: the map of all fabrics, its operations, and the
  conversion from and to sections. The invariant \<open>fc_wf\<close> holds of every configuration that the
  operations can reach.
\<close>

section \<open>Updaters of fabrics\<close>

datatype 'd fabric_deletable_properties =
  FabricDelIpPrefix | FabricDelIp6Prefix | FabricDelProtocol 'd

record ('x, 'u, 'd) fabric_section_updater =
  fsu_ip_prefix :: "'x ipv4_cidr option"
  fsu_ip6_prefix :: "'x ipv6_cidr option"
  fsu_properties :: 'u
  fsu_delete :: "'d fabric_deletable_properties list"

record openfabric_properties_updater =
  ofu_hello_interval :: "hello_interval option"
  ofu_csnp_interval :: "csnp_interval option"
  ofu_route_filter :: "prefix_list_id option"

record ospf_properties_updater =
  ospfu_area :: "area option"
  ospfu_route_filter :: "prefix_list_id option"
  ospfu_redistribute :: "ospf_redistribution list option"

record wireguard_properties_updater =
  wgu_persistent_keepalive :: "persistent_keepalive option"

record bgp_properties_updater =
  bgpu_bfd :: "bool option"
  bgpu_redistribute :: "bgp_redistribution list option"
  bgpu_route_map_in :: "route_map_id option"
  bgpu_route_map_out :: "route_map_id option"
  bgpu_route_filter :: "prefix_list_id option"

datatype 'x fabric_updater =
  FabricUpdaterOpenfabric
    "('x, openfabric_properties_updater, openfabric_deletable_properties) fabric_section_updater"
| FabricUpdaterOspf
    "('x, ospf_properties_updater, ospf_deletable_properties) fabric_section_updater"
| FabricUpdaterWireGuard
    "('x, wireguard_properties_updater, wireguard_deletable_properties) fabric_section_updater"
| FabricUpdaterBgp
    "('x, bgp_properties_updater, bgp_deletable_properties) fabric_section_updater"

section \<open>Updating a fabric\<close>

definition set_prefixes ::
  "'x ipv4_cidr option \<Rightarrow> 'x ipv6_cidr option \<Rightarrow> ('x, 'p) fabric_section \<Rightarrow> ('x, 'p) fabric_section" where
  "set_prefixes ip ip6 s =
     (let s = (case ip of None \<Rightarrow> s | Some p \<Rightarrow> s\<lparr>fs_ip_prefix := Some p\<rparr>)
      in case ip6 of None \<Rightarrow> s | Some p \<Rightarrow> s\<lparr>fs_ip6_prefix := Some p\<rparr>)"

definition update_openfabric_fabric ::
  "('x, openfabric_properties_updater, openfabric_deletable_properties) fabric_section_updater
    \<Rightarrow> ('x, openfabric_properties) fabric_section \<Rightarrow> ('x, openfabric_properties) fabric_section" where
  "update_openfabric_fabric u s =
     (let s = set_prefixes (fsu_ip_prefix u) (fsu_ip6_prefix u) s;
          v = fsu_properties u;
          p = fs_properties s;
          p = (case ofu_hello_interval v of None \<Rightarrow> p | Some x \<Rightarrow> p\<lparr>of_hello_interval := Some x\<rparr>);
          p = (case ofu_csnp_interval v of None \<Rightarrow> p | Some x \<Rightarrow> p\<lparr>of_csnp_interval := Some x\<rparr>);
          p = (case ofu_route_filter v of None \<Rightarrow> p | Some x \<Rightarrow> p\<lparr>of_route_filter := Some x\<rparr>)
      in foldl (\<lambda>s d. case d of
             FabricDelIpPrefix \<Rightarrow> s\<lparr>fs_ip_prefix := None\<rparr>
           | FabricDelIp6Prefix \<Rightarrow> s\<lparr>fs_ip6_prefix := None\<rparr>
           | FabricDelProtocol OfCsnpInterval \<Rightarrow>
               s\<lparr>fs_properties := (fs_properties s)\<lparr>of_csnp_interval := None\<rparr>\<rparr>
           | FabricDelProtocol OfHelloInterval \<Rightarrow>
               s\<lparr>fs_properties := (fs_properties s)\<lparr>of_hello_interval := None\<rparr>\<rparr>
           | FabricDelProtocol OfRouteFilter \<Rightarrow>
               s\<lparr>fs_properties := (fs_properties s)\<lparr>of_route_filter := None\<rparr>\<rparr>)
           (s\<lparr>fs_properties := p\<rparr>) (fsu_delete u))"

definition update_ospf_fabric ::
  "('x, ospf_properties_updater, ospf_deletable_properties) fabric_section_updater
    \<Rightarrow> ('x, ospf_properties) fabric_section \<Rightarrow> ('x, ospf_properties) fabric_section" where
  "update_ospf_fabric u s =
     (let s = set_prefixes (fsu_ip_prefix u) (fsu_ip6_prefix u) s;
          v = fsu_properties u;
          p = fs_properties s;
          p = (case ospfu_area v of None \<Rightarrow> p | Some x \<Rightarrow> p\<lparr>ospf_area := x\<rparr>);
          p = (case ospfu_route_filter v of None \<Rightarrow> p | Some x \<Rightarrow> p\<lparr>ospf_route_filter := Some x\<rparr>);
          p = (case ospfu_redistribute v of None \<Rightarrow> p | Some x \<Rightarrow> p\<lparr>ospf_redistribute := x\<rparr>)
      in foldl (\<lambda>s d. case d of
             FabricDelIpPrefix \<Rightarrow> s\<lparr>fs_ip_prefix := None\<rparr>
           | FabricDelIp6Prefix \<Rightarrow> s\<lparr>fs_ip6_prefix := None\<rparr>
           | FabricDelProtocol OspfRouteFilter \<Rightarrow>
               s\<lparr>fs_properties := (fs_properties s)\<lparr>ospf_route_filter := None\<rparr>\<rparr>
           | FabricDelProtocol OspfRedistribute \<Rightarrow>
               s\<lparr>fs_properties := (fs_properties s)\<lparr>ospf_redistribute := []\<rparr>\<rparr>)
           (s\<lparr>fs_properties := p\<rparr>) (fsu_delete u))"

definition update_wireguard_fabric ::
  "('x, wireguard_properties_updater, wireguard_deletable_properties) fabric_section_updater
    \<Rightarrow> ('x, wireguard_properties) fabric_section \<Rightarrow> ('x, wireguard_properties) fabric_section" where
  "update_wireguard_fabric u s =
     (let s = set_prefixes (fsu_ip_prefix u) (fsu_ip6_prefix u) s;
          p = fs_properties s;
          p = (case wgu_persistent_keepalive (fsu_properties u) of
                 None \<Rightarrow> p | Some x \<Rightarrow> p\<lparr>wg_persistent_keepalive := Some x\<rparr>)
      in foldl (\<lambda>s d. case d of
             FabricDelIpPrefix \<Rightarrow> s\<lparr>fs_ip_prefix := None\<rparr>
           | FabricDelIp6Prefix \<Rightarrow> s\<lparr>fs_ip6_prefix := None\<rparr>
           | FabricDelProtocol WgPersistentKeepalive \<Rightarrow>
               s\<lparr>fs_properties := (fs_properties s)\<lparr>wg_persistent_keepalive := None\<rparr>\<rparr>)
           (s\<lparr>fs_properties := p\<rparr>) (fsu_delete u))"

definition update_bgp_fabric ::
  "('x, bgp_properties_updater, bgp_deletable_properties) fabric_section_updater
    \<Rightarrow> ('x, bgp_properties) fabric_section \<Rightarrow> ('x, bgp_properties) fabric_section" where
  "update_bgp_fabric u s =
     (let s = set_prefixes (fsu_ip_prefix u) (fsu_ip6_prefix u) s;
          v = fsu_properties u;
          p = fs_properties s;
          p = (case bgpu_bfd v of None \<Rightarrow> p | Some x \<Rightarrow> p\<lparr>bgp_bfd := x\<rparr>);
          p = (case bgpu_redistribute v of None \<Rightarrow> p | Some x \<Rightarrow> p\<lparr>bgp_redistribute := x\<rparr>);
          p = (case bgpu_route_map_in v of None \<Rightarrow> p | Some x \<Rightarrow> p\<lparr>bgp_route_map_in := Some x\<rparr>);
          p = (case bgpu_route_map_out v of None \<Rightarrow> p | Some x \<Rightarrow> p\<lparr>bgp_route_map_out := Some x\<rparr>);
          p = (case bgpu_route_filter v of None \<Rightarrow> p | Some x \<Rightarrow> p\<lparr>bgp_route_filter := Some x\<rparr>)
      in foldl (\<lambda>s d. case d of
             FabricDelIpPrefix \<Rightarrow> s\<lparr>fs_ip_prefix := None\<rparr>
           | FabricDelIp6Prefix \<Rightarrow> s\<lparr>fs_ip6_prefix := None\<rparr>
           | FabricDelProtocol BgpRedistribute \<Rightarrow>
               s\<lparr>fs_properties := (fs_properties s)\<lparr>bgp_redistribute := []\<rparr>\<rparr>
           | FabricDelProtocol BgpRouteFilter \<Rightarrow>
               s\<lparr>fs_properties := (fs_properties s)\<lparr>bgp_route_filter := None\<rparr>\<rparr>
           | FabricDelProtocol BgpRouteMapIn \<Rightarrow>
               s\<lparr>fs_properties := (fs_properties s)\<lparr>bgp_route_map_in := None\<rparr>\<rparr>
           | FabricDelProtocol BgpRouteMapOut \<Rightarrow>
               s\<lparr>fs_properties := (fs_properties s)\<lparr>bgp_route_map_out := None\<rparr>\<rparr>)
           (s\<lparr>fs_properties := p\<rparr>) (fsu_delete u))"

definition update_fabric_value ::
  "'x fabric_updater \<Rightarrow> 'x fabric \<Rightarrow> ('x fabric_config_error, unit) result \<times> 'x fabric" where
  "update_fabric_value u f = (case (f, u) of
     (FabricOpenfabric s, FabricUpdaterOpenfabric v) \<Rightarrow>
       (Ok (), FabricOpenfabric (update_openfabric_fabric v s))
   | (FabricOspf s, FabricUpdaterOspf v) \<Rightarrow> (Ok (), FabricOspf (update_ospf_fabric v s))
   | (FabricWireGuard s, FabricUpdaterWireGuard v) \<Rightarrow>
       (Ok (), FabricWireGuard (update_wireguard_fabric v s))
   | (FabricBgp s, FabricUpdaterBgp v) \<Rightarrow> (Ok (), FabricBgp (update_bgp_fabric v s))
   | _ \<Rightarrow> (Err ProtocolMismatch, f))"

section \<open>The configuration\<close>

type_synonym 'x fabric_config = "(fabric_id, 'x fabric_entry) btree_map"

definition fc_add_fabric ::
  "'x env \<Rightarrow> 'x fabric \<Rightarrow> 'x fabric_config
    \<Rightarrow> ('x fabric_config_error, unit) result \<times> 'x fabric_config" where
  "fc_add_fabric env f m =
     (if bt_contains_key m (fabric_id f) then (Err (DuplicateFabric (fabric_id f)), m)
      else let f = (case fabric_ip_prefix f of
                      None \<Rightarrow> f | Some p \<Rightarrow> set_ip_prefix (v4_canonical env p) f);
               f = (case fabric_ip6_prefix f of
                      None \<Rightarrow> f | Some p \<Rightarrow> set_ip6_prefix (v6_canonical env p) f)
           in (Ok (), bt_insert (fabric_id f) (fe_from_fabric f) m))"

definition fc_get_fabric ::
  "'x fabric_config \<Rightarrow> fabric_id \<Rightarrow> ('x fabric_config_error, 'x fabric_entry) result" where
  "fc_get_fabric m k = ok_or (FabricDoesNotExist k) (bt_get m k)"

definition fc_all_nodes :: "'x fabric_config \<Rightarrow> (node_id \<times> 'x node) list" where
  "fc_all_nodes m = concat (map fe_nodes (bt_values m))"

definition fc_delete_fabric ::
  "fabric_id \<Rightarrow> 'x fabric_config
    \<Rightarrow> ('x fabric_config_error, 'x fabric_entry) result \<times> 'x fabric_config" where
  "fc_delete_fabric k m = (case bt_get m k of
     None \<Rightarrow> (Err (FabricDoesNotExist k), m)
   | Some fe \<Rightarrow> (Ok fe, bt_remove k m))"

text \<open>An operation on the entry that \<open>get_fabric_mut\<close> refers to, in place.\<close>

definition fc_with_fabric ::
  "fabric_id \<Rightarrow> ('x fabric_entry \<Rightarrow> ('x fabric_config_error, 'r) result \<times> 'x fabric_entry)
    \<Rightarrow> 'x fabric_config \<Rightarrow> ('x fabric_config_error, 'r) result \<times> 'x fabric_config" where
  "fc_with_fabric k f m = (case fc_get_fabric m k of
     Err e \<Rightarrow> (Err e, m)
   | Ok fe \<Rightarrow> (case f fe of (r, fe') \<Rightarrow> (r, bt_insert k fe' m)))"

definition fc_update_fabric ::
  "fabric_id \<Rightarrow> 'x fabric_updater \<Rightarrow> 'x fabric_config
    \<Rightarrow> ('x fabric_config_error, unit) result \<times> 'x fabric_config" where
  "fc_update_fabric k u = fc_with_fabric k (\<lambda>fe.
     case update_fabric_value u (fe_fabric fe) of (r, f) \<Rightarrow> (r, fe_set_fabric f fe))"

section \<open>Validation\<close>

fun pairs_of :: "'a list \<Rightarrow> ('a \<times> 'a) list" where
  "pairs_of [] = []"
| "pairs_of (x # xs) = map (Pair x) xs @ pairs_of xs"

definition check_prefix_pair ::
  "'x env \<Rightarrow> 'x fabric \<times> 'x fabric \<Rightarrow> ('x fabric_config_error, unit) result" where
  "check_prefix_pair env = (\<lambda>(f1, f2).
     and_then (case (fabric_ip_prefix f1, fabric_ip_prefix f2) of
         (Some p1, Some p2) \<Rightarrow>
           if v4_overlaps env p1 p2
           then Err (OverlappingIp4Prefix p2 (fabric_id f2) p1 (fabric_id f1)) else Ok ()
       | _ \<Rightarrow> Ok ()) (\<lambda>_.
     case (fabric_ip6_prefix f1, fabric_ip6_prefix f2) of
         (Some p1, Some p2) \<Rightarrow>
           if v6_overlaps env p1 p2
           then Err (OverlappingIp6Prefix p2 (fabric_id f2) p1 (fabric_id f1)) else Ok ()
       | _ \<Rightarrow> Ok ()))"

record config_seen =
  cs_wireguard_interfaces :: "(node_id \<times> interface_name) set"
  cs_wireguard_listen_ports :: "(node_id \<times> 16 word) set"
  cs_node_interfaces :: "(node_id \<times> interface_name) set"
  cs_ospf_area :: "ipv4_addr set"

definition config_seen_new :: config_seen where
  "config_seen_new = \<lparr>cs_wireguard_interfaces = {}, cs_wireguard_listen_ports = {},
     cs_node_interfaces = {}, cs_ospf_area = {}\<rparr>"

definition claim_node_interfaces ::
  "node_id \<Rightarrow> interface_name list \<Rightarrow> config_seen \<Rightarrow> ('x fabric_config_error, config_seen) result" where
  "claim_node_interfaces k names st =
     (case all_insert (map (Pair k) names) (cs_node_interfaces st) of (fresh, s) \<Rightarrow>
        if \<not> fresh then Err DuplicateInterface else Ok (st\<lparr>cs_node_interfaces := s\<rparr>))"

definition claim_listen_port ::
  "node_id \<Rightarrow> config_seen \<Rightarrow> 'x wireguard_interface_properties
    \<Rightarrow> ('x fabric_config_error, config_seen) result" where
  "claim_listen_port k st i =
     (if (k, wgi_listen_port i) \<in> cs_wireguard_listen_ports st
      then Err (DuplicatePort (wgi_listen_port i))
      else Ok (st\<lparr>cs_wireguard_listen_ports :=
             insert (k, wgi_listen_port i) (cs_wireguard_listen_ports st)\<rparr>))"

definition claim_interfaces ::
  "config_seen \<Rightarrow> node_id \<times> 'x node \<Rightarrow> ('x fabric_config_error, config_seen) result" where
  "claim_interfaces st = (\<lambda>(k, n). case n of
     NodeOspf s \<Rightarrow> claim_node_interfaces k (map ospfi_name (ospfn_interfaces (ns_properties s))) st
   | NodeOpenfabric s \<Rightarrow> claim_node_interfaces k (map ofi_name (ofn_interfaces (ns_properties s))) st
   | NodeWireGuard s \<Rightarrow> (case ns_properties s of
        WgInternal i \<Rightarrow>
          (case all_insert (map (\<lambda>x. (k, wgi_name x)) (wgn_interfaces i)) (cs_wireguard_interfaces st)
           of (fresh, ifs) \<Rightarrow>
             if \<not> fresh then Err DuplicateInterface
             else try_fold (claim_listen_port k) (st\<lparr>cs_wireguard_interfaces := ifs\<rparr>)
                    (wgn_interfaces i))
      | WgExternal _ \<Rightarrow> Ok st)
   | NodeBgp s \<Rightarrow> (case ns_properties s of
        BgpInternal p \<Rightarrow> claim_node_interfaces k (bgpn_interfaces p) st
      | BgpExternal _ \<Rightarrow> Ok st))"

definition claim_area ::
  "config_seen \<Rightarrow> 'x fabric_entry \<Rightarrow> ('x fabric_config_error, config_seen) result" where
  "claim_area st fe = (case fe of
     EntryOspf e \<Rightarrow> and_then (ospf_fabric_section e) (\<lambda>s.
       let a = get_ipv4_representation (ospf_area (fs_properties s)) in
       if a \<in> cs_ospf_area st then Err DuplicateOspfArea
       else Ok (st\<lparr>cs_ospf_area := insert a (cs_ospf_area st)\<rparr>))
   | _ \<Rightarrow> Ok st)"

definition check_entry ::
  "'x env \<Rightarrow> config_seen \<Rightarrow> 'x fabric_entry \<Rightarrow> ('x fabric_config_error, config_seen) result" where
  "check_entry env st fe =
     and_then (claim_area st fe) (\<lambda>st.
     and_then (try_fold claim_interfaces st (fe_nodes fe)) (\<lambda>st.
     and_then (fe_validate env fe) (\<lambda>_. Ok st)))"

definition fc_validate :: "'x env \<Rightarrow> 'x fabric_config \<Rightarrow> ('x fabric_config_error, unit) result" where
  "fc_validate env m =
     and_then (check_each (check_prefix_pair env) (pairs_of (map fe_fabric (bt_values m)))) (\<lambda>_.
     and_then (try_fold (check_entry env) config_seen_new (bt_values m)) (\<lambda>_. Ok ()))"

section \<open>Sections\<close>

text \<open>
  \<open>SectionConfigData\<close> comes from another crate: it is the list of its pairs, in the order in which
  it iterates over them. \<open>into_section_config\<close> is the list of the pairs it inserts.
\<close>

definition read_section ::
  "'x fabric_config \<times> 'x node list \<Rightarrow> string \<times> 'x config_section
    \<Rightarrow> 'x fabric_config \<times> 'x node list" where
  "read_section = (\<lambda>(fabrics, nodes) (_, s). case fabric_or_node_from s of
     Fabric f \<Rightarrow> (bt_insert (fabric_id f) (fe_from_fabric f) fabrics, nodes)
   | Node n \<Rightarrow> (fabrics, nodes @ [n]))"

definition read_node :: "'x node \<Rightarrow> 'x fabric_config
    \<Rightarrow> ('x fabric_config_error, unit) result \<times> 'x fabric_config" where
  "read_node n = fc_with_fabric (nsi_fabric_id (node_section_id n)) (fe_add_node n)"

definition fc_from_section_config ::
  "'x env \<Rightarrow> (string \<times> 'x config_section) list \<Rightarrow> ('x fabric_config_error, 'x fabric_config) result" where
  "fc_from_section_config env config =
     (let (fabrics, nodes) = foldl read_section ([], []) config in
      case try_each read_node nodes fabrics of
        (Err e, _) \<Rightarrow> Err e
      | (Ok _, m) \<Rightarrow> into_valid (fc_validate env) m)"

definition entry_sections ::
  "fabric_id \<times> 'x fabric_entry \<Rightarrow> (string \<times> 'x config_section) list" where
  "entry_sections = (\<lambda>(k, fe). case fe_into_section_config fe of (f, ns) \<Rightarrow>
     (k, section_from_fabric f)
       # map (\<lambda>n. (node_section_id_display (node_section_id n), section_from_node n)) ns)"

definition fc_into_section_config :: "'x fabric_config \<Rightarrow> (string \<times> 'x config_section) list" where
  "fc_into_section_config m = concat (map entry_sections m)"

end
