(* ===== verification/Fabric_Config_Valid.thy ===== *)
theory Fabric_Config_Valid
  imports Fabric_Config
begin

text \<open>
  What \<open>FabricConfig::validate\<close> accepts: a configuration is valid when no two fabrics have
  overlapping prefixes, no interface, listen port or OSPF area is claimed twice, and every entry
  is valid. The loops over entries, nodes and ports are claim collectors over one type of claims.
\<close>

datatype config_claim =
  ClaimInterface node_id interface_name
| ClaimWireguardInterface node_id interface_name
| ClaimListenPort node_id "16 word"
| ClaimOspfArea ipv4_addr

definition claimed :: "config_seen \<Rightarrow> config_claim set" where
  "claimed st =
     (\<lambda>(k, i). ClaimInterface k i) ` cs_node_interfaces st
     \<union> (\<lambda>(k, i). ClaimWireguardInterface k i) ` cs_wireguard_interfaces st
     \<union> (\<lambda>(k, p). ClaimListenPort k p) ` cs_wireguard_listen_ports st
     \<union> ClaimOspfArea ` cs_ospf_area st"

definition node_claims :: "node_id \<times> 'x node \<Rightarrow> config_claim list" where
  "node_claims = (\<lambda>(k, n). case n of
     NodeOspf s \<Rightarrow> map (\<lambda>i. ClaimInterface k (ospfi_name i)) (ospfn_interfaces (ns_properties s))
   | NodeOpenfabric s \<Rightarrow> map (\<lambda>i. ClaimInterface k (ofi_name i)) (ofn_interfaces (ns_properties s))
   | NodeWireGuard s \<Rightarrow> (case ns_properties s of
        WgInternal i \<Rightarrow>
          map (\<lambda>x. ClaimWireguardInterface k (wgi_name x)) (wgn_interfaces i)
          @ map (\<lambda>x. ClaimListenPort k (wgi_listen_port x)) (wgn_interfaces i)
      | WgExternal _ \<Rightarrow> [])
   | NodeBgp s \<Rightarrow> (case ns_properties s of
        BgpInternal p \<Rightarrow> map (ClaimInterface k) (bgpn_interfaces p)
      | BgpExternal _ \<Rightarrow> []))"

definition area_claims :: "'x fabric_entry \<Rightarrow> config_claim list" where
  "area_claims fe = (case fe_fabric fe of
     FabricOspf s \<Rightarrow> [ClaimOspfArea (get_ipv4_representation (ospf_area (fs_properties s)))]
   | _ \<Rightarrow> [])"

definition entry_claims :: "'x fabric_entry \<Rightarrow> config_claim list" where
  "entry_claims fe = area_claims fe @ concat (map node_claims (fe_nodes fe))"

definition prefixes_apart :: "'x env \<Rightarrow> 'x fabric \<Rightarrow> 'x fabric \<Rightarrow> bool" where
  "prefixes_apart env f g \<longleftrightarrow>
     (\<forall>p q. fabric_ip_prefix f = Some p \<longrightarrow> fabric_ip_prefix g = Some q \<longrightarrow> \<not> v4_overlaps env p q)
     \<and> (\<forall>p q. fabric_ip6_prefix f = Some p \<longrightarrow> fabric_ip6_prefix g = Some q
          \<longrightarrow> \<not> v6_overlaps env p q)"

definition fc_valid :: "'x env \<Rightarrow> 'x fabric_config \<Rightarrow> bool" where
  "fc_valid env m \<longleftrightarrow>
     sorted_wrt (prefixes_apart env) (map fe_fabric (bt_values m))
     \<and> distinct (concat (map entry_claims (bt_values m)))
     \<and> (\<forall>fe\<in>set (bt_values m). fe_valid env fe)"

definition fc_wf :: "'x fabric_config \<Rightarrow> bool" where
  "fc_wf m \<longleftrightarrow> bt_wf m \<and> (\<forall>(k, fe)\<in>set m. fabric_id (fe_fabric fe) = k \<and> fe_wf fe)"

section \<open>Prefixes\<close>

lemma check_prefix_pair_ok: "is_ok (check_prefix_pair env (f, g)) \<longleftrightarrow> prefixes_apart env f g"
  by (simp add: check_prefix_pair_def prefixes_apart_def is_ok_and_then_const split: option.splits)

lemma pairs_of_sorted_wrt: "(\<forall>(x, y)\<in>set (pairs_of xs). P x y) \<longleftrightarrow> sorted_wrt P xs"
  by (induction xs) auto

lemma check_prefixes_ok:
  "is_ok (check_each (check_prefix_pair env) (pairs_of fs)) \<longleftrightarrow> sorted_wrt (prefixes_apart env) fs"
  by (simp add: is_ok_check_each flip: pairs_of_sorted_wrt)
    (auto simp: check_prefix_pair_ok)

section \<open>Claims of a node\<close>

lemma claimed_simps [simp]:
  "ClaimInterface k i \<in> claimed st \<longleftrightarrow> (k, i) \<in> cs_node_interfaces st"
  "ClaimWireguardInterface k i \<in> claimed st \<longleftrightarrow> (k, i) \<in> cs_wireguard_interfaces st"
  "ClaimListenPort k p \<in> claimed st \<longleftrightarrow> (k, p) \<in> cs_wireguard_listen_ports st"
  "ClaimOspfArea a \<in> claimed st \<longleftrightarrow> a \<in> cs_ospf_area st"
  by (auto simp: claimed_def)

lemma claimed_new [simp]: "claimed config_seen_new = {}"
  by (simp add: claimed_def config_seen_new_def)

lemma claimed_insert:
  "claimed (st\<lparr>cs_node_interfaces := cs_node_interfaces st \<union> A\<rparr>)
     = claimed st \<union> (\<lambda>(k, i). ClaimInterface k i) ` A"
  "claimed (st\<lparr>cs_wireguard_interfaces := cs_wireguard_interfaces st \<union> A\<rparr>)
     = claimed st \<union> (\<lambda>(k, i). ClaimWireguardInterface k i) ` A"
  "claimed (st\<lparr>cs_wireguard_listen_ports := insert (k, p) (cs_wireguard_listen_ports st)\<rparr>)
     = insert (ClaimListenPort k p) (claimed st)"
  "claimed (st\<lparr>cs_ospf_area := insert a (cs_ospf_area st)\<rparr>) = insert (ClaimOspfArea a) (claimed st)"
  by (auto simp: claimed_def)

interpretation listen_ports: claim_collector "claim_listen_port k"
  "\<lambda>x. [ClaimListenPort k (wgi_listen_port x)]" claimed "\<lambda>_. True"
  for k
  by unfold_locales (auto simp: claim_listen_port_def claimed_insert split: if_splits)

lemma distinct_map_key: "distinct (map (Pair k) xs) \<longleftrightarrow> distinct xs"
  by (simp add: distinct_map inj_on_def)

lemma distinct_claims:
  "distinct (map (\<lambda>x. ClaimInterface k (f x)) xs) \<longleftrightarrow> distinct (map f xs)"
  "distinct (map (\<lambda>x. ClaimWireguardInterface k (f x)) xs) \<longleftrightarrow> distinct (map f xs)"
  "distinct (map (\<lambda>x. ClaimListenPort k (g x)) xs) \<longleftrightarrow> distinct (map g xs)"
  "distinct (map (\<lambda>x. (k, f x)) xs) \<longleftrightarrow> distinct (map f xs)"
  by (induction xs) auto

lemma all_insert_True: "fst (all_insert xs s) \<Longrightarrow> all_insert xs s = (True, s \<union> set xs)"
  by (metis prod.collapse snd_all_insert)

lemma claim_node_interfaces_Ok:
  "claim_node_interfaces k names st = Ok st' \<longleftrightarrow>
     distinct names \<and> Pair k ` set names \<inter> cs_node_interfaces st = {}
     \<and> st' = st\<lparr>cs_node_interfaces := cs_node_interfaces st \<union> Pair k ` set names\<rparr>"
proof (cases "fst (all_insert (map (Pair k) names) (cs_node_interfaces st))")
  case True
  then have fresh: "distinct names" "Pair k ` set names \<inter> cs_node_interfaces st = {}"
    by (simp_all add: distinct_map_key)
  show ?thesis
    unfolding claim_node_interfaces_def all_insert_True [OF True] using fresh by auto
next
  case False
  then show ?thesis
    unfolding claim_node_interfaces_def by (auto simp: case_prod_beta distinct_map_key)
qed

lemma claim_node_interfaces_ok:
  "is_ok (claim_node_interfaces k (map f xs) st) \<longleftrightarrow>
     distinct (map (\<lambda>x. ClaimInterface k (f x)) xs)
     \<and> set (map (\<lambda>x. ClaimInterface k (f x)) xs) \<inter> claimed st = {}"
proof -
  have "Pair k ` set (map f xs) \<inter> cs_node_interfaces st = {}
      \<longleftrightarrow> set (map (\<lambda>x. ClaimInterface k (f x)) xs) \<inter> claimed st = {}"
    by (force simp: disjoint_iff)
  then show ?thesis by (simp only: is_ok_iff claim_node_interfaces_Ok distinct_claims) blast
qed

lemma claim_node_interfaces_seen:
  "claim_node_interfaces k (map f xs) st = Ok st' \<Longrightarrow>
     claimed st' = claimed st \<union> set (map (\<lambda>x. ClaimInterface k (f x)) xs)"
  by (auto simp: claim_node_interfaces_Ok claimed_insert)

definition claim_wireguard_interfaces ::
  "node_id \<Rightarrow> 'x wireguard_interface_properties list \<Rightarrow> config_seen
    \<Rightarrow> ('x fabric_config_error, config_seen) result" where
  "claim_wireguard_interfaces k is st =
     (case all_insert (map (\<lambda>x. (k, wgi_name x)) is) (cs_wireguard_interfaces st) of (fresh, ifs) \<Rightarrow>
        if \<not> fresh then Err DuplicateInterface
        else try_fold (claim_listen_port k) (st\<lparr>cs_wireguard_interfaces := ifs\<rparr>) is)"

abbreviation wireguard_claims :: "node_id \<Rightarrow> 'x wireguard_interface_properties list \<Rightarrow> config_claim list" where
  "wireguard_claims k is \<equiv> map (\<lambda>x. ClaimWireguardInterface k (wgi_name x)) is
     @ map (\<lambda>x. ClaimListenPort k (wgi_listen_port x)) is"

lemma claim_wireguard_interfaces_True:
  assumes "fst (all_insert (map (\<lambda>x. (k, wgi_name x)) is) (cs_wireguard_interfaces st))"
  obtains st1 where "claim_wireguard_interfaces k is st = try_fold (claim_listen_port k) st1 is"
    and "claimed st1 = claimed st \<union> set (map (\<lambda>x. ClaimWireguardInterface k (wgi_name x)) is)"
proof
  let ?st1 = "st\<lparr>cs_wireguard_interfaces :=
    cs_wireguard_interfaces st \<union> set (map (\<lambda>x. (k, wgi_name x)) is)\<rparr>"
  show "claim_wireguard_interfaces k is st = try_fold (claim_listen_port k) ?st1 is"
    unfolding claim_wireguard_interfaces_def all_insert_True [OF assms] by simp
  show "claimed ?st1 = claimed st \<union> set (map (\<lambda>x. ClaimWireguardInterface k (wgi_name x)) is)"
    by (auto simp: claimed_insert)
qed

lemma wireguard_names_fresh:
  "fst (all_insert (map (\<lambda>x. (k, wgi_name x)) is) (cs_wireguard_interfaces st)) \<longleftrightarrow>
     distinct (map (\<lambda>x. ClaimWireguardInterface k (wgi_name x)) is)
     \<and> set (map (\<lambda>x. ClaimWireguardInterface k (wgi_name x)) is) \<inter> claimed st = {}"
  by (auto simp: distinct_claims disjoint_iff)

lemma claim_wireguard_interfaces_ok:
  "is_ok (claim_wireguard_interfaces k is st) \<longleftrightarrow>
     distinct (wireguard_claims k is) \<and> set (wireguard_claims k is) \<inter> claimed st = {}"
proof (cases "fst (all_insert (map (\<lambda>x. (k, wgi_name x)) is) (cs_wireguard_interfaces st))")
  case True
  then obtain st1 where eq: "claim_wireguard_interfaces k is st = try_fold (claim_listen_port k) st1 is"
    and st1: "claimed st1 = claimed st \<union> set (map (\<lambda>x. ClaimWireguardInterface k (wgi_name x)) is)"
    by (rule claim_wireguard_interfaces_True)
  from True show ?thesis
    unfolding eq listen_ports.fold_ok st1 wireguard_names_fresh concat_map_singleton
    by (simp only: distinct_append set_append) blast
next
  case False
  then have "\<not> is_ok (claim_wireguard_interfaces k is st)"
    by (simp only: claim_wireguard_interfaces_def case_prod_beta not_False_eq_True if_True
        is_ok.simps)
  with False show ?thesis unfolding wireguard_names_fresh by auto
qed

lemma claim_wireguard_interfaces_seen:
  assumes "claim_wireguard_interfaces k is st = Ok st'"
  shows "claimed st' = claimed st \<union> set (wireguard_claims k is)"
proof -
  from assms have "fst (all_insert (map (\<lambda>x. (k, wgi_name x)) is) (cs_wireguard_interfaces st))"
    by (auto simp: claim_wireguard_interfaces_def simp del: fst_all_insert split: prod.splits if_splits)
  then obtain st1 where "claim_wireguard_interfaces k is st = try_fold (claim_listen_port k) st1 is"
    and "claimed st1 = claimed st \<union> set (map (\<lambda>x. ClaimWireguardInterface k (wgi_name x)) is)"
    by (rule claim_wireguard_interfaces_True)
  with assms listen_ports.fold_seen [of k st1 "is" st'] show ?thesis by auto
qed

lemma claim_interfaces_eq:
  "claim_interfaces st (k, n) = (case n of
     NodeOspf s \<Rightarrow> claim_node_interfaces k (map ospfi_name (ospfn_interfaces (ns_properties s))) st
   | NodeOpenfabric s \<Rightarrow> claim_node_interfaces k (map ofi_name (ofn_interfaces (ns_properties s))) st
   | NodeWireGuard s \<Rightarrow> (case ns_properties s of
        WgInternal i \<Rightarrow> claim_wireguard_interfaces k (wgn_interfaces i) st | WgExternal _ \<Rightarrow> Ok st)
   | NodeBgp s \<Rightarrow> (case ns_properties s of
        BgpInternal p \<Rightarrow> claim_node_interfaces k (map (\<lambda>x. x) (bgpn_interfaces p)) st
      | BgpExternal _ \<Rightarrow> Ok st))"
  by (simp add: claim_interfaces_def claim_wireguard_interfaces_def
      split: node.splits wireguard_node.splits bgp_node.splits)



lemmas claim_names_seen =
  claim_node_interfaces_seen claim_node_interfaces_seen [where f = "\<lambda>x. x", simplified]

section \<open>Claims of an entry\<close>

lemma claim_interfaces_ok:
  "is_ok (claim_interfaces st (k, n)) \<longleftrightarrow>
     distinct (node_claims (k, n)) \<and> set (node_claims (k, n)) \<inter> claimed st = {}"
proof (cases n)
  case (NodeWireGuard s)
  then show ?thesis
    by (cases "ns_properties s")
      (simp_all only: claim_interfaces_eq node_claims_def prod.case node.case wireguard_node.case
        claim_wireguard_interfaces_ok is_ok.simps distinct.simps list.set Int_empty_left simp_thms)
next
  case (NodeBgp s)
  then show ?thesis
    by (cases "ns_properties s")
      (simp_all only: claim_interfaces_eq node_claims_def prod.case node.case bgp_node.case
        claim_node_interfaces_ok is_ok.simps distinct.simps list.set Int_empty_left simp_thms)
qed (simp_all only: claim_interfaces_eq node_claims_def prod.case node.case claim_node_interfaces_ok)

lemma claim_interfaces_seen:
  assumes "claim_interfaces st (k, n) = Ok st'"
  shows "claimed st' = claimed st \<union> set (node_claims (k, n))"
proof (cases n)
  case (NodeWireGuard s)
  with assms show ?thesis
    by (cases "ns_properties s")
      (simp_all add: claim_interfaces_eq node_claims_def claim_wireguard_interfaces_seen)
next
  case (NodeBgp s)
  with assms show ?thesis
    by (cases "ns_properties s")
      (simp_all add: claim_interfaces_eq node_claims_def claim_names_seen)
qed (use assms in \<open>simp_all add: claim_interfaces_eq node_claims_def claim_names_seen\<close>)

interpretation node_claims: claim_collector claim_interfaces node_claims claimed "\<lambda>_. True"
  using claim_interfaces_ok claim_interfaces_seen by unfold_locales (simp_all only: split_paired_all simp_thms)

lemma claim_area_ok:
  assumes "fe_wf fe"
  shows "is_ok (claim_area st fe) \<longleftrightarrow> set (area_claims fe) \<inter> claimed st = {}"
    and "claim_area st fe = Ok st' \<Longrightarrow> claimed st' = claimed st \<union> set (area_claims fe)"
  using assms
  by (cases fe; auto simp: claim_area_def area_claims_def fe_wf_def fe_accessor_defs
      fabric_protocol_def ospf_fabric_section_def Let_def claimed_insert
      split: fabric.splits if_splits)+

lemma area_claims_distinct: "distinct (area_claims fe)"
  by (simp add: area_claims_def split: fabric.splits)

text \<open>
  An entry's step of the validation loop, for well-formed entries; the fabric's own checks run
  inside it.
\<close>

lemma check_entry_ok:
  assumes "fe_wf fe" and "hash_iter_ok env"
  shows "is_ok (check_entry env st fe) \<longleftrightarrow> fe_valid env fe
      \<and> distinct (entry_claims fe) \<and> set (entry_claims fe) \<inter> claimed st = {}"
proof (cases "claim_area st fe")
  case (Err e)
  with claim_area_ok(1) [OF assms(1), of st] show ?thesis
    by (auto simp: check_entry_def entry_claims_def)
next
  case (Ok st1)
  have st1: "claimed st1 = claimed st \<union> set (area_claims fe)"
    by (rule claim_area_ok(2) [OF assms(1) Ok])
  have "is_ok (check_entry env st fe)
      \<longleftrightarrow> is_ok (try_fold claim_interfaces st1 (fe_nodes fe)) \<and> fe_valid env fe"
    by (simp add: check_entry_def Ok is_ok_and_then fe_validate_iff [OF assms, symmetric])
      (auto simp: is_ok_iff)
  with claim_area_ok(1) [OF assms(1), of st] Ok area_claims_distinct [of fe] show ?thesis
    unfolding node_claims.fold_ok st1 entry_claims_def by auto
qed

lemma check_entry_seen:
  assumes "fe_wf fe" and "check_entry env st fe = Ok st'"
  shows "claimed st' = claimed st \<union> set (entry_claims fe)"
proof -
  from assms(2) obtain st1 where "claim_area st fe = Ok st1"
    and "try_fold claim_interfaces st1 (fe_nodes fe) = Ok st'"
    by (auto simp: check_entry_def result_simps)
  with claim_area_ok(2) [OF assms(1), of st st1] node_claims.fold_seen [of st1 "fe_nodes fe" st']
  show ?thesis by (auto simp: entry_claims_def)
qed

interpretation entries: claim_collector_on "check_entry env" entry_claims claimed "fe_valid env"
  "\<lambda>fe. fe_wf fe \<and> hash_iter_ok env"
  for env
  by unfold_locales (simp_all add: check_entry_ok check_entry_seen)

lemma fc_validate_iff:
  assumes "fc_wf m" and "hash_iter_ok env"
  shows "is_ok (fc_validate env m) \<longleftrightarrow> fc_valid env m"
proof -
  have "\<forall>fe\<in>set (bt_values m). fe_wf fe \<and> hash_iter_ok env"
    using assms by (auto simp: fc_wf_def)
  from entries.fold_ok_on [OF this, of config_seen_new] show ?thesis
    unfolding fc_validate_def fc_valid_def is_ok_and_then_const check_prefixes_ok claimed_new
    by auto
qed

end
