(* ===== verification/Fabric_Config_Ops.thy ===== *)
theory Fabric_Config_Ops
  imports Fabric_Config_Valid
begin

text \<open>
  The configuration as a state machine: the operations a caller can perform through
  \<open>FabricConfig\<close> and the references it hands out, the invariant \<open>fc_wf\<close> of every reachable
  state, and what follows: the panics behind the typed views are unreachable, and validation
  decides validity in every reachable state.
\<close>

datatype 'x config_op =
  OpAddFabric "'x fabric"
| OpDeleteFabric fabric_id
| OpUpdateFabric fabric_id "'x fabric_updater"
| OpAddNode fabric_id "'x node"
| OpUpdateNode fabric_id node_id "'x node_updater"
| OpDeleteNode fabric_id node_id

definition forget :: "('e, 'a) result \<times> 's \<Rightarrow> ('e, unit) result \<times> 's" where
  "forget rs = (and_then (fst rs) (\<lambda>_. Ok ()), snd rs)"

definition config_step ::
  "'x env \<Rightarrow> 'x config_op \<Rightarrow> 'x fabric_config
    \<Rightarrow> ('x fabric_config_error, unit) result \<times> 'x fabric_config" where
  "config_step env op m = (case op of
     OpAddFabric f \<Rightarrow> fc_add_fabric env f m
   | OpDeleteFabric k \<Rightarrow> forget (fc_delete_fabric k m)
   | OpUpdateFabric k u \<Rightarrow> fc_update_fabric k u m
   | OpAddNode k n \<Rightarrow> fc_with_fabric k (fe_add_node n) m
   | OpUpdateNode k nid u \<Rightarrow> fc_with_fabric k (fe_update_node nid u) m
   | OpDeleteNode k nid \<Rightarrow> forget (fc_with_fabric k (fe_delete_node nid) m))"

section \<open>The invariant is kept\<close>

lemma fc_wf_Nil [simp]: "fc_wf []"
  by (simp add: fc_wf_def)

lemma fc_wfD:
  assumes "fc_wf m"
  shows "bt_wf m" and "\<forall>(k, fe)\<in>set m. fabric_id (fe_fabric fe) = k \<and> fe_wf fe"
  using assms unfolding fc_wf_def by blast+

lemma fc_wf_get:
  assumes "fc_wf m" and "bt_get m k = Some fe"
  shows "fabric_id (fe_fabric fe) = k" and "fe_wf fe"
  using bt.all_get [OF fc_wfD [OF assms(1)] assms(2)] by simp_all

lemma fc_wf_insert:
  assumes "fc_wf m" and "fe_wf fe" and "fabric_id (fe_fabric fe) = k"
  shows "fc_wf (bt_insert k fe m)"
  unfolding fc_wf_def
  by (intro conjI bt_wf_insert bt.all_put [where P = "\<lambda>k fe. fabric_id (fe_fabric fe) = k \<and> fe_wf fe"]
      fc_wfD assms)

lemma fc_wf_remove: "fc_wf m \<Longrightarrow> fc_wf (bt_remove k m)"
  unfolding fc_wf_def
  by (intro conjI bt_wf_remove bt.all_del [where P = "\<lambda>k fe. fabric_id (fe_fabric fe) = k \<and> fe_wf fe"])
    blast+

lemma fc_wf_add_fabric: "fc_wf m \<Longrightarrow> fc_wf (snd (fc_add_fabric env f m))"
  by (auto simp: fc_add_fabric_def Let_def fe_wf_from_fabric intro!: fc_wf_insert
      split: option.splits)

lemma fc_wf_delete_fabric: "fc_wf m \<Longrightarrow> fc_wf (snd (fc_delete_fabric k m))"
  by (simp add: fc_delete_fabric_def fc_wf_remove split: option.splits)

text \<open>An operation on an entry that keeps the entry's invariant and its fabric id.\<close>

definition entry_safe :: "('x fabric_entry \<Rightarrow> 'r \<times> 'x fabric_entry) \<Rightarrow> bool" where
  "entry_safe f \<longleftrightarrow> (\<forall>fe. fe_wf fe \<longrightarrow> fe_wf (snd (f fe))
     \<and> fabric_id (fe_fabric (snd (f fe))) = fabric_id (fe_fabric fe))"

lemma fc_wf_with_fabric:
  assumes "fc_wf m" and "entry_safe f"
  shows "fc_wf (snd (fc_with_fabric k f m))"
proof (cases "bt_get m k")
  case (Some fe)
  from fc_wf_get [OF assms(1) Some] assms(2) have "fc_wf (bt_insert k (snd (f fe)) m)"
    by (intro fc_wf_insert assms) (simp_all add: entry_safe_def)
  with Some show ?thesis by (simp add: fc_with_fabric_def fc_get_fabric_def case_prod_beta)
qed (use assms in \<open>simp add: fc_with_fabric_def fc_get_fabric_def\<close>)

lemma entry_safe_add_node: "entry_safe (fe_add_node n)"
  unfolding entry_safe_def by (auto simp: fe_wf_add_node) (simp add: fe_add_node_eq)

lemma entry_safe_delete_node: "entry_safe (fe_delete_node k)"
  by (simp add: entry_safe_def fe_wf_delete_node)

lemma entry_safe_update_node: "entry_safe (fe_update_node k u)"
  by (auto simp: entry_safe_def fe_wf_update_node)
    (simp add: fe_update_node_def case_prod_beta split: result.splits)

lemma set_prefixes_id [simp]: "fs_id (set_prefixes a b s) = fs_id s"
  by (simp add: set_prefixes_def Let_def split: option.splits)

lemma foldl_fs_id:
  assumes "\<And>s d. fs_id (f s d) = fs_id s"
  shows "fs_id (foldl f s ds) = fs_id s"
  by (rule foldl_inv [where P = "\<lambda>s'. fs_id s' = fs_id s"]) (simp_all add: assms)

lemma update_fabric_id [simp]:
  "fs_id (update_openfabric_fabric u1 s1) = fs_id s1"
  "fs_id (update_ospf_fabric u2 s2) = fs_id s2"
  "fs_id (update_wireguard_fabric u3 s3) = fs_id s3"
  "fs_id (update_bgp_fabric u4 s4) = fs_id s4"
  unfolding update_openfabric_fabric_def update_ospf_fabric_def update_wireguard_fabric_def
    update_bgp_fabric_def Let_def
  by (subst foldl_fs_id; simp split: fabric_deletable_properties.splits
      openfabric_deletable_properties.splits ospf_deletable_properties.splits
      wireguard_deletable_properties.splits bgp_deletable_properties.splits)+

lemma update_fabric_value_in_place:
  "fabric_id (snd (update_fabric_value u f)) = fabric_id f"
  "fabric_protocol (snd (update_fabric_value u f)) = fabric_protocol f"
  by (cases f; cases u; simp add: update_fabric_value_def fabric_id_def fabric_protocol_def)+

lemma entry_safe_update_fabric:
  "entry_safe (\<lambda>fe. case update_fabric_value u (fe_fabric fe) of (r, f) \<Rightarrow> (r, fe_set_fabric f fe))"
  by (auto simp: entry_safe_def case_prod_beta update_fabric_value_in_place fe_wf_def)

lemma config_step_wf: "fc_wf m \<Longrightarrow> fc_wf (snd (config_step env op m))"
  by (cases op)
    (simp_all add: config_step_def forget_def fc_wf_add_fabric fc_wf_delete_fabric
      fc_update_fabric_def fc_wf_with_fabric entry_safe_add_node entry_safe_delete_node
      entry_safe_update_node entry_safe_update_fabric)

interpretation config_ops: invariant_step "config_step env" fc_wf for env
  by unfold_locales (rule config_step_wf)

lemma read_node_wf: "fc_wf m \<Longrightarrow> fc_wf (snd (read_node n m))"
  unfolding read_node_def by (rule fc_wf_with_fabric [OF _ entry_safe_add_node])

interpretation read_nodes: invariant_step read_node fc_wf
  by unfold_locales (rule read_node_wf)

lemma read_section_wf: "fc_wf (fst s) \<Longrightarrow> fc_wf (fst (read_section s kv))"
  by (auto simp: read_section_def fe_wf_from_fabric fc_wf_insert
      split: prod.splits fabric_or_node.splits)

lemma from_section_config_wf:
  assumes "fc_from_section_config env secs = Ok m"
  shows "fc_wf m" and "fc_validate env m = Ok ()"
proof -
  obtain fabrics ns where read: "foldl read_section ([], []) secs = (fabrics, ns)" by force
  have "fc_wf fabrics"
    using foldl_inv [of "\<lambda>s. fc_wf (fst s)" read_section "([], [])" secs] read_section_wf read
    by force
  then have "fc_wf (snd (try_each read_node ns fabrics))" by (rule read_nodes.loop_inv)
  with assms read show "fc_wf m" and "fc_validate env m = Ok ()"
    by (auto simp: fc_from_section_config_def result_simps split: prod.splits result.splits)
qed

section \<open>Reachable configurations\<close>

inductive config_reachable :: "'x env \<Rightarrow> 'x fabric_config \<Rightarrow> bool" for env where
  empty: "config_reachable env []"
| read: "fc_from_section_config env secs = Ok m \<Longrightarrow> config_reachable env m"
| step: "config_reachable env m \<Longrightarrow> config_step env op m = (r, m') \<Longrightarrow> config_reachable env m'"

lemma config_reachable_wf: "config_reachable env m \<Longrightarrow> fc_wf m"
proof (induction rule: config_reachable.induct)
  case (step m op r m')
  then show ?case using config_step_wf [of m env op] by simp
qed (simp_all add: from_section_config_wf)

section \<open>The panics are unreachable\<close>

lemma try_fold_not_Err:
  "(\<And>s x. x \<in> set xs \<Longrightarrow> step s x \<noteq> Err e) \<Longrightarrow> try_fold step s xs \<noteq> Err e"
  by (induction xs arbitrary: s) (auto simp: result_simps)

lemma check_each_not_Err: "(\<And>x. x \<in> set xs \<Longrightarrow> f x \<noteq> Err e) \<Longrightarrow> check_each f xs \<noteq> Err e"
  unfolding check_each_def by (rule try_fold_not_Err)

lemma check_prefix_pair_no_panic: "check_prefix_pair env p \<noteq> Err PanicUnreachable"
  by (auto simp: check_prefix_pair_def result_simps split: prod.splits option.splits if_splits)

lemma claim_interfaces_no_panic: "claim_interfaces st kn \<noteq> Err PanicUnreachable"
proof -
  have "try_fold (claim_listen_port k) st' is \<noteq> Err PanicUnreachable" for k st'
    and "is" :: "'a wireguard_interface_properties list"
    by (rule try_fold_not_Err) (simp add: claim_listen_port_def)
  then show ?thesis
    by (simp add: claim_interfaces_def claim_node_interfaces_def case_prod_beta
        split: node.splits wireguard_node.splits bgp_node.splits)
qed

lemma claim_area_no_panic: "fe_wf fe \<Longrightarrow> claim_area st fe \<noteq> Err PanicUnreachable"
  by (cases fe)
    (auto simp: claim_area_def Let_def result_simps dest!: ospf_fabric_section_Ok split: if_splits)

lemma peer_interfaces_no_panic:
  "check_each (\<lambda>p. if peer_iface p \<notin> names
     then Err (InvalidLocalInterfaceReference (peer_iface p)) else Ok ()) ps \<noteq> Err PanicUnreachable"
  by (rule check_each_not_Err) simp

lemma wireguard_interfaces_no_panic: "try_fold check_wireguard_interface s is \<noteq> Err PanicUnreachable"
  by (rule try_fold_not_Err) (auto simp: check_wireguard_interface_def split: prod.splits)

lemma internal_wireguard_node_validate_no_panic:
  "internal_wireguard_node_validate n \<noteq> Err PanicUnreachable"
  unfolding internal_wireguard_node_validate_def and_then_eq_Err
  using peer_interfaces_no_panic wireguard_interfaces_no_panic by (fastforce split: prod.splits)

lemma first_missing_no_panic:
  "(\<And>x. err x \<noteq> PanicUnreachable) \<Longrightarrow> first_missing xs b err \<noteq> Err PanicUnreachable"
  by (simp add: first_missing_def split: list.splits)

lemma section_validate_no_panic:
  "fabric_validate f \<noteq> Err PanicUnreachable" "node_validate n \<noteq> Err PanicUnreachable"
  by (simp_all add: fabric_validate_def openfabric_fabric_validate_def ospf_fabric_validate_def
      bgp_fabric_validate_def node_validate_def openfabric_node_validate_def ospf_node_validate_def
      wireguard_node_validate_def bgp_node_validate_def internal_wireguard_node_validate_no_panic
      split: fabric.splits node.splits wireguard_node.splits)

lemma check_node_no_panic: "check_node env f s n \<noteq> Err PanicUnreachable"
proof -
  have "check_prefix4 env f n \<noteq> Err PanicUnreachable" and "check_prefix6 env f n \<noteq> Err PanicUnreachable"
    by (simp_all add: check_prefix4_def check_prefix6_def split: option.splits)
  then show ?thesis
    by (simp add: check_node_def case_prod_beta Let_def and_then_eq_Err section_validate_no_panic)
qed

lemma check_router_id_no_panic: "check_router_id s kn \<noteq> Err PanicUnreachable"
  by (simp add: check_router_id_def split: prod.splits option.splits)

lemma collect_node_no_panic:
  assumes "fe_wf (EntryWireGuard e)" and "k \<in> set (bt_keys (en_nodes e))"
  shows "collect_node e st k \<noteq> Err PanicUnreachable"
proof -
  from assms obtain n where "bt_get (en_nodes e) k = Some n"
    by (metis bt_get_None not_Some_eq)
  with wireguard_node_section_Ok [OF assms(1)] obtain s where s: "wireguard_node_section e k = Ok s"
    by blast
  have "try_fold (collect_interface fid nid) st is \<noteq> Err PanicUnreachable" for fid nid "is"
    by (rule try_fold_not_Err) (simp add: collect_interface_def case_prod_beta Let_def)
  with s show ?thesis
    by (simp add: collect_node_def and_then_eq_Err split: wireguard_node.splits)
qed

lemma wireguard_entry_no_panic:
  assumes "fe_wf (EntryWireGuard e)"
  shows "wireguard_entry_validate env e \<noteq> Err PanicUnreachable"
proof -
  have "try_fold (collect_node e) st (bt_keys (en_nodes e)) \<noteq> Err PanicUnreachable" for st
    by (rule try_fold_not_Err) (rule collect_node_no_panic [OF assms])
  then show ?thesis
    by (simp add: wireguard_entry_validate_def and_then_eq_Err first_missing_no_panic split: prod.splits)
qed

lemma fe_validate_no_panic:
  assumes "fe_wf fe"
  shows "fe_validate env fe \<noteq> Err PanicUnreachable"
proof -
  have nodes: "try_fold (check_node env (fe_fabric fe)) s ns \<noteq> Err PanicUnreachable" for s ns
    by (rule try_fold_not_Err) (rule check_node_no_panic)
  have ids: "try_fold check_router_id s m \<noteq> Err PanicUnreachable" for s
    and m :: "(node_id \<times> 'a node) list"
    by (rule try_fold_not_Err) (rule check_router_id_no_panic)
  show ?thesis
    using assms nodes ids wireguard_entry_no_panic
    by (cases fe) (simp_all add: fe_validate_def Let_def and_then_eq_Err section_validate_no_panic)
qed

lemma fc_validate_no_panic:
  assumes "fc_wf m"
  shows "fc_validate env m \<noteq> Err PanicUnreachable"
proof -
  have "try_fold claim_interfaces st ns \<noteq> Err PanicUnreachable" for st
    and ns :: "(node_id \<times> 'a node) list"
    by (rule try_fold_not_Err) (rule claim_interfaces_no_panic)
  then have entry: "check_entry env st fe \<noteq> Err PanicUnreachable" if "fe_wf fe" for st fe
    using that by (simp add: check_entry_def and_then_eq_Err claim_area_no_panic fe_validate_no_panic)
  have "try_fold (check_entry env) st (bt_values m) \<noteq> Err PanicUnreachable" for st
    by (rule try_fold_not_Err, rule entry) (use assms in \<open>auto simp: fc_wf_def\<close>)
  moreover have "check_each (check_prefix_pair env) ps \<noteq> Err PanicUnreachable" for ps
    by (rule check_each_not_Err) (rule check_prefix_pair_no_panic)
  ultimately show ?thesis by (simp add: fc_validate_def and_then_eq_Err)
qed

end
