(* ===== verification/Fabric_Config_Sections.thy ===== *)
theory Fabric_Config_Sections
  imports Fabric_Config_Ops "HOL-Library.Multiset"
begin

text \<open>
  Writing a configuration to sections and reading them back (\<open>into_section_config\<close> and
  \<open>from_section_config\<close> of \<open>sdn/fabric/mod.rs\<close>). Reading inserts all fabrics first and adds the
  nodes afterwards, so the order of the sections does not matter.
\<close>

section \<open>Reading\<close>

definition sections_fabrics :: "(string \<times> 'x config_section) list \<Rightarrow> 'x fabric list" where
  "sections_fabrics secs = concat (map (\<lambda>(_, s). case fabric_or_node_from s of
     Fabric f \<Rightarrow> [f] | Node _ \<Rightarrow> []) secs)"

definition sections_nodes :: "(string \<times> 'x config_section) list \<Rightarrow> 'x node list" where
  "sections_nodes secs = concat (map (\<lambda>(_, s). case fabric_or_node_from s of
     Fabric _ \<Rightarrow> [] | Node n \<Rightarrow> [n]) secs)"

lemma read_sections:
  "foldl read_section (m, ns) secs =
     (bt_extend m (map (\<lambda>f. (fabric_id f, fe_from_fabric f)) (sections_fabrics secs)),
      ns @ sections_nodes secs)"
  by (induction secs arbitrary: m ns)
    (auto simp: sections_fabrics_def sections_nodes_def read_section_def bt_extend_def
      split: fabric_or_node.splits)

text \<open>The node of a configuration under a section id.\<close>

definition node_lookup :: "'x fabric_config \<Rightarrow> node_section_id \<Rightarrow> 'x node option" where
  "node_lookup m i =
     (case bt_get m (nsi_fabric_id i) of None \<Rightarrow> None | Some fe \<Rightarrow> bt_get (fe_nodes fe) (nsi_node_id i))"

definition fabric_lookup :: "'x fabric_config \<Rightarrow> fabric_id \<Rightarrow> ('x fabric \<times> protocol) option" where
  "fabric_lookup m k = map_option (\<lambda>fe. (fe_fabric fe, fe_protocol fe)) (bt_get m k)"

lemma fe_ext:
  "fe_fabric a = fe_fabric b \<Longrightarrow> fe_protocol a = fe_protocol b \<Longrightarrow> fe_nodes a = fe_nodes b \<Longrightarrow> a = b"
  by (cases a; cases b) (auto simp: fe_accessor_defs)

lemma fe_set_same [simp]: "fe_set_fabric (fe_fabric fe) fe = fe"
  by (rule fe_ext) simp_all

lemma fc_ext:
  assumes "fc_wf m" and "fc_wf m'" and "fabric_lookup m = fabric_lookup m'"
    and "node_lookup m = node_lookup m'"
  shows "m = m'"
proof (rule bt_ext)
  fix k
  show "bt_get m k = bt_get m' k"
  proof (cases "bt_get m k")
    case None
    with fun_cong [OF assms(3), of k] show ?thesis by (simp add: fabric_lookup_def)
  next
    case (Some fe)
    with fun_cong [OF assms(3), of k] obtain fe' where fe': "bt_get m' k = Some fe'"
      and same: "fe_fabric fe' = fe_fabric fe" "fe_protocol fe' = fe_protocol fe"
      by (cases "bt_get m' k") (auto simp: fabric_lookup_def)
    have "fe_nodes fe = fe_nodes fe'"
    proof (rule bt_ext)
      show "bt_wf (fe_nodes fe)" "bt_wf (fe_nodes fe')"
        using fc_wf_get [OF assms(1) Some] fc_wf_get [OF assms(2) fe'] fe_wfD(2) by blast+
      fix nid
      show "bt_get (fe_nodes fe) nid = bt_get (fe_nodes fe') nid"
        using fun_cong [OF assms(4), of "\<lparr>nsi_fabric_id = k, nsi_node_id = nid\<rparr>"] Some fe'
        by (simp add: node_lookup_def)
    qed
    with same have "fe = fe'" by (intro fe_ext) simp_all
    with Some fe' show ?thesis by simp
  qed
qed (use assms in \<open>auto simp: fc_wf_def\<close>)

lemma node_lookup_wf:
  assumes "fc_wf m" and "node_lookup m i = Some n"
  shows "node_section_id n = i"
    and "\<exists>fe. bt_get m (nsi_fabric_id i) = Some fe \<and> fe_protocol fe = node_protocol n"
proof -
  from assms(2) obtain fe where fe: "bt_get m (nsi_fabric_id i) = Some fe"
    and n: "bt_get (fe_nodes fe) (nsi_node_id i) = Some n"
    by (auto simp: node_lookup_def split: option.splits)
  from fe_wf_get [OF fc_wf_get(2) [OF assms(1) fe] n] fc_wf_get(1) [OF assms(1) fe]
  show "node_section_id n = i"
    and "\<exists>fe. bt_get m (nsi_fabric_id i) = Some fe \<and> fe_protocol fe = node_protocol n"
    using fe by (auto simp: node_in_place_def)
qed

section \<open>Adding nodes\<close>

lemma read_node_Ok:
  assumes "fc_wf m" and "fabric_lookup m (nsi_fabric_id (node_section_id n)) = Some (f, node_protocol n)"
    and "node_lookup m (node_section_id n) = None"
  obtains m' where "read_node n m = (Ok (), m')" and "fc_wf m'"
    and "fabric_lookup m' = fabric_lookup m"
    and "node_lookup m' = (node_lookup m)(node_section_id n \<mapsto> n)"
proof -
  define i where "i = node_section_id n"
  from assms(2) obtain fe where fe: "bt_get m (nsi_fabric_id i) = Some fe"
    and prot: "fe_protocol fe = node_protocol n"
    by (auto simp: fabric_lookup_def i_def)
  from assms(3) fe have fresh: "\<not> bt_contains_key (fe_nodes fe) (nsi_node_id i)"
    by (simp add: node_lookup_def bt_contains_key_def i_def)
  let ?fe = "fe_put_node (nsi_node_id i) n fe"
  let ?m = "bt_insert (nsi_fabric_id i) ?fe m"
  have add: "fe_add_node n fe = (Ok (), ?fe)"
    using fc_wf_get(1) [OF assms(1) fe] fresh prot by (simp add: fe_add_node_eq i_def)
  have read: "read_node n m = (Ok (), ?m)"
    using fe add by (simp add: read_node_def fc_with_fabric_def fc_get_fabric_def i_def)
  show thesis
  proof (rule that [OF read])
    show "fc_wf ?m" using read_node_wf [OF assms(1), of n] read by simp
    show "fabric_lookup ?m = fabric_lookup m"
      using fe by (auto simp: fabric_lookup_def bt_get_insert)
    show "node_lookup ?m = (node_lookup m)(node_section_id n \<mapsto> n)"
    proof
      fix j :: node_section_id
      have "j = i \<longleftrightarrow> nsi_fabric_id j = nsi_fabric_id i \<and> nsi_node_id j = nsi_node_id i"
        by (cases i; cases j) simp
      then show "node_lookup ?m j = ((node_lookup m)(node_section_id n \<mapsto> n)) j"
        using fe by (simp add: node_lookup_def bt_get_insert flip: i_def)
    qed
  qed
qed

lemma read_nodes_Ok:
  assumes "fc_wf m" and "distinct (map node_section_id ns)"
    and "\<forall>n\<in>set ns. \<exists>f. fabric_lookup m (nsi_fabric_id (node_section_id n)) = Some (f, node_protocol n)"
    and "\<forall>n\<in>set ns. node_lookup m (node_section_id n) = None"
  shows "\<exists>m'. try_each read_node ns m = (Ok (), m') \<and> fc_wf m' \<and> fabric_lookup m' = fabric_lookup m
    \<and> node_lookup m' = node_lookup m ++ map_of (map (\<lambda>n. (node_section_id n, n)) ns)"
  using assms
proof (induction ns arbitrary: m)
  case (Cons n ns)
  from Cons.prems(3) obtain f
    where f: "fabric_lookup m (nsi_fabric_id (node_section_id n)) = Some (f, node_protocol n)" by auto
  have fresh: "node_lookup m (node_section_id n) = None" using Cons.prems(4) by simp
  obtain m1 where m1: "read_node n m = (Ok (), m1)" "fc_wf m1" "fabric_lookup m1 = fabric_lookup m"
    "node_lookup m1 = (node_lookup m)(node_section_id n \<mapsto> n)"
    by (rule read_node_Ok [OF Cons.prems(1) f fresh])
  have new: "node_section_id n \<notin> node_section_id ` set ns" using Cons.prems(2) by simp
  then have none: "map_of (map (\<lambda>n. (node_section_id n, n)) ns) (node_section_id n) = None"
    by (force simp: map_of_eq_None_iff)
  have "\<exists>m'. try_each read_node ns m1 = (Ok (), m') \<and> fc_wf m' \<and> fabric_lookup m' = fabric_lookup m1
      \<and> node_lookup m' = node_lookup m1 ++ map_of (map (\<lambda>n. (node_section_id n, n)) ns)"
    by (rule Cons.IH) (use Cons.prems m1 new in \<open>auto simp: image_iff\<close>)
  then obtain m' where m': "try_each read_node ns m1 = (Ok (), m')" "fc_wf m'"
    "fabric_lookup m' = fabric_lookup m1"
    "node_lookup m' = node_lookup m1 ++ map_of (map (\<lambda>n. (node_section_id n, n)) ns)" by blast
  have nodes: "node_lookup m1 ++ map_of (map (\<lambda>n. (node_section_id n, n)) ns)
      = node_lookup m ++ map_of (map (\<lambda>n. (node_section_id n, n)) (n # ns))"
    unfolding m1(4) using none by (auto simp: fun_eq_iff map_add_def split: option.splits)
  have "try_each read_node (n # ns) m = (Ok (), m')" using m1(1) m'(1) by simp
  moreover have "fabric_lookup m' = fabric_lookup m" using m'(3) m1(3) by (rule trans)
  moreover have "node_lookup m'
      = node_lookup m ++ map_of (map (\<lambda>n. (node_section_id n, n)) (n # ns))"
    using m'(4) nodes by (rule trans)
  ultimately show ?case using m'(2) by blast
qed auto

section \<open>Writing\<close>

definition stored_nodes :: "'x fabric_config \<Rightarrow> 'x node list" where
  "stored_nodes m = concat (map (\<lambda>(k, fe). bt_values (fe_nodes fe)) m)"

lemma entry_sections_eq:
  "entry_sections (k, fe) = (k, section_from_fabric (fe_fabric fe))
     # map (\<lambda>n. (node_section_id_display (node_section_id n), section_from_node n))
         (bt_values (fe_nodes fe))"
  by (simp add: entry_sections_def fe_into_section_config_eq)

lemma written_fabrics: "sections_fabrics (fc_into_section_config m) = map (\<lambda>(k, fe). fe_fabric fe) m"
  by (induction m)
    (auto simp: fc_into_section_config_def sections_fabrics_def entry_sections_eq comp_def)

lemma written_nodes: "sections_nodes (fc_into_section_config m) = stored_nodes m"
  by (induction m)
    (auto simp: fc_into_section_config_def sections_nodes_def stored_nodes_def entry_sections_eq
      comp_def)

lemma mset_concat_map: "mset xs = mset ys \<Longrightarrow> mset (concat (map f xs)) = mset (concat (map f ys))"
  by (simp add: mset_concat comp_def flip: sum_mset_sum_list)

lemma sections_permuted:
  assumes "mset secs = mset (fc_into_section_config m)"
  shows "mset (sections_fabrics secs) = mset (map (\<lambda>(k, fe). fe_fabric fe) m)"
    and "mset (sections_nodes secs) = mset (stored_nodes m)"
  using mset_concat_map [OF assms] unfolding written_fabrics [symmetric] written_nodes [symmetric]
    sections_fabrics_def sections_nodes_def by blast+

text \<open>The configuration after all fabrics are read: every entry is still without nodes.\<close>

definition skeleton :: "'x fabric_config \<Rightarrow> 'x fabric_config" where
  "skeleton m = map (\<lambda>(k, fe). (k, fe_from_fabric (fe_fabric fe))) m"

lemma skeleton_keys: "bt_keys (skeleton m) = bt_keys m"
  by (simp add: skeleton_def case_prod_unfold comp_def)

lemma skeleton_wf: "fc_wf m \<Longrightarrow> fc_wf (skeleton m)"
  unfolding fc_wf_def bt_wf_def skeleton_keys by (auto simp: fe_wf_from_fabric skeleton_def)

lemma bt_get_skeleton: "bt_get (skeleton m) k = map_option (\<lambda>fe. fe_from_fabric (fe_fabric fe)) (bt_get m k)"
  unfolding skeleton_def by (induction m) auto

lemma skeleton_lookups:
  assumes "fc_wf m"
  shows "fabric_lookup (skeleton m) = fabric_lookup m" and "node_lookup (skeleton m) i = None"
proof -
  have "fabric_protocol (fe_fabric fe) = fe_protocol fe" if "bt_get m k = Some fe" for k fe
    using fe_wfD(1) [OF fc_wf_get(2) [OF assms that]] .
  then show "fabric_lookup (skeleton m) = fabric_lookup m"
    by (auto simp: fabric_lookup_def bt_get_skeleton fun_eq_iff option.map_comp comp_def
        intro!: option.map_cong0 map_option_cong)
  show "node_lookup (skeleton m) i = None"
    by (simp add: node_lookup_def bt_get_skeleton split: option.splits)
qed

lemma skeleton_rebuild:
  assumes "fc_wf m" and "mset fs = mset (map (\<lambda>(k, fe). fe_fabric fe) m)"
  shows "bt_extend [] (map (\<lambda>f. (fabric_id f, fe_from_fabric f)) fs) = skeleton m"
proof (rule bt_extend_rebuild)
  have ids: "map fabric_id (map (\<lambda>(k, fe). fe_fabric fe) m) = bt_keys m"
    using assms(1) by (auto simp: fc_wf_def)
  have "mset (map fabric_id fs) = mset (bt_keys m)"
    unfolding mset_map assms(2) ids [symmetric] ..
  then have "distinct (map fabric_id fs)"
    using assms(1) bt_wf_distinct by (metis fc_wfD(1) mset_eq_imp_distinct_iff)
  then show "distinct (map fst (map (\<lambda>f. (fabric_id f, fe_from_fabric f)) fs))"
    by (simp add: comp_def)
  show "set (map (\<lambda>f. (fabric_id f, fe_from_fabric f)) fs) = set (skeleton m)"
    using assms mset_eq_setD [OF assms(2)] by (force simp: skeleton_def fc_wf_def)
  show "bt_wf (skeleton m)" using skeleton_wf [OF assms(1)] by (simp add: fc_wf_def)
qed

lemma stored_ids:
  assumes "fc_wf m"
  shows "map node_section_id (stored_nodes m)
    = concat (map (\<lambda>(k, fe). map (\<lambda>nid. \<lparr>nsi_fabric_id = k, nsi_node_id = nid\<rparr>)
        (bt_keys (fe_nodes fe))) m)"
proof -
  have "map node_section_id (bt_values (fe_nodes fe))
      = map (\<lambda>nid. \<lparr>nsi_fabric_id = k, nsi_node_id = nid\<rparr>) (bt_keys (fe_nodes fe))"
    if "(k, fe) \<in> set m" for k fe
    using assms that fe_wfD(3) [of fe] by (fastforce simp: fc_wf_def node_in_place_def)
  then show ?thesis
    unfolding stored_nodes_def map_concat by (auto intro!: arg_cong [of _ _ concat])
qed

lemma distinct_keyed_concat:
  "distinct (map fst m) \<Longrightarrow> \<forall>(k, xs)\<in>set m. distinct xs
    \<Longrightarrow> distinct (concat (map (\<lambda>(k, xs). map (\<lambda>x. \<lparr>nsi_fabric_id = k, nsi_node_id = x\<rparr>) xs) m))"
  by (induction m) (auto simp: distinct_map inj_on_def rev_image_eqI)

lemma stored_ids_distinct:
  assumes "fc_wf m"
  shows "distinct (map node_section_id (stored_nodes m))"
proof -
  have "concat (map (\<lambda>(k, fe). map (\<lambda>nid. \<lparr>nsi_fabric_id = k, nsi_node_id = nid\<rparr>)
        (bt_keys (fe_nodes fe))) m)
    = concat (map (\<lambda>(k, xs). map (\<lambda>x. \<lparr>nsi_fabric_id = k, nsi_node_id = x\<rparr>) xs)
        (map (\<lambda>(k, fe). (k, bt_keys (fe_nodes fe))) m))"
    by (simp add: comp_def case_prod_unfold)
  moreover have "distinct (map fst (map (\<lambda>(k, fe). (k, bt_keys (fe_nodes fe))) m))"
    using bt_wf_distinct [OF fc_wfD(1) [OF assms]] by (simp add: comp_def case_prod_unfold)
  moreover have "\<forall>(k, xs)\<in>set (map (\<lambda>(k, fe). (k, bt_keys (fe_nodes fe))) m). distinct xs"
    using assms bt_wf_distinct fe_wfD(2) by (fastforce simp: fc_wf_def)
  ultimately show ?thesis
    unfolding stored_ids [OF assms] by (simp only: distinct_keyed_concat)
qed

lemma stored_nodes_lookup:
  assumes "fc_wf m"
  shows "n \<in> set (stored_nodes m) \<longleftrightarrow> node_lookup m (node_section_id n) = Some n"
proof
  assume "n \<in> set (stored_nodes m)"
  then obtain k fe nid where kfe: "(k, fe) \<in> set m" and n: "(nid, n) \<in> set (fe_nodes fe)"
    by (auto simp: stored_nodes_def)
  from kfe have get: "bt_get m k = Some fe" using fc_wfD(1) [OF assms] by (simp add: bt_get_Some)
  note wf = fc_wf_get [OF assms get]
  have "bt_get (fe_nodes fe) nid = Some n" using n fe_wfD(2) [OF wf(2)] by (simp add: bt_get_Some)
  with fe_wf_get [OF wf(2) this] get wf(1) show "node_lookup m (node_section_id n) = Some n"
    by (simp add: node_lookup_def node_in_place_def)
next
  assume "node_lookup m (node_section_id n) = Some n"
  then show "n \<in> set (stored_nodes m)"
    by (force simp: node_lookup_def stored_nodes_def dest!: bt_get_SomeD split: option.splits)
qed

section \<open>The round trip\<close>

lemma sections_rebuild:
  assumes wf: "fc_wf m" and perm: "mset secs = mset (fc_into_section_config m)"
  shows "try_each read_node (sections_nodes secs) (skeleton m) = (Ok (), m)"
proof -
  let ?ns = "sections_nodes secs"
  have nodes: "mset ?ns = mset (stored_nodes m)" by (rule sections_permuted(2) [OF perm])
  have "mset (map node_section_id ?ns) = mset (map node_section_id (stored_nodes m))"
    using arg_cong [OF nodes, of "image_mset node_section_id"] by simp
  then have dist: "distinct (map node_section_id ?ns)"
    using stored_ids_distinct [OF wf] by (metis mset_eq_imp_distinct_iff)
  have lookup: "n \<in> set ?ns \<longleftrightarrow> node_lookup m (node_section_id n) = Some n" for n
    using mset_eq_setD [OF nodes] stored_nodes_lookup [OF wf] by blast
  have fab: "\<exists>f. fabric_lookup (skeleton m) (nsi_fabric_id (node_section_id n)) = Some (f, node_protocol n)"
    if "n \<in> set ?ns" for n
    using node_lookup_wf(2) [OF wf, of "node_section_id n" n] that lookup
    by (auto simp: skeleton_lookups [OF wf] fabric_lookup_def)
  from read_nodes_Ok [OF skeleton_wf [OF wf] dist] fab skeleton_lookups(2) [OF wf]
  obtain m' where m': "try_each read_node ?ns (skeleton m) = (Ok (), m')" "fc_wf m'"
    "fabric_lookup m' = fabric_lookup (skeleton m)"
    "node_lookup m' = node_lookup (skeleton m) ++ map_of (map (\<lambda>n. (node_section_id n, n)) ?ns)"
    by blast
  have "node_lookup m' = node_lookup m"
  proof
    fix i
    have of: "map_of (map (\<lambda>n. (node_section_id n, n)) ?ns) i = Some n
        \<longleftrightarrow> n \<in> set ?ns \<and> node_section_id n = i" for n
      using dist by (subst map_of_eq_Some_iff) (auto simp: comp_def)
    show "node_lookup m' i = node_lookup m i"
    proof (cases "node_lookup m i")
      case (Some n)
      with node_lookup_wf(1) [OF wf Some] have "map_of (map (\<lambda>n. (node_section_id n, n)) ?ns) i = Some n"
        by (simp only: of lookup)
      with Some show ?thesis by (simp only: m'(4) map_add_find_right)
    next
      case None
      then have "map_of (map (\<lambda>n. (node_section_id n, n)) ?ns) i = None"
        using of lookup by (metis not_None_eq)
      with None show ?thesis by (simp only: m'(4) map_add_None skeleton_lookups(2) [OF wf])
    qed
  qed
  with m' fc_ext [OF m'(2) wf] show ?thesis by (simp add: skeleton_lookups(1) [OF wf])
qed

lemma from_into_section_config:
  assumes "fc_wf m" and "fc_validate env m = Ok ()"
    and "mset secs = mset (fc_into_section_config m)"
  shows "fc_from_section_config env secs = Ok m"
  using skeleton_rebuild [OF assms(1) sections_permuted(1) [OF assms(3)]] sections_rebuild [OF assms(1,3)]
  by (simp add: fc_from_section_config_def read_sections assms(2))

section \<open>Section ids\<close>

text \<open>
  The ids under which the sections are inserted do not clash: a fabric's own id has no underscore,
  and the part of a node's id before the first underscore is its fabric.
\<close>

definition ids_ok :: "'x fabric_config \<Rightarrow> bool" where
  "ids_ok m \<longleftrightarrow> (\<forall>(k, fe)\<in>set m. fabric_id_ok k)"

lemma entry_section_ids:
  assumes "fc_wf m" and "(k, fe) \<in> set m"
  shows "map fst (entry_sections (k, fe)) = k # map (\<lambda>nid. k @ ''_'' @ nid) (bt_keys (fe_nodes fe))"
proof -
  have "\<forall>(nid, n)\<in>set (fe_nodes fe). node_section_id n = \<lparr>nsi_fabric_id = k, nsi_node_id = nid\<rparr>"
    using assms fe_wfD(3) [of fe] by (fastforce simp: fc_wf_def node_in_place_def)
  then show ?thesis
    by (auto simp: entry_sections_eq node_section_id_display_def)
qed

lemma section_ids_distinct:
  assumes "fc_wf m" and "ids_ok m"
  shows "distinct (map fst (fc_into_section_config m))"
proof -
  have "distinct (map fst (entry_sections (k, fe)))
      \<and> (\<forall>x\<in>set (map fst (entry_sections (k, fe))). takeWhile (\<lambda>c. c \<noteq> CHR ''_'') x = k)"
    if "(k, fe) \<in> set m" for k fe
  proof -
    have "CHR ''_'' \<notin> set k" using assms(2) that id_no_underscore by (fastforce simp: ids_ok_def)
    then have own: "takeWhile (\<lambda>c. c \<noteq> CHR ''_'') k = k"
      "takeWhile (\<lambda>c. c \<noteq> CHR ''_'') (k @ ''_'' @ nid) = k" for nid
      by (induction k) auto
    have "distinct (bt_keys (fe_nodes fe))"
      using assms(1) that fe_wfD(2) bt_wf_distinct by (fastforce simp: fc_wf_def)
    with own show ?thesis
      unfolding entry_section_ids [OF assms(1) that] by (auto simp: distinct_map inj_on_def)
  qed
  then show ?thesis
    unfolding fc_into_section_config_def map_concat list.map_comp comp_def
    by (intro distinct_owned_concat [where own = "takeWhile (\<lambda>c. c \<noteq> CHR ''_'')"])
      (use bt_wf_distinct [OF fc_wfD(1) [OF assms(1)]] in fastforce)+
qed

end
