(* ===== verification/Fabric_Sample.thy ===== *)
theory Fabric_Sample
  imports Fabric_Config_Sections
begin

text \<open>
  A concrete configuration for the witnesses: an OpenFabric fabric of two nodes, a WireGuard
  fabric of two cluster nodes and one external peer, and a BGP fabric of one IPv6-only node.
\<close>

definition sample_openfabric :: "sample fabric" where
  "sample_openfabric = FabricOpenfabric \<lparr>fs_id = ''dc'', fs_ip_prefix = Some (net_v4 0x0A000000 24),
     fs_ip6_prefix = None, fs_properties =
       \<lparr>of_hello_interval = None, of_csnp_interval = None, of_route_filter = None\<rparr>\<rparr>"

definition sample_openfabric_node :: "node_id \<Rightarrow> ipv4_addr \<Rightarrow> sample node" where
  "sample_openfabric_node nid ip = NodeOpenfabric \<lparr>ns_id = \<lparr>nsi_fabric_id = ''dc'', nsi_node_id = nid\<rparr>,
     ns_ip = Some ip, ns_ip6 = None, ns_properties = \<lparr>ofn_interfaces =
       [\<lparr>ofi_name = ''ens18'', ofi_hello_multiplier = None, ofi_ip = None, ofi_ip6 = None\<rparr>]\<rparr>\<rparr>"

definition sample_wireguard :: "sample fabric" where
  "sample_wireguard = FabricWireGuard \<lparr>fs_id = ''wg'', fs_ip_prefix = None, fs_ip6_prefix = None,
     fs_properties = \<lparr>wg_persistent_keepalive = None\<rparr>\<rparr>"

definition sample_peer :: "node_id \<Rightarrow> sample wireguard_node_peer" where
  "sample_peer nid = PeerInternal \<lparr>ip_node = nid, ip_node_iface = ''wg0'', ip_iface = ''wg0'',
     ip_endpoint = None, ip_allowed_ips = [], ip_skip_route_generation = None\<rparr>"

definition sample_external_peer :: "node_id \<Rightarrow> sample wireguard_node_peer" where
  "sample_external_peer nid = PeerExternal \<lparr>ep_node = nid, ep_endpoint = None, ep_iface = ''wg0'',
     ep_allowed_ips = [], ep_skip_route_generation = None\<rparr>"

definition sample_wireguard_node ::
  "node_id \<Rightarrow> ipv4_addr \<Rightarrow> sample wireguard_node_peer list \<Rightarrow> sample node" where
  "sample_wireguard_node nid ip peers = NodeWireGuard \<lparr>ns_id = \<lparr>nsi_fabric_id = ''wg'', nsi_node_id = nid\<rparr>,
     ns_ip = None, ns_ip6 = None, ns_properties = WgInternal \<lparr>wgn_endpoint = None,
       wgn_interfaces = [\<lparr>wgi_name = ''wg0'', wgi_listen_port = 51820,
         wgi_public_key = PublicKey (1, 2), wgi_ip = Some (net_v4 ip 24), wgi_ip6 = None,
         wgi_ip6_ll = None\<rparr>],
       wgn_peers = peers, wgn_allowed_ips = []\<rparr>\<rparr>"

definition sample_external_node :: "node_id \<Rightarrow> sample node" where
  "sample_external_node nid = NodeWireGuard \<lparr>ns_id = \<lparr>nsi_fabric_id = ''wg'', nsi_node_id = nid\<rparr>,
     ns_ip = None, ns_ip6 = None, ns_properties = WgExternal \<lparr>wgx_public_key = PublicKey (5, 6),
       wgx_endpoint = ServiceEndpoint (7, 8), wgx_allowed_ips = []\<rparr>\<rparr>"

definition sample_bgp :: "sample fabric" where
  "sample_bgp = FabricBgp \<lparr>fs_id = ''bgp'', fs_ip_prefix = None,
     fs_ip6_prefix = Some (net_v6 0x20010db8000000000000000000000000 64), fs_properties =
       \<lparr>bgp_bfd = False, bgp_redistribute = [], bgp_route_map_in = None, bgp_route_map_out = None,
        bgp_route_filter = None\<rparr>\<rparr>"

definition sample_bgp_node :: "node_id \<Rightarrow> ipv6_addr \<Rightarrow> sample node" where
  "sample_bgp_node nid ip6 = NodeBgp \<lparr>ns_id = \<lparr>nsi_fabric_id = ''bgp'', nsi_node_id = nid\<rparr>,
     ns_ip = None, ns_ip6 = Some ip6,
     ns_properties = BgpInternal \<lparr>bgpn_asn = 65000, bgpn_interfaces = [''ens19'']\<rparr>\<rparr>"

definition sample_sections :: "(string \<times> sample config_section) list" where
  "sample_sections =
     [(''wg_pve1'', section_from_node (sample_wireguard_node ''pve1'' 0x0A010001
         [sample_peer ''pve2'', sample_external_peer ''office''])),
      (''dc'', section_from_fabric sample_openfabric),
      (''wg'', section_from_fabric sample_wireguard),
      (''dc_pve2'', section_from_node (sample_openfabric_node ''pve2'' 0x0A000002)),
      (''dc_pve1'', section_from_node (sample_openfabric_node ''pve1'' 0x0A000001)),
      (''wg_pve2'', section_from_node (sample_wireguard_node ''pve2'' 0x0A010002 [sample_peer ''pve1''])),
      (''wg_office'', section_from_node (sample_external_node ''office'')),
      (''bgp'', section_from_fabric sample_bgp),
      (''bgp_pve1'', section_from_node (sample_bgp_node ''pve1'' 0x20010db8000000000000000000000001))]"

definition sample_config :: "sample fabric_config" where
  "sample_config =
     [(''bgp'', EntryBgp \<lparr>en_fabric = sample_bgp,
         en_nodes = [(''pve1'', sample_bgp_node ''pve1'' 0x20010db8000000000000000000000001)]\<rparr>),
      (''dc'', EntryOpenfabric \<lparr>en_fabric = sample_openfabric, en_nodes =
         [(''pve1'', sample_openfabric_node ''pve1'' 0x0A000001),
          (''pve2'', sample_openfabric_node ''pve2'' 0x0A000002)]\<rparr>),
      (''wg'', EntryWireGuard \<lparr>en_fabric = sample_wireguard, en_nodes =
         [(''office'', sample_external_node ''office''),
          (''pve1'', sample_wireguard_node ''pve1'' 0x0A010001
             [sample_peer ''pve2'', sample_external_peer ''office'']),
          (''pve2'', sample_wireguard_node ''pve2'' 0x0A010002 [sample_peer ''pve1''])]\<rparr>)]"

lemma sample_validate: "fc_validate sample_env sample_config = Ok ()"
  by code_simp

lemma sample_read: "fc_from_section_config sample_env sample_sections = Ok sample_config"
  by code_simp

lemma sample_reachable: "config_reachable sample_env sample_config"
  by (rule config_reachable.read [OF sample_read])

end
