(* ===== verification/Fabric_Properties.thy ===== *)
theory Fabric_Properties
  imports Fabric_Sample
begin

text \<open>
  The properties of the fabric configuration as a whole, with their witnesses on the sample
  configuration. Lemmas that only these properties use come first.
\<close>

section \<open>Shared claims\<close>

lemma distinct_concat_owner:
  "distinct (concat (map (\<lambda>(k, v). f k v) m)) \<Longrightarrow> (k, v) \<in> set m \<Longrightarrow> (k', v') \<in> set m
    \<Longrightarrow> x \<in> set (f k v) \<Longrightarrow> x \<in> set (f k' v') \<Longrightarrow> (k, v) = (k', v')"
  by (induction m) force+

lemma sorted_wrt_two:
  "sorted_wrt R (map (\<lambda>(k, v). g v) m) \<Longrightarrow> (k, v) \<in> set m \<Longrightarrow> (k', v') \<in> set m
    \<Longrightarrow> (k, v) \<noteq> (k', v') \<Longrightarrow> R (g v) (g v') \<or> R (g v') (g v)"
  by (induction m) force+

lemma fc_validD:
  assumes "config_reachable env m" and "hash_iter_ok env" and "fc_validate env m = Ok ()"
  shows "fc_wf m" and "fc_valid env m"
  using config_reachable_wf [OF assms(1)] fc_validate_iff [of m env] assms(2,3)
  by (simp_all add: is_ok_unit)

lemma node_lookup_stored:
  assumes "fc_wf m" and "node_lookup m i = Some n"
  obtains fe where "(nsi_fabric_id i, fe) \<in> set m" and "(nsi_node_id i, n) \<in> set (fe_nodes fe)"
  using assms(2) by (auto simp: node_lookup_def dest!: bt_get_SomeD split: option.splits)

lemma node_claim_in_entry:
  "(nid, n) \<in> set (fe_nodes fe) \<Longrightarrow> c \<in> set (node_claims (nid, n)) \<Longrightarrow> c \<in> set (entry_claims fe)"
  by (force simp: entry_claims_def)

lemma one_claim_per_node:
  assumes wf: "fc_wf m" and valid: "fc_valid env m"
    and i: "node_lookup m i = Some n" and c: "c \<in> set (node_claims (nsi_node_id i, n))"
    and j: "node_lookup m j = Some n'" and c': "c \<in> set (node_claims (nsi_node_id j, n'))"
  shows "i = j"
proof -
  obtain fe where fe: "(nsi_fabric_id i, fe) \<in> set m" "(nsi_node_id i, n) \<in> set (fe_nodes fe)"
    by (rule node_lookup_stored [OF wf i])
  obtain fe' where fe': "(nsi_fabric_id j, fe') \<in> set m" "(nsi_node_id j, n') \<in> set (fe_nodes fe')"
    by (rule node_lookup_stored [OF wf j])
  have claims: "distinct (concat (map (\<lambda>(k, fe). entry_claims fe) m))"
    using valid by (simp add: fc_valid_def case_prod_unfold comp_def)
  have entry: "(nsi_fabric_id i, fe) = (nsi_fabric_id j, fe')"
    using distinct_concat_owner [OF claims fe(1) fe'(1)] node_claim_in_entry fe(2) fe'(2) c c' by blast
  have "distinct (entry_claims fe)"
    using claims fe(1) by (force simp: distinct_concat_iff)
  then have "distinct (concat (map (\<lambda>(k, n). node_claims (k, n)) (fe_nodes fe)))"
    by (simp add: entry_claims_def case_prod_unfold)
  from distinct_concat_owner [OF this fe(2), of "nsi_node_id j" n' c] fe'(2) entry c c'
  have "nsi_node_id i = nsi_node_id j" by simp
  with entry show ?thesis by simp
qed

lemma address_in_prefix:
  assumes "node_in_fabric env f n"
  shows "Inl a \<in> set (node_addresses n) \<Longrightarrow> \<exists>p. fabric_ip_prefix f = Some p \<and> v4_contains_address env p a"
    and "Inr b \<in> set (node_addresses n) \<Longrightarrow> \<exists>p. fabric_ip6_prefix f = Some p \<and> v6_contains_address env p b"
  using assms
  by (auto simp: node_in_fabric_def node_addresses_def both_opt_def prefix_ok_def split: option.splits)

text \<open>What containment and overlap of networks have to do with each other.\<close>

definition overlap_law :: "'x env \<Rightarrow> bool" where
  "overlap_law env \<longleftrightarrow>
     (\<forall>p q a. v4_contains_address env p a \<longrightarrow> v4_contains_address env q a \<longrightarrow> v4_overlaps env p q)
     \<and> (\<forall>p q a. v6_contains_address env p a \<longrightarrow> v6_contains_address env q a \<longrightarrow> v6_overlaps env p q)"

lemma sample_overlap_law: "overlap_law sample_env"
  by (auto simp: overlap_law_def sample_env_def intro: net_match_overlap
      split: ipv4_cidr.splits ipv6_cidr.splits)

lemma apart_no_common_address:
  assumes "overlap_law env" and "prefixes_apart env f g"
    and "node_in_fabric env f n" and "node_in_fabric env g n'"
  shows "set (node_addresses n) \<inter> set (node_addresses n') = {}"
proof -
  note in_n = address_in_prefix [OF assms(3)] and in_n' = address_in_prefix [OF assms(4)]
  have "\<not> (Inl a \<in> set (node_addresses n) \<and> Inl a \<in> set (node_addresses n'))" for a
    using in_n(1) in_n'(1) assms(1,2) unfolding overlap_law_def prefixes_apart_def by blast
  moreover have "\<not> (Inr b \<in> set (node_addresses n) \<and> Inr b \<in> set (node_addresses n'))" for b
    using in_n(2) [of b] in_n'(2) [of b] assms(1,2) unfolding overlap_law_def prefixes_apart_def
    by metis
  ultimately show ?thesis by (metis disjoint_iff sumE)
qed

lemma one_node_per_address:
  assumes law: "overlap_law env" and wf: "fc_wf m" and valid: "fc_valid env m"
    and i: "node_lookup m i = Some n" and x: "x \<in> set (node_addresses n)"
    and j: "node_lookup m j = Some n'" and x': "x \<in> set (node_addresses n')"
  shows "i = j"
proof -
  obtain fe where fe: "(nsi_fabric_id i, fe) \<in> set m" "(nsi_node_id i, n) \<in> set (fe_nodes fe)"
    by (rule node_lookup_stored [OF wf i])
  obtain fe' where fe': "(nsi_fabric_id j, fe') \<in> set m" "(nsi_node_id j, n') \<in> set (fe_nodes fe')"
    by (rule node_lookup_stored [OF wf j])
  have fev: "fe_valid env fe" "fe_valid env fe'" using valid fe(1) fe'(1) by (auto simp: fc_valid_def)
  then have inside: "node_in_fabric env (fe_fabric fe) n" "node_in_fabric env (fe_fabric fe') n'"
    using fe(2) fe'(2) by (force simp: fe_valid_def)+
  have entry: "(nsi_fabric_id i, fe) = (nsi_fabric_id j, fe')"
  proof (rule ccontr)
    assume "(nsi_fabric_id i, fe) \<noteq> (nsi_fabric_id j, fe')"
    moreover have "sorted_wrt (prefixes_apart env) (map (\<lambda>(k, fe). fe_fabric fe) m)"
      using valid by (simp add: fc_valid_def case_prod_unfold comp_def)
    ultimately have "prefixes_apart env (fe_fabric fe) (fe_fabric fe')
        \<or> prefixes_apart env (fe_fabric fe') (fe_fabric fe)"
      using sorted_wrt_two [OF _ fe(1) fe'(1)] by blast
    with apart_no_common_address [OF law _ inside] apart_no_common_address [OF law _ inside(2,1)] x x'
    show False by blast
  qed
  have "distinct (concat (map (\<lambda>(k, n). node_addresses n) (fe_nodes fe)))"
    using fev(1) by (simp add: fe_valid_def case_prod_unfold comp_def)
  from distinct_concat_owner [OF this fe(2), of "nsi_node_id j" n' x] fe'(2) entry x x'
  have "nsi_node_id i = nsi_node_id j" by simp
  with entry show ?thesis by simp
qed

section \<open>Errors leave the configuration as it was\<close>

lemma with_fabric_error:
  assumes "fc_wf m" and "fc_with_fabric k f m = (Err e, m')"
    and "\<And>fe fe'. fe_wf fe \<Longrightarrow> f fe = (Err e, fe') \<Longrightarrow> fe' = fe"
  shows "m' = m"
proof (cases "bt_get m k")
  case None
  with assms(2) show ?thesis by (simp add: fc_with_fabric_def fc_get_fabric_def)
next
  case (Some fe)
  with assms(2) have "f fe = (Err e, snd (f fe))" and m': "m' = bt_insert k (snd (f fe)) m"
    by (auto simp: fc_with_fabric_def fc_get_fabric_def split: prod.splits)
  with assms(3) fc_wf_get(2) [OF assms(1) Some] have "snd (f fe) = fe" by blast
  with m' bt_insert_same [OF fc_wfD(1) [OF assms(1)] Some] show ?thesis by simp
qed

lemma update_node_value_error:
  assumes "update_node_value u n = (Err e, n')" and "\<nexists>v. u = NodeUpdaterWireGuard v"
  shows "n' = n"
  using assms by (cases n; cases u)
    (auto simp: update_node_value_def update_bgp_node_def Let_def split: bgp_node.splits prod.splits)

lemma fe_update_node_error:
  assumes "fe_wf fe" and "fe_update_node k u fe = (Err e, fe')" and "\<nexists>v. u = NodeUpdaterWireGuard v"
  shows "fe' = fe"
proof (cases "bt_get (fe_nodes fe) k")
  case None
  with assms(2) show ?thesis by (simp add: fe_update_node_def fe_get_node_nodes)
next
  case (Some n)
  with assms(2) update_node_value_error [OF _ assms(3), of n e] have "fe' = fe_put_node k n fe"
    by (auto simp: fe_update_node_def fe_get_node_nodes split: prod.splits)
  with Some bt_insert_same [OF fe_wfD(2) [OF assms(1)] Some] show ?thesis by (auto intro: fe_ext)
qed

lemma update_fabric_value_error: "update_fabric_value u f = (Err e, f') \<Longrightarrow> f' = f"
  by (cases f; cases u) (simp_all add: update_fabric_value_def)

lemma config_step_error:
  assumes wf: "fc_wf m" and step: "config_step env op m = (Err e, m')"
    and op: "\<nexists>k nid v. op = OpUpdateNode k nid (NodeUpdaterWireGuard v)"
  shows "m' = m"
proof (cases op)
  case (OpAddFabric f)
  with step show ?thesis by (auto simp: config_step_def fc_add_fabric_def Let_def split: if_splits)
next
  case (OpDeleteFabric k)
  with step show ?thesis
    by (auto simp: config_step_def fc_delete_fabric_def forget_def split: option.splits)
next
  case (OpUpdateFabric k u)
  with step have "fc_update_fabric k u m = (Err e, m')" by (simp add: config_step_def)
  then show ?thesis unfolding fc_update_fabric_def
    by (rule with_fabric_error [OF wf])
      (auto simp: fe_set_same dest!: update_fabric_value_error split: prod.splits)
next
  case (OpAddNode k n)
  with step have "fc_with_fabric k (fe_add_node n) m = (Err e, m')" by (simp add: config_step_def)
  then show ?thesis
    by (rule with_fabric_error [OF wf]) (auto simp: fe_add_node_eq split: if_splits)
next
  case (OpUpdateNode k nid u)
  with step have "fc_with_fabric k (fe_update_node nid u) m = (Err e, m')"
    by (simp add: config_step_def)
  then show ?thesis
    by (rule with_fabric_error [OF wf]) (rule fe_update_node_error, use op OpUpdateNode in auto)
next
  case (OpDeleteNode k nid)
  with step obtain e' where "fc_with_fabric k (fe_delete_node nid) m = (Err e', m')"
    by (auto simp: config_step_def forget_def and_then_eq_Err prod_eq_iff)
  then show ?thesis
    by (rule with_fabric_error [OF wf])
      (auto simp: fe_delete_node_def entry_delete_node_def split: fabric_entry.splits option.splits)
qed

section \<open>Updating a BGP fabric\<close>

lemma foldl_reset:
  assumes "\<And>s d. g (f s d) = (if d = D then z else g s)"
  shows "g (foldl f s ds) = (if D \<in> set ds then z else g s)"
  by (induction ds arbitrary: s) (auto simp: assms)

lemmas deletable_splits = fabric_deletable_properties.splits bgp_deletable_properties.splits

lemmas update_bgp_defs = set_prefixes_def Let_def updated_def updated_list_def

lemma update_bgp_ip_prefix:
  "fs_ip_prefix (update_bgp_fabric u s)
     = updated (fsu_ip_prefix u) (FabricDelIpPrefix \<in> set (fsu_delete u)) (fs_ip_prefix s)"
  unfolding update_bgp_fabric_def Let_def
  by (subst foldl_reset [where g = "fs_ip_prefix" and D = "FabricDelIpPrefix" and z = "None"],
      simp split: deletable_splits, simp add: update_bgp_defs split: option.split)

lemma update_bgp_ip6_prefix:
  "fs_ip6_prefix (update_bgp_fabric u s)
     = updated (fsu_ip6_prefix u) (FabricDelIp6Prefix \<in> set (fsu_delete u)) (fs_ip6_prefix s)"
  unfolding update_bgp_fabric_def Let_def
  by (subst foldl_reset [where g = "fs_ip6_prefix" and D = "FabricDelIp6Prefix" and z = "None"],
      simp split: deletable_splits, simp add: update_bgp_defs split: option.split)

lemma update_bgp_redistribute:
  "bgp_redistribute (fs_properties (update_bgp_fabric u s))
     = updated_list (bgpu_redistribute (fsu_properties u)) (FabricDelProtocol BgpRedistribute \<in> set (fsu_delete u)) (bgp_redistribute (fs_properties s))"
  unfolding update_bgp_fabric_def Let_def
  by (subst foldl_reset [where g = "(\<lambda>s. bgp_redistribute (fs_properties s))" and D = "FabricDelProtocol BgpRedistribute" and z = "[]"],
      simp split: deletable_splits, simp add: update_bgp_defs split: option.split)

lemma update_bgp_route_map_in:
  "bgp_route_map_in (fs_properties (update_bgp_fabric u s))
     = updated (bgpu_route_map_in (fsu_properties u)) (FabricDelProtocol BgpRouteMapIn \<in> set (fsu_delete u)) (bgp_route_map_in (fs_properties s))"
  unfolding update_bgp_fabric_def Let_def
  by (subst foldl_reset [where g = "(\<lambda>s. bgp_route_map_in (fs_properties s))" and D = "FabricDelProtocol BgpRouteMapIn" and z = "None"],
      simp split: deletable_splits, simp add: update_bgp_defs split: option.split)

lemma update_bgp_route_map_out:
  "bgp_route_map_out (fs_properties (update_bgp_fabric u s))
     = updated (bgpu_route_map_out (fsu_properties u)) (FabricDelProtocol BgpRouteMapOut \<in> set (fsu_delete u)) (bgp_route_map_out (fs_properties s))"
  unfolding update_bgp_fabric_def Let_def
  by (subst foldl_reset [where g = "(\<lambda>s. bgp_route_map_out (fs_properties s))" and D = "FabricDelProtocol BgpRouteMapOut" and z = "None"],
      simp split: deletable_splits, simp add: update_bgp_defs split: option.split)

lemma update_bgp_route_filter:
  "bgp_route_filter (fs_properties (update_bgp_fabric u s))
     = updated (bgpu_route_filter (fsu_properties u)) (FabricDelProtocol BgpRouteFilter \<in> set (fsu_delete u)) (bgp_route_filter (fs_properties s))"
  unfolding update_bgp_fabric_def Let_def
  by (subst foldl_reset [where g = "(\<lambda>s. bgp_route_filter (fs_properties s))" and D = "FabricDelProtocol BgpRouteFilter" and z = "None"],
      simp split: deletable_splits, simp add: update_bgp_defs split: option.split)

lemmas update_bgp_fields = update_bgp_ip_prefix update_bgp_ip6_prefix update_bgp_redistribute
  update_bgp_route_map_in update_bgp_route_map_out update_bgp_route_filter

section \<open>Properties\<close>

text \<open>
  C1: validation of a whole configuration is exact. In every reachable configuration, and
  whatever order the hash sets are iterated in, \<open>validate\<close> returns \<open>Ok\<close> exactly when the
  prefixes of any two fabrics do not overlap, no interface, listen port or OSPF area is claimed
  twice, and each fabric with its nodes is valid on its own: prefixes present as the protocol
  demands, node addresses inside the prefix and unique, WireGuard peers resolved, BGP router ids
  distinct and not zero.
\<close>

theorem fabric_config_validate_exact:
  assumes "config_reachable env m" and "hash_iter_ok env"
  shows "fc_validate env m = Ok () \<longleftrightarrow> fc_valid env m"
  using fc_validate_iff [OF config_reachable_wf [OF assms(1)] assms(2)] by (simp add: is_ok_unit)

theorem fabric_config_validate_exact_witness: "fc_valid sample_env sample_config"
  using fabric_config_validate_exact [OF sample_reachable sample_hash_iter] sample_validate by blast

text \<open>
  C4: whatever operations are applied to a reachable configuration, failing ones included, the
  resulting state is well-formed: sorted maps, every fabric and node stored under its own id, nodes
  of the protocol of their fabric. In such a state no \<open>unreachable!()\<close> of the typed accessors is
  reached by validation.
\<close>

theorem fabric_config_states_safe:
  assumes "config_reachable env m" and "m' = snd (try_each (config_step env) ops m)"
  shows "fc_wf m' \<and> fc_validate env m' \<noteq> Err PanicUnreachable"
  using config_ops.loop_inv [OF config_reachable_wf [OF assms(1)], of env ops] assms(2)
    fc_validate_no_panic by blast

theorem fabric_config_states_safe_witness:
  "fc_wf (snd (try_each (config_step sample_env)
     [OpDeleteNode ''wg'' ''pve2'', OpAddFabric sample_openfabric] sample_config))"
  using fabric_config_states_safe [OF sample_reachable refl] by blast

text \<open>
  C6: in a validated configuration no IPv4 or IPv6 address belongs to two nodes, in the same fabric
  or in different ones, provided two networks that contain a common address overlap.
\<close>

theorem validated_addresses_unique:
  assumes "config_reachable env m" and "hash_iter_ok env" and "overlap_law env"
    and "fc_validate env m = Ok ()"
    and "node_lookup m i = Some n" and "node_lookup m j = Some n'" and "i \<noteq> j"
  shows "set (node_addresses n) \<inter> set (node_addresses n') = {}"
  using one_node_per_address [OF assms(3) fc_validD [OF assms(1,2,4)] assms(5) _ assms(6)] assms(7)
  by blast

theorem validated_addresses_unique_witness:
  "set (node_addresses (sample_openfabric_node ''pve1'' 0x0A000001))
     \<inter> set (node_addresses (sample_openfabric_node ''pve2'' 0x0A000002)) = {}"
proof (rule validated_addresses_unique [OF sample_reachable sample_hash_iter sample_overlap_law
      sample_validate])
  show "node_lookup sample_config \<lparr>nsi_fabric_id = ''dc'', nsi_node_id = ''pve1''\<rparr>
      = Some (sample_openfabric_node ''pve1'' 0x0A000001)" by code_simp
  show "node_lookup sample_config \<lparr>nsi_fabric_id = ''dc'', nsi_node_id = ''pve2''\<rparr>
      = Some (sample_openfabric_node ''pve2'' 0x0A000002)" by code_simp
qed simp

text \<open>
  C7: in a validated configuration an interface of a host, a WireGuard interface of a host and a
  listen port of a host is used by one fabric only: nodes stored under different section ids claim
  nothing in common.
\<close>

theorem validated_interfaces_exclusive:
  assumes "config_reachable env m" and "hash_iter_ok env" and "fc_validate env m = Ok ()"
    and "node_lookup m i = Some n" and "node_lookup m j = Some n'" and "i \<noteq> j"
  shows "set (node_claims (nsi_node_id i, n)) \<inter> set (node_claims (nsi_node_id j, n')) = {}"
  using one_claim_per_node [OF fc_validD [OF assms(1,2,3)] assms(4) _ assms(5)] assms(6) by blast

theorem validated_interfaces_exclusive_witness:
  "set (node_claims (''pve1'', sample_openfabric_node ''pve1'' 0x0A000001))
     \<inter> set (node_claims (''pve1'', sample_bgp_node ''pve1'' 0x20010db8000000000000000000000001)) = {}"
proof -
  have "node_lookup sample_config \<lparr>nsi_fabric_id = ''dc'', nsi_node_id = ''pve1''\<rparr>
      = Some (sample_openfabric_node ''pve1'' 0x0A000001)" by code_simp
  moreover have "node_lookup sample_config \<lparr>nsi_fabric_id = ''bgp'', nsi_node_id = ''pve1''\<rparr>
      = Some (sample_bgp_node ''pve1'' 0x20010db8000000000000000000000001)" by code_simp
  ultimately show ?thesis
    using validated_interfaces_exclusive [OF sample_reachable sample_hash_iter sample_validate]
    by fastforce
qed

text \<open>
  C9: an operation that fails leaves the configuration as it was, with one exception: an update of
  a WireGuard node, whose checks come after its first changes.
\<close>

theorem failed_operation_changes_nothing:
  assumes "config_reachable env m" and "config_step env op m = (Err e, m')"
  shows "m' = m \<or> (\<exists>k nid u. op = OpUpdateNode k nid (NodeUpdaterWireGuard u))"
  using config_step_error [OF config_reachable_wf [OF assms(1)] assms(2)] by blast

theorem failed_operation_changes_nothing_witness:
  "snd (config_step sample_env (OpAddFabric sample_openfabric) sample_config) = sample_config"
proof -
  have "config_step sample_env (OpAddFabric sample_openfabric) sample_config
      = (Err (DuplicateFabric ''dc''),
         snd (config_step sample_env (OpAddFabric sample_openfabric) sample_config))"
    by (simp add: prod_eq_iff) code_simp
  from failed_operation_changes_nothing [OF sample_reachable this] show ?thesis by simp
qed

text \<open>
  C2: a valid configuration survives being written to sections and read back, whatever order the
  section container iterates in: reading returns the very same configuration, with every fabric and
  every node.
\<close>

theorem section_config_roundtrip:
  assumes "config_reachable env m" and "fc_validate env m = Ok ()"
    and "mset secs = mset (fc_into_section_config m)"
  shows "fc_from_section_config env secs = Ok m"
  by (rule from_into_section_config [OF config_reachable_wf [OF assms(1)] assms(2,3)])

theorem section_config_roundtrip_witness:
  "fc_from_section_config sample_env (rev (fc_into_section_config sample_config)) = Ok sample_config"
  by (rule section_config_roundtrip [OF sample_reachable sample_validate]) simp

text \<open>
  The ids under which a configuration's sections are written are pairwise distinct, so none
  overwrites another in the section container: a fabric's id has no underscore.
\<close>

theorem section_ids_unique:
  assumes "config_reachable env m" and "\<forall>(k, fe)\<in>set m. fabric_id_ok k"
  shows "distinct (map fst (fc_into_section_config m))"
  using section_ids_distinct [OF config_reachable_wf [OF assms(1)]] assms(2) by (simp add: ids_ok_def)

theorem section_ids_unique_witness: "distinct (map fst (fc_into_section_config sample_config))"
proof (rule section_ids_unique [OF sample_reachable])
  show "\<forall>(k, fe)\<in>set sample_config. fabric_id_ok k" by code_simp
qed

text \<open>
  The effect of an update on a BGP fabric, field by field: a property listed for deletion is
  gone even when the update also sets it; otherwise a value that is set replaces the old one and an
  absent value keeps it. The id never changes.
\<close>

theorem update_bgp_fabric_fields:
  "fs_id (update_bgp_fabric u s) = fs_id s
   \<and> fs_ip_prefix (update_bgp_fabric u s)
       = updated (fsu_ip_prefix u) (FabricDelIpPrefix \<in> set (fsu_delete u)) (fs_ip_prefix s)
   \<and> fs_ip6_prefix (update_bgp_fabric u s)
       = updated (fsu_ip6_prefix u) (FabricDelIp6Prefix \<in> set (fsu_delete u)) (fs_ip6_prefix s)
   \<and> bgp_redistribute (fs_properties (update_bgp_fabric u s))
       = updated_list (bgpu_redistribute (fsu_properties u))
           (FabricDelProtocol BgpRedistribute \<in> set (fsu_delete u)) (bgp_redistribute (fs_properties s))
   \<and> bgp_route_map_in (fs_properties (update_bgp_fabric u s))
       = updated (bgpu_route_map_in (fsu_properties u))
           (FabricDelProtocol BgpRouteMapIn \<in> set (fsu_delete u)) (bgp_route_map_in (fs_properties s))
   \<and> bgp_route_map_out (fs_properties (update_bgp_fabric u s))
       = updated (bgpu_route_map_out (fsu_properties u))
           (FabricDelProtocol BgpRouteMapOut \<in> set (fsu_delete u)) (bgp_route_map_out (fs_properties s))
   \<and> bgp_route_filter (fs_properties (update_bgp_fabric u s))
       = updated (bgpu_route_filter (fsu_properties u))
           (FabricDelProtocol BgpRouteFilter \<in> set (fsu_delete u)) (bgp_route_filter (fs_properties s))"
  by (intro conjI update_fabric_id update_bgp_fields)

end
