(* ===== verification/Fabric_Updates.thy ===== *)
theory Fabric_Updates
  imports Fabric_Sample
begin

text \<open>
  The types of the API for fabrics and nodes (\<open>sdn/fabric/section_config/{fabric,node}.rs\<close>): nodes
  with their two ids as fields of their own, and updaters that know whether they are empty. An empty
  update changes nothing, and deleting what was added restores the configuration.
\<close>

section \<open>Nodes of the API\<close>

record 'p node_data =
  nd_fabric_id :: fabric_id
  nd_node_id :: node_id
  nd_ip :: "ipv4_addr option"
  nd_ip6 :: "ipv6_addr option"
  nd_properties :: 'p

definition node_data_from :: "'p node_section \<Rightarrow> 'p node_data" where
  "node_data_from s =
     \<lparr>nd_fabric_id = nsi_fabric_id (ns_id s), nd_node_id = nsi_node_id (ns_id s), nd_ip = ns_ip s,
      nd_ip6 = ns_ip6 s, nd_properties = ns_properties s\<rparr>"

definition node_section_from :: "'p node_data \<Rightarrow> 'p node_section" where
  "node_section_from d =
     \<lparr>ns_id = \<lparr>nsi_fabric_id = nd_fabric_id d, nsi_node_id = nd_node_id d\<rparr>, ns_ip = nd_ip d,
      ns_ip6 = nd_ip6 d, ns_properties = nd_properties d\<rparr>"

datatype 'x api_node =
  ApiOpenfabric "'x openfabric_node_properties node_data"
| ApiOspf "'x ospf_node_properties node_data"
| ApiWireGuard "'x wireguard_node node_data"
| ApiBgp "bgp_node node_data"

definition api_node_from :: "'x node \<Rightarrow> 'x api_node" where
  "api_node_from n = (case n of
     NodeOpenfabric s \<Rightarrow> ApiOpenfabric (node_data_from s) | NodeOspf s \<Rightarrow> ApiOspf (node_data_from s)
   | NodeWireGuard s \<Rightarrow> ApiWireGuard (node_data_from s) | NodeBgp s \<Rightarrow> ApiBgp (node_data_from s))"

definition node_from_api :: "'x api_node \<Rightarrow> 'x node" where
  "node_from_api n = (case n of
     ApiOpenfabric d \<Rightarrow> NodeOpenfabric (node_section_from d) | ApiOspf d \<Rightarrow> NodeOspf (node_section_from d)
   | ApiWireGuard d \<Rightarrow> NodeWireGuard (node_section_from d) | ApiBgp d \<Rightarrow> NodeBgp (node_section_from d))"

lemma node_data_inverse [simp]:
  "node_section_from (node_data_from s) = (s :: 'p node_section)"
  "node_data_from (node_section_from d) = (d :: 'p node_data)"
  by (simp_all add: node_section_from_def node_data_from_def)

lemma api_node_inverse [simp]:
  "node_from_api (api_node_from n) = n"
  "api_node_from (node_from_api a) = a"
  by (cases n; simp add: node_from_api_def api_node_from_def)
    (cases a; simp add: node_from_api_def api_node_from_def)

section \<open>Empty updaters\<close>

text \<open>
  The derived updater of a struct is empty when no field has a value. The two section updaters add
  the common fields and the list of deletions.
\<close>

definition openfabric_updater_is_empty :: "openfabric_properties_updater \<Rightarrow> bool" where
  "openfabric_updater_is_empty u \<longleftrightarrow>
     ofu_hello_interval u = None \<and> ofu_csnp_interval u = None \<and> ofu_route_filter u = None"

definition ospf_updater_is_empty :: "ospf_properties_updater \<Rightarrow> bool" where
  "ospf_updater_is_empty u \<longleftrightarrow>
     ospfu_area u = None \<and> ospfu_route_filter u = None \<and> ospfu_redistribute u = None"

definition wireguard_updater_is_empty :: "wireguard_properties_updater \<Rightarrow> bool" where
  "wireguard_updater_is_empty u \<longleftrightarrow> wgu_persistent_keepalive u = None"

definition bgp_updater_is_empty :: "bgp_properties_updater \<Rightarrow> bool" where
  "bgp_updater_is_empty u \<longleftrightarrow>
     bgpu_bfd u = None \<and> bgpu_redistribute u = None \<and> bgpu_route_map_in u = None
     \<and> bgpu_route_map_out u = None \<and> bgpu_route_filter u = None"

definition fabric_section_updater_is_empty ::
  "('u \<Rightarrow> bool) \<Rightarrow> ('x, 'u, 'd) fabric_section_updater \<Rightarrow> bool" where
  "fabric_section_updater_is_empty properties_empty u \<longleftrightarrow>
     properties_empty (fsu_properties u) \<and> fsu_ip_prefix u = None \<and> fsu_ip6_prefix u = None
     \<and> fsu_delete u = []"

definition fabric_updater_is_empty :: "'x fabric_updater \<Rightarrow> bool" where
  "fabric_updater_is_empty u = (case u of
     FabricUpdaterOpenfabric v \<Rightarrow> fabric_section_updater_is_empty openfabric_updater_is_empty v
   | FabricUpdaterOspf v \<Rightarrow> fabric_section_updater_is_empty ospf_updater_is_empty v
   | FabricUpdaterWireGuard v \<Rightarrow> fabric_section_updater_is_empty wireguard_updater_is_empty v
   | FabricUpdaterBgp v \<Rightarrow> fabric_section_updater_is_empty bgp_updater_is_empty v)"

definition openfabric_node_updater_is_empty :: "'x openfabric_node_updater \<Rightarrow> bool" where
  "openfabric_node_updater_is_empty u \<longleftrightarrow> ofnu_interfaces u = None"

definition ospf_node_updater_is_empty :: "'x ospf_node_updater \<Rightarrow> bool" where
  "ospf_node_updater_is_empty u \<longleftrightarrow> ospfnu_interfaces u = None"

definition internal_wireguard_updater_is_empty :: "'x internal_wireguard_node_updater \<Rightarrow> bool" where
  "internal_wireguard_updater_is_empty u \<longleftrightarrow>
     wgnu_endpoint u = None \<and> wgnu_interfaces u = None \<and> wgnu_peers u = None
     \<and> wgnu_allowed_ips u = None"

definition external_wireguard_updater_is_empty :: "'x external_wireguard_node_updater \<Rightarrow> bool" where
  "external_wireguard_updater_is_empty u \<longleftrightarrow>
     wgxu_public_key u = None \<and> wgxu_endpoint u = None \<and> wgxu_allowed_ips u = None"

definition wireguard_node_updater_is_empty :: "'x wireguard_node_updater \<Rightarrow> bool" where
  "wireguard_node_updater_is_empty u = (case u of
     WgInternalUpdater v \<Rightarrow> internal_wireguard_updater_is_empty v
   | WgExternalUpdater v \<Rightarrow> external_wireguard_updater_is_empty v)"

definition bgp_node_updater_is_empty :: "bgp_node_updater \<Rightarrow> bool" where
  "bgp_node_updater_is_empty u \<longleftrightarrow> bgpnu_asn u = None \<and> bgpnu_interfaces u = None"

definition node_data_updater_is_empty ::
  "('u \<Rightarrow> bool) \<Rightarrow> ('u, 'd) node_data_updater \<Rightarrow> bool" where
  "node_data_updater_is_empty properties_empty u \<longleftrightarrow>
     properties_empty (ndu_properties u) \<and> ndu_ip u = None \<and> ndu_ip6 u = None \<and> ndu_delete u = []"

text \<open>The enum of node updaters has no such method; its variants do.\<close>

definition node_update_is_empty :: "'x node_updater \<Rightarrow> bool" where
  "node_update_is_empty u = (case u of
     NodeUpdaterOpenfabric v \<Rightarrow> node_data_updater_is_empty openfabric_node_updater_is_empty v
   | NodeUpdaterOspf v \<Rightarrow> node_data_updater_is_empty ospf_node_updater_is_empty v
   | NodeUpdaterWireGuard v \<Rightarrow> node_data_updater_is_empty wireguard_node_updater_is_empty v
   | NodeUpdaterBgp v \<Rightarrow> node_data_updater_is_empty bgp_node_updater_is_empty v)"

lemmas empty_updater_defs =
  openfabric_updater_is_empty_def ospf_updater_is_empty_def wireguard_updater_is_empty_def
  bgp_updater_is_empty_def fabric_section_updater_is_empty_def openfabric_node_updater_is_empty_def
  ospf_node_updater_is_empty_def internal_wireguard_updater_is_empty_def
  external_wireguard_updater_is_empty_def bgp_node_updater_is_empty_def
  node_data_updater_is_empty_def

section \<open>Their effect\<close>

lemma set_prefixes_None [simp]: "set_prefixes None None s = s"
  by (simp add: set_prefixes_def)

lemma set_node_addresses_None [simp]: "set_node_addresses None None s = s"
  by (simp add: set_node_addresses_def)

lemma empty_fabric_update:
  assumes "fabric_updater_is_empty u"
  shows "snd (update_fabric_value u f) = f"
  using assms
  by (cases u; cases f)
    (simp_all add: update_fabric_value_def fabric_updater_is_empty_def empty_updater_defs
      update_openfabric_fabric_def update_ospf_fabric_def update_wireguard_fabric_def
      update_bgp_fabric_def)

lemma empty_wireguard_update:
  assumes "node_data_updater_is_empty wireguard_node_updater_is_empty v"
  shows "snd (update_wireguard_node v s) = s"
  using assms
  by (cases "ndu_properties v"; cases "ns_properties s")
    (simp_all add: update_wireguard_node_def update_internal_wireguard_node_def
      update_external_wireguard_node_def wireguard_node_updater_is_empty_def empty_updater_defs)

lemma empty_bgp_update:
  assumes "node_data_updater_is_empty bgp_node_updater_is_empty v"
  shows "snd (update_bgp_node v s) = s"
  using assms
  by (cases "ns_properties s") (simp_all add: update_bgp_node_def empty_updater_defs)

lemma empty_node_update:
  assumes "node_update_is_empty u"
  shows "snd (update_node_value u n) = n"
  using assms
  by (cases u; cases n)
    (simp_all add: update_node_value_def node_update_is_empty_def empty_wireguard_update
      empty_bgp_update, simp_all add: update_openfabric_node_def update_ospf_node_def
      empty_updater_defs)

lemma fe_put_node_same:
  "fe_wf fe \<Longrightarrow> bt_get (fe_nodes fe) k = Some n \<Longrightarrow> fe_put_node k n fe = fe"
  using bt_insert_same [OF fe_wfD(2), of fe k n]
  by (cases fe) (simp_all add: fe_put_node_def fe_nodes_def)

text \<open>An operation that leaves the entry as it is leaves the configuration as it is.\<close>

lemma with_fabric_same:
  assumes "fc_wf m" and "\<And>fe. fe_wf fe \<Longrightarrow> snd (f fe) = fe"
  shows "snd (fc_with_fabric k f m) = m"
proof (cases "bt_get m k")
  case (Some fe)
  with assms have "snd (f fe) = fe" using fc_wf_get(2) by blast
  with Some show ?thesis
    by (simp add: fc_with_fabric_def fc_get_fabric_def case_prod_beta bt_insert_same
        fc_wfD(1) [OF assms(1)])
qed (simp add: fc_with_fabric_def fc_get_fabric_def)

lemma empty_update_node_entry:
  assumes "node_update_is_empty u" and "fe_wf fe"
  shows "snd (fe_update_node nid u fe) = fe"
  by (cases "bt_get (fe_nodes fe) nid")
    (simp_all add: fe_update_node_def fe_get_node_nodes case_prod_beta empty_node_update
      fe_put_node_same assms)

lemma delete_put_node:
  assumes "fe_wf fe" and "bt_get (fe_nodes fe) k = None"
  shows "fe_delete_node k (fe_put_node k n fe) = (Ok n, fe)"
  using assms bt_remove_insert [OF fe_wfD(2), of fe k n]
  by (cases fe)
    (simp_all add: fe_delete_node_def entry_delete_node_def fe_put_node_def fe_nodes_def
      bt_get_insert)

lemma add_delete_node:
  assumes "fe_wf fe" and "fe_add_node n fe = (Ok (), fe')"
  shows "fe_delete_node (nsi_node_id (node_section_id n)) fe' = (Ok n, fe)"
  using assms
  by (auto simp: fe_add_node_eq delete_put_node bt_contains_key_def split: if_splits)

lemma add_delete_fabric:
  assumes "fc_wf m" and "fc_add_fabric env f m = (Ok (), m')"
  obtains fe where "fc_delete_fabric (fabric_id f) m' = (Ok fe, m)"
proof -
  from assms obtain fe where "m' = bt_insert (fabric_id f) fe m" and "bt_get m (fabric_id f) = None"
    by (auto simp: fc_add_fabric_def Let_def bt_contains_key_def split: if_splits option.splits)
  then have "fc_delete_fabric (fabric_id f) m' = (Ok fe, m)"
    by (simp add: fc_delete_fabric_def bt_get_insert bt_remove_insert fc_wfD(1) [OF assms(1)])
  with that show thesis .
qed

lemma with_fabric_undo:
  assumes "fc_wf m" and "fc_with_fabric k f m = (Ok a, m')"
    and "\<And>fe fe'. fe_wf fe \<Longrightarrow> f fe = (Ok a, fe') \<Longrightarrow> g fe' = (Ok b, fe)"
  shows "fc_with_fabric k g m' = (Ok b, m)"
proof -
  obtain fe fe' where get: "bt_get m k = Some fe" and f: "f fe = (Ok a, fe')"
    and m': "m' = bt_insert k fe' m"
    using assms(2) by (cases "bt_get m k") (auto simp: fc_with_fabric_def fc_get_fabric_def
        split: prod.splits)
  have "g fe' = (Ok b, fe)" using assms(1,3) get f fc_wf_get(2) by blast
  then show ?thesis
    using m' get fc_wfD(1) [OF assms(1)]
    by (simp add: fc_with_fabric_def fc_get_fabric_def bt_get_insert bt_insert_insert
        bt_insert_same)
qed

text \<open>Updates without content, and the operation that takes an addition back.\<close>

definition is_empty_update :: "'x config_op \<Rightarrow> bool" where
  "is_empty_update op = (case op of
     OpUpdateFabric _ u \<Rightarrow> fabric_updater_is_empty u
   | OpUpdateNode _ _ u \<Rightarrow> node_update_is_empty u
   | _ \<Rightarrow> False)"

definition undo_of :: "'x config_op \<Rightarrow> 'x config_op option" where
  "undo_of op = (case op of
     OpAddFabric f \<Rightarrow> Some (OpDeleteFabric (fabric_id f))
   | OpAddNode k n \<Rightarrow> Some (OpDeleteNode k (nsi_node_id (node_section_id n)))
   | _ \<Rightarrow> None)"

text \<open>
  C12: an update without content changes nothing. In every reachable configuration an update of a
  fabric or of a node whose updater is empty, by the code's own test, leaves the configuration as
  it was, whether it is accepted or rejected.
\<close>

theorem empty_update_changes_nothing:
  assumes "config_reachable env m" and "is_empty_update op"
  shows "snd (config_step env op m) = m"
  using config_reachable_wf [OF assms(1)] assms(2)
  by (cases op)
    (auto simp: is_empty_update_def config_step_def fc_update_fabric_def case_prod_beta
      empty_fabric_update empty_update_node_entry intro!: with_fabric_same)

theorem empty_update_changes_nothing_witness:
  "snd (config_step sample_env (OpUpdateNode ''dc'' ''pve1'' (NodeUpdaterOpenfabric
     \<lparr>ndu_ip = None, ndu_ip6 = None, ndu_properties = \<lparr>ofnu_interfaces = None\<rparr>, ndu_delete = []\<rparr>))
     sample_config) = sample_config"
  by (rule empty_update_changes_nothing [OF sample_reachable])
    (simp add: is_empty_update_def node_update_is_empty_def empty_updater_defs)

text \<open>
  C11: deleting what was just added restores the configuration. If a fabric, or a node, could be
  added to a reachable configuration, then deleting it succeeds, and the configuration afterwards is
  the one from before, with every other fabric and node in it unchanged.
\<close>

theorem add_then_delete_restores:
  assumes "config_reachable env m" and "config_step env op m = (Ok (), m')"
    and "undo_of op = Some undo"
  shows "config_step env undo m' = (Ok (), m)"
proof (cases op)
  case (OpAddFabric f)
  with assms(2) have "fc_add_fabric env f m = (Ok (), m')" by (simp add: config_step_def)
  with config_reachable_wf [OF assms(1)] obtain fe
    where "fc_delete_fabric (fabric_id f) m' = (Ok fe, m)" by (rule add_delete_fabric)
  with OpAddFabric assms(3) show ?thesis
    by (auto simp: undo_of_def config_step_def forget_def result_simps)
next
  case (OpAddNode k n)
  with assms(2) have "fc_with_fabric k (fe_add_node n) m = (Ok (), m')"
    by (simp add: config_step_def)
  then have "fc_with_fabric k (fe_delete_node (nsi_node_id (node_section_id n))) m' = (Ok n, m)"
    by (rule with_fabric_undo [OF config_reachable_wf [OF assms(1)]]) (rule add_delete_node)
  with OpAddNode assms(3) show ?thesis
    by (auto simp: undo_of_def config_step_def forget_def result_simps)
qed (use assms(3) in \<open>simp_all add: undo_of_def\<close>)

theorem add_then_delete_restores_witness:
  "config_step sample_env (OpDeleteNode ''dc'' ''pve3'')
     (snd (config_step sample_env
        (OpAddNode ''dc'' (sample_openfabric_node ''pve3'' 0x0A000003)) sample_config))
   = (Ok (), sample_config)"
proof -
  let ?op = "OpAddNode ''dc'' (sample_openfabric_node ''pve3'' 0x0A000003)"
  have "fst (config_step sample_env ?op sample_config) = Ok ()" by code_simp
  then have "config_step sample_env ?op sample_config
      = (Ok (), snd (config_step sample_env ?op sample_config))"
    by (metis prod.collapse)
  from add_then_delete_restores [OF sample_reachable this] show ?thesis
    by (simp add: undo_of_def sample_openfabric_node_def node_section_id_def)
qed

end
