(* ===== verification/Fabric_Buildable.thy ===== *)
theory Fabric_Buildable
  imports Fabric_Updates
begin

text \<open>
  The operations of \<open>FabricConfig\<close> never get stuck: from every reachable configuration every other
  one can be reached by operations that all succeed. The fabrics are deleted, and those of the other
  configuration added one by one, each followed by its nodes.
\<close>

section \<open>The operations\<close>

text \<open>
  \<open>add_fabric\<close> makes the prefixes canonical; an update with the prefixes sets them as they are given.
\<close>

definition prefix_updater :: "'u \<Rightarrow> 'x ipv4_cidr option \<Rightarrow> 'x ipv6_cidr option
    \<Rightarrow> ('x, 'u, 'd) fabric_section_updater" where
  "prefix_updater properties ip ip6 =
     \<lparr>fsu_ip_prefix = ip, fsu_ip6_prefix = ip6, fsu_properties = properties, fsu_delete = []\<rparr>"

definition restore_prefixes :: "'x fabric \<Rightarrow> 'x fabric_updater" where
  "restore_prefixes f = (let ip = fabric_ip_prefix f; ip6 = fabric_ip6_prefix f in case f of
     FabricOpenfabric _ \<Rightarrow> FabricUpdaterOpenfabric (prefix_updater
       \<lparr>ofu_hello_interval = None, ofu_csnp_interval = None, ofu_route_filter = None\<rparr> ip ip6)
   | FabricOspf _ \<Rightarrow> FabricUpdaterOspf (prefix_updater
       \<lparr>ospfu_area = None, ospfu_route_filter = None, ospfu_redistribute = None\<rparr> ip ip6)
   | FabricWireGuard _ \<Rightarrow> FabricUpdaterWireGuard (prefix_updater \<lparr>wgu_persistent_keepalive = None\<rparr> ip ip6)
   | FabricBgp _ \<Rightarrow> FabricUpdaterBgp (prefix_updater
       \<lparr>bgpu_bfd = None, bgpu_redistribute = None, bgpu_route_map_in = None,
        bgpu_route_map_out = None, bgpu_route_filter = None\<rparr> ip ip6))"

definition clear_ops :: "'x fabric_config \<Rightarrow> 'x config_op list" where
  "clear_ops m = map (\<lambda>(k, _). OpDeleteFabric k) m"

definition build_entry_ops :: "fabric_id \<times> 'x fabric_entry \<Rightarrow> 'x config_op list" where
  "build_entry_ops = (\<lambda>(k, fe).
     OpAddFabric (fe_fabric fe) # OpUpdateFabric k (restore_prefixes (fe_fabric fe))
     # map (\<lambda>(_, n). OpAddNode k n) (fe_nodes fe))"

definition build_ops :: "'x fabric_config \<Rightarrow> 'x config_op list" where
  "build_ops m = concat (map build_entry_ops m)"

section \<open>Their effect\<close>

lemma try_each_append:
  "try_each f xs s = (Ok (), t) \<Longrightarrow> try_each f (xs @ ys) s = try_each f ys t"
  by (induction xs arbitrary: s) (auto split: prod.splits result.splits)

text \<open>Above all keys of a map an insertion appends.\<close>

lemma bt_insert_above:
  assumes "\<forall>k'\<in>set (bt_keys m). k' < k"
  shows "bt_insert k v m = m @ [(k, v)]" and "bt_insert k w (m @ [(k, v)]) = m @ [(k, w)]"
    and "bt_get m k = None" and "bt_get (m @ [(k, v)]) k = Some v"
  using assms by (induction m) (auto simp: less_imp_neq [symmetric] dest: less_not_sym)

lemma bt_wf_snoc: "bt_wf (m @ [(k, v)]) \<longleftrightarrow> bt_wf m \<and> (\<forall>k'\<in>set (bt_keys m). k' < k)"
  by (auto simp: bt_wf_def sorted_wrt_append)

lemma with_fabric_above:
  assumes "\<forall>k'\<in>set (bt_keys m). k' < k"
  shows "fc_with_fabric k f (m @ [(k, fe)]) = (fst (f fe), m @ [(k, snd (f fe))])"
  using bt_insert_above [OF assms]
  by (simp add: fc_with_fabric_def fc_get_fabric_def case_prod_beta)

definition canonical_fabric :: "'x env \<Rightarrow> 'x fabric \<Rightarrow> 'x fabric" where
  "canonical_fabric env f =
     (let f = (case fabric_ip_prefix f of
                 None \<Rightarrow> f | Some p \<Rightarrow> set_ip_prefix (v4_canonical env p) f)
      in case fabric_ip6_prefix f of
           None \<Rightarrow> f | Some p \<Rightarrow> set_ip6_prefix (v6_canonical env p) f)"

lemma canonical_fabric_id [simp]: "fabric_id (canonical_fabric env f) = fabric_id f"
  by (cases f) (simp_all add: canonical_fabric_def Let_def fabric_id_def set_ip_prefix_def
      set_ip6_prefix_def split: option.splits)

lemma add_fabric_above:
  assumes "\<forall>k'\<in>set (bt_keys m). k' < fabric_id f"
  shows "fc_add_fabric env f m
    = (Ok (), m @ [(fabric_id f, fe_from_fabric (canonical_fabric env f))])"
  using bt_insert_above [OF assms] canonical_fabric_id [of env f]
  unfolding fc_add_fabric_def canonical_fabric_def bt_contains_key_def Let_def by simp

lemma restore_canonical:
  "update_fabric_value (restore_prefixes f) (canonical_fabric env f) = (Ok (), f)"
  by (cases f) (simp_all add: restore_prefixes_def canonical_fabric_def prefix_updater_def
      update_fabric_value_def update_openfabric_fabric_def update_ospf_fabric_def
      update_wireguard_fabric_def update_bgp_fabric_def set_prefixes_def Let_def
      fabric_ip_prefix_def fabric_ip6_prefix_def set_ip_prefix_def set_ip6_prefix_def
      split: option.splits)

lemma canonical_fabric_protocol [simp]: "fabric_protocol (canonical_fabric env f) = fabric_protocol f"
  by (cases f) (simp_all add: canonical_fabric_def Let_def fabric_protocol_def set_ip_prefix_def
      set_ip6_prefix_def split: option.splits)

lemma add_fabric_entry:
  assumes "\<forall>k'\<in>set (bt_keys m). k' < fabric_id f"
  shows "try_each (config_step env)
      [OpAddFabric f, OpUpdateFabric (fabric_id f) (restore_prefixes f)] m
    = (Ok (), m @ [(fabric_id f, fe_set_fabric f (fe_from_fabric (canonical_fabric env f)))])"
  by (simp add: config_step_def add_fabric_above [OF assms] fc_update_fabric_def
      with_fabric_above [OF assms] restore_canonical)

lemma step_add_node: "config_step env (OpAddNode k n) m = fc_with_fabric k (fe_add_node n) m"
  by (simp add: config_step_def)

text \<open>The nodes of an entry, added in the order of their ids to an entry that has the first ones.\<close>

lemma add_nodes_entry:
  assumes "fe_wf fe" and "\<forall>k'\<in>set (bt_keys m). k' < k" and "k = fabric_id (fe_fabric fe)"
  shows "fe_nodes fe = before @ ns \<Longrightarrow> fe_fabric fe' = fe_fabric fe
    \<Longrightarrow> fe_protocol fe' = fe_protocol fe \<Longrightarrow> fe_nodes fe' = before
    \<Longrightarrow> try_each (config_step env) (map (\<lambda>(_, n). OpAddNode k n) ns) (m @ [(k, fe')])
        = (Ok (), m @ [(k, fe)])"
proof (induction ns arbitrary: before fe')
  case Nil
  then have "fe' = fe" by (intro fe_ext) simp_all
  then show ?case by simp
next
  case (Cons kn ns)
  obtain i n where kn: "kn = (i, n)" by force
  have place: "node_in_place (fe_protocol fe) (fabric_id (fe_fabric fe)) i n"
    using fe_wfD(3) [OF assms(1)] Cons.prems(1) kn by auto
  have "bt_wf (before @ [(i, n)] @ ns)" using fe_wfD(2) [OF assms(1)] Cons.prems(1) kn by simp
  then have above: "\<forall>i'\<in>set (bt_keys before). i' < i"
    by (auto simp: bt_wf_def sorted_wrt_append)
  have add: "fe_add_node n fe' = (Ok (), fe_put_node i n fe')"
    using place Cons.prems bt_insert_above(3) [OF above]
    by (simp add: fe_add_node_eq node_in_place_def bt_contains_key_def)
  have "try_each (config_step env) (map (\<lambda>(_, n). OpAddNode k n) ns) (m @ [(k, fe_put_node i n fe')])
      = (Ok (), m @ [(k, fe)])"
    by (rule Cons.IH [where before = "before @ [(i, n)]"])
      (use Cons.prems kn bt_insert_above(1) [OF above] in simp_all)
  then show ?case using kn add by (simp add: step_add_node with_fabric_above [OF assms(2)])
qed

lemma build_entry:
  assumes "fe_wf fe" and "\<forall>k'\<in>set (bt_keys m). k' < k" and "k = fabric_id (fe_fabric fe)"
  shows "try_each (config_step env) (build_entry_ops (k, fe)) m = (Ok (), m @ [(k, fe)])"
proof -
  have "try_each (config_step env) (map (\<lambda>(_, n). OpAddNode k n) (fe_nodes fe))
      (m @ [(k, fe_set_fabric (fe_fabric fe) (fe_from_fabric (canonical_fabric env (fe_fabric fe))))])
    = (Ok (), m @ [(k, fe)])"
    by (rule add_nodes_entry [OF assms, where before = "[]"]) (simp_all add: fe_wfD(1) [OF assms(1)])
  then show ?thesis
    using try_each_append [OF add_fabric_entry [of m "fe_fabric fe" env]] assms(2,3)
    by (simp add: build_entry_ops_def)
qed

lemma build_config:
  "fc_wf (before @ m) \<Longrightarrow> try_each (config_step env) (build_ops m) before = (Ok (), before @ m)"
proof (induction m arbitrary: before)
  case (Cons kfe m)
  obtain k fe where kfe: "kfe = (k, fe)" by force
  have "bt_wf (before @ [(k, fe)] @ m)" "fe_wf fe" "k = fabric_id (fe_fabric fe)"
    using Cons.prems kfe by (auto simp: fc_wf_def)
  then have "try_each (config_step env) (build_entry_ops (k, fe)) before = (Ok (), before @ [(k, fe)])"
    by (intro build_entry) (auto simp: bt_wf_def sorted_wrt_append)
  moreover have "try_each (config_step env) (build_ops m) (before @ [(k, fe)])
      = (Ok (), (before @ [(k, fe)]) @ m)"
    by (rule Cons.IH) (use Cons.prems kfe in simp)
  ultimately show ?case using kfe by (simp add: build_ops_def try_each_append)
qed (simp add: build_ops_def)

lemma clear_config: "try_each (config_step env) (clear_ops m) m = (Ok (), [])"
  by (induction m)
    (auto simp: clear_ops_def config_step_def forget_def fc_delete_fabric_def)

text \<open>
  C10: The configuration never gets stuck. From every reachable configuration, every other reachable
  configuration is reached by operations of which none fails: deleting the fabrics that are there and
  adding those of the other one, each with its prefixes as they are stored and with its nodes, ends in
  exactly that configuration, whatever operations it was made by.
\<close>

theorem configuration_buildable:
  assumes "config_reachable env m" and "config_reachable env m'"
  shows "try_each (config_step env) (clear_ops m @ build_ops m') m = (Ok (), m')"
  using build_config [of "[]" m' env] config_reachable_wf [OF assms(2)]
  by (simp add: try_each_append [OF clear_config])

theorem configuration_buildable_witness:
  "try_each (config_step sample_env) (build_ops sample_config) [] = (Ok (), sample_config)
   \<and> length (build_ops sample_config) = 12"
proof
  show "try_each (config_step sample_env) (build_ops sample_config) [] = (Ok (), sample_config)"
    using configuration_buildable [OF config_reachable.empty sample_reachable]
    by (simp add: clear_ops_def)
  show "length (build_ops sample_config) = 12" by code_simp
qed

end
