(* ===== verification/Fabric_File.thy ===== *)
theory Fabric_File
  imports Fabric_Properties
begin

text \<open>
  The file of the fabrics: \<open>parse_section_config\<close> and the two \<open>write_section_config\<close> of \<open>sdn/fabric/mod.rs\<close>.
  The text form of sections is that of another crate; its reader and writer are an argument.
\<close>

section \<open>Reading and writing the file\<close>

record 'x section_file =
  sf_parse :: "string \<Rightarrow> (string \<times> 'x config_section) list option"
  sf_write :: "(string \<times> 'x config_section) list \<Rightarrow> string option"

datatype 'x file_error =
  SectionsUnreadable | SectionsUnwritable | ConfigInvalid "'x fabric_config_error"

definition fc_parse_section_config ::
  "'x env \<Rightarrow> 'x section_file \<Rightarrow> string \<Rightarrow> ('x file_error, 'x fabric_config) result" where
  "fc_parse_section_config env sf config =
     and_then (ok_or SectionsUnreadable (sf_parse sf config)) (\<lambda>data.
     map_err ConfigInvalid (fc_from_section_config env data))"

definition valid_write_section_config ::
  "'x section_file \<Rightarrow> 'x fabric_config \<Rightarrow> ('x file_error, string) result" where
  "valid_write_section_config sf m = ok_or SectionsUnwritable (sf_write sf (fc_into_section_config m))"

definition fc_write_section_config ::
  "'x env \<Rightarrow> 'x section_file \<Rightarrow> 'x fabric_config \<Rightarrow> ('x file_error, string) result" where
  "fc_write_section_config env sf m =
     and_then (map_err ConfigInvalid (into_valid (fc_validate env) m)) (valid_write_section_config sf)"

section \<open>The file is the configuration\<close>

text \<open>
  What the crate promises of the text form: sections under distinct ids that could be written are
  read back, in any order.
\<close>

definition section_file_law :: "'x section_file \<Rightarrow> bool" where
  "section_file_law sf \<longleftrightarrow> (\<forall>secs text. distinct (map fst secs) \<longrightarrow> sf_write sf secs = Some text
     \<longrightarrow> (\<exists>secs'. sf_parse sf text = Some secs' \<and> mset secs' = mset secs))"

lemma section_file_read:
  assumes "section_file_law sf" and "distinct (map fst secs)" and "sf_write sf secs = Some text"
  obtains secs' where "sf_parse sf text = Some secs'" and "mset secs' = mset secs"
  using assms unfolding section_file_law_def by blast


text \<open>A file that holds one text, whose sections are read in the reverse order.\<close>

definition sample_file :: "sample section_file" where
  "sample_file =
     \<lparr>sf_parse = (\<lambda>text. if text = ''fabrics'' then Some (rev (fc_into_section_config sample_config)) else None),
      sf_write = (\<lambda>secs. if secs = fc_into_section_config sample_config then Some ''fabrics'' else None)\<rparr>"

lemma sample_file_law: "section_file_law sample_file"
  by (simp add: section_file_law_def sample_file_def)


end
