(* ===== verification/Sdn_Names.thy ===== *)
theory Sdn_Names
  imports Net_Types
begin

text \<open>
  Names of SDN zones, vnets and subnets (\<open>sdn/mod.rs\<close>). Zone and vnet names are their strings;
  the name of a subnet is its zone and its network.
\<close>

type_synonym zone_name = string
type_synonym vnet_name = string
type_synonym 'x subnet_name = "zone_name \<times> 'x cidr"

datatype sdn_name_error =
  NameEmpty | NameTooLong | InvalidSymbols | InvalidSubnetCidr | InvalidSubnetFormat

definition validate_sdn_name :: "string \<Rightarrow> (sdn_name_error, unit) result" where
  "validate_sdn_name name =
     (case name of
        [] \<Rightarrow> Err NameEmpty
      | c # _ \<Rightarrow>
          if length name > 8 then Err NameTooLong
          else if \<not> is_ascii_alphabetic c then Err InvalidSymbols
          else if \<not> list_all is_ascii_alphanumeric name then Err InvalidSymbols
          else Ok ())"

definition zone_name_new :: "string \<Rightarrow> (sdn_name_error, zone_name) result" where
  "zone_name_new name = and_then (validate_sdn_name name) (\<lambda>_. Ok name)"

definition vnet_name_new :: "string \<Rightarrow> (sdn_name_error, vnet_name) result" where
  "vnet_name_new name = and_then (validate_sdn_name name) (\<lambda>_. Ok name)"

definition subnet_name_from_str :: "'x env \<Rightarrow> string \<Rightarrow> (sdn_name_error, 'x subnet_name) result" where
  "subnet_name_from_str env s = (case split_once (CHR ''-'') s of
     Some (name, cidr_part) \<Rightarrow> (case split_once (CHR ''-'') cidr_part of
        Some (ip, netmask) \<Rightarrow>
          and_then (zone_name_new name) (\<lambda>zone.
          and_then (ok_or InvalidSubnetCidr (cidr_parse env (ip @ ''/'' @ netmask))) (\<lambda>cidr.
            Ok (zone, cidr)))
      | None \<Rightarrow> Err InvalidSubnetFormat)
   | None \<Rightarrow> Err InvalidSubnetFormat)"

definition sdn_name_ok :: "string \<Rightarrow> bool" where
  "sdn_name_ok name \<longleftrightarrow> name \<noteq> [] \<and> length name \<le> 8 \<and> is_ascii_alphabetic (hd name)
     \<and> list_all is_ascii_alphanumeric name"

lemma validate_sdn_name_iff: "validate_sdn_name name = Ok u \<longleftrightarrow> sdn_name_ok name"
  by (cases name) (simp_all add: validate_sdn_name_def sdn_name_ok_def)

lemma zone_name_new_Ok: "zone_name_new name = Ok z \<longleftrightarrow> sdn_name_ok name \<and> z = name"
  by (auto simp: zone_name_new_def result_simps validate_sdn_name_iff)

lemma sdn_name_no_dash: "sdn_name_ok name \<Longrightarrow> CHR ''-'' \<notin> set name"
  by (auto simp: sdn_name_ok_def list_all_iff char_class_defs)

text \<open>
  A text names a subnet exactly when it has the form \<open>zone-ip-mask\<close> with a valid zone name
  (one to eight alphanumeric characters, the first a letter) and \<open>ip/mask\<close> is a network; the
  dashes are the first two of the text, so an IPv6 network with any text after them is read whole.
\<close>

theorem subnet_name_accepts:
  "subnet_name_from_str env s = Ok (zone, cidr) \<longleftrightarrow>
     (\<exists>ip mask. s = zone @ ''-'' @ ip @ ''-'' @ mask \<and> sdn_name_ok zone \<and> CHR ''-'' \<notin> set ip
        \<and> cidr_parse env (ip @ ''/'' @ mask) = Some cidr)"
proof
  assume "subnet_name_from_str env s = Ok (zone, cidr)"
  then show "\<exists>ip mask. s = zone @ ''-'' @ ip @ ''-'' @ mask \<and> sdn_name_ok zone
      \<and> CHR ''-'' \<notin> set ip \<and> cidr_parse env (ip @ ''/'' @ mask) = Some cidr"
    by (auto simp: subnet_name_from_str_def result_simps zone_name_new_Ok split_once_Some
        split: option.splits) blast
next
  assume "\<exists>ip mask. s = zone @ ''-'' @ ip @ ''-'' @ mask \<and> sdn_name_ok zone
      \<and> CHR ''-'' \<notin> set ip \<and> cidr_parse env (ip @ ''/'' @ mask) = Some cidr"
  then show "subnet_name_from_str env s = Ok (zone, cidr)"
    by (auto simp: subnet_name_from_str_def result_simps zone_name_new_Ok sdn_name_no_dash)
qed

end
