(* ===== verification/Fw_Parse.thy ===== *)
theory Fw_Parse
  imports Rust_Str
begin

text \<open>
  The text helpers of the firewall parsers (\<open>firewall/parse.rs\<close>): names, words, digits, key-value
  lines, booleans and the tail of a section header. Errors of \<open>anyhow\<close> are tags that carry the
  text the message quotes.
\<close>

datatype (plugins only: code) parse_error =
  NotABoolean string
| IncompleteSection string
| MissingSectionName string string
| MissingClosingBracket string
| TrailingSection string string
| InvalidScope string
| InvalidName string
| MissingPlus string
| MissingValue
| MissingAliasName
| MissingAliasValue string
| InvalidAddress string
| TrailingCharacters string
| InvalidPort string
| StartPortGreater
| EmptyPorts
| InvalidTimescale
| InvalidRateLimitKey
| InvalidRateLimit
| InvalidNumber string
| EmptyUnit
| InvalidLogLevel string
| EmptyAddress
| MixedFamilies
| UnwrapNone
| InvalidIcmpType string
| InvalidIcmpCode string
| InvalidDirection string
| InvalidVerdict string
| MissingDash
| MissingParameter
| MissingOptionValue string
| DuplicateOption string
| DeserializeError
| DportAndIcmpType
| MissingDirection
| MissingVerdict
| MissingParenthesis
| NoSourceOrDest
| DifferentFamilies
| NewlineInRule
| MissingGroupKeyword
| MissingGroupName
| NotAnInterfaceOption
| NoSection string
| InvalidSection string
| NoIpsetScope
| MissingColon string
| DuplicateKey string
| DuplicateAlias string
| DuplicateIpset string
| DuplicateGroup string
| InvalidInterfaceName
| DirectionNotAllowed
| GroupsNotAllowed
| AliasesNotAllowed
| IpsetsNotAllowed
| InvalidNetworkDevice string
| InvalidNetKey string
| DuplicateNetKey string

definition is_name_char :: "char \<Rightarrow> bool" where
  "is_name_char c \<longleftrightarrow> is_ascii_alphanumeric c \<or> c \<in> {CHR ''-'', CHR ''_''}"

definition match_name :: "string \<Rightarrow> (string \<times> string) option" where
  "match_name line =
     (case line of
        [] \<Rightarrow> None
      | c # _ \<Rightarrow>
          if \<not> is_ascii_alphabetic c then None
          else let name = takeWhile is_name_char line; rest = dropWhile is_name_char line
               in if name = [] then None else Some (name, rest))"

definition match_non_whitespace :: "string \<Rightarrow> (string \<times> string) option" where
  "match_non_whitespace line =
     (let text = takeWhile (\<lambda>c. \<not> is_ascii_whitespace c) line;
          rest = trim_start (dropWhile (\<lambda>c. \<not> is_ascii_whitespace c) line)
      in if text = [] then None else Some (text, rest))"

definition match_digits :: "string \<Rightarrow> (string \<times> string) option" where
  "match_digits line =
     (let digits = takeWhile is_ascii_digit line; rest = dropWhile is_ascii_digit line
      in if digits \<noteq> [] then Some (digits, rest) else None)"

definition split_key_value :: "string \<Rightarrow> (string \<times> string) option" where
  "split_key_value line = map_option (\<lambda>(k, v). (trim k, trim v)) (split_once (CHR '':'') line)"

definition parse_bool :: "string \<Rightarrow> (parse_error, bool) result" where
  "parse_bool value =
     (if value = ''0'' \<or> eq_ignore_ascii_case value ''false''
         \<or> eq_ignore_ascii_case value ''off'' \<or> eq_ignore_ascii_case value ''no''
      then Ok False
      else if value = ''1'' \<or> eq_ignore_ascii_case value ''true''
         \<or> eq_ignore_ascii_case value ''on'' \<or> eq_ignore_ascii_case value ''yes''
      then Ok True
      else Err (NotABoolean value))"

definition parse_named_section_tail ::
  "string \<Rightarrow> string \<Rightarrow> (parse_error, string \<times> string option) result" where
  "parse_named_section_tail kind line =
     (case line of
        [] \<Rightarrow> Err (IncompleteSection kind)
      | c # _ \<Rightarrow>
          if \<not> is_ascii_whitespace c then Err (IncompleteSection kind)
          else
            and_then (ok_or (MissingSectionName kind (trim_start line)) (match_name (trim_start line)))
              (\<lambda>(name, line).
            and_then (ok_or (MissingClosingBracket kind) (strip_prefix '']'' line)) (\<lambda>line.
            let line = trim_start line in
            case strip_prefix ''#'' line of
              Some comment \<Rightarrow> Ok (name, Some (trim comment))
            | None \<Rightarrow> if line \<noteq> [] then Err (TrailingSection kind line) else Ok (name, None))))"

section \<open>What the helpers accept\<close>

lemma name_starts: "is_ascii_alphabetic c \<Longrightarrow> is_name_char c"
  by (simp add: is_name_char_def is_ascii_alphanumeric_def)

lemma match_name_iff:
  "match_name line = Some (name, rest) \<longleftrightarrow>
     line = name @ rest \<and> name \<noteq> [] \<and> is_ascii_alphabetic (hd name) \<and> list_all is_name_char name
     \<and> (rest = [] \<or> \<not> is_name_char (hd rest))"
proof
  assume "match_name line = Some (name, rest)"
  then show "line = name @ rest \<and> name \<noteq> [] \<and> is_ascii_alphabetic (hd name)
      \<and> list_all is_name_char name \<and> (rest = [] \<or> \<not> is_name_char (hd rest))"
    using set_takeWhileD [of _ is_name_char line] hd_dropWhile [of is_name_char line] name_starts
    by (auto simp: match_name_def Let_def list_all_iff split: list.splits if_splits)
next
  assume a: "line = name @ rest \<and> name \<noteq> [] \<and> is_ascii_alphabetic (hd name)
      \<and> list_all is_name_char name \<and> (rest = [] \<or> \<not> is_name_char (hd rest))"
  then have "takeWhile is_name_char line = name" "dropWhile is_name_char line = rest"
    by (cases rest; simp add: takeWhile_append2 dropWhile_append2 list_all_iff)+
  with a show "match_name line = Some (name, rest)"
    by (cases name) (simp_all add: match_name_def)
qed

text \<open>
  \<open>match_name\<close> splits a line into the longest leading run of name characters and the rest: it
  succeeds exactly when the line starts with a letter, and loses no character.
\<close>

theorem match_name_longest:
  "match_name line = Some (name, rest) \<longleftrightarrow>
     line = name @ rest \<and> name \<noteq> [] \<and> is_ascii_alphabetic (hd name) \<and> list_all is_name_char name
     \<and> \<not> (rest \<noteq> [] \<and> is_name_char (hd rest))"
  unfolding match_name_iff by simp

text \<open>An empty key is split off like any other.\<close>

lemma split_key_value_empty_key: "split_key_value '': x'' = Some ('''', ''x'')"
  by code_simp

lemma section_tail_Ok:
  assumes "match_name name = Some (name, [])" and "trim_start ws = []" and "ws \<noteq> []"
    and "is_ascii_whitespace (hd ws)"
  shows "parse_named_section_tail kind (ws @ name @ '']'') = Ok (name, None)"
    and "parse_named_section_tail kind (ws @ name @ '']'' @ '' #'' @ comment) = Ok (name, Some (trim comment))"
proof -
  from assms(1) obtain c cs where name: "name = c # cs" "is_ascii_alphabetic c"
    "list_all is_name_char name"
    by (cases name) (auto simp: match_name_iff)
  have ws: "\<forall>c\<in>set ws. is_whitespace c" using assms(2) by (simp add: trim_start_def dropWhile_eq_Nil_conv)
  have "\<not> is_whitespace c" using name(2) by (auto simp: char_class_defs)
  then have start: "trim_start (ws @ name @ rest) = name @ rest" for rest
    using ws by (simp add: trim_start_def dropWhile_append2 name(1))
  have bracket: "\<not> is_name_char (CHR '']'')" by (simp add: is_name_char_def char_class_defs)
  have "match_name (name @ CHR '']'' # rest) = Some (name, CHR '']'' # rest)" for rest
    using name bracket by (simp add: match_name_iff)
  moreover have "is_whitespace (CHR '' '')" and "\<not> is_whitespace (CHR ''#'')"
    by (simp_all add: is_whitespace_def)
  moreover obtain w ws' where "ws = w # ws'" using assms(3) by (cases ws) auto
  ultimately show "parse_named_section_tail kind (ws @ name @ '']'') = Ok (name, None)"
    and "parse_named_section_tail kind (ws @ name @ '']'' @ '' #'' @ comment)
      = Ok (name, Some (trim comment))"
    using assms(4) start by (auto simp: parse_named_section_tail_def trim_start_def)
qed

end
