(* ===== verification/Fw_Alias.thy ===== *)
theory Fw_Alias
  imports Fw_Parse Net_Types
begin

text \<open>
  Aliases of the firewall configuration (\<open>firewall/types/alias.rs\<close>): scopes, scoped and legacy
  names, the names in rules, and the lines of the ALIASES section. Every name is stored in ASCII
  lower case.
\<close>

definition make_ascii_lowercase :: "string \<Rightarrow> string" where
  "make_ascii_lowercase s = map to_ascii_lowercase s"

datatype alias_scope = AliasDatacenter | AliasGuest

definition alias_scope_from_str :: "string \<Rightarrow> (parse_error, alias_scope) result" where
  "alias_scope_from_str s =
     (if s = ''dc'' then Ok AliasDatacenter
      else if s = ''guest'' then Ok AliasGuest
      else Err (InvalidScope s))"

definition alias_scope_display :: "alias_scope \<Rightarrow> string" where
  "alias_scope_display s = (case s of AliasDatacenter \<Rightarrow> ''dc'' | AliasGuest \<Rightarrow> ''guest'')"

datatype legacy_alias_name = LegacyAliasName string

text \<open>A name that \<open>match_name\<close> accepts is ASCII, where \<open>to_lowercase\<close> is the ASCII mapping.\<close>

definition legacy_alias_name_from_str :: "string \<Rightarrow> (parse_error, legacy_alias_name) result" where
  "legacy_alias_name_from_str s = (case match_name s of
     Some (name, []) \<Rightarrow> Ok (LegacyAliasName (make_ascii_lowercase name))
   | _ \<Rightarrow> Err (InvalidName s))"

definition legacy_alias_name_display :: "legacy_alias_name \<Rightarrow> string" where
  "legacy_alias_name_display n = (case n of LegacyAliasName s \<Rightarrow> s)"

record alias_name =
  an_scope :: alias_scope
  an_name :: string

definition alias_name_new :: "alias_scope \<Rightarrow> string \<Rightarrow> alias_name" where
  "alias_name_new scope name = \<lparr>an_scope = scope, an_name = make_ascii_lowercase name\<rparr>"

definition alias_name_display :: "alias_name \<Rightarrow> string" where
  "alias_name_display n = alias_scope_display (an_scope n) @ ''/'' @ an_name n"

definition alias_name_from_str :: "string \<Rightarrow> (parse_error, alias_name) result" where
  "alias_name_from_str s = (case split_once (CHR ''/'') s of
     Some (prefix, name) \<Rightarrow>
       if name \<noteq> [] then and_then (alias_scope_from_str prefix) (\<lambda>scope. Ok (alias_name_new scope name))
       else Err (InvalidName s)
   | None \<Rightarrow> Err (InvalidName s))"

datatype rule_alias_name = ScopedAlias alias_name | LegacyAlias legacy_alias_name

definition rule_alias_name_from_str :: "string \<Rightarrow> (parse_error, rule_alias_name) result" where
  "rule_alias_name_from_str s = (case alias_name_from_str s of
     Ok n \<Rightarrow> Ok (ScopedAlias n)
   | Err _ \<Rightarrow> (case legacy_alias_name_from_str s of
        Ok n \<Rightarrow> Ok (LegacyAlias n)
      | Err _ \<Rightarrow> Err (InvalidName s)))"

definition rule_alias_name_display :: "rule_alias_name \<Rightarrow> string" where
  "rule_alias_name_display n = (case n of
     ScopedAlias a \<Rightarrow> alias_name_display a | LegacyAlias l \<Rightarrow> legacy_alias_name_display l)"

record 'x fw_alias =
  al_name :: string
  al_address :: "'x cidr"
  al_comment :: "string option"

definition alias_new :: "string \<Rightarrow> 'x cidr \<Rightarrow> string option \<Rightarrow> 'x fw_alias" where
  "alias_new name address comment =
     \<lparr>al_name = make_ascii_lowercase name, al_address = address, al_comment = comment\<rparr>"

definition alias_from_str :: "'x env \<Rightarrow> string \<Rightarrow> (parse_error, 'x fw_alias) result" where
  "alias_from_str env s =
     and_then (ok_or MissingAliasName (match_name (trim_start s))) (\<lambda>(name, line).
     and_then (ok_or (MissingAliasValue name) (match_non_whitespace (trim_start line))) (\<lambda>(address, line).
     and_then (ok_or (InvalidAddress address) (cidr_parse env address)) (\<lambda>address.
     let line = trim_start line in
     and_then (case strip_prefix ''#'' line of
         Some comment \<Rightarrow> Ok (Some (trim comment))
       | None \<Rightarrow> if line \<noteq> [] then Err (TrailingCharacters line) else Ok None) (\<lambda>comment.
     Ok (alias_new name address comment)))))"

section \<open>Round trips\<close>

text \<open>What the constructors establish: names in lower case, legacy names of name characters.\<close>

definition alias_name_wf :: "alias_name \<Rightarrow> bool" where
  "alias_name_wf n \<longleftrightarrow> an_name n \<noteq> [] \<and> make_ascii_lowercase (an_name n) = an_name n"

definition legacy_alias_name_wf :: "legacy_alias_name \<Rightarrow> bool" where
  "legacy_alias_name_wf n \<longleftrightarrow> (case n of LegacyAliasName s \<Rightarrow>
     match_name s = Some (s, []) \<and> make_ascii_lowercase s = s)"

definition rule_alias_name_wf :: "rule_alias_name \<Rightarrow> bool" where
  "rule_alias_name_wf n \<longleftrightarrow> (case n of
     ScopedAlias a \<Rightarrow> alias_name_wf a | LegacyAlias l \<Rightarrow> legacy_alias_name_wf l)"

lemma make_ascii_lowercase_idem [simp]:
  "make_ascii_lowercase (make_ascii_lowercase s) = make_ascii_lowercase s"
  by (simp add: make_ascii_lowercase_def)

lemma lowercase_name_char: "is_name_char c \<Longrightarrow> is_name_char (to_ascii_lowercase c)"
proof (cases "is_ascii_uppercase c")
  case True
  then have "is_ascii_lowercase (to_ascii_lowercase c)"
    unfolding is_ascii_lowercase_def code_to_ascii_lowercase by (simp add: is_ascii_uppercase_def)
  then show ?thesis by (simp add: is_name_char_def is_ascii_alphanumeric_def is_ascii_alphabetic_def)
qed (simp add: to_ascii_lowercase_def)

lemma lowercase_alphabetic: "is_ascii_alphabetic c \<Longrightarrow> is_ascii_alphabetic (to_ascii_lowercase c)"
proof (cases "is_ascii_uppercase c")
  case True
  then have "is_ascii_lowercase (to_ascii_lowercase c)"
    unfolding is_ascii_lowercase_def code_to_ascii_lowercase by (simp add: is_ascii_uppercase_def)
  then show "is_ascii_alphabetic (to_ascii_lowercase c)" by (simp add: is_ascii_alphabetic_def)
qed (simp add: to_ascii_lowercase_def)

lemma match_name_lowercase:
  "match_name s = Some (s, []) \<Longrightarrow> match_name (make_ascii_lowercase s) = Some (make_ascii_lowercase s, [])"
  by (cases s) (auto simp: match_name_iff make_ascii_lowercase_def list_all_iff lowercase_name_char
      lowercase_alphabetic)

lemma alias_scope_roundtrip [simp]: "alias_scope_from_str (alias_scope_display s) = Ok s"
  by (cases s) (simp_all add: alias_scope_from_str_def alias_scope_display_def)

lemma alias_scope_no_slash [simp]: "CHR ''/'' \<notin> set (alias_scope_display s)"
  by (cases s) (simp_all add: alias_scope_display_def)

lemma alias_name_roundtrip: "alias_name_wf n \<Longrightarrow> alias_name_from_str (alias_name_display n) = Ok n"
  by (simp add: alias_name_from_str_def alias_name_display_def alias_name_wf_def alias_name_new_def)

lemma legacy_no_slash: "match_name s = Some (s, []) \<Longrightarrow> CHR ''/'' \<notin> set s"
  by (auto simp: match_name_iff list_all_iff is_name_char_def char_class_defs)

lemma rule_alias_name_roundtrip_wf:
  "rule_alias_name_wf n \<Longrightarrow> rule_alias_name_from_str (rule_alias_name_display n) = Ok n"
proof (cases n)
  case (LegacyAlias l)
  moreover assume "rule_alias_name_wf n"
  ultimately obtain s where s: "l = LegacyAliasName s" "match_name s = Some (s, [])"
    "make_ascii_lowercase s = s"
    by (cases l) (auto simp: rule_alias_name_wf_def legacy_alias_name_wf_def)
  then have "split_once (CHR ''/'') s = None" by (simp add: split_once_None legacy_no_slash)
  with s LegacyAlias show ?thesis
    by (simp add: rule_alias_name_from_str_def rule_alias_name_display_def
        legacy_alias_name_display_def legacy_alias_name_from_str_def alias_name_from_str_def)
qed (simp add: rule_alias_name_wf_def rule_alias_name_from_str_def rule_alias_name_display_def
    alias_name_roundtrip)

lemma legacy_alias_name_from_str_wf: "legacy_alias_name_from_str s = Ok n \<Longrightarrow> legacy_alias_name_wf n"
proof -
  assume ok: "legacy_alias_name_from_str s = Ok n"
  then obtain name where name: "match_name s = Some (name, [])"
    and n: "n = LegacyAliasName (make_ascii_lowercase name)"
    by (auto simp: legacy_alias_name_from_str_def split: option.splits list.splits)
  from name have "name = s" by (simp add: match_name_iff)
  with name n match_name_lowercase [of s] show ?thesis by (simp add: legacy_alias_name_wf_def)
qed

lemma alias_name_from_str_wf: "alias_name_from_str s = Ok n \<Longrightarrow> alias_name_wf n"
  by (auto simp: alias_name_from_str_def alias_name_wf_def alias_name_new_def result_simps
      make_ascii_lowercase_def split: option.splits if_splits)

lemma rule_alias_name_from_str_wf: "rule_alias_name_from_str s = Ok n \<Longrightarrow> rule_alias_name_wf n"
  by (auto simp: rule_alias_name_from_str_def rule_alias_name_wf_def
      dest: alias_name_from_str_wf legacy_alias_name_from_str_wf split: result.splits)

text \<open>
  An alias name that was read from a rule is written as a text that reads back as the very same
  name, scoped or legacy: reading is idempotent although it changes the case of the letters.
\<close>

theorem rule_alias_name_roundtrip:
  assumes "rule_alias_name_from_str s = Ok n"
  shows "rule_alias_name_from_str (rule_alias_name_display n) = Ok n"
  by (rule rule_alias_name_roundtrip_wf [OF rule_alias_name_from_str_wf [OF assms]])

theorem rule_alias_name_roundtrip_witness:
  "rule_alias_name_from_str ''guest/web-server''
     = Ok (ScopedAlias \<lparr>an_scope = AliasGuest, an_name = ''web-server''\<rparr>)"
proof -
  have "rule_alias_name_from_str ''guest/Web-Server''
      = Ok (ScopedAlias \<lparr>an_scope = AliasGuest, an_name = ''web-server''\<rparr>)" by code_simp
  from rule_alias_name_roundtrip [OF this] show ?thesis
    by (simp add: rule_alias_name_display_def alias_name_display_def alias_scope_display_def)
qed

end
