(* ===== verification/Fw_Ipset.thy ===== *)
theory Fw_Ipset
  imports Fw_Alias
begin

text \<open>
  IP sets of the firewall configuration (\<open>firewall/types/ipset.rs\<close>): names with and without
  scope, entries, sets, and the IP filters of guest interfaces, whose index comes from the key of
  a network device (\<open>NetworkConfig::index_from_net_key\<close> of \<open>guest/vm.rs\<close>).
\<close>

datatype ipset_scope = IpsetDatacenter | IpsetGuest | IpsetSdn

definition ipset_scope_from_str :: "string \<Rightarrow> (parse_error, ipset_scope) result" where
  "ipset_scope_from_str s =
     (if s = ''+dc'' then Ok IpsetDatacenter
      else if s = ''+guest'' then Ok IpsetGuest
      else if s = ''+sdn'' then Ok IpsetSdn
      else Err (InvalidScope s))"

definition ipset_scope_display :: "ipset_scope \<Rightarrow> string" where
  "ipset_scope_display s = (case s of
     IpsetDatacenter \<Rightarrow> ''dc'' | IpsetGuest \<Rightarrow> ''guest'' | IpsetSdn \<Rightarrow> ''sdn'')"

datatype legacy_ipset_name = LegacyIpsetName string

definition legacy_ipset_name_from_str :: "string \<Rightarrow> (parse_error, legacy_ipset_name) result" where
  "legacy_ipset_name_from_str s = (case strip_prefix ''+'' s of
     Some name \<Rightarrow> (case match_name name of
        Some (name, []) \<Rightarrow> Ok (LegacyIpsetName name)
      | _ \<Rightarrow> Err (InvalidName s))
   | None \<Rightarrow> Err (MissingPlus s))"

record ipset_name =
  in_scope :: ipset_scope
  in_name :: string

definition ipset_name_from_str :: "string \<Rightarrow> (parse_error, ipset_name) result" where
  "ipset_name_from_str s = (case split_once (CHR ''/'') s of
     Some (prefix, name) \<Rightarrow>
       if name \<noteq> []
       then and_then (ipset_scope_from_str prefix) (\<lambda>scope. Ok \<lparr>in_scope = scope, in_name = name\<rparr>)
       else Err (InvalidName s)
   | None \<Rightarrow> Err (InvalidName s))"

definition ipset_name_display :: "ipset_name \<Rightarrow> string" where
  "ipset_name_display n = ipset_scope_display (in_scope n) @ ''/'' @ in_name n"

datatype rule_ipset_name = ScopedIpset ipset_name | LegacyIpset legacy_ipset_name

definition rule_ipset_name_from_str :: "string \<Rightarrow> (parse_error, rule_ipset_name) result" where
  "rule_ipset_name_from_str s = (case ipset_name_from_str s of
     Ok n \<Rightarrow> Ok (ScopedIpset n)
   | Err _ \<Rightarrow> (case legacy_ipset_name_from_str s of
        Ok n \<Rightarrow> Ok (LegacyIpset n)
      | Err _ \<Rightarrow> Err (InvalidName s)))"

datatype 'x ipset_address = IpsetAlias rule_alias_name | IpsetCidr "'x cidr" | IpsetRange "'x ip_range"

definition ipset_address_from_str :: "'x env \<Rightarrow> string \<Rightarrow> (parse_error, 'x ipset_address) result" where
  "ipset_address_from_str env s = (case cidr_parse env s of
     Some c \<Rightarrow> Ok (IpsetCidr c)
   | None \<Rightarrow> (case rule_alias_name_from_str s of
        Ok n \<Rightarrow> Ok (IpsetAlias n)
      | Err _ \<Rightarrow> Err (InvalidAddress s)))"

record 'x ipset_entry =
  ie_nomatch :: bool
  ie_address :: "'x ipset_address"
  ie_comment :: "string option"

definition ipset_entry_new :: "'x ipset_address \<Rightarrow> bool \<Rightarrow> string option \<Rightarrow> 'x ipset_entry" where
  "ipset_entry_new address nomatch comment =
     \<lparr>ie_nomatch = nomatch, ie_address = address, ie_comment = comment\<rparr>"

definition ipset_entry_from :: "'x ipset_address \<Rightarrow> 'x ipset_entry" where
  "ipset_entry_from address = \<lparr>ie_nomatch = False, ie_address = address, ie_comment = None\<rparr>"

definition ipset_entry_from_str :: "'x env \<Rightarrow> string \<Rightarrow> (parse_error, 'x ipset_entry) result" where
  "ipset_entry_from_str env line =
     (let line = trim_start line;
          (nomatch, line) = (case strip_prefix ''!'' line of
             Some line \<Rightarrow> (True, line) | None \<Rightarrow> (False, line))
      in and_then (ok_or MissingValue (match_non_whitespace (trim_start line))) (\<lambda>(address, line).
         and_then (ipset_address_from_str env address) (\<lambda>address.
         let line = trim_start line in
         and_then (case strip_prefix ''#'' line of
             Some comment \<Rightarrow> Ok (Some (trim comment))
           | None \<Rightarrow> if line \<noteq> [] then Err (TrailingCharacters line) else Ok None) (\<lambda>comment.
         Ok \<lparr>ie_nomatch = nomatch, ie_address = address, ie_comment = comment\<rparr>))))"

record 'x ipset =
  is_name :: ipset_name
  is_set :: "'x ipset_entry list"
  is_comment :: "string option"

definition ipset_new :: "ipset_name \<Rightarrow> 'x ipset" where
  "ipset_new name = \<lparr>is_name = name, is_set = [], is_comment = None\<rparr>"

definition ipset_from_parts :: "ipset_scope \<Rightarrow> string \<Rightarrow> 'x ipset" where
  "ipset_from_parts scope name = ipset_new \<lparr>in_scope = scope, in_name = name\<rparr>"

definition ipset_push :: "'x ipset_entry \<Rightarrow> 'x ipset \<Rightarrow> 'x ipset" where
  "ipset_push e s = s\<lparr>is_set := is_set s @ [e]\<rparr>"

definition ipset_parse_entry ::
  "'x env \<Rightarrow> string \<Rightarrow> 'x ipset \<Rightarrow> (parse_error, unit) result \<times> 'x ipset" where
  "ipset_parse_entry env line s = (case ipset_entry_from_str env line of
     Err e \<Rightarrow> (Err e, s)
   | Ok e \<Rightarrow> (Ok (), ipset_push e s))"

section \<open>IP filters\<close>

definition index_from_net_key :: "string \<Rightarrow> (parse_error, int) result" where
  "index_from_net_key key =
     (case strip_prefix ''net'' key of
        Some digits \<Rightarrow>
          (case match_digits digits of
             Some (digits, rest) \<Rightarrow>
               and_then (ok_or (InvalidNumber digits) (parse_i64 digits)) (\<lambda>index.
                 if 0 \<le> index \<and> index < 31 \<and> rest = [] then Ok index else Err (InvalidName key))
           | None \<Rightarrow> Err (InvalidName key))
      | None \<Rightarrow> Err (InvalidName key))"

record 'x ipfilter =
  ipf_index :: int
  ipf_ipset :: "'x ipset"

definition name_for_index :: "int \<Rightarrow> string" where
  "name_for_index index = ''ipfilter-net'' @ (if index < 0 then ''-'' else '''') @ dec (nat \<bar>index\<bar>)"

definition ipset_ipfilter :: "'x ipset \<Rightarrow> 'x ipfilter option" where
  "ipset_ipfilter s =
     (if in_scope (is_name s) \<noteq> IpsetGuest then None
      else case strip_prefix ''ipfilter-'' (in_name (is_name s)) of
          None \<Rightarrow> None
        | Some key \<Rightarrow> (case index_from_net_key key of
            Ok index \<Rightarrow> Some \<lparr>ipf_index = index, ipf_ipset = s\<rparr>
          | Err _ \<Rightarrow> None))"

section \<open>Laws\<close>

lemma match_digits_dec: "match_digits (dec n) = Some (dec n, [])"
proof -
  have "takeWhile is_ascii_digit (dec n) = dec n" and "dropWhile is_ascii_digit (dec n) = []"
    using dec_digits [of n] by (auto simp: takeWhile_eq_all_conv dropWhile_eq_Nil_conv)
  then show ?thesis unfolding match_digits_def Let_def by (simp only:) simp
qed

lemma parse_i64_dec: "n < 2 ^ 63 \<Longrightarrow> parse_i64 (dec n) = Some (int n)"
  using dec_head [of n] parse_unsigned_dec [of n "2 ^ 63 - 1"]
  by (auto simp: parse_i64_def parse_signed_def Let_def split: if_splits)

lemma ipset_scope_from_str_iff:
  "ipset_scope_from_str p = Ok sc \<longleftrightarrow> p = CHR ''+'' # ipset_scope_display sc"
  by (cases sc) (auto simp: ipset_scope_from_str_def ipset_scope_display_def)

lemma ipset_scope_no_slash: "CHR ''/'' \<notin> set (CHR ''+'' # ipset_scope_display sc)"
  by (cases sc) (simp_all add: ipset_scope_display_def)

lemma ipset_name_from_str_iff:
  "ipset_name_from_str s = Ok n \<longleftrightarrow> in_name n \<noteq> [] \<and> s = ''+'' @ ipset_name_display n"
proof
  assume "ipset_name_from_str s = Ok n"
  then show "in_name n \<noteq> [] \<and> s = ''+'' @ ipset_name_display n"
    by (auto simp: ipset_name_from_str_def ipset_name_display_def result_simps split_once_Some
        ipset_scope_from_str_iff split: option.splits if_splits)
next
  assume a: "in_name n \<noteq> [] \<and> s = ''+'' @ ipset_name_display n"
  then have "split_once (CHR ''/'') s
      = Some (CHR ''+'' # ipset_scope_display (in_scope n), in_name n)"
    using split_once_append [OF ipset_scope_no_slash] by (simp add: ipset_name_display_def)
  moreover have "ipset_scope_from_str (CHR ''+'' # ipset_scope_display (in_scope n)) = Ok (in_scope n)"
    by (simp add: ipset_scope_from_str_iff)
  ultimately show "ipset_name_from_str s = Ok n" using a by (simp add: ipset_name_from_str_def)
qed

text \<open>
  The filter of a guest's network interface is found by the name the code generates for it: a
  guest ipset named for index \<open>i\<close> is an IP filter with that index when \<open>i\<close> is below 31, and no
  other scope yields a filter.
\<close>

theorem ipfilter_name_roundtrip:
  assumes "0 \<le> i" and "i < 31"
  shows "ipset_ipfilter (ipset_from_parts IpsetGuest (name_for_index i))
      = Some \<lparr>ipf_index = i, ipf_ipset = ipset_from_parts IpsetGuest (name_for_index i)\<rparr>
    \<and> ipset_ipfilter (ipset_from_parts IpsetSdn (name_for_index i)) = None"
proof -
  have "index_from_net_key (''net'' @ dec (nat i)) = Ok i"
    using assms parse_i64_dec [of "nat i"] by (simp add: index_from_net_key_def match_digits_dec)
  then show ?thesis
    using assms by (simp add: ipset_ipfilter_def ipset_from_parts_def ipset_new_def name_for_index_def)
qed

theorem ipfilter_name_roundtrip_witness:
  "ipset_ipfilter (ipset_from_parts IpsetSdn (name_for_index 30)) = (None :: sample ipfilter option)"
  by (rule conjunct2 [OF ipfilter_name_roundtrip]) simp_all

lemma rule_ipset_scoped: "rule_ipset_name_from_str s = Ok (ScopedIpset n) \<longleftrightarrow> ipset_name_from_str s = Ok n"
  by (auto simp: rule_ipset_name_from_str_def split: result.splits)

lemma legacy_ipset_name_from_str_iff:
  "legacy_ipset_name_from_str s = Ok (LegacyIpsetName l) \<longleftrightarrow> s = ''+'' @ l \<and> match_name l = Some (l, [])"
proof
  assume "legacy_ipset_name_from_str s = Ok (LegacyIpsetName l)"
  then obtain name where "s = ''+'' @ name" and "match_name name = Some (l, [])"
    by (auto simp: legacy_ipset_name_from_str_def split: option.splits list.splits)
  moreover from this(2) have "name = l" by (simp add: match_name_iff)
  ultimately show "s = ''+'' @ l \<and> match_name l = Some (l, [])" by simp
qed (simp add: legacy_ipset_name_from_str_def)

lemma rule_ipset_legacy:
  "rule_ipset_name_from_str s = Ok (LegacyIpset l) \<longleftrightarrow> legacy_ipset_name_from_str s = Ok l"
proof (cases "ipset_name_from_str s")
  case (Ok n)
  have "legacy_ipset_name_from_str s \<noteq> Ok (LegacyIpsetName r)" for r
  proof
    assume "legacy_ipset_name_from_str s = Ok (LegacyIpsetName r)"
    then have "s = ''+'' @ r" and "CHR ''/'' \<notin> set r"
      by (auto simp: legacy_ipset_name_from_str_iff legacy_no_slash)
    moreover have "s = ''+'' @ ipset_name_display n" using Ok by (simp add: ipset_name_from_str_iff)
    ultimately show False by (auto simp: ipset_name_display_def)
  qed
  then have "legacy_ipset_name_from_str s \<noteq> Ok l" by (cases l) blast
  with Ok show ?thesis by (simp add: rule_ipset_name_from_str_def)
qed (simp add: rule_ipset_name_from_str_def split: result.split)

lemma display_no_plus: "ipset_name_display n \<noteq> ''+'' @ r"
  by (cases "in_scope n") (simp_all add: ipset_name_display_def ipset_scope_display_def)

lemma rule_ipset_display: "\<not> is_ok (rule_ipset_name_from_str (ipset_name_display n))"
proof
  assume "is_ok (rule_ipset_name_from_str (ipset_name_display n))"
  then obtain r where r: "rule_ipset_name_from_str (ipset_name_display n) = Ok r" by (auto simp: is_ok_iff)
  show False
  proof (cases r)
    case (ScopedIpset m)
    with r display_no_plus [of n "ipset_name_display m"] show False
      by (simp add: rule_ipset_scoped ipset_name_from_str_iff)
  next
    case (LegacyIpset l)
    with r display_no_plus [of n] show False
      by (metis rule_ipset_legacy legacy_ipset_name.exhaust legacy_ipset_name_from_str_iff)
  qed
qed

text \<open>
  The texts of rule names are read as what they are: a scoped ipset name needs a plus sign and
  a known scope before the slash, a legacy name a plus sign and name characters only, and the text
  that \<open>Display\<close> writes for a scoped name, which has no plus sign, is neither.
\<close>

theorem rule_ipset_name_forms:
  "(rule_ipset_name_from_str s = Ok (ScopedIpset n)
      \<longleftrightarrow> in_name n \<noteq> [] \<and> s = ''+'' @ ipset_name_display n)
   \<and> (rule_ipset_name_from_str s = Ok (LegacyIpset (LegacyIpsetName l))
      \<longleftrightarrow> s = ''+'' @ l \<and> match_name l = Some (l, []))
   \<and> \<not> is_ok (rule_ipset_name_from_str (ipset_name_display n))"
  by (simp only: rule_ipset_scoped rule_ipset_legacy ipset_name_from_str_iff
      legacy_ipset_name_from_str_iff rule_ipset_display simp_thms)

end
