(* ===== verification/Sdn_Ipam.thy ===== *)
theory Sdn_Ipam
  imports Sdn_Names Fw_Ipset
begin

text \<open>
  The IPAM database (\<open>sdn/ipam.rs\<close>): the JSON form, its entries, the common form with its
  invariant that no address of a subnet is allocated twice, and the IP sets of guests.
\<close>

type_synonym vmid = "32 word"

section \<open>Data\<close>

record 'x ipam_json_data_vm =
  ijv_vmid :: vmid
  ijv_hostname :: "string option"
  ijv_mac :: "'x mac_address"

datatype 'x ipam_json_data =
  JsonVm "'x ipam_json_data_vm" | JsonGateway "8 word" | JsonCustom "'x mac_address"

type_synonym 'x ip_json = "(ip_addr, 'x ipam_json_data) btree_map"
type_synonym 'x subnet_json = "('x cidr, 'x ip_json) btree_map"
type_synonym 'x ipam_json = "(zone_name, 'x subnet_json) btree_map"

record 'x ipam_data_vm =
  idv_ip :: ip_addr
  idv_vmid :: vmid
  idv_mac :: "'x mac_address"
  idv_hostname :: "string option"

record 'x ipam_data_custom =
  idc_ip :: ip_addr
  idc_mac :: "'x mac_address"

datatype 'x ipam_data = DataVm "'x ipam_data_vm" | DataGateway ip_addr | DataCustom "'x ipam_data_custom"

definition ipam_data_from_json :: "ip_addr \<Rightarrow> 'x ipam_json_data \<Rightarrow> 'x ipam_data" where
  "ipam_data_from_json ip d = (case d of
     JsonVm v \<Rightarrow> DataVm \<lparr>idv_ip = ip, idv_vmid = ijv_vmid v, idv_mac = ijv_mac v,
       idv_hostname = ijv_hostname v\<rparr>
   | JsonGateway _ \<Rightarrow> DataGateway ip
   | JsonCustom mac \<Rightarrow> DataCustom \<lparr>idc_ip = ip, idc_mac = mac\<rparr>)"

definition ipam_data_ip :: "'x ipam_data \<Rightarrow> ip_addr" where
  "ipam_data_ip d = (case d of DataVm v \<Rightarrow> idv_ip v | DataGateway ip \<Rightarrow> ip | DataCustom c \<Rightarrow> idc_ip c)"

datatype ipam_error = IpamNameError sdn_name_error | InvalidIpAddress | DuplicateIpAddress | IpAddressOutOfBounds

record 'x ipam_entry =
  ipe_subnet :: "'x subnet_name"
  ipe_data :: "'x ipam_data"

definition ipam_entry_new ::
  "'x env \<Rightarrow> 'x subnet_name \<Rightarrow> 'x ipam_data \<Rightarrow> (ipam_error, 'x ipam_entry) result" where
  "ipam_entry_new env subnet data =
     (if \<not> cidr_contains_address env (snd subnet) (ipam_data_ip data) then Err IpAddressOutOfBounds
      else Ok \<lparr>ipe_subnet = subnet, ipe_data = data\<rparr>)"

definition entry_ip :: "'x ipam_entry \<Rightarrow> ip_addr" where
  "entry_ip e = ipam_data_ip (ipe_data e)"

section \<open>The database\<close>

type_synonym 'x ipam = "('x subnet_name, 'x ipam_entry list) btree_map"

definition ipam_add_entry ::
  "('x::linorder) ipam_entry \<Rightarrow> 'x ipam \<Rightarrow> (ipam_error, unit) result \<times> 'x ipam" where
  "ipam_add_entry e m = (case bt_get m (ipe_subnet e) of
     Some es \<Rightarrow>
       if list_ex (\<lambda>x. entry_ip x = entry_ip e) es then (Err DuplicateIpAddress, m)
       else (Ok (), bt_insert (ipe_subnet e) (es @ [e]) m)
   | None \<Rightarrow> (Ok (), bt_insert (ipe_subnet e) [e] m))"

definition ipam_from_entries :: "('x::linorder) ipam_entry list \<Rightarrow> (ipam_error, 'x ipam) result" where
  "ipam_from_entries es = (case try_each ipam_add_entry es [] of
     (Err x, _) \<Rightarrow> Err x | (Ok _, m) \<Rightarrow> Ok m)"

definition ipam_read ::
  "('x::linorder) env \<Rightarrow> zone_name \<Rightarrow> 'x cidr \<Rightarrow> 'x ipam \<Rightarrow> ip_addr \<times> 'x ipam_json_data
    \<Rightarrow> (ipam_error, 'x ipam) result" where
  "ipam_read env zone cidr m = (\<lambda>(ip, json).
     and_then (ipam_entry_new env (zone, cidr) (ipam_data_from_json ip json)) (\<lambda>e.
     case ipam_add_entry e m of (Err x, _) \<Rightarrow> Err x | (Ok _, m') \<Rightarrow> Ok m'))"

definition ipam_try_from :: "('x::linorder) env \<Rightarrow> 'x ipam_json \<Rightarrow> (ipam_error, 'x ipam) result" where
  "ipam_try_from env v =
     try_fold (\<lambda>m (zone, subnets).
       try_fold (\<lambda>m (cidr, ips). try_fold (ipam_read env zone cidr) m ips) m subnets) [] v"

section \<open>IP sets of guests\<close>

definition is_allowed :: "'a set \<Rightarrow> 'a \<Rightarrow> bool" where
  "is_allowed l x \<longleftrightarrow> x \<in> l"

text \<open>The result is the hash map of the fold; the code returns its values in no given order.\<close>

definition ipam_vms :: "vmid set option \<Rightarrow> ('x::linorder) ipam \<Rightarrow> 'x ipam_data_vm list" where
  "ipam_vms allowed m = concat (map (\<lambda>(_, es). concat (map (\<lambda>e. case ipe_data e of
       DataVm d \<Rightarrow> if case allowed of None \<Rightarrow> True | Some l \<Rightarrow> is_allowed l (idv_vmid d) then [d] else []
     | _ \<Rightarrow> []) es)) m)"

definition guest_ipset :: "vmid \<Rightarrow> 'x ipset" where
  "guest_ipset i = ipset_from_parts IpsetSdn (''guest-ipam-'' @ dec (unat i))"

definition push_guest_ip ::
  "'x env \<Rightarrow> (vmid \<Rightarrow> 'x ipset option) \<Rightarrow> 'x ipam_data_vm \<Rightarrow> (vmid \<Rightarrow> 'x ipset option)" where
  "push_guest_ip env acc d =
     (let s = (case acc (idv_vmid d) of None \<Rightarrow> guest_ipset (idv_vmid d) | Some s \<Rightarrow> s)
      in acc(idv_vmid d \<mapsto> ipset_push (ipset_entry_from (IpsetCidr (cidr_from env (idv_ip d)))) s))"

definition ipam_ipsets ::
  "('x::linorder) env \<Rightarrow> vmid set option \<Rightarrow> 'x ipam \<Rightarrow> (vmid \<Rightarrow> 'x ipset option)" where
  "ipam_ipsets env allowed m = foldl (push_guest_ip env) (\<lambda>_. None) (ipam_vms allowed m)"

section \<open>The invariant\<close>

definition ipam_wf :: "('x::linorder) env \<Rightarrow> 'x ipam \<Rightarrow> bool" where
  "ipam_wf env m \<longleftrightarrow> bt_wf m \<and>
     (\<forall>(k, es)\<in>set m. distinct (map entry_ip es) \<and> (\<forall>e\<in>set es. ipe_subnet e = k))"

lemma ipam_add_entry_wf:
  assumes "ipam_wf env m"
  shows "ipam_wf env (snd (ipam_add_entry e m))"
proof -
  let ?P = "\<lambda>k es. distinct (map entry_ip es) \<and> (\<forall>e\<in>set es. ipe_subnet e = k)"
  from assms have wf: "bt_wf m" and all: "\<forall>(k, es)\<in>set m. ?P k es" by (auto simp: ipam_wf_def)
  have put: "ipam_wf env (bt_insert k es m)" if "?P k es" for k es
    unfolding ipam_wf_def using bt.all_put [OF wf all that] bt_wf_insert [OF wf] by blast
  show ?thesis
  proof (cases "bt_get m (ipe_subnet e)")
    case None
    with put show ?thesis by (simp add: ipam_add_entry_def)
  next
    case (Some es)
    from bt.all_get [OF wf all Some] have P: "?P (ipe_subnet e) es" .
    show ?thesis
    proof (cases "list_ex (\<lambda>x. entry_ip x = entry_ip e) es")
      case True
      with Some assms show ?thesis by (simp add: ipam_add_entry_def)
    next
      case False
      with P have "?P (ipe_subnet e) (es @ [e])" by (auto simp: list_ex_iff)
      from put [OF this] Some False show ?thesis by (simp add: ipam_add_entry_def)
    qed
  qed
qed

interpretation ipam_adds: invariant_step ipam_add_entry "ipam_wf env" for env
  by unfold_locales (rule ipam_add_entry_wf)

lemma ipam_read_wf:
  assumes "ipam_wf env m" and "ipam_read env zone cidr m x = Ok m'"
  shows "ipam_wf env m'"
proof -
  from assms(2) obtain e where e: "(case ipam_add_entry e m of (Err x, _) \<Rightarrow> Err x | (Ok _, m') \<Rightarrow> Ok m') = Ok m'"
    by (cases x) (auto simp: ipam_read_def result_simps)
  obtain r s where rs: "ipam_add_entry e m = (r, s)" by force
  with e have "s = m'" by (cases r) auto
  with rs ipam_add_entry_wf [OF assms(1), of e] show ?thesis by simp
qed

text \<open>The addresses that are allocated, with their subnets.\<close>

definition allocated :: "('x::linorder) ipam \<Rightarrow> ('x subnet_name \<times> ip_addr) set" where
  "allocated m = {(k, entry_ip e) |k e es. bt_get m k = Some es \<and> e \<in> set es}"

definition json_items :: "'x ipam_json \<Rightarrow> ('x subnet_name \<times> ip_addr \<times> 'x ipam_json_data) list" where
  "json_items v = concat (map (\<lambda>(zone, subnets).
     concat (map (\<lambda>(cidr, ips). map (\<lambda>x. ((zone, cidr), x)) ips) subnets)) v)"

lemma ipam_data_from_json_ip [simp]: "ipam_data_ip (ipam_data_from_json ip d) = ip"
  by (simp add: ipam_data_ip_def ipam_data_from_json_def split: ipam_json_data.splits)

lemma ipam_read_Ok:
  "ipam_read env zone cidr m (ip, d) = Ok m' \<longleftrightarrow>
     cidr_contains_address env cidr ip \<and> ((zone, cidr), ip) \<notin> allocated m
     \<and> m' = bt_insert (zone, cidr) ((case bt_get m (zone, cidr) of None \<Rightarrow> [] | Some es \<Rightarrow> es)
          @ [\<lparr>ipe_subnet = (zone, cidr), ipe_data = ipam_data_from_json ip d\<rparr>]) m"
  by (auto simp: ipam_read_def ipam_entry_new_def ipam_add_entry_def result_simps allocated_def
      list_ex_iff entry_ip_def split: option.splits if_splits)

lemma allocated_iff:
  "(k, ip) \<in> allocated m \<longleftrightarrow> (\<exists>es. bt_get m k = Some es \<and> ip \<in> entry_ip ` set es)"
  unfolding allocated_def by (cases k) auto

lemma allocated_insert:
  fixes m :: "('a::linorder) ipam"
  shows "allocated (bt_insert k ((case bt_get m k of None \<Rightarrow> [] | Some es \<Rightarrow> es) @ [e]) m)
     = insert (k, entry_ip e) (allocated m)"
proof (rule set_eqI)
  fix x :: "'a subnet_name \<times> ip_addr"
  obtain k' ip where x: "x = (k', ip)" by (cases x) blast
  show "x \<in> allocated (bt_insert k ((case bt_get m k of None \<Rightarrow> [] | Some es \<Rightarrow> es) @ [e]) m)
      \<longleftrightarrow> x \<in> insert (k, entry_ip e) (allocated m)"
    by (cases "k' = k"; cases "bt_get m k") (auto simp: x allocated_iff bt_get_insert)
qed

interpretation ipam_items: claim_collector
  "\<lambda>m (k, x). ipam_read env (fst k) (snd k) m x" "\<lambda>(k, x). [(k, fst x)]" allocated
  "\<lambda>(k, x). cidr_contains_address env (snd k) (fst x)"
  for env :: "('x::linorder) env"
proof unfold_locales
  fix m :: "'x ipam" and i :: "'x subnet_name \<times> ip_addr \<times> 'x ipam_json_data"
  show "is_ok (case i of (k, x) \<Rightarrow> ipam_read env (fst k) (snd k) m x) \<longleftrightarrow>
      (case i of (k, x) \<Rightarrow> cidr_contains_address env (snd k) (fst x))
      \<and> distinct (case i of (k, x) \<Rightarrow> [(k, fst x)])
      \<and> set (case i of (k, x) \<Rightarrow> [(k, fst x)]) \<inter> allocated m = {}"
    by (cases i) (auto simp: is_ok_iff ipam_read_Ok)
next
  fix m m' :: "'x ipam" and i :: "'x subnet_name \<times> ip_addr \<times> 'x ipam_json_data"
  assume "(case i of (k, x) \<Rightarrow> ipam_read env (fst k) (snd k) m x) = Ok m'"
  then show "allocated m' = allocated m \<union> set (case i of (k, x) \<Rightarrow> [(k, fst x)])"
    by (cases i) (auto simp: ipam_read_Ok allocated_insert entry_ip_def)
qed

section \<open>Reading the JSON form\<close>

lemma ipam_try_from_items:
  "ipam_try_from env v = try_fold (\<lambda>m (k, x). ipam_read env (fst k) (snd k) m x) [] (json_items v)"
proof -
  have step: "(\<lambda>m c. try_fold (\<lambda>m (k, x). ipam_read env (fst k) (snd k) m x) m
        (case c of (cidr, ips) \<Rightarrow> map (\<lambda>x. ((zone, cidr), x)) ips))
      = (\<lambda>m (cidr, ips). try_fold (ipam_read env zone cidr) m ips)" for zone
    by (auto simp: fun_eq_iff try_fold_map)
  show ?thesis
    unfolding ipam_try_from_def json_items_def try_fold_concat_map
    by (intro arg_cong [of _ _ "\<lambda>f. try_fold f [] v"] ext)
      (simp add: try_fold_concat_map step split: prod.split)
qed

definition ipam_json_wf :: "('x::linorder) ipam_json \<Rightarrow> bool" where
  "ipam_json_wf v \<longleftrightarrow> bt_wf v \<and> (\<forall>(zone, subnets)\<in>set v. bt_wf subnets
     \<and> (\<forall>(cidr, ips)\<in>set subnets. bt_wf ips))"

lemma json_items_distinct:
  assumes "ipam_json_wf v"
  shows "distinct (map (\<lambda>(k, x). (k, fst x)) (json_items v))"
proof -
  have subnet: "distinct (map (\<lambda>x. ((zone, cidr), fst x)) ips)
      \<and> (\<forall>x\<in>set (map (\<lambda>x. ((zone, cidr), fst x)) ips). snd (fst x) = cidr)"
    if "(zone, subnets) \<in> set v" and "(cidr, ips) \<in> set subnets" for zone subnets cidr ips
  proof -
    have "distinct (bt_keys ips)" using assms that bt_wf_distinct by (fastforce simp: ipam_json_wf_def)
    then show ?thesis by (simp add: distinct_map inj_on_def)
  qed
  have zone: "distinct (concat (map (\<lambda>ci. map (\<lambda>x. ((zone, fst ci), fst x)) (snd ci)) subnets))"
    if "(zone, subnets) \<in> set v" for zone subnets
    by (rule distinct_owned_concat [where own = "\<lambda>x. snd (fst x)"])
      (use assms that subnet bt_wf_distinct in \<open>fastforce simp: ipam_json_wf_def\<close>)+
  have "distinct (concat (map (\<lambda>zs. concat (map (\<lambda>ci. map (\<lambda>x. ((fst zs, fst ci), fst x)) (snd ci))
      (snd zs))) v))"
    by (rule distinct_owned_concat [where own = "\<lambda>x. fst (fst x)"])
      (use assms zone bt_wf_distinct in \<open>auto simp: ipam_json_wf_def\<close>)
  then show ?thesis
    by (simp add: json_items_def map_concat comp_def case_prod_unfold)
qed

lemma item_claims: "concat (map (\<lambda>(k, x). [(k, fst x)]) items) = map (\<lambda>(k, x). (k, fst x)) items"
  by (induction items) auto

lemma ipam_try_from_iff:
  assumes "ipam_json_wf v"
  shows "is_ok (ipam_try_from env v)
    \<longleftrightarrow> (\<forall>(k, ip, d)\<in>set (json_items v). cidr_contains_address env (snd k) ip)"
proof -
  have "allocated [] = {}" by (simp add: allocated_def)
  from ipam_items.fold_ok_empty [OF this, of env "json_items v"] json_items_distinct [OF assms]
  show ?thesis by (auto simp: ipam_try_from_items item_claims)
qed

lemma ipam_try_from_Ok:
  assumes "ipam_try_from env v = Ok m"
  shows "ipam_wf env m" and "allocated m = (\<lambda>(k, x). (k, fst x)) ` set (json_items v)"
proof -
  have fold: "try_fold (\<lambda>m (k, x). ipam_read env (fst k) (snd k) m x) [] (json_items v) = Ok m"
    using assms by (simp add: ipam_try_from_items)
  have "ipam_wf env ([] :: 'a ipam)" by (simp add: ipam_wf_def)
  then show "ipam_wf env m"
    by (rule try_fold_inv [rotated, OF _ fold]) (auto intro: ipam_read_wf split: prod.splits)
  show "allocated m = (\<lambda>(k, x). (k, fst x)) ` set (json_items v)"
    using ipam_items.fold_seen [OF fold] by (simp add: item_claims) (simp add: allocated_def)
qed



section \<open>The IP sets\<close>

lemma push_guest_ip_apply:
  "push_guest_ip env acc d i =
     (if idv_vmid d = i
      then Some (let s = (case acc i of None \<Rightarrow> guest_ipset i | Some s \<Rightarrow> s)
                 in s\<lparr>is_set := is_set s @ [ipset_entry_from (IpsetCidr (cidr_from env (idv_ip d)))]\<rparr>)
      else acc i)"
  by (auto simp: push_guest_ip_def ipset_push_def Let_def)

lemma push_guest_ips:
  "foldl (push_guest_ip env) acc ds i =
     (let es = map (\<lambda>d. ipset_entry_from (IpsetCidr (cidr_from env (idv_ip d))))
        (filter (\<lambda>d. idv_vmid d = i) ds)
      in if es = [] then acc i
         else Some (let s = (case acc i of None \<Rightarrow> guest_ipset i | Some s \<Rightarrow> s)
                    in s\<lparr>is_set := is_set s @ es\<rparr>))"
proof (induction ds arbitrary: acc)
  case (Cons d ds)
  show ?case
    unfolding foldl.simps Cons.IH
    by (cases "idv_vmid d = i"; cases "acc i") (simp_all add: push_guest_ip_apply Let_def)
qed simp

text \<open>
  The IP set generated for a guest contains the addresses of exactly that guest's IPAM entries,
  in the order of the database, each once per entry; a guest that is filtered out or has no entry
  gets no set.
\<close>

theorem ipam_ipset_of_guest:
  "ipam_ipsets env allowed m i =
     (let ds = filter (\<lambda>d. idv_vmid d = i) (ipam_vms allowed m) in
      if ds = [] then None
      else Some \<lparr>is_name = \<lparr>in_scope = IpsetSdn, in_name = ''guest-ipam-'' @ dec (unat i)\<rparr>,
             is_set = map (\<lambda>d. ipset_entry_from (IpsetCidr (cidr_from env (idv_ip d)))) ds,
             is_comment = None\<rparr>)"
  by (simp add: ipam_ipsets_def push_guest_ips Let_def guest_ipset_def ipset_from_parts_def ipset_new_def)

end
