(* ===== verification/Sdn_Config.thy ===== *)
theory Sdn_Config
  imports Sdn_Ipam
begin

text \<open>
  The SDN configuration of zones, vnets and subnets (\<open>sdn/config.rs\<close>): the running configuration
  as it is deserialized, the common form with its operations, the reading of one into the other,
  and the IP sets of vnets. The hash maps of the running configuration are the lists of their
  bindings in iteration order.
\<close>

section \<open>Data\<close>

datatype 'x sdn_config_error =
  InvalidZoneType | InvalidDhcpType | ZoneNotFound | VnetNotFound | MismatchedCidrGateway
| MismatchedSubnetZone | ConfigNameError sdn_name_error | InvalidDhcpRange "'x ip_range_error"
| DuplicateVnetName

datatype zone_type = ZoneSimple | ZoneVlan | ZoneQinq | ZoneVxlan | ZoneEvpn

definition zone_type_from_str :: "string \<Rightarrow> ('x sdn_config_error, zone_type) result" where
  "zone_type_from_str s =
     (if s = ''simple'' then Ok ZoneSimple
      else if s = ''vlan'' then Ok ZoneVlan
      else if s = ''qinq'' then Ok ZoneQinq
      else if s = ''vxlan'' then Ok ZoneVxlan
      else if s = ''evpn'' then Ok ZoneEvpn
      else Err InvalidZoneType)"

definition zone_type_display :: "zone_type \<Rightarrow> string" where
  "zone_type_display t = (case t of
     ZoneSimple \<Rightarrow> ''simple'' | ZoneVlan \<Rightarrow> ''vlan'' | ZoneQinq \<Rightarrow> ''qinq''
   | ZoneVxlan \<Rightarrow> ''vxlan'' | ZoneEvpn \<Rightarrow> ''evpn'')"

datatype dhcp_type = Dnsmasq

definition dhcp_type_from_str :: "string \<Rightarrow> ('x sdn_config_error, dhcp_type) result" where
  "dhcp_type_from_str s = (if s = ''dnsmasq'' then Ok Dnsmasq else Err InvalidDhcpType)"

definition dhcp_type_display :: "dhcp_type \<Rightarrow> string" where
  "dhcp_type_display t = (case t of Dnsmasq \<Rightarrow> ''dnsmasq'')"

record zone_running_config =
  zrc_ty :: zone_type
  zrc_dhcp :: "dhcp_type option"

record dhcp_range =
  dr_start :: ip_addr
  dr_end :: ip_addr

definition ip_range_try_from ::
  "'x env \<Rightarrow> dhcp_range \<Rightarrow> ('x ip_range_error, 'x ip_range) result" where
  "ip_range_try_from env r = ip_range_new env (dr_start r) (dr_end r)"

record subnet_running_config =
  src_vnet :: vnet_name
  src_gateway :: "ip_addr option"
  src_snat :: "8 word option"
  src_dhcp_range :: "dhcp_range list option"

record vnet_running_config =
  vrc_tag :: "32 word option"
  vrc_zone :: zone_name

record 'x running_config =
  rc_zones :: "(zone_name \<times> zone_running_config) list option"
  rc_subnets :: "('x subnet_name \<times> subnet_running_config) list option"
  rc_vnets :: "(vnet_name \<times> vnet_running_config) list option"

record 'x subnet_config =
  sc_name :: "'x subnet_name"
  sc_gateway :: "ip_addr option"
  sc_snat :: bool
  sc_dhcp_range :: "'x ip_range list"

definition subnet_config_new ::
  "'x subnet_name \<Rightarrow> ip_addr option \<Rightarrow> bool \<Rightarrow> 'x ip_range list
    \<Rightarrow> ('x sdn_config_error, 'x subnet_config) result" where
  "subnet_config_new name gateway snat ranges =
     and_then (case gateway of
         None \<Rightarrow> Ok ()
       | Some g \<Rightarrow>
           if \<not> (is_ipv4 g \<and> cidr_is_ipv4 (snd name) \<or> is_ipv6 g \<and> cidr_is_ipv6 (snd name))
           then Err MismatchedCidrGateway else Ok ()) (\<lambda>_.
     Ok \<lparr>sc_name = name, sc_gateway = gateway, sc_snat = snat, sc_dhcp_range = ranges\<rparr>)"

definition subnet_try_from_running_config ::
  "'x env \<Rightarrow> 'x subnet_name \<Rightarrow> subnet_running_config
    \<Rightarrow> ('x sdn_config_error, 'x subnet_config) result" where
  "subnet_try_from_running_config env name rc =
     (let snat = (case src_snat rc of None \<Rightarrow> False | Some n \<Rightarrow> n \<noteq> 0) in
      and_then (case src_dhcp_range rc of
          Some rs \<Rightarrow> map_err InvalidDhcpRange (try_map (ip_range_try_from env) rs)
        | None \<Rightarrow> Ok []) (\<lambda>ranges.
      subnet_config_new name (src_gateway rc) snat ranges))"

record 'x vnet_config =
  vc_name :: vnet_name
  vc_tag :: "32 word option"
  vc_subnets :: "('x cidr, 'x subnet_config) btree_map"

definition vnet_config_new :: "vnet_name \<Rightarrow> 32 word option \<Rightarrow> 'x vnet_config" where
  "vnet_config_new name tag = \<lparr>vc_name = name, vc_tag = tag, vc_subnets = []\<rparr>"

definition vnet_add_subnets :: "('x::linorder) subnet_config list \<Rightarrow> 'x vnet_config \<Rightarrow> 'x vnet_config" where
  "vnet_add_subnets ss v =
     v\<lparr>vc_subnets := bt_extend (vc_subnets v) (map (\<lambda>s. (snd (sc_name s), s)) ss)\<rparr>"

definition vnet_add_subnet ::
  "('x::linorder) subnet_config \<Rightarrow> 'x vnet_config \<Rightarrow> 'x subnet_config option \<times> 'x vnet_config" where
  "vnet_add_subnet s v = (bt_get (vc_subnets v) (snd (sc_name s)),
     v\<lparr>vc_subnets := bt_insert (snd (sc_name s)) s (vc_subnets v)\<rparr>)"

definition vnet_from_subnets_and_tag ::
  "vnet_name \<Rightarrow> 32 word option \<Rightarrow> ('x::linorder) subnet_config list \<Rightarrow> 'x vnet_config" where
  "vnet_from_subnets_and_tag name tag ss =
     vnet_add_subnets ss ((vnet_config_new name None)\<lparr>vc_tag := tag\<rparr>)"

record 'x zone_config =
  zc_name :: zone_name
  zc_ty :: zone_type
  zc_vnets :: "(vnet_name, 'x vnet_config) btree_map"

definition zone_config_new :: "zone_name \<Rightarrow> zone_type \<Rightarrow> 'x zone_config" where
  "zone_config_new name ty = \<lparr>zc_name = name, zc_ty = ty, zc_vnets = []\<rparr>"

definition zone_add_vnets :: "'x vnet_config list \<Rightarrow> 'x zone_config \<Rightarrow> 'x zone_config" where
  "zone_add_vnets vs z = z\<lparr>zc_vnets := bt_extend (zc_vnets z) (map (\<lambda>v. (vc_name v, v)) vs)\<rparr>"

definition zone_from_vnets :: "zone_name \<Rightarrow> zone_type \<Rightarrow> 'x vnet_config list \<Rightarrow> 'x zone_config" where
  "zone_from_vnets name ty vs = zone_add_vnets vs (zone_config_new name ty)"

section \<open>The configuration\<close>

type_synonym 'x sdn_config = "(zone_name, 'x zone_config) btree_map"

definition sdn_add_subnet ::
  "zone_name \<Rightarrow> vnet_name \<Rightarrow> ('x::linorder) subnet_config \<Rightarrow> 'x sdn_config
    \<Rightarrow> ('x sdn_config_error, 'x subnet_config option) result \<times> 'x sdn_config" where
  "sdn_add_subnet zn vn s m =
     (if zn \<noteq> fst (sc_name s) then (Err MismatchedSubnetZone, m)
      else case bt_get m zn of
          None \<Rightarrow> (Err ZoneNotFound, m)
        | Some z \<Rightarrow> (case bt_get (zc_vnets z) vn of
            None \<Rightarrow> (Err VnetNotFound, m)
          | Some v \<Rightarrow> (case vnet_add_subnet s v of (old, v') \<Rightarrow>
              (Ok old, bt_insert zn (z\<lparr>zc_vnets := bt_insert vn v' (zc_vnets z)\<rparr>) m))))"

definition sdn_add_vnet ::
  "zone_name \<Rightarrow> ('x::linorder) vnet_config \<Rightarrow> 'x sdn_config
    \<Rightarrow> ('x sdn_config_error, 'x vnet_config option) result \<times> 'x sdn_config" where
  "sdn_add_vnet zn v m =
     (if list_ex (\<lambda>z. zc_name z \<noteq> zn \<and> bt_contains_key (zc_vnets z) (vc_name v)) (bt_values m)
      then (Err DuplicateVnetName, m)
      else case bt_get m zn of
          None \<Rightarrow> (Err ZoneNotFound, m)
        | Some z \<Rightarrow>
            (let subnets = vc_subnets v;
                 old = bt_get (zc_vnets z) (vc_name v);
                 m1 = bt_insert zn (z\<lparr>zc_vnets :=
                        bt_insert (vc_name v) (v\<lparr>vc_subnets := []\<rparr>) (zc_vnets z)\<rparr>) m
             in case try_each (sdn_add_subnet zn (vc_name v)) (bt_values subnets) m1 of
                  (Err e, m2) \<Rightarrow> (Err e, m2)
                | (Ok _, m2) \<Rightarrow> (Ok old, m2)))"

definition sdn_add_zone ::
  "('x::linorder) zone_config \<Rightarrow> 'x sdn_config
    \<Rightarrow> ('x sdn_config_error, 'x zone_config option) result \<times> 'x sdn_config" where
  "sdn_add_zone z m =
     (let vnets = zc_vnets z;
          old = bt_get m (zc_name z);
          m1 = bt_insert (zc_name z) (z\<lparr>zc_vnets := []\<rparr>) m
      in case try_each (sdn_add_vnet (zc_name z)) (bt_values vnets) m1 of
           (Err e, m2) \<Rightarrow> (Err e, m2)
         | (Ok _, m2) \<Rightarrow> (Ok old, m2))"

definition sdn_add_zones ::
  "('x::linorder) zone_config list \<Rightarrow> 'x sdn_config
    \<Rightarrow> ('x sdn_config_error, unit) result \<times> 'x sdn_config" where
  "sdn_add_zones zs m = try_each sdn_add_zone zs m"

definition sdn_from_zones ::
  "('x::linorder) zone_config list \<Rightarrow> ('x sdn_config_error, 'x sdn_config) result" where
  "sdn_from_zones zs = (case sdn_add_zones zs [] of (Err e, _) \<Rightarrow> Err e | (Ok _, m) \<Rightarrow> Ok m)"

fun sdn_vnet :: "('x::linorder) sdn_config \<Rightarrow> vnet_name \<Rightarrow> ('x zone_config \<times> 'x vnet_config) option" where
  "sdn_vnet [] name = None"
| "sdn_vnet ((_, z) # m) name = (case bt_get (zc_vnets z) name of
     Some v \<Rightarrow> Some (z, v) | None \<Rightarrow> sdn_vnet m name)"

definition sdn_vnets :: "('x::linorder) sdn_config \<Rightarrow> ('x zone_config \<times> 'x vnet_config) list" where
  "sdn_vnets m = concat (map (\<lambda>z. map (Pair z) (bt_values (zc_vnets z))) (bt_values m))"

section \<open>Reading the running configuration\<close>

definition option_list :: "'a list option \<Rightarrow> 'a list" where
  "option_list x = (case x of None \<Rightarrow> [] | Some xs \<Rightarrow> xs)"

definition read_vnet ::
  "vnet_name \<times> vnet_running_config \<Rightarrow> ('x::linorder) sdn_config
    \<Rightarrow> ('x sdn_config_error, 'x vnet_config option) result \<times> 'x sdn_config" where
  "read_vnet = (\<lambda>(name, rc). sdn_add_vnet (vrc_zone rc) (vnet_config_new name (vrc_tag rc)))"

definition read_subnet ::
  "('x::linorder) env \<Rightarrow> 'x subnet_name \<times> subnet_running_config \<Rightarrow> 'x sdn_config
    \<Rightarrow> ('x sdn_config_error, 'x subnet_config option) result \<times> 'x sdn_config" where
  "read_subnet env = (\<lambda>(name, rc) m. case subnet_try_from_running_config env name rc of
     Err e \<Rightarrow> (Err e, m)
   | Ok s \<Rightarrow> sdn_add_subnet (fst name) (src_vnet rc) s m)"

definition sdn_try_from ::
  "('x::linorder) env \<Rightarrow> 'x running_config \<Rightarrow> ('x sdn_config_error, 'x sdn_config) result" where
  "sdn_try_from env v =
     (case sdn_add_zones (map (\<lambda>(name, rc). zone_config_new name (zrc_ty rc)) (option_list (rc_zones v))) [] of
        (Err e, _) \<Rightarrow> Err e
      | (Ok _, m) \<Rightarrow> (case try_each read_vnet (option_list (rc_vnets v)) m of
          (Err e, _) \<Rightarrow> Err e
        | (Ok _, m) \<Rightarrow> (case try_each (read_subnet env) (option_list (rc_subnets v)) m of
            (Err e, _) \<Rightarrow> Err e
          | (Ok _, m) \<Rightarrow> Ok m)))"

section \<open>IP sets of vnets\<close>

definition vnet_ipset :: "vnet_name \<Rightarrow> string \<Rightarrow> string \<Rightarrow> 'x ipset" where
  "vnet_ipset name suffix comment =
     (ipset_new \<lparr>in_scope = IpsetSdn, in_name = name @ suffix\<rparr>)\<lparr>is_comment := Some comment\<rparr>"

definition push_subnet ::
  "'x env \<Rightarrow> 'x ipset \<times> 'x ipset \<times> 'x ipset \<times> 'x ipset \<Rightarrow> 'x subnet_config
    \<Rightarrow> 'x ipset \<times> 'x ipset \<times> 'x ipset \<times> 'x ipset" where
  "push_subnet env = (\<lambda>(all, gateway, no_gateway, dhcp) s.
     let all = ipset_push (ipset_entry_from (IpsetCidr (snd (sc_name s)))) all;
         no_gateway = ipset_push (ipset_entry_from (IpsetCidr (snd (sc_name s)))) no_gateway;
         (gateway, no_gateway) = (case sc_gateway s of
            None \<Rightarrow> (gateway, no_gateway)
          | Some g \<Rightarrow>
              (ipset_push (ipset_entry_from (IpsetCidr (cidr_from env g))) gateway,
               ipset_push (ipset_entry_new (IpsetCidr (cidr_from env g)) True None) no_gateway));
         dhcp = dhcp\<lparr>is_set := is_set dhcp @ map (\<lambda>r. ipset_entry_from (IpsetRange r)) (sc_dhcp_range s)\<rparr>
     in (all, gateway, no_gateway, dhcp))"

definition vnet_ipsets :: "'x env \<Rightarrow> 'x vnet_config \<Rightarrow> 'x ipset list" where
  "vnet_ipsets env v =
     (let name = vc_name v;
          sets = (vnet_ipset name ''-all'' (''All subnets of VNet '' @ name),
                  vnet_ipset name ''-gateway'' (''All gateways of VNet '' @ name),
                  vnet_ipset name ''-no-gateway'' (''All subnets of VNet '' @ name @ '', excluding gateways''),
                  vnet_ipset name ''-dhcp'' (''DHCP ranges of VNet '' @ name));
          (all, gateway, no_gateway, dhcp) = foldl (push_subnet env) sets (bt_values (vc_subnets v))
      in [all, gateway, no_gateway, dhcp])"

definition sdn_ipsets ::
  "('x::linorder) env \<Rightarrow> vnet_name set option \<Rightarrow> 'x sdn_config \<Rightarrow> 'x ipset list" where
  "sdn_ipsets env allowed m =
     concat (map (vnet_ipsets env)
       (filter (\<lambda>v. case allowed of None \<Rightarrow> True | Some l \<Rightarrow> is_allowed l (vc_name v))
         (concat (map (\<lambda>z. bt_values (zc_vnets z)) (bt_values m)))))"

end
