(* ===== verification/Sdn_Config_Props.thy ===== *)
theory Sdn_Config_Props
  imports Sdn_Config
begin

text \<open>
  The invariants that \<open>sdn/config.rs\<close> documents for \<open>SdnConfig\<close> (a vnet name occurs in one zone
  only, a subnet is stored in the zone its name carries) hold of every configuration its operations
  build, and the running configuration is read without losing or inventing a subnet.
\<close>

section \<open>The invariant\<close>

definition vnet_ok :: "zone_name \<Rightarrow> vnet_name \<Rightarrow> ('x::linorder) vnet_config \<Rightarrow> bool" where
  "vnet_ok k vn v \<longleftrightarrow> vc_name v = vn \<and> bt_wf (vc_subnets v)
     \<and> (\<forall>(c, s)\<in>set (vc_subnets v). sc_name s = (k, c))"

definition zone_ok :: "zone_name \<Rightarrow> ('x::linorder) zone_config \<Rightarrow> bool" where
  "zone_ok k z \<longleftrightarrow> zc_name z = k \<and> bt_wf (zc_vnets z) \<and> (\<forall>(vn, v)\<in>set (zc_vnets z). vnet_ok k vn v)"

definition vnet_names :: "'x zone_config \<Rightarrow> vnet_name set" where
  "vnet_names z = set (bt_keys (zc_vnets z))"

definition sdn_wf :: "('x::linorder) sdn_config \<Rightarrow> bool" where
  "sdn_wf m \<longleftrightarrow> bt_wf m \<and> (\<forall>(k, z)\<in>set m. zone_ok k z)
     \<and> (\<forall>(k, z)\<in>set m. \<forall>(k', z')\<in>set m. k \<noteq> k' \<longrightarrow> vnet_names z \<inter> vnet_names z' = {})"

lemma sdn_wfD:
  assumes "sdn_wf m"
  shows "bt_wf m" and "\<forall>(k, z)\<in>set m. zone_ok k z"
    and "(k, z) \<in> set m \<Longrightarrow> (k', z') \<in> set m \<Longrightarrow> k \<noteq> k' \<Longrightarrow> vnet_names z \<inter> vnet_names z' = {}"
  using assms unfolding sdn_wf_def by blast+

lemma sdn_wf_get: "sdn_wf m \<Longrightarrow> bt_get m k = Some z \<Longrightarrow> zone_ok k z"
  by (rule bt.all_get [OF sdn_wfD(1,2)])

lemma sdn_wf_insert:
  assumes wf: "sdn_wf m" and z: "zone_ok k z"
    and apart: "\<And>k' z'. (k', z') \<in> set m \<Longrightarrow> k' \<noteq> k \<Longrightarrow> vnet_names z \<inter> vnet_names z' = {}"
  shows "sdn_wf (bt_insert k z m)"
proof -
  note put = bt.set_pairs_put [OF sdn_wfD(1) [OF wf], of k z]
  have "\<forall>(k, z)\<in>set (bt_insert k z m). zone_ok k z"
    by (rule bt.all_put [OF sdn_wfD(1,2) [OF wf] z])
  moreover have "vnet_names a \<inter> vnet_names b = {}"
    if "(i, a) \<in> set (bt_insert k z m)" and "(j, b) \<in> set (bt_insert k z m)" and "i \<noteq> j" for i j a b
    using that apart sdn_wfD(3) [OF wf] unfolding put by blast
  ultimately show ?thesis
    unfolding sdn_wf_def using bt_wf_insert [OF sdn_wfD(1) [OF wf]] by blast
qed

text \<open>Replacing a zone by one with the same vnet names keeps the invariant.\<close>

lemma sdn_wf_update:
  assumes wf: "sdn_wf m" and get: "bt_get m k = Some z" and ok: "zone_ok k z'"
    and names: "vnet_names z' = vnet_names z"
  shows "sdn_wf (bt_insert k z' m)"
proof (rule sdn_wf_insert [OF wf ok])
  fix j y
  assume "(j, y) \<in> set m" and "j \<noteq> k"
  moreover have "(k, z) \<in> set m" using get by (rule bt_get_SomeD)
  ultimately show "vnet_names z' \<inter> vnet_names y = {}"
    using sdn_wfD(3) [OF wf] unfolding names by blast
qed

section \<open>The operations keep it\<close>

lemma zone_ok_put:
  assumes "zone_ok k z" and "vnet_ok k vn v"
  shows "zone_ok k (z\<lparr>zc_vnets := bt_insert vn v (zc_vnets z)\<rparr>)"
proof -
  from assms(1) have wf: "bt_wf (zc_vnets z)" and all: "\<forall>(vn, v)\<in>set (zc_vnets z). vnet_ok k vn v"
    by (auto simp: zone_ok_def)
  show ?thesis
    using bt.all_put [OF wf all assms(2)] bt_wf_insert [OF wf, of vn v] assms(1)
    unfolding zone_ok_def by simp
qed

lemma zone_okD:
  assumes "zone_ok k z"
  shows "zc_name z = k" and "bt_wf (zc_vnets z)" and "\<forall>(vn, v)\<in>set (zc_vnets z). vnet_ok k vn v"
  using assms by (auto simp: zone_ok_def)

lemma zone_ok_vnet: "zone_ok k z \<Longrightarrow> bt_get (zc_vnets z) vn = Some v \<Longrightarrow> vnet_ok k vn v"
  by (rule bt.all_get [OF zone_okD(2,3)])

lemma vnet_names_put:
  "vnet_names (z\<lparr>zc_vnets := bt_insert vn v (zc_vnets z)\<rparr>) = insert vn (vnet_names z)"
  unfolding vnet_names_def by (simp add: bt_keys_insert del: set_map)

lemma vnet_ok_add_subnet:
  assumes "vnet_ok (fst (sc_name s)) vn v"
  shows "vnet_ok (fst (sc_name s)) vn (snd (vnet_add_subnet s v))"
proof -
  from assms have wf: "bt_wf (vc_subnets v)"
    and all: "\<forall>(c, t)\<in>set (vc_subnets v). sc_name t = (fst (sc_name s), c)"
    by (auto simp: vnet_ok_def)
  have "sc_name s = (fst (sc_name s), snd (sc_name s))" by simp
  from bt.all_put [OF wf all this] show ?thesis
    using assms bt_wf_insert [OF wf] unfolding vnet_ok_def vnet_add_subnet_def by simp
qed

lemma sdn_add_subnet_wf: "sdn_wf m \<Longrightarrow> sdn_wf (snd (sdn_add_subnet zn vn s m))"
proof (cases "zn = fst (sc_name s)")
  case True
  assume wf: "sdn_wf m"
  show ?thesis
  proof (cases "bt_get m zn")
    case (Some z)
    note z = sdn_wf_get [OF wf Some]
    show ?thesis
    proof (cases "bt_get (zc_vnets z) vn")
      case (Some v)
      have ok: "vnet_ok zn vn (snd (vnet_add_subnet s v))"
        using vnet_ok_add_subnet [of s vn v] zone_ok_vnet [OF z Some] True by simp
      have "vn \<in> vnet_names z" using bt_get_SomeD [OF Some] by (force simp: vnet_names_def)
      then have "sdn_wf (bt_insert zn
          (z\<lparr>zc_vnets := bt_insert vn (snd (vnet_add_subnet s v)) (zc_vnets z)\<rparr>) m)"
        by (intro sdn_wf_update [OF wf \<open>bt_get m zn = Some z\<close> zone_ok_put [OF z ok]])
          (auto simp: vnet_names_put)
      with True Some \<open>bt_get m zn = Some z\<close> show ?thesis
        by (simp add: sdn_add_subnet_def case_prod_beta)
    qed (use wf True Some in \<open>simp add: sdn_add_subnet_def\<close>)
  qed (use wf True in \<open>simp add: sdn_add_subnet_def\<close>)
qed (simp add: sdn_add_subnet_def)

interpretation sdn_subnets: invariant_step "sdn_add_subnet zn vn" sdn_wf for zn vn
  by unfold_locales (rule sdn_add_subnet_wf)

lemma sdn_add_vnet_wf: "sdn_wf m \<Longrightarrow> sdn_wf (snd (sdn_add_vnet zn v m))"
proof (cases "list_ex (\<lambda>z. zc_name z \<noteq> zn \<and> bt_contains_key (zc_vnets z) (vc_name v)) (bt_values m)")
  case False
  assume wf: "sdn_wf m"
  show ?thesis
  proof (cases "bt_get m zn")
    case (Some z)
    note z = sdn_wf_get [OF wf Some]
    let ?z = "z\<lparr>zc_vnets := bt_insert (vc_name v) (v\<lparr>vc_subnets := []\<rparr>) (zc_vnets z)\<rparr>"
    have "sdn_wf (bt_insert zn ?z m)"
    proof (rule sdn_wf_insert [OF wf])
      show "zone_ok zn ?z" by (rule zone_ok_put [OF z]) (simp add: vnet_ok_def)
      fix j y
      assume y: "(j, y) \<in> set m" "j \<noteq> zn"
      then have "zc_name y = j" using sdn_wfD(2) [OF wf] by (auto simp: zone_ok_def)
      with y False have "vc_name v \<notin> vnet_names y"
        by (force simp: list_ex_iff bt_contains_key_iff vnet_names_def)
      moreover have "vnet_names z \<inter> vnet_names y = {}"
        using sdn_wfD(3) [OF wf bt_get_SomeD [OF Some] y(1)] y(2) by blast
      ultimately show "vnet_names ?z \<inter> vnet_names y = {}" by (simp add: vnet_names_put)
    qed
    from sdn_subnets.loop_inv [OF this, of zn "vc_name v" "bt_values (vc_subnets v)"] False Some
    show ?thesis by (auto simp: sdn_add_vnet_def Let_def split: prod.splits result.splits)
  qed (use wf False in \<open>simp add: sdn_add_vnet_def\<close>)
qed (simp add: sdn_add_vnet_def)

interpretation sdn_vnets: invariant_step "sdn_add_vnet zn" sdn_wf for zn
  by unfold_locales (rule sdn_add_vnet_wf)

lemma sdn_add_zone_wf: "sdn_wf m \<Longrightarrow> sdn_wf (snd (sdn_add_zone z m))"
proof -
  assume wf: "sdn_wf m"
  have "sdn_wf (bt_insert (zc_name z) (z\<lparr>zc_vnets := []\<rparr>) m)"
    by (rule sdn_wf_insert [OF wf]) (simp_all add: zone_ok_def vnet_names_def)
  from sdn_vnets.loop_inv [OF this, of "zc_name z" "bt_values (zc_vnets z)"] show ?thesis
    by (auto simp: sdn_add_zone_def Let_def split: prod.splits result.splits)
qed

interpretation sdn_zones: invariant_step sdn_add_zone sdn_wf
  by unfold_locales (rule sdn_add_zone_wf)

interpretation sdn_read_vnets: invariant_step read_vnet sdn_wf
  by unfold_locales (auto simp: read_vnet_def sdn_add_vnet_wf split: prod.split)

interpretation sdn_read_subnets: invariant_step "read_subnet env" sdn_wf for env
  by unfold_locales (auto simp: read_subnet_def sdn_add_subnet_wf split: prod.split result.split)

lemma sdn_wf_empty [simp]: "sdn_wf []"
  by (simp add: sdn_wf_def)

text \<open>The three loops of \<open>try_from\<close> and the states between them.\<close>

lemma sdn_try_from_loops:
  assumes "sdn_try_from env v = Ok m"
  obtains m1 m2 where
    "try_each sdn_add_zone (map (\<lambda>(name, rc). zone_config_new name (zrc_ty rc)) (option_list (rc_zones v))) []
       = (Ok (), m1)"
    "try_each read_vnet (option_list (rc_vnets v)) m1 = (Ok (), m2)"
    "try_each (read_subnet env) (option_list (rc_subnets v)) m2 = (Ok (), m)"
  using assms by (auto simp: sdn_try_from_def sdn_add_zones_def split: prod.splits result.splits)

lemma sdn_try_from_wf: "sdn_try_from env v = Ok m \<Longrightarrow> sdn_wf m"
proof (erule sdn_try_from_loops)
  fix m1 m2
  assume steps: "try_each sdn_add_zone (map (\<lambda>(name, rc). zone_config_new name (zrc_ty rc))
      (option_list (rc_zones v))) [] = (Ok (), m1)"
    "try_each read_vnet (option_list (rc_vnets v)) m1 = (Ok (), m2)"
    "try_each (read_subnet env) (option_list (rc_subnets v)) m2 = (Ok (), m)"
  have "sdn_wf m1" using sdn_zones.loop_inv [OF sdn_wf_empty] steps(1) by (metis snd_conv)
  then have "sdn_wf m2" using sdn_read_vnets.loop_inv steps(2) by (metis snd_conv)
  then show "sdn_wf m" using sdn_read_subnets.loop_inv steps(3) by (metis snd_conv)
qed

end
