(* ===== verification/Sdn_Read.thy ===== *)
theory Sdn_Read
  imports Sdn_Config_Props
begin

text \<open>
  What reading the running configuration (\<open>TryFrom<RunningConfig> for SdnConfig\<close>) produces: the
  zones, vnets and subnets of the result are the configured ones, and reading succeeds exactly
  when every vnet names a configured zone and every subnet a vnet of the zone its name carries.
\<close>

section \<open>Loops that store one binding per element\<close>

text \<open>
  A step that, when it succeeds, stores one value under the key of its element and leaves the
  other keys alone. A loop over elements with different keys then stores exactly their values.
\<close>

locale keyed_loader =
  fixes step :: "'a \<Rightarrow> 's \<Rightarrow> ('e, 'b) result \<times> 's"
    and key :: "'a \<Rightarrow> 'k"
    and val :: "'a \<Rightarrow> 'v option"
    and look :: "'s \<Rightarrow> 'k \<Rightarrow> 'v option"
  assumes step_look: "step x s = (Ok r, s') \<Longrightarrow>
      val x \<noteq> None \<and> look s' k = (if key x = k then val x else look s k)"
begin

lemma loop_look:
  "try_each step xs s = (Ok (), s') \<Longrightarrow> distinct (map key xs) \<Longrightarrow>
     look s' k = Some v \<longleftrightarrow>
       (\<exists>x\<in>set xs. key x = k \<and> val x = Some v) \<or> k \<notin> key ` set xs \<and> look s k = Some v"
proof (induction xs arbitrary: s)
  case (Cons x xs)
  from Cons.prems(1) obtain r s1 where st: "step x s = (Ok r, s1)"
    and rest: "try_each step xs s1 = (Ok (), s')"
    by (auto split: prod.splits result.splits)
  from Cons.IH [OF rest] Cons.prems(2) step_look [OF st, of k] show ?case by auto
qed simp

lemma loop_vals: "try_each step xs s = (Ok (), s') \<Longrightarrow> x \<in> set xs \<Longrightarrow> val x \<noteq> None"
proof (induction xs arbitrary: s)
  case (Cons y xs)
  from Cons.prems(1) obtain r s1 where st: "step y s = (Ok r, s1)"
    and rest: "try_each step xs s1 = (Ok (), s')"
    by (auto split: prod.splits result.splits)
  from Cons.IH [OF rest] Cons.prems(2) step_look [OF st] show ?case by auto
qed simp

lemma loop_look_empty:
  assumes "try_each step xs s = (Ok (), s')" and "distinct (map key xs)" and "look s k = None"
  shows "look s' k = Some v \<longleftrightarrow> (\<exists>x\<in>set xs. key x = k \<and> val x = Some v)"
  using loop_look [OF assms(1,2), of k v] assms(3) by simp

end

section \<open>What a configuration holds\<close>

lemma vnet_config_new_simps [simp]:
  "vc_name (vnet_config_new n t) = n" "vc_tag (vnet_config_new n t) = t"
  "vc_subnets (vnet_config_new n t) = []"
  by (simp_all add: vnet_config_new_def)

definition zone_type_at :: "('x::linorder) sdn_config \<Rightarrow> zone_name \<Rightarrow> zone_type option" where
  "zone_type_at m zn = map_option zc_ty (bt_get m zn)"

definition vnet_at :: "('x::linorder) sdn_config \<Rightarrow> zone_name \<times> vnet_name \<Rightarrow> 'x vnet_config option" where
  "vnet_at m = (\<lambda>(zn, vn). case bt_get m zn of None \<Rightarrow> None | Some z \<Rightarrow> bt_get (zc_vnets z) vn)"

definition tag_at :: "('x::linorder) sdn_config \<Rightarrow> zone_name \<times> vnet_name \<Rightarrow> 32 word option option" where
  "tag_at m p = map_option vc_tag (vnet_at m p)"

definition subnet_at :: "('x::linorder) sdn_config \<Rightarrow> (zone_name \<times> vnet_name) \<times> 'x cidr
    \<Rightarrow> 'x subnet_config option" where
  "subnet_at m = (\<lambda>(p, c). case vnet_at m p of None \<Rightarrow> None | Some v \<Rightarrow> bt_get (vc_subnets v) c)"

section \<open>What each operation changes\<close>

lemma add_subnet_Ok:
  assumes "sdn_add_subnet zn vn s m = (Ok old, m')"
  obtains v where "zn = fst (sc_name s)" and "vnet_at m (zn, vn) = Some v"
    and "\<And>p. vnet_at m' p = (if p = (zn, vn) then Some (snd (vnet_add_subnet s v)) else vnet_at m p)"
    and "zone_type_at m' = zone_type_at m"
proof -
  from assms obtain z v where zn: "zn = fst (sc_name s)" and z: "bt_get m zn = Some z"
    and v: "bt_get (zc_vnets z) vn = Some v"
    and m': "m' = bt_insert zn (z\<lparr>zc_vnets := bt_insert vn (snd (vnet_add_subnet s v)) (zc_vnets z)\<rparr>) m"
    by (auto simp: sdn_add_subnet_def split: if_splits option.splits prod.splits)
  show ?thesis
    by (rule that [OF zn])
      (use z v in \<open>auto simp: m' vnet_at_def zone_type_at_def bt_get_insert split: option.splits prod.splits\<close>)
qed

lemma add_subnet_Err: "sdn_add_subnet zn vn s m = (Err e, m') \<Longrightarrow> m' = m"
  by (auto simp: sdn_add_subnet_def split: if_splits option.splits prod.splits)

lemma add_subnet_ok:
  "is_ok (fst (sdn_add_subnet zn vn s m)) \<longleftrightarrow> zn = fst (sc_name s) \<and> vnet_at m (zn, vn) \<noteq> None"
  by (auto simp: sdn_add_subnet_def vnet_at_def split: if_splits option.splits prod.splits)

lemma add_empty_vnet_Ok:
  assumes "sdn_add_vnet zn (vnet_config_new vn tag) m = (Ok old, m')"
  shows "zone_type_at m zn \<noteq> None"
    and "vnet_at m' p = (if p = (zn, vn) then Some (vnet_config_new vn tag) else vnet_at m p)"
    and "zone_type_at m' = zone_type_at m"
proof -
  from assms obtain z where z: "bt_get m zn = Some z"
    and m': "m' = bt_insert zn (z\<lparr>zc_vnets := bt_insert vn (vnet_config_new vn tag) (zc_vnets z)\<rparr>) m"
    by (auto simp: sdn_add_vnet_def vnet_config_new_def Let_def split: if_splits option.splits)
  from z show "zone_type_at m zn \<noteq> None" by (simp add: zone_type_at_def)
  from z show "vnet_at m' p = (if p = (zn, vn) then Some (vnet_config_new vn tag) else vnet_at m p)"
    by (cases p) (auto simp: m' vnet_at_def bt_get_insert)
  from z show "zone_type_at m' = zone_type_at m"
    by (auto simp: m' zone_type_at_def bt_get_insert)
qed

lemma add_empty_vnet_Err:
  "sdn_add_vnet zn (vnet_config_new vn tag) m = (Err e, m') \<Longrightarrow> m' = m"
  by (auto simp: sdn_add_vnet_def vnet_config_new_def Let_def split: if_splits option.splits)

lemma add_empty_vnet_ok:
  assumes wf: "sdn_wf m"
  shows "is_ok (fst (sdn_add_vnet zn (vnet_config_new vn tag) m)) \<longleftrightarrow>
    zone_type_at m zn \<noteq> None \<and> (\<forall>k. k \<noteq> zn \<longrightarrow> vnet_at m (k, vn) = None)"
proof -
  have "list_ex (\<lambda>z. zc_name z \<noteq> zn \<and> bt_contains_key (zc_vnets z) vn) (bt_values m) \<longleftrightarrow>
      (\<exists>k. k \<noteq> zn \<and> vnet_at m (k, vn) \<noteq> None)" (is "?dup \<longleftrightarrow> ?other")
  proof
    assume ?dup
    then obtain k z where kz: "(k, z) \<in> set m" and n: "zc_name z \<noteq> zn"
      and v: "bt_contains_key (zc_vnets z) vn"
      by (auto simp: list_ex_iff)
    moreover have "zc_name z = k" using sdn_wfD(2) [OF wf] kz by (auto simp: zone_ok_def)
    moreover have "bt_get m k = Some z" using kz sdn_wfD(1) [OF wf] by (simp add: bt_get_Some)
    ultimately show ?other by (auto simp: vnet_at_def bt_contains_key_def)
  next
    assume ?other
    then obtain k z where "k \<noteq> zn" and z: "bt_get m k = Some z" and v: "bt_get (zc_vnets z) vn \<noteq> None"
      by (auto simp: vnet_at_def split: option.splits)
    with sdn_wf_get [OF wf z] bt_get_SomeD [OF z] show ?dup
      by (force simp: list_ex_iff zone_ok_def bt_contains_key_def)
  qed
  then show ?thesis
    by (auto simp: sdn_add_vnet_def vnet_config_new_def zone_type_at_def Let_def split: option.splits)
qed

lemma add_empty_zone:
  "fst (sdn_add_zone (zone_config_new zn ty) m) = Ok (bt_get m zn)"
  "zone_type_at (snd (sdn_add_zone (zone_config_new zn ty) m)) k
     = (if zn = k then Some ty else zone_type_at m k)"
  "vnet_at (snd (sdn_add_zone (zone_config_new zn ty) m)) p = (if fst p = zn then None else vnet_at m p)"
  by (auto simp: sdn_add_zone_def zone_config_new_def zone_type_at_def vnet_at_def bt_get_insert
      split: prod.splits)

section \<open>The three loops\<close>

definition zone_of_running :: "zone_name \<times> zone_running_config \<Rightarrow> 'x zone_config" where
  "zone_of_running = (\<lambda>(name, rc). zone_config_new name (zrc_ty rc))"

definition subnet_value ::
  "'x env \<Rightarrow> 'x subnet_name \<times> subnet_running_config \<Rightarrow> 'x subnet_config option" where
  "subnet_value env = (\<lambda>(name, rc). case subnet_try_from_running_config env name rc of
     Err e \<Rightarrow> None | Ok s \<Rightarrow> Some s)"

definition subnet_key :: "'x subnet_name \<times> subnet_running_config
    \<Rightarrow> (zone_name \<times> vnet_name) \<times> 'x cidr" where
  "subnet_key = (\<lambda>((zn, c), rc). ((zn, src_vnet rc), c))"

lemma subnet_config_new_name: "subnet_config_new n g sn rs = Ok s \<Longrightarrow> sc_name s = n"
  by (auto simp: subnet_config_new_def result_simps)

lemma subnet_value_name: "subnet_value env (n, rc) = Some s \<Longrightarrow> sc_name s = n"
  by (auto simp: subnet_value_def subnet_try_from_running_config_def Let_def result_simps
      split: result.splits dest: subnet_config_new_name)

lemma read_subnet_ok:
  "is_ok (fst (read_subnet env x m)) \<longleftrightarrow>
     subnet_value env x \<noteq> None \<and> vnet_at m (fst (subnet_key x)) \<noteq> None"
proof -
  obtain zn c rc where x: "x = ((zn, c), rc)" by (metis surj_pair)
  show ?thesis
    using subnet_value_name [of env "(zn, c)" rc]
    by (auto simp: x read_subnet_def subnet_value_def subnet_key_def add_subnet_ok split: result.splits)
qed

lemma read_subnet_Ok:
  assumes "read_subnet env x m = (Ok old, m')"
  obtains s v where "subnet_value env x = Some s" and "snd (sc_name s) = snd (subnet_key x)"
    and "vnet_at m (fst (subnet_key x)) = Some v"
    and "\<And>p. vnet_at m' p = (if p = fst (subnet_key x) then Some (snd (vnet_add_subnet s v)) else vnet_at m p)"
    and "zone_type_at m' = zone_type_at m"
proof -
  obtain zn c rc where x: "x = ((zn, c), rc)" by (metis surj_pair)
  from assms obtain s where s: "subnet_try_from_running_config env (zn, c) rc = Ok s"
    and add: "sdn_add_subnet zn (src_vnet rc) s m = (Ok old, m')"
    by (auto simp: x read_subnet_def split: result.splits)
  have val: "subnet_value env x = Some s" by (simp add: x subnet_value_def s)
  with subnet_value_name have name: "sc_name s = (zn, c)" by (auto simp: x)
  show ?thesis
  proof (rule add_subnet_Ok [OF add])
    fix v
    assume "vnet_at m (zn, src_vnet rc) = Some v"
      and "\<And>p. vnet_at m' p = (if p = (zn, src_vnet rc) then Some (snd (vnet_add_subnet s v)) else vnet_at m p)"
      and "zone_type_at m' = zone_type_at m"
    then show ?thesis by (intro that [OF val]) (simp_all add: x subnet_key_def name)
  qed
qed

lemma vnet_add_subnet_get:
  "bt_get (vc_subnets (snd (vnet_add_subnet s v))) c
     = (if c = snd (sc_name s) then Some s else bt_get (vc_subnets v) c)"
  "vc_tag (snd (vnet_add_subnet s v)) = vc_tag v"
  by (auto simp: vnet_add_subnet_def bt_get_insert)

lemma try_each_map: "try_each f (map h xs) s = try_each (\<lambda>x. f (h x)) xs s"
  by (induction xs arbitrary: s) (simp_all split: prod.split result.split)

text \<open>
  Each of the three loops stores one value per binding: zone types, vnet tags, and subnets.
\<close>

interpretation zone_load: keyed_loader "\<lambda>x. sdn_add_zone (zone_of_running x)" fst
  "\<lambda>x. Some (zrc_ty (snd x))" zone_type_at
proof unfold_locales
  fix x :: "zone_name \<times> zone_running_config" and m :: "('a::linorder) sdn_config" and r m' k
  assume "(sdn_add_zone (zone_of_running x) m :: ('a sdn_config_error, _) result \<times> _) = (Ok r, m')"
  then show "Some (zrc_ty (snd x)) \<noteq> None
      \<and> zone_type_at m' k = (if fst x = k then Some (zrc_ty (snd x)) else zone_type_at m k)"
    using add_empty_zone(2) [of "fst x" "zrc_ty (snd x)" m k]
    by (simp add: zone_of_running_def case_prod_beta)
qed

interpretation vnet_load: keyed_loader read_vnet "\<lambda>x. (vrc_zone (snd x), fst x)"
  "\<lambda>x. Some (vnet_config_new (fst x) (vrc_tag (snd x)))" vnet_at
proof unfold_locales
  fix x :: "vnet_name \<times> vnet_running_config" and m :: "('a::linorder) sdn_config" and r m' k
  assume "(read_vnet x m :: ('a sdn_config_error, _) result \<times> _) = (Ok r, m')"
  then show "Some (vnet_config_new (fst x) (vrc_tag (snd x))) \<noteq> None \<and> vnet_at m' k =
      (if (vrc_zone (snd x), fst x) = k then Some (vnet_config_new (fst x) (vrc_tag (snd x))) else vnet_at m k)"
    using add_empty_vnet_Ok(2) [of "vrc_zone (snd x)" "fst x" "vrc_tag (snd x)" m r m' k]
    by (auto simp: read_vnet_def case_prod_beta)
qed

interpretation subnet_load: keyed_loader "read_subnet env" subnet_key "subnet_value env" subnet_at for env
proof unfold_locales
  fix x :: "('a::linorder) subnet_name \<times> subnet_running_config" and m r m' k
  assume "read_subnet env x m = (Ok r, m')"
  then show "subnet_value env x \<noteq> None
      \<and> subnet_at m' k = (if subnet_key x = k then subnet_value env x else subnet_at m k)"
  proof (rule read_subnet_Ok)
    fix s v
    assume "subnet_value env x = Some s" and "snd (sc_name s) = snd (subnet_key x)"
      and "vnet_at m (fst (subnet_key x)) = Some v"
      and "\<And>p. vnet_at m' p =
        (if p = fst (subnet_key x) then Some (snd (vnet_add_subnet s v)) else vnet_at m p)"
    then show ?thesis by (cases k; cases "subnet_key x") (auto simp: subnet_at_def vnet_add_subnet_get)
  qed
qed

text \<open>What a loop leaves alone.\<close>

lemma try_each_frame:
  assumes "\<And>x s. g (snd (f x s)) = g s"
  shows "g (snd (try_each f xs s)) = g s"
proof (induction xs arbitrary: s)
  case (Cons x xs)
  then show ?case using assms [of x s] by (auto split: prod.split result.split)
qed simp

lemma read_vnet_frame: "zone_type_at (snd (read_vnet x m)) = zone_type_at m"
proof (cases "read_vnet x m")
  case (Pair r m')
  then show ?thesis
    by (cases r) (auto simp: read_vnet_def case_prod_beta dest: add_empty_vnet_Ok(3) add_empty_vnet_Err)
qed

lemma read_subnet_cases:
  "(\<exists>old. fst (read_subnet env x m) = Ok old) \<or> snd (read_subnet env x m) = m"
  by (cases "read_subnet env x m"; cases "fst (read_subnet env x m)")
    (auto simp: read_subnet_def case_prod_beta split: result.splits dest: add_subnet_Err)

lemma read_subnet_frame:
  "zone_type_at (snd (read_subnet env x m)) = zone_type_at m"
  "tag_at (snd (read_subnet env x m)) = tag_at m"
proof -
  have "zone_type_at m' = zone_type_at m \<and> tag_at m' = tag_at m"
    if "read_subnet env x m = (Ok old, m')" for old m'
    by (rule read_subnet_Ok [OF that]) (auto simp: tag_at_def vnet_add_subnet_get fun_eq_iff)
  then show "zone_type_at (snd (read_subnet env x m)) = zone_type_at m"
    and "tag_at (snd (read_subnet env x m)) = tag_at m"
    using read_subnet_cases [of env x m] by (cases "read_subnet env x m"; auto)+
qed

section \<open>The contents of the result\<close>

lemma distinct_key:
  "distinct (map f xs) \<Longrightarrow> (\<And>x y. g x = g y \<Longrightarrow> f x = f y) \<Longrightarrow> distinct (map g xs)"
  unfolding distinct_map inj_on_def by blast

definition hash_maps :: "'x running_config \<Rightarrow> bool" where
  "hash_maps v \<longleftrightarrow> distinct (map fst (option_list (rc_zones v)))
     \<and> distinct (map fst (option_list (rc_vnets v))) \<and> distinct (map fst (option_list (rc_subnets v)))"

lemma sdn_try_from_steps:
  assumes "sdn_try_from env v = Ok m"
  obtains m1 m2 where
    "try_each (\<lambda>x. sdn_add_zone (zone_of_running x)) (option_list (rc_zones v)) [] = (Ok (), m1)"
    "try_each read_vnet (option_list (rc_vnets v)) m1 = (Ok (), m2)"
    "try_each (read_subnet env) (option_list (rc_subnets v)) m2 = (Ok (), m)"
  by (rule sdn_try_from_loops [OF assms]) (auto simp: try_each_map zone_of_running_def case_prod_unfold)

lemma loop_frame:
  assumes "\<And>x s. g (snd (f x s)) = g s" and "try_each f xs s = (r, s')"
  shows "g s' = g s"
  using try_each_frame [of g f, OF assms(1), of xs s] assms(2) by simp

lemma zones_read:
  assumes "sdn_try_from env v = Ok m" and "hash_maps v"
  shows "zone_type_at m zn = Some ty \<longleftrightarrow> (\<exists>rc. (zn, rc) \<in> set (option_list (rc_zones v)) \<and> zrc_ty rc = ty)"
proof (rule sdn_try_from_steps [OF assms(1)])
  fix m1 m2
  assume zones: "try_each (\<lambda>x. sdn_add_zone (zone_of_running x)) (option_list (rc_zones v)) [] = (Ok (), m1)"
    and vnets: "try_each read_vnet (option_list (rc_vnets v)) m1 = (Ok (), m2)"
    and subnets: "try_each (read_subnet env) (option_list (rc_subnets v)) m2 = (Ok (), m)"
  have "zone_type_at m = zone_type_at m1"
    using loop_frame [of zone_type_at, OF read_vnet_frame vnets]
      loop_frame [of zone_type_at, OF read_subnet_frame(1) subnets] by simp
  moreover have "zone_type_at [] zn = None" by (simp add: zone_type_at_def)
  ultimately show ?thesis
    using zone_load.loop_look_empty [OF zones, of zn ty] assms(2)
    by (simp add: hash_maps_def Bex_def) blast
qed

lemma vnet_at_Nil: "vnet_at [] p = None"
  by (simp add: vnet_at_def split: prod.split)

lemma no_vnets_yet:
  assumes "try_each (\<lambda>x. sdn_add_zone (zone_of_running x)) zs [] = (r, m1)"
  shows "vnet_at m1 p = None"
proof -
  have "(\<forall>p. vnet_at s p = None) \<Longrightarrow> (\<forall>p. vnet_at (snd (try_each (\<lambda>x. sdn_add_zone (zone_of_running x)) zs s)) p = None)"
    for s :: "'a sdn_config"
  proof (induction zs arbitrary: s)
    case (Cons x zs)
    then show ?case
      using add_empty_zone(1,3) [of "fst x" "zrc_ty (snd x)" s]
      by (auto simp: zone_of_running_def case_prod_beta split: prod.split result.split)
  qed simp
  then show ?thesis using assms by (metis snd_conv vnet_at_Nil)
qed

lemma tags_read:
  assumes "sdn_try_from env v = Ok m" and "hash_maps v"
  shows "tag_at m (zn, vn) = Some tag \<longleftrightarrow>
    (\<exists>rc. (vn, rc) \<in> set (option_list (rc_vnets v)) \<and> vrc_zone rc = zn \<and> vrc_tag rc = tag)"
proof (rule sdn_try_from_steps [OF assms(1)])
  fix m1 m2
  assume zones: "try_each (\<lambda>x. sdn_add_zone (zone_of_running x)) (option_list (rc_zones v)) [] = (Ok (), m1)"
    and vnets: "try_each read_vnet (option_list (rc_vnets v)) m1 = (Ok (), m2)"
    and subnets: "try_each (read_subnet env) (option_list (rc_subnets v)) m2 = (Ok (), m)"
  have "distinct (map (\<lambda>x. (vrc_zone (snd x), fst x)) (option_list (rc_vnets v)))"
    by (rule distinct_key [where f = fst]) (use assms(2) in \<open>auto simp: hash_maps_def\<close>)
  note look = vnet_load.loop_look_empty [OF vnets this no_vnets_yet [OF zones], of "(zn, vn)"]
  have "tag_at m = tag_at m2" by (rule loop_frame [of tag_at, OF read_subnet_frame(2) subnets])
  then have "tag_at m (zn, vn) = Some tag \<longleftrightarrow> (\<exists>v. vnet_at m2 (zn, vn) = Some v \<and> vc_tag v = tag)"
    by (simp add: tag_at_def)
  also have "\<dots> \<longleftrightarrow> (\<exists>x\<in>set (option_list (rc_vnets v)).
      (vrc_zone (snd x), fst x) = (zn, vn) \<and> vrc_tag (snd x) = tag)"
    unfolding look by (auto simp del: Pair_inject)
  finally show ?thesis by force
qed

lemma no_subnets_yet:
  assumes "try_each (\<lambda>x. sdn_add_zone (zone_of_running x)) zs [] = (Ok (), m1)"
    and "try_each read_vnet vs m1 = (Ok (), m2)"
    and "distinct (map fst vs)"
  shows "subnet_at m2 k = None"
proof (cases k)
  case (Pair p c)
  have "distinct (map (\<lambda>x. (vrc_zone (snd x), fst x)) vs)"
    by (rule distinct_key [OF assms(3)]) simp
  note look = vnet_load.loop_look_empty [OF assms(2) this no_vnets_yet [OF assms(1)], of p]
  show ?thesis
  proof (cases "vnet_at m2 p")
    case (Some v)
    with look [of v] have "vc_subnets v = []" by auto
    with Some show ?thesis by (simp add: subnet_at_def Pair)
  qed (simp add: subnet_at_def Pair)
qed

lemma subnets_read:
  assumes "sdn_try_from env v = Ok m" and "hash_maps v"
  shows "subnet_at m ((zn, vn), c) = Some s \<longleftrightarrow>
    (\<exists>rc. ((zn, c), rc) \<in> set (option_list (rc_subnets v)) \<and> src_vnet rc = vn
       \<and> subnet_try_from_running_config env (zn, c) rc = Ok s)"
proof (rule sdn_try_from_steps [OF assms(1)])
  fix m1 m2
  assume zones: "try_each (\<lambda>x. sdn_add_zone (zone_of_running x)) (option_list (rc_zones v)) [] = (Ok (), m1)"
    and vnets: "try_each read_vnet (option_list (rc_vnets v)) m1 = (Ok (), m2)"
    and subnets: "try_each (read_subnet env) (option_list (rc_subnets v)) m2 = (Ok (), m)"
  have "distinct (map subnet_key (option_list (rc_subnets v)))"
    by (rule distinct_key [where f = fst]) (use assms(2) in \<open>auto simp: hash_maps_def subnet_key_def\<close>)
  note look = subnet_load.loop_look_empty [OF subnets this no_subnets_yet [OF zones vnets]]
  have "subnet_key x = ((zn, vn), c) \<longleftrightarrow> (\<exists>rc. x = ((zn, c), rc) \<and> src_vnet rc = vn)"
    for x :: "'a subnet_name \<times> subnet_running_config"
    by (cases x; cases "fst x") (auto simp: subnet_key_def)
  with look [of "((zn, vn), c)" s] assms(2) show ?thesis
    by (auto simp: hash_maps_def subnet_value_def split: result.splits)
qed

section \<open>When reading succeeds\<close>

lemma zones_loop_ok:
  "fst (try_each (\<lambda>x. sdn_add_zone (zone_of_running x)) zs s) = Ok ()"
proof (induction zs arbitrary: s)
  case (Cons x zs)
  then show ?case
    using add_empty_zone(1) [of "fst x" "zrc_ty (snd x)" s]
    by (auto simp: zone_of_running_def case_prod_beta split: prod.split result.split)
qed simp

lemma read_vnets_ok:
  assumes "sdn_wf s" and "distinct (map fst vs)" and "\<And>x k. x \<in> set vs \<Longrightarrow> vnet_at s (k, fst x) = None"
  shows "is_ok (fst (try_each read_vnet vs s)) \<longleftrightarrow> (\<forall>x\<in>set vs. zone_type_at s (vrc_zone (snd x)) \<noteq> None)"
  using assms
proof (induction vs arbitrary: s)
  case (Cons x vs)
  have ok: "is_ok (fst (read_vnet x s)) \<longleftrightarrow> zone_type_at s (vrc_zone (snd x)) \<noteq> None"
    using add_empty_vnet_ok [OF Cons.prems(1)] Cons.prems(3) [of x]
    by (simp add: read_vnet_def case_prod_beta)
  obtain r s' where st: "read_vnet x s = (r, s')" by force
  show ?case
  proof (cases r)
    case (Err e)
    with st ok show ?thesis by simp
  next
    case (Ok old)
    have "sdn_wf s'" using sdn_read_vnets.step_inv [OF Cons.prems(1), of x] st by simp
    moreover have "vnet_at s' (k, fst y) = None" if "y \<in> set vs" for y k
      using vnet_load.step_look [OF st [unfolded Ok]] Cons.prems(2,3) that by auto
    moreover have "zone_type_at s' = zone_type_at s" using read_vnet_frame [of x s] st by simp
    ultimately show ?thesis using Cons.IH [of s'] Cons.prems(2) ok st Ok by simp
  qed
qed simp

lemma read_subnets_ok:
  "is_ok (fst (try_each (read_subnet env) ss s)) \<longleftrightarrow>
     (\<forall>x\<in>set ss. subnet_value env x \<noteq> None \<and> tag_at s (fst (subnet_key x)) \<noteq> None)"
proof (induction ss arbitrary: s)
  case (Cons x ss)
  have ok: "is_ok (fst (read_subnet env x s)) \<longleftrightarrow>
      subnet_value env x \<noteq> None \<and> tag_at s (fst (subnet_key x)) \<noteq> None"
    by (simp add: read_subnet_ok tag_at_def)
  have "tag_at (snd (read_subnet env x s)) = tag_at s" by (rule read_subnet_frame(2))
  with ok Cons.IH [of "snd (read_subnet env x s)"] show ?case
    by (auto split: prod.splits result.splits)
qed simp

lemma sdn_try_from_ok:
  assumes "hash_maps v"
  shows "is_ok (sdn_try_from env v) \<longleftrightarrow>
     (\<forall>(vn, rc)\<in>set (option_list (rc_vnets v)). vrc_zone rc \<in> fst ` set (option_list (rc_zones v)))
   \<and> (\<forall>((zn, c), rc)\<in>set (option_list (rc_subnets v)).
        is_ok (subnet_try_from_running_config env (zn, c) rc)
        \<and> (\<exists>vrc. (src_vnet rc, vrc) \<in> set (option_list (rc_vnets v)) \<and> vrc_zone vrc = zn))"
    (is "_ \<longleftrightarrow> ?vnets \<and> ?subnets")
proof -
  define m1 where "m1 = snd (try_each (\<lambda>x. sdn_add_zone (zone_of_running x)) (option_list (rc_zones v))
      ([] :: 'a sdn_config) :: ('a sdn_config_error, unit) result \<times> _)"
  define m2 where "m2 = snd (try_each read_vnet (option_list (rc_vnets v)) m1)"
  have zones: "try_each (\<lambda>x. sdn_add_zone (zone_of_running x)) (option_list (rc_zones v)) [] = (Ok (), m1)"
    unfolding m1_def using zones_loop_ok by (simp add: prod_eq_iff)
  have wf1: "sdn_wf m1"
    unfolding m1_def try_each_map [symmetric] by (rule sdn_zones.loop_inv) simp
  have zt: "zone_type_at m1 zn \<noteq> None \<longleftrightarrow> zn \<in> fst ` set (option_list (rc_zones v))" for zn
  proof -
    have "zone_type_at [] zn = None" by (simp add: zone_type_at_def)
    from zone_load.loop_look_empty [OF zones _ this] assms show ?thesis
      by (auto simp: hash_maps_def)
  qed
  have r2: "is_ok (fst (try_each read_vnet (option_list (rc_vnets v)) m1)) \<longleftrightarrow> ?vnets"
    using read_vnets_ok [OF wf1 _ no_vnets_yet [OF zones]] assms
    by (simp add: hash_maps_def zt case_prod_unfold del: not_None_eq)
  have tags: "tag_at m2 (zn, vn) \<noteq> None \<longleftrightarrow>
      (\<exists>vrc. (vn, vrc) \<in> set (option_list (rc_vnets v)) \<and> vrc_zone vrc = zn)"
    if "is_ok (fst (try_each read_vnet (option_list (rc_vnets v)) m1))" for zn vn
  proof -
    have vnets: "try_each read_vnet (option_list (rc_vnets v)) m1 = (Ok (), m2)"
      using that by (auto simp: m2_def is_ok_unit prod_eq_iff)
    have "distinct (map (\<lambda>x. (vrc_zone (snd x), fst x)) (option_list (rc_vnets v)))"
      by (rule distinct_key [where f = fst]) (use assms in \<open>auto simp: hash_maps_def\<close>)
    note look = vnet_load.loop_look_empty [OF vnets this no_vnets_yet [OF zones], of "(zn, vn)"]
    have "tag_at m2 (zn, vn) \<noteq> None \<longleftrightarrow> (\<exists>v. vnet_at m2 (zn, vn) = Some v)"
      by (simp add: tag_at_def)
    also have "\<dots> \<longleftrightarrow> (\<exists>x\<in>set (option_list (rc_vnets v)). (vrc_zone (snd x), fst x) = (zn, vn))"
      unfolding look by blast
    also have "\<dots> \<longleftrightarrow> (\<exists>vrc. (vn, vrc) \<in> set (option_list (rc_vnets v)) \<and> vrc_zone vrc = zn)"
      by force
    finally show ?thesis .
  qed
  have r3: "is_ok (fst (try_each (read_subnet env) (option_list (rc_subnets v)) m2)) \<longleftrightarrow> ?subnets"
    if "?vnets"
  proof -
    have "is_ok (subnet_try_from_running_config env n rc) \<longleftrightarrow> subnet_value env (n, rc) \<noteq> None" for n rc
      by (simp add: subnet_value_def split: result.split)
    moreover have "fst (subnet_key x) = (fst (fst x), src_vnet (snd x))"
      for x :: "'a subnet_name \<times> subnet_running_config"
      by (simp add: subnet_key_def case_prod_unfold)
    ultimately show ?thesis
      using tags [OF iffD2 [OF r2 that]] unfolding read_subnets_ok
      by (simp add: case_prod_unfold split_paired_Ball_Sigma del: not_None_eq)
  qed
  show ?thesis
  proof (cases "fst (try_each read_vnet (option_list (rc_vnets v)) m1)")
    case (Err e)
    with r2 show ?thesis
      using zones by (auto simp: sdn_try_from_def sdn_add_zones_def try_each_map zone_of_running_def case_prod_unfold
          split: prod.splits)
  next
    case (Ok u)
    with r2 r3 zones show ?thesis
      by (auto simp: sdn_try_from_def sdn_add_zones_def try_each_map zone_of_running_def case_prod_unfold m2_def
          split: prod.splits result.splits)
  qed
qed

end
