(* ===== verification/Sdn_Properties.thy ===== *)
theory Sdn_Properties
  imports Sdn_Read
begin

text \<open>The theorems on the SDN configuration, each with its instance on a small configuration.\<close>

section \<open>Looking up a vnet\<close>

lemma sdn_vnet_Some:
  assumes "sdn_wf m"
  shows "sdn_vnet m name = Some (z, v) \<longleftrightarrow> (zc_name z, z) \<in> set m \<and> bt_get (zc_vnets z) name = Some v"
  using assms
proof (induction m)
  case (Cons kz m)
  obtain k y where kz: "kz = (k, y)" by force
  have "vnet_names z \<inter> vnet_names z' = {}"
    if "(a, z) \<in> set m" and "(b, z') \<in> set m" and "a \<noteq> b" for a b z z'
    by (rule sdn_wfD(3) [OF Cons.prems _ _ that(3)]) (use that(1,2) in simp_all)
  then have wf: "sdn_wf m"
    unfolding sdn_wf_def using sdn_wfD(1,2) [OF Cons.prems] by (simp add: kz bt_wf_Cons) blast
  have y: "zone_ok k y" using Cons.prems by (simp add: sdn_wf_def kz)
  have k: "k \<notin> set (bt_keys m)" using sdn_wfD(1) [OF Cons.prems] by (auto simp: kz bt_wf_Cons)
  show ?case
  proof (cases "bt_get (zc_vnets y) name")
    case None
    with Cons.IH [OF wf] zone_okD(1) [OF y] show ?thesis by (auto simp: kz)
  next
    case (Some w)
    have "bt_get (zc_vnets z) name \<noteq> Some v" if "(zc_name z, z) \<in> set m"
    proof
      assume "bt_get (zc_vnets z) name = Some v"
      then have "name \<in> vnet_names z" by (metis bt_get_None option.distinct(1) vnet_names_def)
      moreover have "name \<in> vnet_names y" using Some by (metis bt_get_None option.distinct(1) vnet_names_def)
      moreover have "zc_name z \<noteq> k" using that k by force
      ultimately show False
        using sdn_wfD(3) [OF Cons.prems, of k y "zc_name z" z] that by (auto simp: kz)
    qed
    with Some zone_okD(1) [OF y] show ?thesis by (auto simp: kz)
  qed
qed simp

section \<open>IP sets of vnets\<close>

abbreviation set_entries :: "'x ipset_address list \<Rightarrow> 'x ipset_entry list" where
  "set_entries \<equiv> map ipset_entry_from"

definition subnet_entries :: "'x env \<Rightarrow> 'x subnet_config \<Rightarrow> 'x ipset_entry list" where
  "subnet_entries env s = ipset_entry_from (IpsetCidr (snd (sc_name s)))
     # (case sc_gateway s of None \<Rightarrow> []
        | Some g \<Rightarrow> [ipset_entry_new (IpsetCidr (cidr_from env g)) True None])"

definition gateway_addresses :: "'x env \<Rightarrow> 'x subnet_config \<Rightarrow> 'x ipset_address list" where
  "gateway_addresses env s = (case sc_gateway s of None \<Rightarrow> [] | Some g \<Rightarrow> [IpsetCidr (cidr_from env g)])"

definition append_entries :: "'x ipset_entry list \<Rightarrow> 'x ipset \<Rightarrow> 'x ipset" where
  "append_entries es i = i\<lparr>is_set := is_set i @ es\<rparr>"

lemma append_entries_simps [simp]:
  "append_entries [] i = i" "append_entries a (append_entries b i) = append_entries (b @ a) i"
  "is_set (append_entries es i) = is_set i @ es" "is_name (append_entries es i) = is_name i"
  by (simp_all add: append_entries_def)

lemma push_subnets:
  "foldl (push_subnet env) (a, g, n, d) ss =
     (append_entries (set_entries (map (\<lambda>s. IpsetCidr (snd (sc_name s))) ss)) a,
      append_entries (set_entries (concat (map (gateway_addresses env) ss))) g,
      append_entries (concat (map (subnet_entries env) ss)) n,
      append_entries (set_entries (map IpsetRange (concat (map sc_dhcp_range ss)))) d)"
proof (induction ss arbitrary: a g n d)
  case (Cons s ss)
  have "push_subnet env (a, g, n, d) s =
      (append_entries [ipset_entry_from (IpsetCidr (snd (sc_name s)))] a,
       append_entries (set_entries (gateway_addresses env s)) g,
       append_entries (subnet_entries env s) n,
       append_entries (set_entries (map IpsetRange (sc_dhcp_range s))) d)"
    by (simp add: push_subnet_def gateway_addresses_def subnet_entries_def append_entries_def ipset_push_def
        Let_def comp_def split: option.split)
  then show ?case by (simp add: Cons.IH comp_def)
qed simp

text \<open>
  C37: every vnet gets exactly four IP sets, in the SDN scope and named after it: all its subnets;
  its gateways; its subnets with each gateway as a \<open>nomatch\<close> entry right after its subnet; and its
  DHCP ranges. Each holds the entries of the subnets in the order of their CIDRs.
\<close>

theorem vnet_ipsets_contents:
  "map is_name (vnet_ipsets env v) =
     map (\<lambda>suffix. \<lparr>in_scope = IpsetSdn, in_name = vc_name v @ suffix\<rparr>)
       [''-all'', ''-gateway'', ''-no-gateway'', ''-dhcp'']
   \<and> map is_set (vnet_ipsets env v) =
      (let ss = bt_values (vc_subnets v) in
       [set_entries (map (\<lambda>s. IpsetCidr (snd (sc_name s))) ss),
        set_entries (concat (map (gateway_addresses env) ss)),
        concat (map (subnet_entries env) ss),
        set_entries (map IpsetRange (concat (map sc_dhcp_range ss)))])"
  by (simp add: vnet_ipsets_def push_subnets vnet_ipset_def ipset_new_def Let_def comp_def)

section \<open>Reading the running configuration\<close>

text \<open>
  C8: the running configuration is read successfully exactly when every vnet is in a configured
  zone, every subnet is in a configured vnet of the zone that its own name carries, and every
  subnet is valid by itself (DHCP ranges and gateway). The duplicate check on vnets never fires.
\<close>

theorem sdn_config_read_accepts:
  assumes "hash_maps v"
  shows "is_ok (sdn_try_from env v) \<longleftrightarrow>
     (\<forall>(vn, rc)\<in>set (option_list (rc_vnets v)). vrc_zone rc \<in> fst ` set (option_list (rc_zones v)))
   \<and> (\<forall>((zn, c), rc)\<in>set (option_list (rc_subnets v)).
        is_ok (subnet_try_from_running_config env (zn, c) rc)
        \<and> (\<exists>vrc. (src_vnet rc, vrc) \<in> set (option_list (rc_vnets v)) \<and> vrc_zone vrc = zn))"
  by (rule sdn_try_from_ok [OF assms])

text \<open>
  C5: the configuration that is read holds exactly the configured zones with their types, the
  configured vnets in their zones with their tags, and the configured subnets in their vnets with
  the values read from their sections; nothing is lost, merged or invented.
\<close>

theorem sdn_config_read_exact:
  assumes "sdn_try_from env v = Ok m" and "hash_maps v"
  shows "(zone_type_at m zn = Some ty \<longleftrightarrow> (\<exists>rc. (zn, rc) \<in> set (option_list (rc_zones v)) \<and> zrc_ty rc = ty))
   \<and> (tag_at m (zn, vn) = Some tag \<longleftrightarrow>
        (\<exists>rc. (vn, rc) \<in> set (option_list (rc_vnets v)) \<and> vrc_zone rc = zn \<and> vrc_tag rc = tag))
   \<and> (subnet_at m ((zn, vn), c) = Some s \<longleftrightarrow>
        (\<exists>rc. ((zn, c), rc) \<in> set (option_list (rc_subnets v)) \<and> src_vnet rc = vn
           \<and> subnet_try_from_running_config env (zn, c) rc = Ok s))"
  using zones_read [OF assms] tags_read [OF assms] subnets_read [OF assms] by blast

text \<open>
  C19: in a configuration read from the running configuration the lookup of a vnet by its name alone
  returns a zone and a vnet exactly when that zone is stored and holds the vnet; the name occurs in
  no second zone, so the answer is unique.
\<close>

theorem sdn_vnet_lookup_unique:
  assumes "sdn_try_from env v = Ok m"
  shows "(sdn_vnet m name = Some (z, w) \<longleftrightarrow> bt_get m (zc_name z) = Some z \<and> vnet_at m (zc_name z, name) = Some w)
    \<and> (vnet_at m (zn, name) \<noteq> None \<and> vnet_at m (zn', name) \<noteq> None \<longrightarrow> zn = zn')"
proof -
  note wf = sdn_try_from_wf [OF assms]
  have "sdn_vnet m name = Some (z, w) \<longleftrightarrow> bt_get m (zc_name z) = Some z \<and> vnet_at m (zc_name z, name) = Some w"
    using sdn_vnet_Some [OF wf, of name z w] bt_get_Some [OF sdn_wfD(1) [OF wf], of "zc_name z" z]
    by (auto simp: vnet_at_def split: option.splits)
  moreover have "zn = zn'" if "vnet_at m (zn, name) \<noteq> None" and "vnet_at m (zn', name) \<noteq> None"
  proof (rule ccontr)
    assume "zn \<noteq> zn'"
    from that obtain y y' where y: "bt_get m zn = Some y" "bt_get m zn' = Some y'"
      and "name \<in> vnet_names y" and "name \<in> vnet_names y'"
      by (auto simp: vnet_at_def vnet_names_def bt_get_None split: option.splits dest!: bt_get_SomeD)
        (metis image_eqI fst_conv)
    with sdn_wfD(3) [OF wf bt_get_SomeD [OF y(1)] bt_get_SomeD [OF y(2)] \<open>zn \<noteq> zn'\<close>] show False by blast
  qed
  ultimately show ?thesis by blast
qed

section \<open>A small configuration\<close>

definition sample_subnet :: subnet_running_config where
  "sample_subnet = \<lparr>src_vnet = ''vnet0'', src_gateway = Some (IpV4 0x0A000001), src_snat = Some 1,
     src_dhcp_range = Some [\<lparr>dr_start = IpV4 0x0A00000A, dr_end = IpV4 0x0A000014\<rparr>]\<rparr>"

definition sample_running :: "sample running_config" where
  "sample_running = \<lparr>
     rc_zones = Some [(''zone0'', \<lparr>zrc_ty = ZoneSimple, zrc_dhcp = Some Dnsmasq\<rparr>),
                      (''zone1'', \<lparr>zrc_ty = ZoneVxlan, zrc_dhcp = None\<rparr>)],
     rc_subnets = Some [((''zone0'', CidrIpv4 (net_v4 0x0A000000 24)), sample_subnet)],
     rc_vnets = Some [(''vnet0'', \<lparr>vrc_tag = Some 10, vrc_zone = ''zone0''\<rparr>),
                      (''vnet1'', \<lparr>vrc_tag = None, vrc_zone = ''zone1''\<rparr>)]\<rparr>"

lemma sample_hash_maps: "hash_maps sample_running"
  by code_simp

lemma sample_running_ok: "\<exists>m. sdn_try_from sample_env sample_running = Ok m"
proof -
  have "is_ok (sdn_try_from sample_env sample_running)" by code_simp
  then show ?thesis by (simp add: is_ok_iff)
qed

theorem sdn_config_read_accepts_witness:
  "is_ok (sdn_try_from sample_env sample_running)
     \<and> (\<exists>vrc. (''vnet0'', vrc) \<in> set (option_list (rc_vnets sample_running)) \<and> vrc_zone vrc = ''zone0'')"
proof -
  have "is_ok (sdn_try_from sample_env sample_running)" by code_simp
  with sdn_config_read_accepts [OF sample_hash_maps, of sample_env] show ?thesis
    by (simp add: sample_running_def option_list_def sample_subnet_def)
qed

theorem sdn_config_read_exact_witness:
  "\<exists>m. sdn_try_from sample_env sample_running = Ok m \<and> tag_at m (''zone0'', ''vnet0'') = Some (Some 10)"
proof -
  obtain m where m: "sdn_try_from sample_env sample_running = Ok m" using sample_running_ok by blast
  have "(''vnet0'', \<lparr>vrc_tag = Some 10, vrc_zone = ''zone0''\<rparr>) \<in> set (option_list (rc_vnets sample_running))"
    by (simp add: sample_running_def option_list_def)
  with sdn_config_read_exact [OF m sample_hash_maps] have "tag_at m (''zone0'', ''vnet0'') = Some (Some 10)"
    by force
  with m show ?thesis by blast
qed

theorem sdn_vnet_lookup_unique_witness:
  "\<exists>m. sdn_try_from sample_env sample_running = Ok m \<and> vnet_at m (''zone1'', ''vnet0'') = None"
proof -
  obtain m where m: "sdn_try_from sample_env sample_running = Ok m" using sample_running_ok by blast
  have "(''vnet0'', \<lparr>vrc_tag = Some 10, vrc_zone = ''zone0''\<rparr>) \<in> set (option_list (rc_vnets sample_running))"
    by (simp add: sample_running_def option_list_def)
  with tags_read [OF m sample_hash_maps] have "tag_at m (''zone0'', ''vnet0'') = Some (Some 10)" by force
  then have "vnet_at m (''zone0'', ''vnet0'') \<noteq> None" by (auto simp: tag_at_def)
  with sdn_vnet_lookup_unique [OF m] have "vnet_at m (''zone1'', ''vnet0'') = None" by force
  with m show ?thesis by blast
qed

end
