(* ===== verification/Ipset_Names.thy ===== *)
theory Ipset_Names
  imports Sdn_Properties Sdn_Ipam
begin

text \<open>
  The IP sets that the SDN configuration (\<open>sdn/config.rs\<close>) and the IPAM database (\<open>sdn/ipam.rs\<close>)
  generate end up in one scope of the firewall. Their names are pairwise distinct, so none replaces
  another, and a rule can refer to each of them.
\<close>

section \<open>Names of vnets\<close>

lemma distinct_disjoint_concat:
  assumes "distinct (map fst m)" and "\<forall>x\<in>set m. distinct (f x)"
    and "\<forall>x\<in>set m. \<forall>y\<in>set m. fst x \<noteq> fst y \<longrightarrow> set (f x) \<inter> set (f y) = {}"
  shows "distinct (concat (map f m))"
  using assms by (induction m) force+

definition stored_vnets :: "('x::linorder) sdn_config \<Rightarrow> 'x vnet_config list" where
  "stored_vnets m = concat (map (\<lambda>z. bt_values (zc_vnets z)) (bt_values m))"

lemma stored_zone: "sdn_wf m \<Longrightarrow> (k, z) \<in> set m \<Longrightarrow> zone_ok k z"
  using sdn_wfD(2) by fast

lemma stored_vnet:
  "zone_ok k z \<Longrightarrow> bt_wf (zc_vnets z)"
  "zone_ok k z \<Longrightarrow> (vn, w) \<in> set (zc_vnets z) \<Longrightarrow> vc_name w = vn"
  unfolding zone_ok_def vnet_ok_def by fast+

lemma stored_vnet_names:
  assumes "sdn_wf m"
  shows "map vc_name (stored_vnets m) = concat (map (\<lambda>x. bt_keys (zc_vnets (snd x))) m)"
proof -
  have "map vc_name (bt_values (zc_vnets (snd x))) = bt_keys (zc_vnets (snd x))" if "x \<in> set m" for x
    using stored_vnet(2) [OF stored_zone [OF assms, of "fst x" "snd x"]] that
    by (auto simp: case_prod_unfold)
  then have "map (\<lambda>x. map vc_name (bt_values (zc_vnets (snd x)))) m = map (\<lambda>x. bt_keys (zc_vnets (snd x))) m"
    by (rule map_cong [OF refl])
  then show ?thesis by (simp only: stored_vnets_def map_concat map_map comp_def)
qed

lemma stored_vnets_distinct:
  assumes "sdn_wf m"
  shows "distinct (map vc_name (stored_vnets m))"
  unfolding stored_vnet_names [OF assms]
proof (rule distinct_disjoint_concat)
  show "distinct (map fst m)" using bt_wf_distinct [OF sdn_wfD(1) [OF assms]] .
  show "\<forall>x\<in>set m. distinct (bt_keys (zc_vnets (snd x)))"
    using bt_wf_distinct [OF stored_vnet(1) [OF stored_zone [OF assms]]] by auto
  show "\<forall>x\<in>set m. \<forall>y\<in>set m. fst x \<noteq> fst y \<longrightarrow>
      set (bt_keys (zc_vnets (snd x))) \<inter> set (bt_keys (zc_vnets (snd y))) = {}"
    using sdn_wfD(3) [OF assms, unfolded vnet_names_def] by (metis prod.collapse)
qed

text \<open>A stored vnet comes from the running configuration, whose names were checked when it was read.\<close>

lemma stored_vnet_configured:
  assumes "sdn_try_from env v = Ok m" and "hash_maps v" and "w \<in> set (stored_vnets m)"
  shows "vc_name w \<in> fst ` set (option_list (rc_vnets v))"
proof -
  note wf = sdn_try_from_wf [OF assms(1)]
  from assms(3) obtain k z vn where z: "(k, z) \<in> set m" and w: "(vn, w) \<in> set (zc_vnets z)"
    by (auto simp: stored_vnets_def)
  from z have "bt_get m k = Some z" using bt_get_Some [OF sdn_wfD(1) [OF wf]] by blast
  moreover have zo: "zone_ok k z" by (rule stored_zone [OF wf z])
  then have "bt_get (zc_vnets z) vn = Some w" using bt_get_Some [OF stored_vnet(1)] w by blast
  ultimately have "tag_at m (k, vn) = Some (vc_tag w)" by (simp add: tag_at_def vnet_at_def)
  with tags_read [OF assms(1,2)] have "vn \<in> fst ` set (option_list (rc_vnets v))" by force
  moreover have "vc_name w = vn" by (rule stored_vnet(2) [OF zo w])
  ultimately show ?thesis by simp
qed

section \<open>Names of IP sets\<close>

definition vnet_ipset_names :: "string \<Rightarrow> ipset_name list" where
  "vnet_ipset_names name = map (\<lambda>suffix. \<lparr>in_scope = IpsetSdn, in_name = name @ suffix\<rparr>)
     [''-all'', ''-gateway'', ''-no-gateway'', ''-dhcp'']"

lemma vnet_ipsets_names: "map is_name (vnet_ipsets env v) = vnet_ipset_names (vc_name v)"
  by (simp add: vnet_ipset_names_def vnet_ipsets_def push_subnets vnet_ipset_def ipset_new_def Let_def)

lemma sdn_ipsets_names:
  "map is_name (sdn_ipsets env allowed m) = concat (map (vnet_ipset_names \<circ> vc_name)
     (filter (\<lambda>v. case allowed of None \<Rightarrow> True | Some l \<Rightarrow> is_allowed l (vc_name v)) (stored_vnets m)))"
  by (simp add: sdn_ipsets_def map_concat comp_def vnet_ipsets_names stored_vnets_def)

definition dashless :: "ipset_name \<Rightarrow> string" where
  "dashless n = takeWhile (\<lambda>c. c \<noteq> CHR ''-'') (in_name n)"

lemma vnet_ipset_name_owner:
  assumes "CHR ''-'' \<notin> set name" and "n \<in> set (vnet_ipset_names name)"
  shows "dashless n = name"
proof -
  have "takeWhile (\<lambda>c. c \<noteq> CHR ''-'') (name @ CHR ''-'' # s) = name" for s
    using assms(1) by (subst takeWhile_append2) auto
  with assms(2) show ?thesis by (auto simp: vnet_ipset_names_def dashless_def)
qed

lemma vnet_ipset_names_distinct: "distinct (vnet_ipset_names name)"
  by (simp add: vnet_ipset_names_def)

definition guest_ipset_name :: "vmid \<Rightarrow> ipset_name" where
  "guest_ipset_name i = \<lparr>in_scope = IpsetSdn, in_name = ''guest-ipam-'' @ dec (unat i)\<rparr>"

lemma is_name_guest_ipset [simp]: "is_name (guest_ipset i) = guest_ipset_name i"
  by (simp add: guest_ipset_name_def guest_ipset_def ipset_from_parts_def ipset_new_def)

lemma guest_ipset_name_iff: "guest_ipset_name i = guest_ipset_name j \<longleftrightarrow> i = j"
  by (auto simp: guest_ipset_name_def) (metis digits_value_dec option.inject word_unat_eq_iff)

lemma guest_not_vnet:
  assumes "CHR ''-'' \<notin> set name"
  shows "guest_ipset_name i \<notin> set (vnet_ipset_names name)"
proof
  assume n: "guest_ipset_name i \<in> set (vnet_ipset_names name)"
  from vnet_ipset_name_owner [OF assms n] have "name = ''guest''"
    by (simp add: dashless_def guest_ipset_name_def)
  with n show False by (auto simp: vnet_ipset_names_def guest_ipset_name_def)
qed

lemma push_guest_ip_names:
  "\<forall>i s. acc i = Some s \<longrightarrow> is_name s = guest_ipset_name i
    \<Longrightarrow> foldl (push_guest_ip env) acc ds i = Some s \<Longrightarrow> is_name s = guest_ipset_name i"
proof (induction ds arbitrary: acc)
  case (Cons d ds)
  have "\<forall>i s. push_guest_ip env acc d i = Some s \<longrightarrow> is_name s = guest_ipset_name i"
    using Cons.prems(1) by (auto simp: push_guest_ip_apply Let_def split: option.splits if_splits)
  from Cons.IH [OF this] Cons.prems(2) show ?case by simp
qed simp

lemma ipam_ipset_name: "ipam_ipsets env allowed m i = Some s \<Longrightarrow> is_name s = guest_ipset_name i"
  unfolding ipam_ipsets_def by (rule push_guest_ip_names [rotated]) auto



end
