(* ===== verification/Frr_Route_Map.thy ===== *)
theory Frr_Route_Map
  imports Sdn_Types
begin

text \<open>
  The route maps, access lists and prefix lists of the FRR configuration
  (\<open>proxmox-frr/src/ser/route_map.rs\<close>, \<open>ser/mod.rs\<close>) and the values they share with the SDN
  configuration (\<open>proxmox-sdn-types/src/bgp.rs\<close>). Names that only wrap a string are strings.
\<close>

section \<open>Values shared with the SDN configuration\<close>

datatype set_metric_value =
  MetricRtt | MetricAddRtt | MetricSubtractRtt | MetricIgp | MetricAigp | MetricNumeric modify_number

datatype evpn_route_type = Ead | MacIp | Multicast | EthernetSegment | EvpnPrefix

datatype set_tag_value = Untagged | TagNumeric "32 word"

datatype vni = Vni "32 word"

section \<open>Access lists and prefix lists\<close>

datatype access_action = Permit | Deny

type_synonym access_list_name = string
type_synonym prefix_list_name = string
type_synonym route_map_name = string

record 'x access_list_rule =
  alr_action :: access_action
  alr_network :: "'x cidr"
  alr_seq :: "32 word option"
  alr_is_ipv6 :: bool

record 'x prefix_list_rule =
  plr_action :: access_action
  plr_network :: "'x cidr"
  plr_seq :: "32 word option"
  plr_le :: "32 word option"
  plr_ge :: "32 word option"
  plr_is_ipv6 :: bool

section \<open>Route maps\<close>

datatype community_match_mode = ExactMatch | AnyMatch

record extended_community_match =
  ecm_name :: string
  ecm_mode :: "community_match_mode option"

datatype route_map_match =
  RmRouteType evpn_route_type | RmVni vni
| RmIpAddressAccessList access_list_name | RmIp6AddressAccessList access_list_name
| RmIpAddressPrefixList prefix_list_name | RmIp6AddressPrefixList prefix_list_name
| RmIpNextHopPrefixList prefix_list_name | RmIp6NextHopPrefixList prefix_list_name
| RmIpNextHopAddress ipv4_addr | RmIp6NextHopAddress ipv6_addr
| RmMetric "32 word" | RmLocalPreference "32 word" | RmPeer string | RmTag set_tag_value
| RmExtendedCommunity extended_community_match

datatype route_map_set =
  RsIpNextHopPeerAddress | RsIpNextHopUnchanged | RsIpNextHop ipv4_addr
| RsIp6NextHopPeerAddress | RsIp6NextHopPreferGlobal | RsIp6NextHop ipv6_addr
| RsLocalPreference modify_number | RsTag set_tag_value | RsWeight "32 word"
| RsMetric set_metric_value | RsSrc ip_addr | RsCommunity string

datatype route_map_exit_action = RxOnMatchNext | RxOnMatchGoto "16 word" | RxContinue "16 word"

record route_map_entry =
  rme_seq :: "16 word"
  rme_action :: access_action
  rme_matches :: "route_map_match list"
  rme_sets :: "route_map_set list"
  rme_call :: "route_map_name option"
  rme_exit_action :: "route_map_exit_action option"
  rme_custom_frr_config :: "string list"

end
