(* ===== verification/Prefix_List.thy ===== *)
theory Prefix_List
  imports Frr_Route_Map BTree_Map
begin

text \<open>
  IP prefix lists (\<open>sdn/prefix_list.rs\<close>): entries with a sequence number, their validation, the
  operations of the API on a list, and the FRR form. \<open>u32\<close> addition wraps, as in a release build.
\<close>

section \<open>Entries\<close>

datatype prefix_list_action = PlPermit | PlDeny

record 'x prefix_list_entry =
  ple_action :: prefix_list_action
  ple_prefix :: "'x cidr"
  ple_le :: "32 word option"
  ple_ge :: "32 word option"
  ple_seq :: "32 word"

datatype prefix_list_error =
  SeqExists "32 word" | SeqMissing "32 word" | LeAboveMax | LeBelowMask | GeAboveLe | GeAboveMax | GeBelowMask

definition prefix_masks :: "'x env \<Rightarrow> 'x cidr \<Rightarrow> 32 word \<times> 32 word" where
  "prefix_masks env p = (case p of
     CidrIpv4 c \<Rightarrow> (32, ucast (v4_mask env c))
   | CidrIpv6 c \<Rightarrow> (128, ucast (v6_mask env c)))"

definition ple_validate :: "'x env \<Rightarrow> 'x prefix_list_entry \<Rightarrow> (prefix_list_error, unit) result" where
  "ple_validate env e =
     (case prefix_masks env (ple_prefix e) of (max_mask, current_mask) \<Rightarrow>
        and_then (case ple_le e of
            None \<Rightarrow> Ok ()
          | Some le \<Rightarrow>
              if le > max_mask then Err LeAboveMax
              else if current_mask > le then Err LeBelowMask
              else (case ple_ge e of
                  None \<Rightarrow> Ok ()
                | Some ge \<Rightarrow> if ge > le then Err GeAboveLe else Ok ())) (\<lambda>_.
        case ple_ge e of
          None \<Rightarrow> Ok ()
        | Some ge \<Rightarrow>
            if ge > max_mask then Err GeAboveMax
            else if current_mask > ge then Err GeBelowMask else Ok ()))"

section \<open>The list\<close>

record 'x prefix_list_section =
  pls_id :: string
  pls_entries :: "'x prefix_list_entry list"

definition pls_validate :: "'x env \<Rightarrow> 'x prefix_list_section \<Rightarrow> (prefix_list_error, unit) result" where
  "pls_validate env s = check_each (ple_validate env) (pls_entries s)"

definition pls_new :: "string \<Rightarrow> 'x prefix_list_section" where
  "pls_new i = \<lparr>pls_id = i, pls_entries = []\<rparr>"

text \<open>\<open>max_by_key(seq)\<close>, then \<open>seq + 5\<close>; 5 when there is no entry.\<close>

definition next_seq_number :: "'x prefix_list_section \<Rightarrow> 32 word" where
  "next_seq_number s = (case map ple_seq (pls_entries s) of [] \<Rightarrow> 5 | seqs \<Rightarrow> fold max (tl seqs) (hd seqs) + 5)"

definition pls_entry :: "'x prefix_list_section \<Rightarrow> 32 word \<Rightarrow> 'x prefix_list_entry option" where
  "pls_entry s seq = find (\<lambda>e. ple_seq e = seq) (pls_entries s)"

fun position :: "('a \<Rightarrow> bool) \<Rightarrow> 'a list \<Rightarrow> nat option" where
  "position p [] = None"
| "position p (x # xs) = (if p x then Some 0 else map_option Suc (position p xs))"

definition entry_position :: "'x prefix_list_section \<Rightarrow> 32 word \<Rightarrow> nat option" where
  "entry_position s seq = position (\<lambda>e. ple_seq e = seq) (pls_entries s)"

definition try_insert_entry ::
  "'x env \<Rightarrow> 'x prefix_list_entry \<Rightarrow> 'x prefix_list_section
    \<Rightarrow> (prefix_list_error, unit) result \<times> 'x prefix_list_section" where
  "try_insert_entry env e s =
     (if pls_entry s (ple_seq e) \<noteq> None then (Err (SeqExists (ple_seq e)), s)
      else case ple_validate env e of
          Err x \<Rightarrow> (Err x, s)
        | Ok _ \<Rightarrow> (Ok (), s\<lparr>pls_entries := pls_entries s @ [e]\<rparr>))"

text \<open>\<open>Vec::remove\<close> shifts the entries after the index.\<close>

definition remove_entry ::
  "32 word \<Rightarrow> 'x prefix_list_section \<Rightarrow> 'x prefix_list_entry option \<times> 'x prefix_list_section" where
  "remove_entry seq s = (case entry_position s seq of
     None \<Rightarrow> (None, s)
   | Some i \<Rightarrow> (Some (pls_entries s ! i),
       s\<lparr>pls_entries := take i (pls_entries s) @ drop (Suc i) (pls_entries s)\<rparr>))"

section \<open>The API\<close>

record 'x api_prefix_list_entry =
  ape_action :: prefix_list_action
  ape_prefix :: "'x cidr"
  ape_le :: "32 word option"
  ape_ge :: "32 word option"
  ape_seq :: "32 word option"

record 'x api_prefix_list_entry_updater =
  aeu_action :: "prefix_list_action option"
  aeu_prefix :: "'x cidr option"
  aeu_le :: "32 word option"
  aeu_ge :: "32 word option"
  aeu_seq :: "32 word option"

datatype prefix_list_entry_deletable = DelLe | DelGe | DelSeq

datatype prefix_list_deletable = DelEntries

definition try_insert_api_entry ::
  "'x env \<Rightarrow> 'x api_prefix_list_entry \<Rightarrow> 'x prefix_list_section
    \<Rightarrow> (prefix_list_error, unit) result \<times> 'x prefix_list_section" where
  "try_insert_api_entry env a s =
     (let e = \<lparr>ple_action = ape_action a, ple_prefix = ape_prefix a, ple_le = ape_le a, ple_ge = ape_ge a,
        ple_seq = (case ape_seq a of None \<Rightarrow> next_seq_number s | Some q \<Rightarrow> q)\<rparr>
      in case ape_seq a of
           Some q \<Rightarrow> if entry_position s q \<noteq> None then (Err (SeqExists q), s) else try_insert_entry env e s
         | None \<Rightarrow> try_insert_entry env e s)"

definition try_set_api_entries ::
  "'x env \<Rightarrow> 'x api_prefix_list_entry list \<Rightarrow> 'x prefix_list_section
    \<Rightarrow> (prefix_list_error, unit) result \<times> 'x prefix_list_section" where
  "try_set_api_entries env es s =
     (case try_each (try_insert_api_entry env) es (s\<lparr>pls_entries := []\<rparr>) of
        (Err x, s') \<Rightarrow> (Err x, s'\<lparr>pls_entries := pls_entries s\<rparr>)
      | (Ok _, s') \<Rightarrow> (Ok (), s'))"

definition pls_try_update ::
  "'x env \<Rightarrow> 'x api_prefix_list_entry list option \<Rightarrow> prefix_list_deletable list option
    \<Rightarrow> 'x prefix_list_section \<Rightarrow> (prefix_list_error, unit) result \<times> 'x prefix_list_section" where
  "pls_try_update env entries del s =
     (case (case entries of None \<Rightarrow> (Ok (), s) | Some es \<Rightarrow> try_set_api_entries env es s) of
        (Err x, s') \<Rightarrow> (Err x, s')
      | (Ok _, s') \<Rightarrow> (Ok (), foldl (\<lambda>s d. case d of DelEntries \<Rightarrow> s\<lparr>pls_entries := []\<rparr>) s'
            (case del of None \<Rightarrow> [] | Some ds \<Rightarrow> ds)))"

definition updated_entry ::
  "'x api_prefix_list_entry_updater \<Rightarrow> 'x prefix_list_entry \<Rightarrow> 'x prefix_list_entry" where
  "updated_entry u e =
     (let e = (case aeu_seq u of None \<Rightarrow> e | Some q \<Rightarrow> e\<lparr>ple_seq := q\<rparr>);
          e = (case aeu_action u of None \<Rightarrow> e | Some a \<Rightarrow> e\<lparr>ple_action := a\<rparr>);
          e = (case aeu_prefix u of None \<Rightarrow> e | Some p \<Rightarrow> e\<lparr>ple_prefix := p\<rparr>);
          e = (case aeu_le u of None \<Rightarrow> e | Some l \<Rightarrow> e\<lparr>ple_le := Some l\<rparr>)
      in (case aeu_ge u of None \<Rightarrow> e | Some g \<Rightarrow> e\<lparr>ple_ge := Some g\<rparr>))"

definition delete_entry_property ::
  "'x prefix_list_section \<Rightarrow> 'x prefix_list_entry \<Rightarrow> prefix_list_entry_deletable \<Rightarrow> 'x prefix_list_entry" where
  "delete_entry_property s e d = (case d of
     DelLe \<Rightarrow> e\<lparr>ple_le := None\<rparr>
   | DelGe \<Rightarrow> e\<lparr>ple_ge := None\<rparr>
   | DelSeq \<Rightarrow> e\<lparr>ple_seq := next_seq_number s\<rparr>)"

definition try_update_entry ::
  "'x env \<Rightarrow> 32 word \<Rightarrow> 'x api_prefix_list_entry_updater \<Rightarrow> prefix_list_entry_deletable list
    \<Rightarrow> 'x prefix_list_section \<Rightarrow> (prefix_list_error, unit) result \<times> 'x prefix_list_section" where
  "try_update_entry env old_seq u del s =
     (case (case aeu_seq u of
              Some q \<Rightarrow> if q \<noteq> old_seq \<and> pls_entry s q \<noteq> None then Err (SeqExists q) else Ok ()
            | None \<Rightarrow> Ok ()) of
        Err x \<Rightarrow> (Err x, s)
      | Ok _ \<Rightarrow> (case remove_entry old_seq s of
          (None, s) \<Rightarrow> (Err (SeqMissing old_seq), s)
        | (Some original, s) \<Rightarrow>
            (case try_insert_entry env (foldl (delete_entry_property s) (updated_entry u original) del) s of
               (Err x, s) \<Rightarrow> (Err x, s\<lparr>pls_entries := pls_entries s @ [original]\<rparr>)
             | (Ok _, s) \<Rightarrow> (Ok (), s))))"

text \<open>\<open>TryFrom<api::PrefixList> for PrefixListSection\<close>.\<close>

definition pls_try_from ::
  "'x env \<Rightarrow> string \<Rightarrow> 'x api_prefix_list_entry list \<Rightarrow> (prefix_list_error, 'x prefix_list_section) result" where
  "pls_try_from env i es = (case try_each (try_insert_api_entry env) es (pls_new i) of
     (Err x, _) \<Rightarrow> Err x | (Ok _, s) \<Rightarrow> Ok s)"

section \<open>The FRR form\<close>

definition prefix_list_rule_from :: "'x prefix_list_entry \<Rightarrow> 'x prefix_list_rule" where
  "prefix_list_rule_from e = \<lparr>
     plr_action = (case ple_action e of PlPermit \<Rightarrow> Permit | PlDeny \<Rightarrow> Deny),
     plr_network = ple_prefix e, plr_seq = Some (ple_seq e), plr_le = ple_le e, plr_ge = ple_ge e,
     plr_is_ipv6 = cidr_is_ipv6 (ple_prefix e)\<rparr>"

definition build_frr_prefix_lists ::
  "'x prefix_list_section list \<Rightarrow> (prefix_list_name, 'x prefix_list_rule list) btree_map
    \<Rightarrow> (prefix_list_name, 'x prefix_list_rule list) btree_map" where
  "build_frr_prefix_lists ls m =
     foldl (\<lambda>m l. bt_insert (pls_id l) (map prefix_list_rule_from (pls_entries l)) m) m ls"

end
