(* ===== verification/Prefix_List_Props.thy ===== *)
theory Prefix_List_Props
  imports Prefix_List "HOL-Library.Multiset"
begin

text \<open>
  What the operations on a prefix list keep: sequence numbers stay unique and entries valid, a
  failed operation loses nothing, and generated sequence numbers sort after the existing ones.
\<close>

section \<open>Validation\<close>

definition ple_valid :: "'x env \<Rightarrow> 'x prefix_list_entry \<Rightarrow> bool" where
  "ple_valid env e \<longleftrightarrow>
     (let (max_mask, own) = prefix_masks env (ple_prefix e);
          le = set_option (ple_le e); ge = set_option (ple_ge e)
      in (\<forall>b\<in>le \<union> ge. own \<le> b \<and> b \<le> max_mask) \<and> (\<forall>l\<in>le. \<forall>g\<in>ge. g \<le> l))"

lemma ple_validate_Ok: "ple_validate env e = Ok u \<longleftrightarrow> ple_valid env e"
proof -
  obtain m c where "prefix_masks env (ple_prefix e) = (m, c)" by force
  then show ?thesis
    by (cases "ple_le e"; cases "ple_ge e") (auto simp: ple_validate_def ple_valid_def)
qed

text \<open>
  An entry of a prefix list is accepted exactly when both bounds that are given lie between the
  mask of its prefix and the length of an address of its family, and the lower bound is not above
  the upper one.
\<close>

theorem prefix_list_entry_validate_exact:
  "ple_validate env e = Ok () \<longleftrightarrow>
     (case prefix_masks env (ple_prefix e) of (max_mask, own) \<Rightarrow>
        list_all (\<lambda>b. own \<le> b \<and> b \<le> max_mask)
          ((case ple_le e of None \<Rightarrow> [] | Some l \<Rightarrow> [l]) @ (case ple_ge e of None \<Rightarrow> [] | Some g \<Rightarrow> [g]))
        \<and> (case (ple_le e, ple_ge e) of (Some l, Some g) \<Rightarrow> g \<le> l | _ \<Rightarrow> True))"
  unfolding ple_validate_Ok ple_valid_def Let_def
  by (cases "ple_le e"; cases "ple_ge e") (auto split: prod.splits)

section \<open>Looking up and removing\<close>

lemma pls_entry_None: "pls_entry s q = None \<longleftrightarrow> q \<notin> ple_seq ` set (pls_entries s)"
  by (auto simp: pls_entry_def find_None_iff)

lemma position_split:
  "position p xs = Some i \<Longrightarrow> xs = take i xs @ xs ! i # drop (Suc i) xs \<and> p (xs ! i) \<and> i < length xs"
  by (induction xs arbitrary: i) (auto split: if_splits)

lemma position_None: "position p xs = None \<longleftrightarrow> (\<forall>x\<in>set xs. \<not> p x)"
  by (induction xs) auto

lemma entry_position_None: "entry_position s q = None \<longleftrightarrow> q \<notin> ple_seq ` set (pls_entries s)"
  by (auto simp: entry_position_def position_None)

lemma remove_entry_Some:
  assumes "remove_entry q s = (Some e, s')"
  obtains xs ys where "pls_entries s = xs @ e # ys" and "s' = s\<lparr>pls_entries := xs @ ys\<rparr>" and "ple_seq e = q"
proof -
  from assms obtain i where i: "entry_position s q = Some i" and e: "e = pls_entries s ! i"
    and s': "s' = s\<lparr>pls_entries := take i (pls_entries s) @ drop (Suc i) (pls_entries s)\<rparr>"
    by (auto simp: remove_entry_def split: option.splits)
  from position_split [OF i [unfolded entry_position_def]] that [OF _ s'] e show ?thesis by blast
qed

lemma remove_entry_None: "remove_entry q s = (None, s') \<Longrightarrow> s' = s"
  by (auto simp: remove_entry_def split: option.splits)

section \<open>Sequence numbers\<close>

definition seqs :: "'x prefix_list_section \<Rightarrow> 32 word list" where
  "seqs s = map ple_seq (pls_entries s)"

lemma fold_max: "fold max xs (x :: 'a::linorder) = Max (insert x (set xs))"
  using Max.set_eq_fold [of x xs] by simp

lemma next_seq_number_max:
  assumes "pls_entries s \<noteq> []"
  obtains q where "q \<in> set (seqs s)" and "\<forall>r\<in>set (seqs s). r \<le> q" and "next_seq_number s = q + 5"
proof -
  from assms obtain x xs where xs: "seqs s = x # xs" by (cases "seqs s") (auto simp: seqs_def)
  have "next_seq_number s = Max (set (seqs s)) + 5"
    using xs by (simp add: next_seq_number_def seqs_def [symmetric] fold_max)
  moreover have "Max (set (seqs s)) \<in> set (seqs s)" using xs by (intro Max_in) auto
  ultimately show ?thesis by (intro that [of "Max (set (seqs s))"]) auto
qed

lemma word_add_5: "unat (q :: 32 word) + 5 < 2 ^ 32 \<Longrightarrow> unat (q + 5) = unat q + 5"
  by (simp add: unat_word_ariths)

lemma next_seq_number_greater:
  assumes "q \<in> set (seqs s)" and "\<forall>r\<in>set (seqs s). unat r + 5 < 2 ^ 32"
  shows "q < next_seq_number s"
proof -
  from assms(1) have "pls_entries s \<noteq> []" by (auto simp: seqs_def)
  then obtain m where m: "m \<in> set (seqs s)" "\<forall>r\<in>set (seqs s). r \<le> m" "next_seq_number s = m + 5"
    by (rule next_seq_number_max)
  from m(2) assms(1) have "unat q \<le> unat m" by (simp add: word_le_nat_alt)
  also have "\<dots> < unat (m + 5)" using word_add_5 [of m] m(1) assms(2) by simp
  finally show ?thesis by (simp add: m(3) word_less_nat_alt)
qed

section \<open>The invariant\<close>

definition pls_wf :: "'x env \<Rightarrow> 'x prefix_list_section \<Rightarrow> bool" where
  "pls_wf env s \<longleftrightarrow> distinct (seqs s) \<and> (\<forall>e\<in>set (pls_entries s). ple_valid env e)"

lemma try_insert_entry_cases:
  "try_insert_entry env e s =
     (if ple_seq e \<in> set (seqs s) then (Err (SeqExists (ple_seq e)), s)
      else case ple_validate env e of Err x \<Rightarrow> (Err x, s)
        | Ok _ \<Rightarrow> (Ok (), s\<lparr>pls_entries := pls_entries s @ [e]\<rparr>))"
  by (auto simp: try_insert_entry_def pls_entry_None seqs_def)

lemma try_insert_entry_Ok:
  "try_insert_entry env e s = (Ok u, s') \<longleftrightarrow>
     ple_seq e \<notin> set (seqs s) \<and> ple_valid env e \<and> s' = s\<lparr>pls_entries := pls_entries s @ [e]\<rparr>"
  using ple_validate_Ok [of env e "()"]
  by (auto simp: try_insert_entry_cases split: result.splits)

lemma try_insert_entry_Err: "try_insert_entry env e s = (Err x, s') \<Longrightarrow> s' = s"
  by (auto simp: try_insert_entry_cases split: if_splits result.splits)

lemma try_insert_entry_wf: "pls_wf env s \<Longrightarrow> pls_wf env (snd (try_insert_entry env e s))"
  using ple_validate_Ok [of env e]
  by (auto simp: try_insert_entry_cases pls_wf_def seqs_def split: result.splits)

definition api_entry :: "'x prefix_list_section \<Rightarrow> 'x api_prefix_list_entry \<Rightarrow> 'x prefix_list_entry" where
  "api_entry s a = \<lparr>ple_action = ape_action a, ple_prefix = ape_prefix a, ple_le = ape_le a,
     ple_ge = ape_ge a, ple_seq = (case ape_seq a of None \<Rightarrow> next_seq_number s | Some q \<Rightarrow> q)\<rparr>"

text \<open>The first check of an API entry never decides: the insertion repeats it.\<close>

lemma try_insert_api_entry_eq: "try_insert_api_entry env a s = try_insert_entry env (api_entry s a) s"
  by (auto simp: try_insert_api_entry_def try_insert_entry_cases api_entry_def entry_position_None
      seqs_def Let_def split: option.split)

interpretation pl_inserts: invariant_step "try_insert_api_entry env" "pls_wf env" for env
  by unfold_locales (simp add: try_insert_api_entry_eq try_insert_entry_wf)

lemma pls_wf_empty [simp]: "pls_wf env (s\<lparr>pls_entries := []\<rparr>)"
  by (simp add: pls_wf_def seqs_def)

lemma pls_wf_entries: "pls_wf env s \<Longrightarrow> pls_entries s' = pls_entries s \<Longrightarrow> pls_wf env s'"
  by (simp add: pls_wf_def seqs_def)

lemma try_set_api_entries_wf:
  assumes "pls_wf env s"
  shows "pls_wf env (snd (try_set_api_entries env es s))"
  using pl_inserts.loop_inv [of env "s\<lparr>pls_entries := []\<rparr>" es] assms
  by (auto simp: try_set_api_entries_def split: prod.splits result.splits intro: pls_wf_entries)

lemma try_set_api_entries_Err: "try_set_api_entries env es s = (Err x, s') \<Longrightarrow> pls_entries s' = pls_entries s"
  by (auto simp: try_set_api_entries_def split: prod.splits result.splits)

lemma pls_try_update_wf:
  assumes "pls_wf env s"
  shows "pls_wf env (snd (pls_try_update env es ds s))"
proof -
  have del: "pls_wf env (foldl (\<lambda>s d. case d of DelEntries \<Rightarrow> s\<lparr>pls_entries := []\<rparr>) s ds)"
    if "pls_wf env s" for s ds
    using that by (induction ds arbitrary: s) (simp_all split: prefix_list_deletable.split)
  obtain r s1 where first: "(case es of None \<Rightarrow> (Ok (), s) | Some es \<Rightarrow> try_set_api_entries env es s) = (r, s1)"
    by force
  then have "pls_wf env s1"
    using assms try_set_api_entries_wf [OF assms] by (auto split: option.splits) (metis snd_conv)
  with del show ?thesis by (cases r) (simp_all add: pls_try_update_def first)
qed

lemma remove_entry_wf:
  assumes "pls_wf env s"
  shows "pls_wf env (snd (remove_entry q s))"
proof (cases "remove_entry q s")
  case (Pair o' s')
  show ?thesis
  proof (cases o')
    case None
    with Pair assms show ?thesis using remove_entry_None [of q s s'] by simp
  next
    case (Some e)
    with Pair obtain xs ys where "pls_entries s = xs @ e # ys" and "s' = s\<lparr>pls_entries := xs @ ys\<rparr>"
      using remove_entry_Some [of q s e s'] by blast
    with assms Pair show ?thesis by (auto simp: pls_wf_def seqs_def)
  qed
qed

lemma try_update_entry_wf:
  assumes wf: "pls_wf env s"
  shows "pls_wf env (snd (try_update_entry env q u ds s))"
proof (cases "remove_entry q s")
  case (Pair o' s')
  show ?thesis
  proof (cases o')
    case None
    with Pair wf show ?thesis
      using remove_entry_None [of q s s'] by (auto simp: try_update_entry_def split: result.splits)
  next
    case (Some e)
    with Pair obtain xs ys where s: "pls_entries s = xs @ e # ys" and s': "s' = s\<lparr>pls_entries := xs @ ys\<rparr>"
      using remove_entry_Some [of q s e s'] by blast
    have "pls_wf env s'" using remove_entry_wf [OF wf, of q] Pair by simp
    note added = try_insert_entry_wf [OF this]
    have restored: "pls_wf env (s'\<lparr>pls_entries := pls_entries s' @ [e]\<rparr>)"
      using wf s s' by (auto simp: pls_wf_def seqs_def)
    obtain r s2 where insert: "try_insert_entry env (foldl (delete_entry_property s') (updated_entry u e) ds) s' = (r, s2)"
      by force
    with added have "pls_wf env s2" by (metis snd_conv)
    moreover have "s2 = s'" if "r = Err x" for x using try_insert_entry_Err insert that by blast
    ultimately show ?thesis
      using wf restored
      by (cases r) (auto simp: try_update_entry_def Pair Some insert split: result.split)
  qed
qed

section \<open>Operations\<close>

datatype 'x prefix_list_op =
  PlInsert "'x prefix_list_entry" | PlInsertApi "'x api_prefix_list_entry" | PlRemove "32 word"
| PlUpdateEntry "32 word" "'x api_prefix_list_entry_updater" "prefix_list_entry_deletable list"
| PlUpdate "'x api_prefix_list_entry list option" "prefix_list_deletable list option"

definition pl_step ::
  "'x env \<Rightarrow> 'x prefix_list_op \<Rightarrow> 'x prefix_list_section
    \<Rightarrow> (prefix_list_error, unit) result \<times> 'x prefix_list_section" where
  "pl_step env op s = (case op of
     PlInsert e \<Rightarrow> try_insert_entry env e s
   | PlInsertApi a \<Rightarrow> try_insert_api_entry env a s
   | PlRemove q \<Rightarrow> (Ok (), snd (remove_entry q s))
   | PlUpdateEntry q u ds \<Rightarrow> try_update_entry env q u ds s
   | PlUpdate es ds \<Rightarrow> pls_try_update env es ds s)"

lemma pl_step_wf: "pls_wf env s \<Longrightarrow> pls_wf env (snd (pl_step env op s))"
  by (cases op) (simp_all add: pl_step_def try_insert_entry_wf try_insert_api_entry_eq remove_entry_wf
      try_update_entry_wf pls_try_update_wf)

text \<open>A client runs a sequence of operations and goes on after a failed one.\<close>

definition pl_run :: "'x env \<Rightarrow> 'x prefix_list_op list \<Rightarrow> 'x prefix_list_section \<Rightarrow> 'x prefix_list_section" where
  "pl_run env ops s = foldl (\<lambda>s op. snd (pl_step env op s)) s ops"

lemma pl_run_wf: "pls_wf env s \<Longrightarrow> pls_wf env (pl_run env ops s)"
  unfolding pl_run_def by (induction ops arbitrary: s) (simp_all add: pl_step_wf)

section \<open>What failing and succeeding means\<close>

lemma insert_Err_same: "try_insert_entry env e s = (Err x, s') \<Longrightarrow> mset (pls_entries s') = mset (pls_entries s)"
  using try_insert_entry_Err by blast

lemma update_entry_Err:
  assumes "try_update_entry env q u ds s = (Err x, s')"
  shows "mset (pls_entries s') = mset (pls_entries s)"
proof (cases "remove_entry q s")
  case (Pair o' s1)
  show ?thesis
  proof (cases o')
    case None
    with Pair assms show ?thesis
      using remove_entry_None [of q s s1] by (auto simp: try_update_entry_def split: result.splits)
  next
    case (Some e)
    with Pair obtain xs ys where s: "pls_entries s = xs @ e # ys" and s1: "s1 = s\<lparr>pls_entries := xs @ ys\<rparr>"
      using remove_entry_Some [of q s e s1] by blast
    obtain r s2 where insert: "try_insert_entry env (foldl (delete_entry_property s1) (updated_entry u e) ds) s1 = (r, s2)"
      by force
    have same: "s2 = s1" if "r = Err y" for y using try_insert_entry_Err insert that by blast
    from assms have "s' = s \<or> (\<exists>y. r = Err y \<and> s' = s2\<lparr>pls_entries := pls_entries s2 @ [e]\<rparr>)"
      by (cases r) (auto simp: try_update_entry_def Pair Some insert split: result.splits)
    then show ?thesis using same s s1 by auto
  qed
qed

lemma update_entry_Ok:
  assumes "try_update_entry env q u ds s = (Ok x, s')"
  obtains e e' where "e \<in> set (pls_entries s)" and "ple_seq e = q" and "ple_valid env e'"
    and "mset (pls_entries s') = add_mset e' (mset (pls_entries s) - {#e#})"
    and "pls_id s' = pls_id s"
    and "ds = [] \<Longrightarrow> e' = updated_entry u e"
proof (cases "remove_entry q s")
  case (Pair o' s1)
  from assms obtain e where o': "o' = Some e"
    by (auto simp: try_update_entry_def Pair split: result.splits option.splits)
  with Pair obtain xs ys where s: "pls_entries s = xs @ e # ys" and s1: "s1 = s\<lparr>pls_entries := xs @ ys\<rparr>"
    and e: "ple_seq e = q"
    using remove_entry_Some [of q s e s1] by blast
  let ?e = "foldl (delete_entry_property s1) (updated_entry u e) ds"
  from assms have "try_insert_entry env ?e s1 = (Ok (), s')"
    by (auto simp: try_update_entry_def Pair o' split: result.splits prod.splits)
  then show ?thesis
    by (intro that [of e ?e]) (simp_all add: try_insert_entry_Ok s s1 e)
qed

text \<open>
  C28: whatever operations are applied to a new prefix list, failing ones included, no two entries
  share a sequence number and every entry is valid.
\<close>

theorem prefix_list_invariant:
  "distinct (map ple_seq (pls_entries (pl_run env ops (pls_new i))))
   \<and> list_all (\<lambda>e. ple_validate env e = Ok ()) (pls_entries (pl_run env ops (pls_new i)))"
  using pl_run_wf [of env "pls_new i" ops]
  by (auto simp: pls_new_def pls_wf_def seqs_def list_all_iff ple_validate_Ok)

text \<open>
  C29: an operation on a prefix list that fails loses no entry and adds none; only the update of an
  entry may move it to the end of the list.
\<close>

theorem prefix_list_failure_keeps_entries:
  assumes "pl_step env op s = (Err x, s')"
  shows "mset (pls_entries s') = mset (pls_entries s)"
proof (cases op)
  case (PlUpdate es ds)
  with assms have upd: "pls_try_update env es ds s = (Err x, s')" by (simp add: pl_step_def)
  then obtain es' where "es = Some es'" and "try_set_api_entries env es' s = (Err x, s')"
    by (auto simp: pls_try_update_def split: prod.splits result.splits option.splits)
  then show ?thesis using try_set_api_entries_Err by metis
next
  case (PlUpdateEntry q u ds)
  with assms show ?thesis using update_entry_Err [of env q u ds s x s'] by (simp add: pl_step_def)
qed (use assms insert_Err_same in \<open>auto simp: pl_step_def try_insert_api_entry_eq\<close>)

theorem prefix_list_failure_keeps_entries_witness:
  "mset (pls_entries (snd (pl_step sample_env (PlRemove 5 :: sample prefix_list_op) (pls_new ''l'')))) = {#}
   \<and> (\<exists>x s'. pl_step sample_env (PlUpdateEntry 7 \<lparr>aeu_action = None, aeu_prefix = None, aeu_le = None,
        aeu_ge = None, aeu_seq = None\<rparr> []) (pls_new ''l'') = (Err x, s') \<and> mset (pls_entries s') = {#})"
proof -
  let ?u = "\<lparr>aeu_action = None, aeu_prefix = None, aeu_le = None, aeu_ge = None, aeu_seq = None\<rparr>
    :: sample api_prefix_list_entry_updater"
  have "pl_step sample_env (PlUpdateEntry 7 ?u []) (pls_new ''l'') = (Err (SeqMissing 7), pls_new ''l'')"
    by (simp add: pl_step_def try_update_entry_def remove_entry_def entry_position_def pls_new_def)
  from prefix_list_failure_keeps_entries [OF this] this show ?thesis
    by (simp add: pl_step_def remove_entry_def entry_position_def pls_new_def)
qed

text \<open>
  C31: an entry that is inserted without a sequence number gets one above all existing ones, so it
  is applied last, as long as the highest one is at least five below the end of the range; there
  the addition wraps.
\<close>

theorem prefix_list_appends_last:
  assumes "try_insert_api_entry env a s = (Ok u, s')" and "ape_seq a = None"
    and "\<forall>e\<in>set (pls_entries s). unat (ple_seq e) + 5 < 2 ^ 32"
  shows "\<exists>e. pls_entries s' = pls_entries s @ [e] \<and> ple_prefix e = ape_prefix a
    \<and> (\<forall>f\<in>set (pls_entries s). ple_seq f < ple_seq e)"
proof -
  have "s' = s\<lparr>pls_entries := pls_entries s @ [api_entry s a]\<rparr>"
    using assms(1) by (simp add: try_insert_api_entry_eq try_insert_entry_Ok)
  moreover have "ple_seq f < next_seq_number s" if "f \<in> set (pls_entries s)" for f
    by (rule next_seq_number_greater) (use that assms(3) in \<open>auto simp: seqs_def\<close>)
  ultimately show ?thesis using assms(2) by (simp add: api_entry_def)
qed

definition sample_api_entry :: "32 word option \<Rightarrow> 32 word option \<Rightarrow> sample api_prefix_list_entry" where
  "sample_api_entry le q = \<lparr>ape_action = PlPermit, ape_prefix = CidrIpv4 (net_v4 0x0A000000 24),
     ape_le = le, ape_ge = None, ape_seq = q\<rparr>"

definition sample_list :: "sample prefix_list_section" where
  "sample_list = pl_run sample_env
     [PlInsertApi (sample_api_entry None (Some 100)), PlInsertApi (sample_api_entry (Some 28) None)]
     (pls_new ''l'')"

lemma sample_list_seqs: "map ple_seq (pls_entries sample_list) = [100, 105]"
  by code_simp

theorem prefix_list_appends_last_witness:
  "\<exists>s' e. try_insert_api_entry sample_env (sample_api_entry None None) sample_list = (Ok (), s')
     \<and> pls_entries s' = pls_entries sample_list @ [e] \<and> (\<forall>f\<in>set (pls_entries sample_list). ple_seq f < ple_seq e)"
proof -
  have "is_ok (fst (try_insert_api_entry sample_env (sample_api_entry None None) sample_list))"
    by code_simp
  then obtain s' where ok: "try_insert_api_entry sample_env (sample_api_entry None None) sample_list = (Ok (), s')"
    by (auto simp: is_ok_unit prod_eq_iff)
  have "ape_seq (sample_api_entry None None) = None" by (simp add: sample_api_entry_def)
  moreover have "\<forall>e\<in>set (pls_entries sample_list). unat (ple_seq e) + 5 < 2 ^ 32"
  proof -
    have "\<forall>q\<in>set (map ple_seq (pls_entries sample_list)). unat q + 5 < 2 ^ 32"
      unfolding sample_list_seqs by simp
    then show ?thesis by simp
  qed
  ultimately show ?thesis using prefix_list_appends_last [OF ok] ok by blast
qed

text \<open>
  An update of an entry that succeeds replaces exactly the entry with the old sequence number:
  the new entry is valid, all others stay, and without deletions the new entry is the old one with
  the fields of the updater.
\<close>

theorem prefix_list_update_replaces:
  assumes "try_update_entry env q u ds s = (Ok x, s')"
  shows "\<exists>e e'. e \<in> set (pls_entries s) \<and> ple_seq e = q \<and> ple_validate env e' = Ok ()
    \<and> mset (pls_entries s') = add_mset e' (mset (pls_entries s) - {#e#}) \<and> pls_id s' = pls_id s
    \<and> (ds = [] \<longrightarrow> e' = updated_entry u e)"
  by (rule update_entry_Ok [OF assms]) (use ple_validate_Ok in blast)

theorem prefix_list_update_replaces_witness:
  "\<exists>s' e. try_update_entry sample_env 100 \<lparr>aeu_action = Some PlDeny, aeu_prefix = None, aeu_le = None,
      aeu_ge = None, aeu_seq = Some 50\<rparr> [] sample_list = (Ok (), s')
    \<and> e \<in> set (pls_entries sample_list) \<and> ple_seq e = 100 \<and> size (mset (pls_entries s')) = 2"
proof -
  let ?u = "\<lparr>aeu_action = Some PlDeny, aeu_prefix = None, aeu_le = None, aeu_ge = None, aeu_seq = Some 50\<rparr>
    :: sample api_prefix_list_entry_updater"
  have "is_ok (fst (try_update_entry sample_env 100 ?u [] sample_list))" by code_simp
  then obtain s' where ok: "try_update_entry sample_env 100 ?u [] sample_list = (Ok (), s')"
    by (auto simp: is_ok_unit prod_eq_iff)
  from prefix_list_update_replaces [OF ok] obtain e e' where e: "e \<in> set (pls_entries sample_list)"
    "ple_seq e = 100" and m: "mset (pls_entries s') = add_mset e' (mset (pls_entries sample_list) - {#e#})"
    by blast
  have "length (pls_entries sample_list) = 2" using sample_list_seqs by (metis length_map length_Cons list.size(3) numeral_2_eq_2 One_nat_def)
  with m e have "size (mset (pls_entries s')) = 2" by (simp add: size_Diff_singleton)
  with ok e show ?thesis by blast
qed

end
