(* ===== verification/Route_Map.thy ===== *)
theory Route_Map
  imports Frr_Route_Map Section_Ids BTree_Map "HOL-Library.Multiset"
begin

text \<open>
  Route maps (\<open>sdn/route_map.rs\<close>): one section per entry, with the name of the map and the order of
  the entry in its id; the API form; and the FRR form, where the entries of a map are collected in
  their order.
\<close>

section \<open>Ids\<close>

definition list_id_char :: "char \<Rightarrow> bool" where
  "list_id_char c \<longleftrightarrow> is_ascii_alphanumeric c \<or> c = CHR ''-'' \<or> c = CHR ''_''"

definition route_map_id_pattern :: pattern where
  "route_map_id_pattern = seq (one_of is_ascii_alphanumeric)
     (seq (up_to 30 list_id_char) (up_to 1 is_ascii_alphanumeric))"

definition route_map_id_ok :: "string \<Rightarrow> bool" where
  "route_map_id_ok s \<longleftrightarrow> anchored route_map_id_pattern s"

record route_map_entry_id =
  rmi_route_map_id :: route_map_id
  rmi_order :: "16 word"

datatype route_map_id_error = RmInvalidSectionId string | RmInvalidName string | RmInvalidOrder string

definition route_map_entry_id_display :: "route_map_entry_id \<Rightarrow> string" where
  "route_map_entry_id_display i = rmi_route_map_id i @ ''_'' @ dec (unat (rmi_order i))"

text \<open>\<open>str::rsplit_once\<close> splits at the last occurrence.\<close>

definition rsplit_once :: "char \<Rightarrow> string \<Rightarrow> (string \<times> string) option" where
  "rsplit_once c s = map_option (\<lambda>(a, b). (rev b, rev a)) (split_once c (rev s))"

definition route_map_entry_id_from_str ::
  "string \<Rightarrow> (route_map_id_error, route_map_entry_id) result" where
  "route_map_entry_id_from_str s = (case rsplit_once (CHR ''_'') s of
     None \<Rightarrow> Err (RmInvalidSectionId s)
   | Some (name, order) \<Rightarrow>
       and_then (if route_map_id_ok name then Ok name else Err (RmInvalidName name)) (\<lambda>n.
       and_then (ok_or (RmInvalidOrder order) (parse_u16 order)) (\<lambda>k.
         Ok \<lparr>rmi_route_map_id = n, rmi_order = k\<rparr>)))"

section \<open>Sections\<close>

datatype route_map_action = RmPermit | RmDeny

datatype exit_action = OnMatchNext | OnMatchGoto "16 word" | Continue "16 word"

datatype set_action =
  SetIpNextHopPeerAddress | SetIpNextHopUnchanged | SetIpNextHop ipv4_addr
| SetIp6NextHopPeerAddress | SetIp6NextHopPreferGlobal | SetIp6NextHop ipv6_addr
| SetWeight "32 word" | SetTag set_tag_value | SetMetric set_metric_value
| SetLocalPreference modify_number | SetSrc ip_addr

datatype match_action =
  MatchRouteType evpn_route_type | MatchVni vni
| MatchIpAddressPrefixList prefix_list_id | MatchIp6AddressPrefixList prefix_list_id
| MatchIpNextHopPrefixList prefix_list_id | MatchIp6NextHopPrefixList prefix_list_id
| MatchIpNextHopAddress ipv4_addr | MatchIp6NextHopAddress ipv6_addr
| MatchTag set_tag_value | MatchMetric "32 word" | MatchLocalPreference "32 word" | MatchPeer string

record route_map_section =
  rms_id :: route_map_entry_id
  rms_action :: route_map_action
  rms_set_actions :: "set_action list"
  rms_match_actions :: "match_action list"
  rms_call :: "route_map_id option"
  rms_exit_action :: "exit_action option"

definition rms_set_action :: "route_map_action \<Rightarrow> route_map_section \<Rightarrow> route_map_section" where
  "rms_set_action a e = e\<lparr>rms_action := a\<rparr>"

definition rms_set_set_actions :: "set_action list \<Rightarrow> route_map_section \<Rightarrow> route_map_section" where
  "rms_set_set_actions as e = e\<lparr>rms_set_actions := as\<rparr>"

definition rms_set_match_actions :: "match_action list \<Rightarrow> route_map_section \<Rightarrow> route_map_section" where
  "rms_set_match_actions as e = e\<lparr>rms_match_actions := as\<rparr>"

definition rms_set_call :: "route_map_id option \<Rightarrow> route_map_section \<Rightarrow> route_map_section" where
  "rms_set_call c e = e\<lparr>rms_call := c\<rparr>"

definition rms_set_exit_action :: "exit_action option \<Rightarrow> route_map_section \<Rightarrow> route_map_section" where
  "rms_set_exit_action a e = e\<lparr>rms_exit_action := a\<rparr>"

section \<open>The API form\<close>

record api_route_map_entry =
  arm_route_map_id :: route_map_id
  arm_order :: "16 word"
  arm_action :: route_map_action
  arm_set_actions :: "set_action list"
  arm_match_actions :: "match_action list"
  arm_call :: "route_map_id option"
  arm_exit_action :: "exit_action option"

definition api_from_section :: "route_map_section \<Rightarrow> api_route_map_entry" where
  "api_from_section e = \<lparr>arm_route_map_id = rmi_route_map_id (rms_id e), arm_order = rmi_order (rms_id e),
     arm_action = rms_action e, arm_set_actions = rms_set_actions e,
     arm_match_actions = rms_match_actions e, arm_call = rms_call e, arm_exit_action = rms_exit_action e\<rparr>"

definition section_from_api :: "api_route_map_entry \<Rightarrow> route_map_section" where
  "section_from_api a = \<lparr>rms_id = \<lparr>rmi_route_map_id = arm_route_map_id a, rmi_order = arm_order a\<rparr>,
     rms_action = arm_action a, rms_set_actions = arm_set_actions a,
     rms_match_actions = arm_match_actions a, rms_call = arm_call a, rms_exit_action = arm_exit_action a\<rparr>"

section \<open>The FRR form\<close>

definition frr_match_from :: "match_action \<Rightarrow> route_map_match" where
  "frr_match_from m = (case m of
     MatchRouteType t \<Rightarrow> RmRouteType t
   | MatchVni v \<Rightarrow> RmVni v
   | MatchIpAddressPrefixList p \<Rightarrow> RmIpAddressPrefixList p
   | MatchIp6AddressPrefixList p \<Rightarrow> RmIp6AddressPrefixList p
   | MatchIpNextHopPrefixList p \<Rightarrow> RmIpNextHopPrefixList p
   | MatchIp6NextHopPrefixList p \<Rightarrow> RmIp6NextHopPrefixList p
   | MatchIpNextHopAddress a \<Rightarrow> RmIpNextHopAddress a
   | MatchIp6NextHopAddress a \<Rightarrow> RmIp6NextHopAddress a
   | MatchMetric n \<Rightarrow> RmMetric n
   | MatchLocalPreference n \<Rightarrow> RmLocalPreference n
   | MatchPeer p \<Rightarrow> RmPeer p
   | MatchTag t \<Rightarrow> RmTag t)"

definition frr_set_from :: "set_action \<Rightarrow> route_map_set" where
  "frr_set_from s = (case s of
     SetIpNextHopPeerAddress \<Rightarrow> RsIpNextHopPeerAddress
   | SetIpNextHopUnchanged \<Rightarrow> RsIpNextHopUnchanged
   | SetIpNextHop a \<Rightarrow> RsIpNextHop a
   | SetIp6NextHopPeerAddress \<Rightarrow> RsIp6NextHopPeerAddress
   | SetIp6NextHopPreferGlobal \<Rightarrow> RsIp6NextHopPreferGlobal
   | SetIp6NextHop a \<Rightarrow> RsIp6NextHop a
   | SetLocalPreference n \<Rightarrow> RsLocalPreference n
   | SetTag t \<Rightarrow> RsTag t
   | SetWeight n \<Rightarrow> RsWeight n
   | SetMetric m \<Rightarrow> RsMetric m
   | SetSrc ip \<Rightarrow> RsSrc ip)"

definition frr_exit_action_from :: "exit_action \<Rightarrow> route_map_exit_action" where
  "frr_exit_action_from a = (case a of
     OnMatchNext \<Rightarrow> RxOnMatchNext | OnMatchGoto n \<Rightarrow> RxOnMatchGoto n | Continue n \<Rightarrow> RxContinue n)"

definition frr_route_map_entry_from :: "route_map_section \<Rightarrow> route_map_entry" where
  "frr_route_map_entry_from e = \<lparr>rme_seq = rmi_order (rms_id e),
     rme_action = (case rms_action e of RmPermit \<Rightarrow> Permit | RmDeny \<Rightarrow> Deny),
     rme_matches = map frr_match_from (rms_match_actions e),
     rme_sets = map frr_set_from (rms_set_actions e),
     rme_call = rms_call e,
     rme_exit_action = map_option frr_exit_action_from (rms_exit_action e),
     rme_custom_frr_config = []\<rparr>"

text \<open>
  \<open>slice::partition_point\<close>: the index of the first element that fails the test, on a slice whose
  elements that pass come first. The entries of a map are in order, so this is the case here.
\<close>

definition partition_point :: "('a \<Rightarrow> bool) \<Rightarrow> 'a list \<Rightarrow> nat" where
  "partition_point p xs = length (takeWhile p xs)"

definition insert_at :: "nat \<Rightarrow> 'a \<Rightarrow> 'a list \<Rightarrow> 'a list" where
  "insert_at i x xs = take i xs @ x # drop i xs"

definition collect_entry ::
  "(route_map_name, route_map_entry list) btree_map \<Rightarrow> route_map_section
    \<Rightarrow> (route_map_name, route_map_entry list) btree_map" where
  "collect_entry m e =
     (let name = rmi_route_map_id (rms_id e) in
      case bt_get m name of
        Some es \<Rightarrow>
          (let idx = partition_point (\<lambda>x. rme_seq x \<le> rmi_order (rms_id e)) es
           in bt_insert name (insert_at idx (frr_route_map_entry_from e) es) m)
      | None \<Rightarrow> bt_insert name [frr_route_map_entry_from e] m)"

text \<open>The hash map of the code is a sorted one here: the second loop inserts under different names.\<close>

definition build_frr_route_maps ::
  "route_map_section list \<Rightarrow> (route_map_name, route_map_entry list) btree_map
    \<Rightarrow> (route_map_name, route_map_entry list) btree_map" where
  "build_frr_route_maps config maps =
     foldl (\<lambda>m (name, entries). bt_insert name entries m) maps (foldl collect_entry [] config)"

section \<open>Ids are read back\<close>

lemma rsplit_once_append: "c \<notin> set b \<Longrightarrow> rsplit_once c (a @ c # b) = Some (a, b)"
  by (simp add: rsplit_once_def split_once_append [of c "rev b" "rev a", simplified])

text \<open>
  The id of a route map entry is read back from its text, although the name of the map may
  contain underscores itself: the text is split at the last one. Different ids have different texts.
\<close>

theorem route_map_entry_id_roundtrip:
  assumes "route_map_id_ok (rmi_route_map_id i)"
  shows "route_map_entry_id_from_str (route_map_entry_id_display i) = Ok i"
  using rsplit_once_append [of "CHR ''_''" "dec (unat (rmi_order i))" "rmi_route_map_id i"] assms
  by (simp add: route_map_entry_id_from_str_def route_map_entry_id_display_def dec_not_in parse_u16_dec)

theorem route_map_entry_id_roundtrip_witness:
  "route_map_entry_id_from_str (route_map_entry_id_display
     \<lparr>rmi_route_map_id = ''test_underscore'', rmi_order = 123\<rparr>)
   = Ok \<lparr>rmi_route_map_id = ''test_underscore'', rmi_order = 123\<rparr>"
proof -
  have "route_map_id_ok ''test_underscore''" by code_simp
  then show ?thesis by (intro route_map_entry_id_roundtrip) simp
qed

section \<open>The entries of a map are collected in order\<close>

lemma insert_at_partition: "insert_at (partition_point p xs) x xs = takeWhile p xs @ x # dropWhile p xs"
  unfolding insert_at_def partition_point_def
  by (metis append_eq_conv_conj takeWhile_dropWhile_id)

lemma sorted_insert_after:
  assumes "sorted (map f xs)"
  shows "sorted (map f (takeWhile (\<lambda>y. f y \<le> f x) xs @ x # dropWhile (\<lambda>y. f y \<le> f x) xs))"
proof -
  have "f x < f y" if "y \<in> set (dropWhile (\<lambda>y. f y \<le> f x) xs)" for y
    using assms that by (induction xs) (auto split: if_splits)
  moreover have "sorted (map f (takeWhile (\<lambda>y. f y \<le> f x) xs))" "sorted (map f (dropWhile (\<lambda>y. f y \<le> f x) xs))"
    using assms sorted_append by (metis map_append takeWhile_dropWhile_id)+
  moreover have "f z \<le> f y" if "z \<in> set (takeWhile (\<lambda>y. f y \<le> f x) xs)"
    and "y \<in> set (dropWhile (\<lambda>y. f y \<le> f x) xs)" for z y
    using set_takeWhileD [OF that(1)] calculation(1) [OF that(2)] by auto
  ultimately show ?thesis
    by (auto simp: sorted_append less_imp_le dest: set_takeWhileD)
qed

lemma filter_insert_after:
  assumes "sorted (map f xs)"
  shows "filter (\<lambda>y. k = f y) (takeWhile (\<lambda>y. f y \<le> f x) xs @ x # dropWhile (\<lambda>y. f y \<le> f x) xs)
     = filter (\<lambda>y. k = f y) (xs @ [x])"
  using assms
proof (induction xs)
  case (Cons a xs)
  show ?case
  proof (cases "f a \<le> f x")
    case True
    with Cons show ?thesis by auto
  next
    case False
    with Cons.prems have "\<forall>y\<in>set (a # xs). f x < f y" by auto
    then have "filter (\<lambda>y. f x = f y) (a # xs) = []" unfolding filter_empty_conv by auto
    with False show ?thesis by (cases "k = f x") auto
  qed
qed simp

text \<open>Inserting after the equal elements, one element at a time, is the stable sort.\<close>

lemma sort_key_snoc:
  "takeWhile (\<lambda>y. f y \<le> f x) (sort_key f xs) @ x # dropWhile (\<lambda>y. f y \<le> f x) (sort_key f xs)
     = sort_key f (xs @ [x])"
proof (rule properties_for_sort_key [symmetric])
  show "mset (takeWhile (\<lambda>y. f y \<le> f x) (sort_key f xs) @ x # dropWhile (\<lambda>y. f y \<le> f x) (sort_key f xs))
      = mset (xs @ [x])"
  proof -
    have "mset (takeWhile (\<lambda>y. f y \<le> f x) (sort_key f xs)) + mset (dropWhile (\<lambda>y. f y \<le> f x) (sort_key f xs))
        = mset xs"
      by (metis mset_append mset_sort takeWhile_dropWhile_id)
    then show ?thesis by simp
  qed
  show "filter (\<lambda>y. f k = f y)
        (takeWhile (\<lambda>y. f y \<le> f x) (sort_key f xs) @ x # dropWhile (\<lambda>y. f y \<le> f x) (sort_key f xs))
      = filter (\<lambda>y. f k = f y) (xs @ [x])" for k
    using sort_key_stable [of f "f k" xs] by (subst filter_insert_after) (simp_all add: eq_commute)
  show "sorted (map f (takeWhile (\<lambda>y. f y \<le> f x) (sort_key f xs) @ x
      # dropWhile (\<lambda>y. f y \<le> f x) (sort_key f xs)))"
    by (rule sorted_insert_after) simp
qed

definition entries_of :: "route_map_name \<Rightarrow> route_map_section list \<Rightarrow> route_map_entry list" where
  "entries_of name config = map frr_route_map_entry_from
     (filter (\<lambda>e. rmi_route_map_id (rms_id e) = name) config)"

lemma frr_entry_seq [simp]: "rme_seq (frr_route_map_entry_from e) = rmi_order (rms_id e)"
  by (simp add: frr_route_map_entry_from_def)

lemma entries_of_snoc:
  "entries_of name (config @ [e]) = entries_of name config
     @ (if rmi_route_map_id (rms_id e) = name then [frr_route_map_entry_from e] else [])"
  by (simp add: entries_of_def)

lemma collect_entry_None:
  "bt_get m (rmi_route_map_id (rms_id e)) = None \<Longrightarrow>
     collect_entry m e = bt_insert (rmi_route_map_id (rms_id e)) [frr_route_map_entry_from e] m"
  by (simp add: collect_entry_def Let_def)

lemma collect_entry_Some:
  "bt_get m (rmi_route_map_id (rms_id e)) = Some es \<Longrightarrow>
     collect_entry m e = bt_insert (rmi_route_map_id (rms_id e))
       (takeWhile (\<lambda>x. rme_seq x \<le> rmi_order (rms_id e)) es @ frr_route_map_entry_from e
          # dropWhile (\<lambda>x. rme_seq x \<le> rmi_order (rms_id e)) es) m"
  by (simp add: collect_entry_def insert_at_partition Let_def)

lemma collect_entries:
  "bt_wf (foldl collect_entry [] config) \<and>
   bt_get (foldl collect_entry [] config) name =
     (if entries_of name config = [] then None else Some (sort_key rme_seq (entries_of name config)))"
proof (induction config arbitrary: name rule: rev_induct)
  case Nil
  then show ?case by (simp add: entries_of_def)
next
  case (snoc e config)
  let ?m = "foldl collect_entry [] config" and ?n = "rmi_route_map_id (rms_id e)"
  let ?e = "frr_route_map_entry_from e"
  have wf: "bt_wf ?m" using snoc by blast
  have "collect_entry ?m e = bt_insert ?n (sort_key rme_seq (entries_of ?n config @ [?e])) ?m"
  proof (cases "entries_of ?n config = []")
    case True
    with snoc [of ?n] show ?thesis by (simp add: collect_entry_None)
  next
    case False
    with snoc [of ?n] have "bt_get ?m ?n = Some (sort_key rme_seq (entries_of ?n config))" by simp
    then show ?thesis
      using sort_key_snoc [of rme_seq ?e "entries_of ?n config"] by (simp add: collect_entry_Some)
  qed
  then show ?case
    using snoc [of name] bt_wf_insert [OF wf] by (simp add: bt_get_insert entries_of_snoc)
qed

lemma insert_all:
  assumes "distinct (map fst kvs)"
  shows "bt_get (foldl (\<lambda>m (k, v). bt_insert k v m) m kvs) name
     = (case map_of kvs name of None \<Rightarrow> bt_get m name | Some v \<Rightarrow> Some v)"
  using assms
proof (induction kvs arbitrary: m)
  case (Cons kv kvs)
  then show ?case
    by (cases kv) (force simp: bt_get_insert split: option.split dest: map_of_SomeD)
qed simp

text \<open>
  C30: generating the route maps replaces each map that the configuration has an entry for by
  exactly its entries, in ascending order and entries of the same order as they are configured; all
  other maps stay as they are.
\<close>

theorem build_frr_route_maps_exact:
  "bt_get (build_frr_route_maps config maps) name =
     (if entries_of name config = [] then bt_get maps name
      else Some (sort_key rme_seq (entries_of name config)))"
proof -
  have "distinct (map fst (foldl collect_entry [] config))"
    using collect_entries bt_wf_distinct by blast
  from insert_all [OF this, of maps name] show ?thesis
    using collect_entries [of config name]
    by (simp add: build_frr_route_maps_def bt_get_map_of)
qed

text \<open>The API form and the section carry the same data.\<close>

lemma section_from_api_from_section: "section_from_api (api_from_section e) = e"
  by (simp add: section_from_api_def api_from_section_def)

end
