(* ===== verification/Wireguard_Keys.thy ===== *)
theory Wireguard_Keys
  imports Fabric_Config Section_Ids "HOL-Library.Multiset"
begin

text \<open>
  The private keys of WireGuard interfaces (\<open>private_keys\<close> in
  \<open>section_config/protocol/wireguard.rs\<close>): one key per node and interface, kept apart from the
  fabric configuration and cleaned up against it. Key generation is not the program's own; its
  result is an argument.
\<close>

type_synonym 'x private_keys = "(node_id, (interface_name, 'x private_key) btree_map) btree_map"

section \<open>Operations\<close>

text \<open>\<open>entry(node).or_default()\<close> leaves an empty map for the node when no key can be generated.\<close>

definition wk_upsert ::
  "'x env \<Rightarrow> ('e, 'x private_key) result \<Rightarrow> node_id \<Rightarrow> interface_name \<Rightarrow> 'x private_keys
    \<Rightarrow> ('e, 'x public_key) result \<times> 'x private_keys" where
  "wk_upsert env generate node interface m =
     (let c = (case bt_get m node of None \<Rightarrow> [] | Some c \<Rightarrow> c) in
      case bt_get c interface of
        None \<Rightarrow> (case generate of
            Err e \<Rightarrow> (Err e, bt_insert node c m)
          | Ok k \<Rightarrow> (Ok (public_key_of env k), bt_insert node (bt_insert interface k c) m))
      | Some k \<Rightarrow> (Ok (public_key_of env k), bt_insert node c m))"

definition wk_remove ::
  "node_id \<Rightarrow> interface_name \<Rightarrow> 'x private_keys \<Rightarrow> 'x private_key option \<times> 'x private_keys" where
  "wk_remove node interface m = (case bt_get m node of
     Some c \<Rightarrow>
       (let removed = bt_get c interface; c = bt_remove interface c
        in (removed, if c = [] then bt_remove node m else bt_insert node c m))
   | None \<Rightarrow> (None, m))"

definition wk_get :: "'x private_keys \<Rightarrow> node_id \<Rightarrow> interface_name \<Rightarrow> 'x private_key option" where
  "wk_get m node interface = (case bt_get m node of None \<Rightarrow> None | Some c \<Rightarrow> bt_get c interface)"

section \<open>Clean-up\<close>

text \<open>The nodes and interfaces of the internal WireGuard nodes of a configuration.\<close>

definition wg_interface_pairs :: "node_id \<times> 'x node \<Rightarrow> (node_id \<times> interface_name) list option" where
  "wg_interface_pairs = (\<lambda>(nid, n). case n of
     NodeWireGuard s \<Rightarrow> (case ns_properties s of
        WgInternal p \<Rightarrow> Some (map (\<lambda>i. (nid, wgi_name i)) (wgn_interfaces p))
      | WgExternal _ \<Rightarrow> None)
   | _ \<Rightarrow> None)"

definition config_sets ::
  "'x fabric_config \<Rightarrow> node_id set \<times> (node_id \<times> interface_name) set" where
  "config_sets cfg =
     foldl (\<lambda>(nodes, interfaces) (nid, n). case wg_interface_pairs (nid, n) of
         None \<Rightarrow> (nodes, interfaces)
       | Some is \<Rightarrow> (insert nid nodes, interfaces \<union> set is)) ({}, {}) (fc_all_nodes cfg)"

definition key_sets :: "'x private_keys \<Rightarrow> node_id set \<times> (node_id \<times> interface_name) set" where
  "key_sets m =
     foldl (\<lambda>(nodes, interfaces) (nid, c).
         (insert nid nodes, interfaces \<union> set (map (Pair nid) (bt_keys c)))) ({}, {}) m"

definition drop_node :: "bool \<times> 'x private_keys \<Rightarrow> node_id \<Rightarrow> bool \<times> 'x private_keys" where
  "drop_node = (\<lambda>(changed, m) nid.
     (if bt_get m nid \<noteq> None then True else changed, bt_remove nid m))"

definition drop_interface ::
  "bool \<times> 'x private_keys \<Rightarrow> node_id \<times> interface_name \<Rightarrow> bool \<times> 'x private_keys" where
  "drop_interface = (\<lambda>(changed, m) (nid, i). case wk_remove nid i m of
     (Some _, m) \<Rightarrow> (True, m) | (None, m) \<Rightarrow> (changed, m))"

definition wk_cleanup :: "'x env \<Rightarrow> 'x fabric_config \<Rightarrow> 'x private_keys \<Rightarrow> bool \<times> 'x private_keys" where
  "wk_cleanup env cfg m =
     (case (config_sets cfg, key_sets m) of ((cfg_nodes, cfg_interfaces), (nodes, interfaces)) \<Rightarrow>
        (let (changed, m) = foldl drop_node (False, m) (hash_iter_ids env (nodes - cfg_nodes))
         in foldl drop_interface (changed, m) (hash_iter_pairs env (interfaces - cfg_interfaces))))"

section \<open>Sections\<close>

record 'x interface_private_key =
  ipk_name :: interface_name
  ipk_key :: "'x private_key"

datatype wk_error = WkInvalidNodeId string | WkDuplicateInterface interface_name node_id

type_synonym 'x key_sections = "(string \<times> 'x interface_private_key list) list"

definition wk_into_sections :: "'x private_keys \<Rightarrow> 'x key_sections" where
  "wk_into_sections m =
     map (\<lambda>(nid, c). (nid, map (\<lambda>(name, key). \<lparr>ipk_name = name, ipk_key = key\<rparr>) c)) m"

definition read_key ::
  "node_id \<Rightarrow> (interface_name, 'x private_key) btree_map \<Rightarrow> 'x interface_private_key
    \<Rightarrow> (wk_error, (interface_name, 'x private_key) btree_map) result" where
  "read_key nid c k =
     (if bt_get c (ipk_name k) \<noteq> None then Err (WkDuplicateInterface (ipk_name k) nid)
      else Ok (bt_insert (ipk_name k) (ipk_key k) c))"

definition read_key_section ::
  "'x private_keys \<Rightarrow> string \<times> 'x interface_private_key list \<Rightarrow> (wk_error, 'x private_keys) result" where
  "read_key_section m = (\<lambda>(sid, ks).
     and_then (if node_id_ok sid then Ok sid else Err (WkInvalidNodeId sid)) (\<lambda>nid.
       let c = (case bt_get m nid of None \<Rightarrow> [] | Some c \<Rightarrow> c) in
       and_then (try_fold (read_key nid) c ks) (\<lambda>c. Ok (bt_insert nid c m))))"

definition wk_try_from :: "'x key_sections \<Rightarrow> (wk_error, 'x private_keys) result" where
  "wk_try_from secs = try_fold read_key_section [] secs"

section \<open>Laws\<close>

definition wk_wf :: "'x private_keys \<Rightarrow> bool" where
  "wk_wf m \<longleftrightarrow> bt_wf m \<and> (\<forall>(n, c)\<in>set m. bt_wf c)"

lemma wk_wfD:
  assumes "wk_wf m"
  shows "bt_wf m" and "\<forall>(n, c)\<in>set m. bt_wf c"
  using assms by (auto simp: wk_wf_def)

lemma wk_wf_get: "wk_wf m \<Longrightarrow> bt_get m n = Some c \<Longrightarrow> bt_wf c"
  by (rule bt.all_get [OF wk_wfD])

lemma wk_wf_insert:
  assumes "wk_wf m" and "bt_wf c"
  shows "wk_wf (bt_insert n c m)"
  using bt.all_put [OF wk_wfD [OF assms(1)] assms(2), of n] bt_wf_insert [OF wk_wfD(1) [OF assms(1)], of n c]
  by (simp add: wk_wf_def)

lemma wk_wf_remove:
  assumes "wk_wf m"
  shows "wk_wf (bt_remove n m)"
  using bt.all_del [OF wk_wfD [OF assms], of n] bt_wf_remove [OF wk_wfD(1) [OF assms], of n]
  by (simp add: wk_wf_def)

lemma wk_upsert_wf: "wk_wf m \<Longrightarrow> wk_wf (snd (wk_upsert env g n i m))"
  by (cases "bt_get m n")
    (auto simp: wk_upsert_def Let_def bt_wf_Cons split: option.split result.split
      intro!: wk_wf_insert bt_wf_insert intro: wk_wf_get)

lemma wk_get_upsert:
  "wk_get (snd (wk_upsert env g n i m)) n' i' =
     (if n' = n \<and> i' = i \<and> wk_get m n i = None then (case g of Err _ \<Rightarrow> None | Ok k \<Rightarrow> Some k)
      else wk_get m n' i')"
  by (auto simp: wk_upsert_def wk_get_def Let_def bt_get_insert split: option.splits result.splits)

lemma wk_remove_wf: "wk_wf m \<Longrightarrow> wk_wf (snd (wk_remove n i m))"
  by (auto simp: wk_remove_def Let_def split: option.split
      intro!: wk_wf_insert bt_wf_remove wk_wf_remove intro: wk_wf_get)

lemma fst_wk_remove: "fst (wk_remove n i m) = wk_get m n i"
  by (simp add: wk_remove_def wk_get_def Let_def split: option.split)

lemma wk_get_remove:
  assumes "wk_wf m"
  shows "wk_get (snd (wk_remove n i m)) n' i' = (if n' = n \<and> i' = i then None else wk_get m n' i')"
proof (cases "bt_get m n")
  case (Some c)
  have c: "bt_wf c" using wk_wf_get [OF assms Some] .
  have m: "bt_wf m" using assms by (simp add: wk_wf_def)
  have "bt_get c i' = None" if "bt_remove i c = []" and "i' \<noteq> i"
    using bt_get_remove [OF c, of i i'] that by simp
  then show ?thesis
    using Some by (auto simp: wk_remove_def wk_get_def Let_def bt_get_insert bt_get_remove [OF m]
        bt_get_remove [OF c])
qed (simp add: wk_remove_def wk_get_def)

section \<open>Clean-up leaves what the configuration uses\<close>

definition used_interfaces :: "'x fabric_config \<Rightarrow> (node_id \<times> interface_name) set" where
  "used_interfaces cfg = (\<Union>x\<in>set (fc_all_nodes cfg).
     case wg_interface_pairs x of None \<Rightarrow> {} | Some is \<Rightarrow> set is)"

lemma foldl_pair_sets:
  assumes "\<And>A B x. step (A, B) x = (A \<union> f x, B \<union> g x)"
  shows "foldl step (A, B) xs = (A \<union> (\<Union>x\<in>set xs. f x), B \<union> (\<Union>x\<in>set xs. g x))"
  by (induction xs arbitrary: A B) (simp_all add: assms Un_assoc)

lemma config_sets_eq:
  "config_sets cfg = ((\<Union>x\<in>set (fc_all_nodes cfg). if wg_interface_pairs x = None then {} else {fst x}),
     used_interfaces cfg)"
  unfolding config_sets_def used_interfaces_def
  by (subst foldl_pair_sets
      [where f = "\<lambda>x. if wg_interface_pairs x = None then {} else {fst x}"
         and g = "\<lambda>x. case wg_interface_pairs x of None \<Rightarrow> {} | Some is \<Rightarrow> set is"])
    (auto split: option.split)

lemma key_sets_eq:
  "key_sets m = (set (bt_keys m), (\<Union>x\<in>set m. Pair (fst x) ` set (bt_keys (snd x))))"
  unfolding key_sets_def
  by (subst foldl_pair_sets [where f = "\<lambda>x. {fst x}" and g = "\<lambda>x. Pair (fst x) ` set (bt_keys (snd x))"])
    (auto simp: case_prod_unfold image_image)

lemma wk_get_iff:
  assumes "wk_wf m"
  shows "wk_get m n i \<noteq> None \<longleftrightarrow> (\<exists>c. (n, c) \<in> set m \<and> i \<in> set (bt_keys c))"
proof -
  have "(n, c) \<in> set m \<longleftrightarrow> bt_get m n = Some c" for c
    using bt_get_Some [OF wk_wfD(1) [OF assms]] by simp
  moreover have "i \<in> set (bt_keys c) \<longleftrightarrow> bt_get c i \<noteq> None" for c :: "(interface_name, 'a private_key) btree_map"
    by (simp only: bt_get_None not_not)
  ultimately show ?thesis by (simp add: wk_get_def split: option.split del: not_None_eq set_map)
qed

lemma drop_node_eq: "drop_node (ch, m) n = (ch \<or> bt_get m n \<noteq> None, bt_remove n m)"
  by (simp add: drop_node_def)

lemma drop_nodes:
  "wk_wf m \<Longrightarrow> foldl drop_node (ch, m) ns = (ch', m') \<Longrightarrow>
     wk_wf m' \<and> (\<forall>n. bt_get m' n = (if n \<in> set ns then None else bt_get m n))
     \<and> ch' = (ch \<or> (\<exists>n\<in>set ns. bt_get m n \<noteq> None))"
proof (induction ns arbitrary: ch m)
  case (Cons n ns)
  let ?m = "bt_remove n m"
  note get = bt_get_remove [OF wk_wfD(1) [OF Cons.prems(1)], of n]
  from Cons.prems(2) have "foldl drop_node (ch \<or> bt_get m n \<noteq> None, ?m) ns = (ch', m')"
    by (simp only: foldl.simps drop_node_eq)
  note IH = Cons.IH [OF wk_wf_remove [OF Cons.prems(1)] this]
  have "\<forall>k. bt_get m' k = (if k \<in> set (n # ns) then None else bt_get m k)"
    using IH by (simp add: get)
  moreover have "bt_get m n \<noteq> None \<or> (\<exists>k\<in>set ns. bt_get ?m k \<noteq> None) \<longleftrightarrow> (\<exists>k\<in>set (n # ns). bt_get m k \<noteq> None)"
    unfolding get by auto
  ultimately show ?case using IH by blast
qed simp

abbreviation wk_at :: "'x private_keys \<Rightarrow> node_id \<times> interface_name \<Rightarrow> 'x private_key option" where
  "wk_at m p \<equiv> wk_get m (fst p) (snd p)"

lemma drop_interface_eq:
  "drop_interface (ch, m) p = (ch \<or> wk_at m p \<noteq> None, snd (wk_remove (fst p) (snd p) m))"
  using fst_wk_remove [of "fst p" "snd p" m]
  by (auto simp: drop_interface_def case_prod_beta split: prod.splits option.splits)

lemma drop_interfaces:
  "wk_wf m \<Longrightarrow> foldl drop_interface (ch, m) ps = (ch', m') \<Longrightarrow>
     wk_wf m' \<and> (\<forall>p. wk_at m' p = (if p \<in> set ps then None else wk_at m p))
     \<and> ch' = (ch \<or> (\<exists>p\<in>set ps. wk_at m p \<noteq> None))"
proof (induction ps arbitrary: ch m)
  case (Cons p ps)
  let ?m = "snd (wk_remove (fst p) (snd p) m)"
  have get: "wk_at ?m q = (if q = p then None else wk_at m q)" for q
    by (simp add: wk_get_remove [OF Cons.prems(1)] prod_eq_iff)
  from Cons.prems(2) have "foldl drop_interface (ch \<or> wk_at m p \<noteq> None, ?m) ps = (ch', m')"
    by (simp only: foldl.simps drop_interface_eq)
  note IH = Cons.IH [OF wk_remove_wf [OF Cons.prems(1)] this]
  have "\<forall>q. wk_at m' q = (if q \<in> set (p # ps) then None else wk_at m q)"
    using IH get by auto
  moreover have "wk_at m p \<noteq> None \<or> (\<exists>q\<in>set ps. wk_at ?m q \<noteq> None) \<longleftrightarrow> (\<exists>q\<in>set (p # ps). wk_at m q \<noteq> None)"
    unfolding get by auto
  ultimately show ?case using IH by blast
qed simp

lemma wg_interface_pairs_node: "wg_interface_pairs x = Some is \<Longrightarrow> p \<in> set is \<Longrightarrow> fst p = fst x"
  by (auto simp: wg_interface_pairs_def split: prod.splits node.splits wireguard_node.splits)

lemma wk_at_None: "bt_get m (fst p) = None \<Longrightarrow> wk_at m p = None"
  by (simp add: wk_get_def)

lemma wk_cleanup_get:
  assumes wf: "wk_wf m" and iter: "hash_iter_ok env" and cl: "wk_cleanup env cfg m = (ch, m')"
  shows "wk_wf m'" and "wk_at m' p = (if p \<in> used_interfaces cfg then wk_at m p else None)"
    and "ch \<longleftrightarrow> \<not> set (bt_keys m) \<subseteq> fst (config_sets cfg)
       \<or> (\<exists>p. wk_at m p \<noteq> None \<and> p \<notin> used_interfaces cfg)"
proof -
  define ns where "ns = hash_iter_ids env (set (bt_keys m) - fst (config_sets cfg))"
  define ps where "ps = hash_iter_pairs env (snd (key_sets m) - used_interfaces cfg)"
  obtain ch1 m1 where first: "foldl drop_node (False, m) ns = (ch1, m1)" by force
  have second: "foldl drop_interface (ch1, m1) ps = (ch, m')"
    using cl first by (simp add: wk_cleanup_def config_sets_eq key_sets_eq ns_def ps_def)
  have ns: "set ns = set (bt_keys m) - fst (config_sets cfg)"
    unfolding ns_def by (rule hash_iter_ids_set [OF iter]) simp
  have ps: "set ps = snd (key_sets m) - used_interfaces cfg"
    unfolding ps_def by (rule hash_iter_pairs_set [OF iter]) (simp add: key_sets_eq)
  have keyed: "p \<in> snd (key_sets m) \<longleftrightarrow> wk_at m p \<noteq> None" for p
    unfolding wk_get_iff [OF wf] key_sets_eq by (cases p) force
  note m1 = drop_nodes [OF wf first]
  then have m': "wk_wf m' \<and> (\<forall>p. wk_at m' p = (if p \<in> set ps then None else wk_at m1 p))
     \<and> ch = (ch1 \<or> (\<exists>p\<in>set ps. wk_at m1 p \<noteq> None))"
    by (intro drop_interfaces [OF _ second]) blast
  then show "wk_wf m'" by blast
  have used: "fst p \<in> fst (config_sets cfg)" if "p \<in> used_interfaces cfg" for p
  proof -
    from that obtain x ifs where x: "x \<in> set (fc_all_nodes cfg)" "wg_interface_pairs x = Some ifs" "p \<in> set ifs"
      by (auto simp: used_interfaces_def split: option.splits)
    have "\<exists>y\<in>set (fc_all_nodes cfg). fst y = fst p \<and> wg_interface_pairs y \<noteq> None"
      using x(1) wg_interface_pairs_node [OF x(2,3)] x(2) by force
    then show ?thesis unfolding config_sets_eq by force
  qed
  have get1: "wk_at m1 p = (if fst p \<in> set ns then None else wk_at m p)" for p
    using m1 by (simp add: wk_get_def)
  have "wk_at m' p = (if p \<in> set ps then None else if fst p \<in> set ns then None else wk_at m p)" for p
    using m' get1 by simp
  then show "wk_at m' p = (if p \<in> used_interfaces cfg then wk_at m p else None)" for p
    using used [of p] keyed [of p] ps ns by auto
  have nodes: "ch1 \<longleftrightarrow> \<not> set (bt_keys m) \<subseteq> fst (config_sets cfg)"
    using m1 ns by (auto simp: bt_get_None simp del: not_None_eq)
  have in_keys: "fst p \<in> set (bt_keys m)" if "wk_at m p \<noteq> None" for p
    using that by (auto simp: wk_get_def split: option.splits dest!: bt_get_SomeD [of m]) force
  have "ch \<longleftrightarrow> ch1 \<or> (\<exists>p. wk_at m p \<noteq> None \<and> p \<notin> used_interfaces cfg \<and> fst p \<notin> set ns)"
    using m' ps keyed get1 by (metis Diff_iff)
  then show "ch \<longleftrightarrow> \<not> set (bt_keys m) \<subseteq> fst (config_sets cfg)
       \<or> (\<exists>p. wk_at m p \<noteq> None \<and> p \<notin> used_interfaces cfg)"
    using nodes ns in_keys by blast
qed

section \<open>Sections are read back\<close>

lemma try_fold_inserts:
  assumes "\<And>m x. x \<in> set xs \<Longrightarrow> key x \<notin> set (bt_keys m) \<Longrightarrow> step m x = Ok (bt_insert (key x) (val x) m)"
    and "distinct (map key xs)" and "set (bt_keys m) \<inter> key ` set xs = {}"
  shows "try_fold step m xs = Ok (bt_extend m (map (\<lambda>x. (key x, val x)) xs))"
  using assms
proof (induction xs arbitrary: m)
  case Nil
  then show ?case by (simp add: bt_extend_def)
next
  case (Cons x xs)
  have "set (bt_keys (bt_insert (key x) (val x) m)) \<inter> key ` set xs = {}"
    using Cons.prems(2,3) bt_keys_insert [of "key x" "val x" m] by auto
  with Cons.IH [OF Cons.prems(1), of "bt_insert (key x) (val x) m"] Cons.prems(2)
  have "try_fold step (bt_insert (key x) (val x) m) xs
      = Ok (bt_extend (bt_insert (key x) (val x) m) (map (\<lambda>x. (key x, val x)) xs))" by simp
  moreover have "step m x = Ok (bt_insert (key x) (val x) m)"
    by (rule Cons.prems(1)) (use Cons.prems(3) in auto)
  ultimately show ?case by (simp add: bt_extend_def)
qed

definition section_keys :: "'x interface_private_key list \<Rightarrow> (interface_name, 'x private_key) btree_map" where
  "section_keys ks = bt_extend [] (map (\<lambda>k. (ipk_name k, ipk_key k)) ks)"

lemma read_key_section_fresh:
  assumes "node_id_ok sid" and "sid \<notin> set (bt_keys m)" and "distinct (map ipk_name ks)"
  shows "read_key_section m (sid, ks) = Ok (bt_insert sid (section_keys ks) m)"
proof -
  have "try_fold (read_key sid) [] ks = Ok (section_keys ks)"
    unfolding section_keys_def
    by (rule try_fold_inserts) (use assms(3) in \<open>simp_all add: read_key_def bt_get_None\<close>)
  moreover have "bt_get m sid = None" using assms(2) bt_get_None by blast
  ultimately show ?thesis using assms(1) by (simp add: read_key_section_def)
qed

lemma distinct_of_map: "distinct (map f xs) \<Longrightarrow> distinct xs"
  by (simp add: distinct_map)

lemma wk_into_sections_pairs:
  assumes "bt_wf c"
  shows "section_keys (map (\<lambda>(name, key). \<lparr>ipk_name = name, ipk_key = key\<rparr>) c) = c"
  unfolding section_keys_def map_map
  by (rule bt_extend_rebuild) (use assms bt_wf_distinct [OF assms] in \<open>auto simp: case_prod_unfold comp_def\<close>)

text \<open>
  The private keys survive being written to sections and read back, whatever order the section
  container iterates in: every node keeps exactly its interfaces and their keys.
\<close>

theorem wireguard_keys_roundtrip:
  assumes "wk_wf m" and "\<forall>n\<in>set (bt_keys m). node_id_ok n" and "mset secs = mset (wk_into_sections m)"
  shows "wk_try_from secs = Ok m"
proof -
  have dist: "distinct (bt_keys m)" using assms(1) by (intro bt_wf_distinct) (simp add: wk_wf_def)
  have secs: "set secs = set (wk_into_sections m)" using assms(3) by (rule mset_eq_setD)
  have "map fst (wk_into_sections m) = bt_keys m" by (simp add: wk_into_sections_def case_prod_unfold)
  then have "mset (map fst secs) = mset (bt_keys m)"
    using assms(3) by (metis mset_map)
  then have dist': "distinct (map fst secs)" using dist by (metis mset_eq_imp_distinct_iff)
  have each: "node_id_ok (fst x) \<and> distinct (map ipk_name (snd x))
      \<and> (fst x, section_keys (snd x)) \<in> set m" if "x \<in> set secs" for x
  proof -
    from that secs obtain y where y: "y \<in> set m"
      and xy: "x = (fst y, map (\<lambda>(name, key). \<lparr>ipk_name = name, ipk_key = key\<rparr>) (snd y))"
      unfolding secs wk_into_sections_def set_map by (elim imageE) (simp add: case_prod_unfold)
    define c where "c = snd y"
    have c: "(fst x, c) \<in> set m" using y by (simp add: xy c_def)
    have x: "snd x = map (\<lambda>(name, key). \<lparr>ipk_name = name, ipk_key = key\<rparr>) c" by (simp add: xy c_def)
    from c wk_wfD(2) [OF assms(1)] have wf: "bt_wf c" by auto
    have "map ipk_name (snd x) = bt_keys c" by (simp add: x case_prod_unfold comp_def)
    with bt_wf_distinct [OF wf] have "distinct (map ipk_name (snd x))" by simp
    moreover have "node_id_ok (fst x)" using c assms(2) by force
    ultimately show ?thesis using c by (simp add: x wk_into_sections_pairs [OF wf])
  qed
  have "wk_try_from secs = Ok (bt_extend [] (map (\<lambda>x. (fst x, section_keys (snd x))) secs))"
    unfolding wk_try_from_def
  proof (rule try_fold_inserts)
    show "read_key_section m x = Ok (bt_insert (fst x) (section_keys (snd x)) m)"
      if "x \<in> set secs" and "fst x \<notin> set (bt_keys m)" for m x
      using read_key_section_fresh [of "fst x" m "snd x"] each that by (metis prod.collapse)
  qed (use dist' in simp_all)
  also have "bt_extend [] (map (\<lambda>x. (fst x, section_keys (snd x))) secs) = m"
  proof (rule bt_extend_rebuild)
    have sub: "set (map (\<lambda>x. (fst x, section_keys (snd x))) secs) \<subseteq> set m" using each by auto
    have d: "distinct (map (\<lambda>x. (fst x, section_keys (snd x))) secs)"
      by (rule distinct_of_map [of fst]) (use dist' in \<open>simp add: comp_def\<close>)
    have "length secs = length m" using mset_eq_length [OF assms(3)] by (simp add: wk_into_sections_def)
    then have "card (set (map (\<lambda>x. (fst x, section_keys (snd x))) secs)) = card (set m)"
      using distinct_card [OF d] distinct_card [of m] distinct_of_map [OF dist] by simp
    with sub show "set (map (\<lambda>x. (fst x, section_keys (snd x))) secs) = set m"
      by (intro card_subset_eq) simp_all
  qed (use assms(1) dist' in \<open>simp_all add: wk_wf_def comp_def\<close>)
  finally show ?thesis .
qed

definition sample_keys :: "sample private_keys" where
  "sample_keys = [(''pve1'', [(''wg0'', PrivateKey (1, 2)), (''wg1'', PrivateKey (3, 4))]),
     (''pve2'', [(''wg0'', PrivateKey (5, 6))])]"

lemma sample_keys_wf: "wk_wf sample_keys"
  by (simp add: sample_keys_def wk_wf_def bt_wf_def)

theorem wireguard_keys_roundtrip_witness:
  "wk_try_from (rev (wk_into_sections sample_keys)) = Ok sample_keys"
proof (rule wireguard_keys_roundtrip [OF sample_keys_wf])
  show "\<forall>n\<in>set (bt_keys sample_keys). node_id_ok n" by code_simp
qed simp

text \<open>
  C26: cleaning up the private keys keeps exactly the keys of interfaces that an internal WireGuard
  node of the fabric configuration has, whatever order the hash sets are iterated in, and reports a
  change exactly when a key or a node went.
\<close>

theorem wireguard_cleanup_exact:
  assumes "wk_wf m" and "hash_iter_ok env" and "wk_cleanup env cfg m = (changed, m')"
  shows "wk_get m' n i = (if (n, i) \<in> used_interfaces cfg then wk_get m n i else None)
    \<and> (changed \<longleftrightarrow> \<not> set (bt_keys m) \<subseteq> fst (config_sets cfg)
         \<or> (\<exists>p. wk_at m p \<noteq> None \<and> p \<notin> used_interfaces cfg))"
  using wk_cleanup_get(2) [OF assms, of "(n, i)"] wk_cleanup_get(3) [OF assms] by simp

end
