(* ===== verification/Wireguard_Build.thy ===== *)
theory Wireguard_Build
  imports Wireguard_Keys
begin

text \<open>
  The WireGuard configuration of one node (\<open>sdn/wireguard.rs\<close>): for each interface of the node its
  private key and listen port, and one peer for each peer definition that uses the interface.
  \<open>WireGuardInterface\<close>, \<open>WireGuardPeer\<close> and \<open>WireGuardConfig\<close> are the records of another crate; the
  fields are those the code sets.
\<close>

record 'x wireguard_interface =
  wci_private_key :: "'x private_key"
  wci_listen_port :: "16 word option"
  wci_fw_mark :: "32 word option"

datatype 'x preshared_key = PresharedKey 'x

record 'x wireguard_peer =
  wcp_public_key :: "'x public_key"
  wcp_preshared_key :: "'x preshared_key option"
  wcp_allowed_ips :: "'x cidr list"
  wcp_endpoint :: "'x service_endpoint option"
  wcp_persistent_keepalive :: "16 word option"

record 'x wireguard_config =
  wc_interface :: "'x wireguard_interface"
  wc_peers :: "'x wireguard_peer list"

datatype wireguard_build_error =
  PrivateKeyMissing | PeerNodeMissing node_id | PeerInterfaceMissing | BadCidr | BadPeerCombination

type_synonym 'x wireguard_configs = "(interface_name, 'x wireguard_config) btree_map"

section \<open>One peer\<close>

text \<open>The networks of an internal peer: the addresses of its node and interface, then the lists.\<close>

definition internal_allowed_ips ::
  "'x env \<Rightarrow> 'x wireguard_node node_section \<Rightarrow> 'x wireguard_interface_properties
    \<Rightarrow> 'x internal_wireguard_node \<Rightarrow> 'x internal_peer \<Rightarrow> (wireguard_build_error, 'x cidr list) result" where
  "internal_allowed_ips env s i n p =
     and_then (case ns_ip s of None \<Rightarrow> Ok [] | Some ip \<Rightarrow> Ok [CidrIpv4 (v4_from env ip)]) (\<lambda>ips.
     and_then (case wgi_ip i of
         None \<Rightarrow> Ok ips
       | Some c \<Rightarrow> map_err (\<lambda>_. BadCidr) (ok_or ()
           (map_option (\<lambda>c. ips @ [CidrIpv4 c]) (v4_new env (v4_address env c) 32)))) (\<lambda>ips.
     and_then (case wgi_ip6 i of
         None \<Rightarrow> Ok ips
       | Some c \<Rightarrow> map_err (\<lambda>_. BadCidr) (ok_or ()
           (map_option (\<lambda>c. ips @ [CidrIpv6 c]) (v6_new env (v6_address env c) 128)))) (\<lambda>ips.
     Ok (ips @ wgn_allowed_ips n @ ip_allowed_ips p))))"

definition fabric_keepalive :: "wireguard_properties \<Rightarrow> 16 word option" where
  "fabric_keepalive f = map_option keepalive_raw (wg_persistent_keepalive f)"

text \<open>\<open>None\<close> is the \<open>continue\<close> of the loop: the peer uses another interface.\<close>

definition build_peer ::
  "'x env \<Rightarrow> 'x fabric_entry \<Rightarrow> wireguard_properties \<Rightarrow> interface_name \<Rightarrow> 'x wireguard_node_peer
    \<Rightarrow> (wireguard_build_error, 'x wireguard_peer option) result" where
  "build_peer env fe f iface peer =
     (case fe_get_node fe (peer_node peer) of
        Ok (NodeWireGuard s) \<Rightarrow> (case (ns_properties s, peer) of
            (WgInternal n, PeerInternal p) \<Rightarrow>
              if ip_iface p \<noteq> iface then Ok None
              else (case find (\<lambda>i. wgi_name i = ip_node_iface p) (wgn_interfaces n) of
                  None \<Rightarrow> Err PeerInterfaceMissing
                | Some i \<Rightarrow>
                    (let endpoint = map_option (\<lambda>h. endpoint_new env (host_to_string env h) (wgi_listen_port i))
                           (case ip_endpoint p of None \<Rightarrow> wgn_endpoint n | Some e \<Rightarrow> Some e)
                     in and_then (internal_allowed_ips env s i n p) (\<lambda>ips.
                        Ok (Some \<lparr>wcp_public_key = wgi_public_key i, wcp_preshared_key = None,
                          wcp_allowed_ips = ips, wcp_endpoint = endpoint,
                          wcp_persistent_keepalive = fabric_keepalive f\<rparr>))))
          | (WgExternal x, PeerExternal p) \<Rightarrow>
              if ep_iface p \<noteq> iface then Ok None
              else Ok (Some \<lparr>wcp_public_key = wgx_public_key x, wcp_preshared_key = None,
                wcp_allowed_ips = wgx_allowed_ips x @ ep_allowed_ips p,
                wcp_endpoint = Some (case ep_endpoint p of None \<Rightarrow> wgx_endpoint x | Some e \<Rightarrow> e),
                wcp_persistent_keepalive = fabric_keepalive f\<rparr>)
          | _ \<Rightarrow> Err BadPeerCombination)
      | _ \<Rightarrow> Err (PeerNodeMissing (peer_node peer)))"

section \<open>The loops\<close>

definition build_interface ::
  "'x env \<Rightarrow> 'x private_keys \<Rightarrow> node_id \<Rightarrow> 'x fabric_entry \<Rightarrow> wireguard_properties
    \<Rightarrow> 'x internal_wireguard_node \<Rightarrow> 'x wireguard_configs \<Rightarrow> 'x wireguard_interface_properties
    \<Rightarrow> (wireguard_build_error, 'x wireguard_configs) result" where
  "build_interface env keys current fe f n m i =
     and_then (ok_or PrivateKeyMissing (wk_get keys current (wgi_name i))) (\<lambda>key.
     and_then (try_fold (\<lambda>peers p. and_then (build_peer env fe f (wgi_name i) p) (\<lambda>r.
           Ok (case r of None \<Rightarrow> peers | Some c \<Rightarrow> peers @ [c]))) [] (wgn_peers n)) (\<lambda>peers.
     Ok (bt_insert (wgi_name i)
       \<lparr>wc_interface = \<lparr>wci_private_key = key, wci_listen_port = Some (wgi_listen_port i), wci_fw_mark = None\<rparr>,
        wc_peers = peers\<rparr> m)))"

definition build_fabric_interfaces ::
  "'x env \<Rightarrow> 'x private_keys \<Rightarrow> node_id \<Rightarrow> 'x wireguard_configs \<Rightarrow> 'x fabric_entry
    \<Rightarrow> (wireguard_build_error, 'x wireguard_configs) result" where
  "build_fabric_interfaces env keys current m fe = (case fe_fabric fe of
     FabricWireGuard s \<Rightarrow> (case fe_get_node fe current of
         Ok (NodeWireGuard ns) \<Rightarrow> (case ns_properties ns of
             WgInternal n \<Rightarrow> try_fold (build_interface env keys current fe (fs_properties s) n) m (wgn_interfaces n)
           | WgExternal _ \<Rightarrow> Ok m)
       | _ \<Rightarrow> Ok m)
   | _ \<Rightarrow> Ok m)"

definition wireguard_build ::
  "'x env \<Rightarrow> 'x fabric_config \<Rightarrow> 'x private_keys \<Rightarrow> node_id
    \<Rightarrow> (wireguard_build_error, 'x wireguard_configs) result" where
  "wireguard_build env cfg keys current =
     try_fold (build_fabric_interfaces env keys current) [] (bt_values cfg)"

end
