(* ===== verification/Wireguard_Build_Props.thy ===== *)
theory Wireguard_Build_Props
  imports Wireguard_Build Fabric_Properties
begin

text \<open>
  The WireGuard configuration of a node, for validated fabrics: every reference resolves, so
  building never fails, and the result has one entry for each interface of the node, with its own
  key, port and the peers that use it. The proof flattens the loops of the code into one loop over
  the jobs \<open>(entry, fabric, node, interface)\<close>.
\<close>

definition exact_networks :: "'x env \<Rightarrow> bool" where
  "exact_networks env \<longleftrightarrow> (\<forall>a. v4_new env a 32 \<noteq> None) \<and> (\<forall>a. v6_new env a 128 \<noteq> None)"

lemma sample_exact_networks: "exact_networks sample_env"
  by (simp add: exact_networks_def sample_env_def)

text \<open>The public key a peer definition stands for.\<close>

definition peer_key :: "'x fabric_entry \<Rightarrow> 'x wireguard_node_peer \<Rightarrow> 'x public_key option" where
  "peer_key fe p = (case bt_get (fe_nodes fe) (peer_node p) of
     None \<Rightarrow> None
   | Some n \<Rightarrow> (case p of
       PeerInternal i \<Rightarrow> map_option wgi_public_key (find (\<lambda>w. wgi_name w = ip_node_iface i) (wg_interfaces_of n))
     | PeerExternal _ \<Rightarrow> map_option wgx_public_key (wg_external n)))"

section \<open>One peer\<close>

lemma internal_allowed_ips_ok:
  "exact_networks env \<Longrightarrow> is_ok (internal_allowed_ips env s i n p)"
proof -
  assume "exact_networks env"
  then obtain g h where "\<And>a. v4_new env a 32 = Some (g a)" "\<And>a. v6_new env a 128 = Some (h a)"
    unfolding exact_networks_def not_None_eq by metis
  then show ?thesis by (simp add: internal_allowed_ips_def split: option.split)
qed

lemma find_name:
  assumes "x \<in> g ` set xs"
  obtains y where "find (\<lambda>i. g i = x) xs = Some y"
  using assms by (cases "find (\<lambda>i. g i = x) xs") (auto simp: find_None_iff)

lemma node_stored: "bt_wf m \<Longrightarrow> (k, n) \<in> set m \<Longrightarrow> bt_get m k = Some n"
  by (simp add: bt_get_Some)

lemma build_peer_internal:
  assumes wf: "fe_wf fe" and res: "peer_resolves (fe_nodes fe) (PeerInternal i)" and net: "exact_networks env"
  shows "\<exists>r. build_peer env fe f iface (PeerInternal i) = Ok r
    \<and> (if ip_iface i = iface then \<exists>c. r = Some c \<and> peer_key fe (PeerInternal i) = Some (wcp_public_key c)
       else r = None)"
proof -
  obtain n where n: "(ip_node i, n) \<in> set (fe_nodes fe)" and mem: "ip_node_iface i \<in> wgi_name ` set (wg_interfaces_of n)"
    using res by (auto simp: peer_resolves_def)
  from mem obtain s p where s: "n = NodeWireGuard s" "ns_properties s = WgInternal p"
    by (auto simp: wg_of_defs split: node.splits wireguard_node.splits)
  obtain w where w: "find (\<lambda>x. wgi_name x = ip_node_iface i) (wgn_interfaces p) = Some w"
    using mem s find_name [of "ip_node_iface i" wgi_name "wgn_interfaces p"] by (simp add: wg_of_defs) blast
  have get: "bt_get (fe_nodes fe) (ip_node i) = Some (NodeWireGuard s)"
    using node_stored [OF _ n] wf s by (simp add: fe_wf_def)
  obtain ips where "internal_allowed_ips env s w p i = Ok ips"
    using internal_allowed_ips_ok [OF net, of s w p i] by (auto simp: is_ok_iff)
  with get w s show ?thesis
    by (simp add: build_peer_def fe_get_node_nodes peer_node_def peer_key_def wg_of_defs Let_def)
qed

lemma build_peer_external:
  assumes wf: "fe_wf fe" and res: "peer_resolves (fe_nodes fe) (PeerExternal x)"
  shows "\<exists>r. build_peer env fe f iface (PeerExternal x) = Ok r
    \<and> (if ep_iface x = iface then \<exists>c. r = Some c \<and> peer_key fe (PeerExternal x) = Some (wcp_public_key c)
       else r = None)"
proof -
  obtain n where n: "(ep_node x, n) \<in> set (fe_nodes fe)" and ext: "wg_external n \<noteq> None"
    using res by (auto simp: peer_resolves_def)
  then obtain s p where s: "n = NodeWireGuard s" "ns_properties s = WgExternal p"
    by (auto simp: wg_of_defs split: node.splits wireguard_node.splits)
  have "bt_get (fe_nodes fe) (ep_node x) = Some (NodeWireGuard s)"
    using node_stored [OF _ n] wf s by (simp add: fe_wf_def)
  with s show ?thesis
    by (simp add: build_peer_def fe_get_node_nodes peer_node_def peer_key_def wg_of_defs)
qed

lemma build_peer_ok:
  assumes "fe_wf fe" and "peer_resolves (fe_nodes fe) p" and "exact_networks env"
  shows "\<exists>r. build_peer env fe f iface p = Ok r
    \<and> (if peer_iface p = iface then \<exists>c. r = Some c \<and> peer_key fe p = Some (wcp_public_key c) else r = None)"
proof (cases p)
  case (PeerInternal i)
  show ?thesis
    unfolding PeerInternal peer_iface_def wireguard_node_peer.case
    by (rule build_peer_internal) (use assms PeerInternal in simp_all)
next
  case (PeerExternal x)
  show ?thesis
    unfolding PeerExternal peer_iface_def wireguard_node_peer.case
    by (rule build_peer_external) (use assms PeerExternal in simp_all)
qed

lemma build_peers_ok:
  assumes "fe_wf fe" and "\<forall>p\<in>set ps. peer_resolves (fe_nodes fe) p" and "exact_networks env"
  shows "\<exists>cs. try_fold (\<lambda>peers p. and_then (build_peer env fe f iface p) (\<lambda>r.
           Ok (case r of None \<Rightarrow> peers | Some c \<Rightarrow> peers @ [c]))) acc ps = Ok (acc @ cs)
    \<and> map (\<lambda>c. Some (wcp_public_key c)) cs = map (peer_key fe) (filter (\<lambda>p. peer_iface p = iface) ps)"
  using assms(2)
proof (induction ps arbitrary: acc)
  case (Cons p ps)
  obtain r where r: "build_peer env fe f iface p = Ok r"
    "if peer_iface p = iface then \<exists>c. r = Some c \<and> peer_key fe p = Some (wcp_public_key c) else r = None"
    using build_peer_ok [OF assms(1) _ assms(3)] Cons.prems by fastforce
  show ?case
  proof (cases r)
    case None
    with r Cons.IH [of acc] Cons.prems show ?thesis by (auto split: if_splits)
  next
    case (Some c)
    obtain cs where "try_fold (\<lambda>peers p. and_then (build_peer env fe f iface p) (\<lambda>r.
           Ok (case r of None \<Rightarrow> peers | Some c \<Rightarrow> peers @ [c]))) (acc @ [c]) ps = Ok ((acc @ [c]) @ cs)"
      "map (\<lambda>c. Some (wcp_public_key c)) cs = map (peer_key fe) (filter (\<lambda>p. peer_iface p = iface) ps)"
      using Cons.IH [of "acc @ [c]"] Cons.prems by auto
    with r Some show ?thesis by (intro exI [of _ "c # cs"]) (auto split: if_splits)
  qed
qed simp

section \<open>Loops that insert\<close>

text \<open>A loop whose every step inserts under a key of its own leaves what each step inserted.\<close>

lemma try_fold_insert:
  assumes "\<forall>x\<in>set xs. \<exists>v. P x v \<and> (\<forall>m. step m x = Ok (bt_insert (key x) v m))"
  shows "\<exists>g. (\<forall>x\<in>set xs. P x (g x))
    \<and> try_fold step m xs = Ok (foldl (\<lambda>m x. bt_insert (key x) (g x) m) m xs)"
proof -
  obtain g where g: "\<forall>x\<in>set xs. P x (g x) \<and> (\<forall>m. step m x = Ok (bt_insert (key x) (g x) m))"
    using assms by metis
  then have "try_fold step m xs = Ok (foldl (\<lambda>m x. bt_insert (key x) (g x) m) m xs)"
    by (induction xs arbitrary: m) auto
  with g show ?thesis by blast
qed

lemma get_inserts:
  assumes "inj_on key (set xs)"
  shows "x \<in> set xs \<Longrightarrow> bt_get (foldl (\<lambda>m x. bt_insert (key x) (g x) m) m xs) (key x) = Some (g x)"
    and "k \<notin> key ` set xs \<Longrightarrow> bt_get (foldl (\<lambda>m x. bt_insert (key x) (g x) m) m xs) k = bt_get m k"
  using assms by (induction xs rule: rev_induct) (auto simp: bt_get_insert inj_on_def)

section \<open>The jobs of a node\<close>

type_synonym 'x wireguard_job =
  "'x fabric_entry \<times> wireguard_properties \<times> 'x internal_wireguard_node \<times> 'x wireguard_interface_properties"

definition entry_jobs :: "node_id \<Rightarrow> 'x fabric_entry \<Rightarrow> 'x wireguard_job list" where
  "entry_jobs current fe = (case (fe_fabric fe, bt_get (fe_nodes fe) current) of
     (FabricWireGuard s, Some n) \<Rightarrow> (case wg_internal n of
         None \<Rightarrow> [] | Some p \<Rightarrow> map (\<lambda>i. (fe, fs_properties s, p, i)) (wgn_interfaces p))
   | _ \<Rightarrow> [])"

definition run_job ::
  "'x env \<Rightarrow> 'x private_keys \<Rightarrow> node_id \<Rightarrow> 'x wireguard_configs \<Rightarrow> 'x wireguard_job
    \<Rightarrow> (wireguard_build_error, 'x wireguard_configs) result" where
  "run_job env keys current m = (\<lambda>(fe, f, n, i). build_interface env keys current fe f n m i)"

lemma build_fabric_interfaces_jobs:
  "build_fabric_interfaces env keys current m fe = try_fold (run_job env keys current) m (entry_jobs current fe)"
  by (auto simp: build_fabric_interfaces_def entry_jobs_def fe_get_node_nodes wg_of_defs try_fold_map
      run_job_def split: fabric.split option.split node.split wireguard_node.split)

lemma wireguard_build_jobs:
  "wireguard_build env cfg keys current
    = try_fold (run_job env keys current) [] (concat (map (entry_jobs current) (bt_values cfg)))"
  by (simp only: wireguard_build_def try_fold_concat_map build_fabric_interfaces_jobs [abs_def])

definition job_name :: "'x wireguard_job \<Rightarrow> interface_name" where
  "job_name = (\<lambda>(fe, f, n, i). wgi_name i)"

text \<open>What the configuration of one interface is to be.\<close>

definition interface_configured ::
  "'x private_keys \<Rightarrow> node_id \<Rightarrow> 'x fabric_entry \<Rightarrow> 'x internal_wireguard_node
    \<Rightarrow> 'x wireguard_interface_properties \<Rightarrow> 'x wireguard_config \<Rightarrow> bool" where
  "interface_configured keys current fe n i c \<longleftrightarrow>
     wk_get keys current (wgi_name i) = Some (wci_private_key (wc_interface c))
     \<and> wci_listen_port (wc_interface c) = Some (wgi_listen_port i)
     \<and> map (\<lambda>p. Some (wcp_public_key p)) (wc_peers c)
         = map (peer_key fe) (filter (\<lambda>p. peer_iface p = wgi_name i) (wgn_peers n))"

lemma run_job_ok:
  assumes "fe_wf fe" and "\<forall>p\<in>set (wgn_peers n). peer_resolves (fe_nodes fe) p"
    and "exact_networks env" and "wk_get keys current (wgi_name i) \<noteq> None"
  shows "\<exists>c. interface_configured keys current fe n i c
    \<and> (\<forall>m. run_job env keys current m (fe, f, n, i) = Ok (bt_insert (wgi_name i) c m))"
proof -
  obtain key where key: "wk_get keys current (wgi_name i) = Some key" using assms(4) by blast
  obtain cs where cs: "try_fold (\<lambda>peers p. and_then (build_peer env fe f (wgi_name i) p) (\<lambda>r.
           Ok (case r of None \<Rightarrow> peers | Some c \<Rightarrow> peers @ [c]))) [] (wgn_peers n) = Ok cs"
    "map (\<lambda>c. Some (wcp_public_key c)) cs
      = map (peer_key fe) (filter (\<lambda>p. peer_iface p = wgi_name i) (wgn_peers n))"
    using build_peers_ok [OF assms(1-3), of f "wgi_name i" "[]"] by auto
  let ?c = "\<lparr>wc_interface = \<lparr>wci_private_key = key, wci_listen_port = Some (wgi_listen_port i),
     wci_fw_mark = None\<rparr>, wc_peers = cs\<rparr>"
  have "interface_configured keys current fe n i ?c"
    using key cs(2) by (simp add: interface_configured_def)
  moreover have "run_job env keys current m (fe, f, n, i) = Ok (bt_insert (wgi_name i) ?c m)" for m
    using key cs(1) by (simp add: run_job_def build_interface_def)
  ultimately show ?thesis by blast
qed

section \<open>Every job of a validated configuration\<close>

lemma entry_jobs_iff:
  assumes "bt_wf (fe_nodes fe)"
  shows "(fe', f, n, i) \<in> set (entry_jobs current fe) \<longleftrightarrow>
    fe' = fe \<and> (\<exists>s x. fe_fabric fe = FabricWireGuard s \<and> f = fs_properties s
      \<and> (current, x) \<in> set (fe_nodes fe) \<and> wg_internal x = Some n \<and> i \<in> set (wgn_interfaces n))"
  unfolding entry_jobs_def bt_get_Some [OF assms, symmetric]
  by (cases "fe_fabric fe"; cases "bt_get (fe_nodes fe) current") (auto split: option.split)

lemma wg_internal_iff:
  "wg_internal x = Some n \<longleftrightarrow> (\<exists>s. x = NodeWireGuard s \<and> ns_properties s = WgInternal n)"
  by (auto simp: wg_internal_def split: node.splits wireguard_node.splits)

lemma wireguard_claim:
  "wg_internal x = Some n \<Longrightarrow> ClaimWireguardInterface k j \<in> set (node_claims (k, x))
     \<longleftrightarrow> j \<in> wgi_name ` set (wgn_interfaces n)"
  "wg_internal x = Some n \<Longrightarrow> distinct (node_claims (k, x)) \<Longrightarrow> inj_on wgi_name (set (wgn_interfaces n))"
  by (auto simp: wg_internal_iff node_claims_def distinct_map inj_on_def)

definition all_jobs :: "'x fabric_config \<Rightarrow> node_id \<Rightarrow> 'x wireguard_job list" where
  "all_jobs cfg current = concat (map (entry_jobs current) (bt_values cfg))"

lemma all_jobs_iff:
  assumes "fc_wf cfg"
  shows "(fe, f, n, i) \<in> set (all_jobs cfg current) \<longleftrightarrow>
    (\<exists>k s x. (k, fe) \<in> set cfg \<and> fe_fabric fe = FabricWireGuard s \<and> f = fs_properties s
      \<and> (current, x) \<in> set (fe_nodes fe) \<and> wg_internal x = Some n \<and> i \<in> set (wgn_interfaces n))"
proof -
  have "bt_wf (fe_nodes fe)" if "(k, fe) \<in> set cfg" for k fe
    using assms that by (auto simp: fc_wf_def fe_wf_def)
  then show ?thesis
    by (force simp: all_jobs_def entry_jobs_iff)
qed

lemma job_lookup:
  assumes "fc_wf cfg" and "(k, fe) \<in> set cfg" and "(nid, x) \<in> set (fe_nodes fe)"
  shows "node_lookup cfg \<lparr>nsi_fabric_id = k, nsi_node_id = nid\<rparr> = Some x"
proof -
  have "bt_wf cfg" and "bt_wf (fe_nodes fe)"
    using assms(1,2) by (auto simp: fc_wf_def fe_wf_def)
  then show ?thesis
    using assms(2,3) by (simp add: node_lookup_def node_stored)
qed

lemma node_claims_distinct:
  assumes "fc_valid env cfg" and "(k, fe) \<in> set cfg" and "(nid, x) \<in> set (fe_nodes fe)"
  shows "distinct (node_claims (nid, x))"
proof -
  have "distinct (concat (map (\<lambda>(k, fe). entry_claims fe) cfg))"
    using assms(1) by (simp add: fc_valid_def case_prod_unfold comp_def)
  then have "distinct (entry_claims fe)"
    using assms(2) by (force simp: distinct_concat_iff)
  then show ?thesis
    using assms(3) by (force simp: entry_claims_def distinct_concat_iff)
qed

lemma all_jobs_inj:
  assumes wf: "fc_wf cfg" and valid: "fc_valid env cfg"
  shows "inj_on job_name (set (all_jobs cfg current))"
proof (rule inj_onI)
  fix a b
  assume ab: "a \<in> set (all_jobs cfg current)" "b \<in> set (all_jobs cfg current)" and same: "job_name a = job_name b"
  obtain fe f n i fe' f' n' i' where split: "a = (fe, f, n, i)" "b = (fe', f', n', i')"
    by (cases a; cases b)
  obtain k s x where a: "(k, fe) \<in> set cfg" "fe_fabric fe = FabricWireGuard s" "f = fs_properties s"
      "(current, x) \<in> set (fe_nodes fe)" "wg_internal x = Some n" "i \<in> set (wgn_interfaces n)"
    using ab(1) unfolding split all_jobs_iff [OF wf] by blast
  obtain k' s' x' where b: "(k', fe') \<in> set cfg" "fe_fabric fe' = FabricWireGuard s'" "f' = fs_properties s'"
      "(current, x') \<in> set (fe_nodes fe')" "wg_internal x' = Some n'" "i' \<in> set (wgn_interfaces n')"
    using ab(2) unfolding split all_jobs_iff [OF wf] by blast
  let ?c = "ClaimWireguardInterface current (wgi_name i)"
  have name: "wgi_name i = wgi_name i'" using same by (simp add: split job_name_def)
  have "?c \<in> set (node_claims (current, x))" and "?c \<in> set (node_claims (current, x'))"
    using a(6) b(6) name unfolding wireguard_claim(1) [OF a(5)] wireguard_claim(1) [OF b(5)]
    by (metis imageI)+
  then have k: "k = k'"
    using one_claim_per_node [OF wf valid job_lookup [OF wf a(1,4)] _ job_lookup [OF wf b(1,4)], of ?c]
    by simp
  then have "x = x'" and "fe = fe'"
    using job_lookup [OF wf a(1,4)] job_lookup [OF wf b(1,4)] a(1) b(1) wf
    by (simp, metis fc_wf_def node_stored option.inject)
  moreover from this have "n = n'" using a(5) b(5) by simp
  moreover from this have "i = i'"
    using wireguard_claim(2) [OF a(5) node_claims_distinct [OF valid a(1,4)]] name a(6) b(6)
    by (auto dest: inj_onD)
  ultimately show "a = b" using a(2,3) b(2,3) by (simp add: split)
qed

lemma all_jobs_resolve:
  assumes wf: "fc_wf cfg" and valid: "fc_valid env cfg" and job: "(fe, f, n, i) \<in> set (all_jobs cfg current)"
  shows "fe_wf fe" and "\<forall>p\<in>set (wgn_peers n). peer_resolves (fe_nodes fe) p"
    and "(current, wgi_name i) \<in> used_interfaces cfg"
proof -
  obtain k s x where x: "(k, fe) \<in> set cfg" "fe_fabric fe = FabricWireGuard s"
      "(current, x) \<in> set (fe_nodes fe)" "wg_internal x = Some n" "i \<in> set (wgn_interfaces n)"
    using job unfolding all_jobs_iff [OF wf] by blast
  show fe: "fe_wf fe" using wf x(1) by (auto simp: fc_wf_def)
  have "fe_protocol fe = WireGuard"
    using fe x(2) by (simp add: fe_wf_def fabric_protocol_def)
  then have "wireguard_valid (fe_nodes fe)"
    using valid x(1) by (force simp: fc_valid_def fe_valid_def)
  then show "\<forall>p\<in>set (wgn_peers n). peer_resolves (fe_nodes fe) p"
    using x(3,4) by (force simp: wireguard_valid_def wg_peers_of_def)
  have "(current, x) \<in> set (fc_all_nodes cfg)"
    using x(1,3) by (force simp: fc_all_nodes_def)
  moreover have "(current, wgi_name i) \<in> (case wg_interface_pairs (current, x) of None \<Rightarrow> {} | Some is \<Rightarrow> set is)"
    using x(4,5) by (auto simp: wg_internal_iff wg_interface_pairs_def)
  ultimately show "(current, wgi_name i) \<in> used_interfaces cfg"
    unfolding used_interfaces_def by blast
qed

text \<open>
  C25: for a validated configuration and keys for every interface of the node, building the WireGuard
  configuration never fails: no key, node or interface reference is missing and no peer is of the
  wrong kind. Every interface that the node has in a WireGuard fabric gets an entry, with its own
  private key and listen port and, in order, the public keys of exactly the peers that use it.
\<close>

theorem wireguard_build_complete:
  assumes "config_reachable env cfg" and "hash_iter_ok env" and "fc_validate env cfg = Ok ()"
    and "exact_networks env"
    and keys: "\<forall>i. (current, i) \<in> used_interfaces cfg \<longrightarrow> wk_get keys current i \<noteq> None"
  shows "\<exists>out. wireguard_build env cfg keys current = Ok out
    \<and> (\<forall>k fe s x n i. (k, fe) \<in> set cfg \<longrightarrow> fe_fabric fe = FabricWireGuard s
        \<longrightarrow> (current, x) \<in> set (fe_nodes fe) \<longrightarrow> wg_internal x = Some n \<longrightarrow> i \<in> set (wgn_interfaces n)
        \<longrightarrow> (\<exists>c. bt_get out (wgi_name i) = Some c \<and> interface_configured keys current fe n i c))"
proof -
  note wf = fc_validD(1) [OF assms(1-3)] and valid = fc_validD(2) [OF assms(1-3)]
  let ?P = "\<lambda>(fe, f, n, i) c. interface_configured keys current fe n i c"
  have "\<forall>x\<in>set (all_jobs cfg current). \<exists>c. ?P x c
      \<and> (\<forall>m. run_job env keys current m x = Ok (bt_insert (job_name x) c m))"
    using run_job_ok [OF all_jobs_resolve(1,2) [OF wf valid] assms(4)] all_jobs_resolve(3) [OF wf valid] keys
    by (auto simp: job_name_def)
  then obtain g where g: "\<forall>x\<in>set (all_jobs cfg current). ?P x (g x)"
    "wireguard_build env cfg keys current
      = Ok (foldl (\<lambda>m x. bt_insert (job_name x) (g x) m) [] (all_jobs cfg current))"
    using try_fold_insert unfolding wireguard_build_jobs all_jobs_def by blast
  show ?thesis
  proof (intro exI [of _ "foldl (\<lambda>m x. bt_insert (job_name x) (g x) m) [] (all_jobs cfg current)"] conjI g(2) allI impI)
    fix k fe s x n i
    assume "(k, fe) \<in> set cfg" "fe_fabric fe = FabricWireGuard s" "(current, x) \<in> set (fe_nodes fe)"
      "wg_internal x = Some n" "i \<in> set (wgn_interfaces n)"
    then have job: "(fe, fs_properties s, n, i) \<in> set (all_jobs cfg current)"
      unfolding all_jobs_iff [OF wf] by blast
    have "interface_configured keys current fe n i (g (fe, fs_properties s, n, i))"
      using bspec [OF g(1) job] by simp
    moreover have "bt_get (foldl (\<lambda>m x. bt_insert (job_name x) (g x) m) [] (all_jobs cfg current)) (wgi_name i)
        = Some (g (fe, fs_properties s, n, i))"
      using get_inserts(1) [OF all_jobs_inj [OF wf valid] job, of g "[]"] by (simp only: job_name_def prod.case)
    ultimately show "\<exists>c. bt_get (foldl (\<lambda>m x. bt_insert (job_name x) (g x) m) [] (all_jobs cfg current)) (wgi_name i) = Some c
        \<and> interface_configured keys current fe n i c"
      by blast
  qed
qed

lemma sample_used_interfaces: "snd (config_sets sample_config) = {(''pve1'', ''wg0''), (''pve2'', ''wg0'')}"
  by code_simp

theorem wireguard_build_complete_witness:
  "is_ok (wireguard_build sample_env sample_config sample_keys ''pve1'')"
proof -
  have "wk_get sample_keys ''pve1'' ''wg0'' \<noteq> None" by code_simp
  then have "\<forall>i. (''pve1'', i) \<in> used_interfaces sample_config \<longrightarrow> wk_get sample_keys ''pve1'' i \<noteq> None"
    using sample_used_interfaces unfolding config_sets_eq by auto
  from wireguard_build_complete [OF sample_reachable sample_hash_iter sample_validate sample_exact_networks this]
  show ?thesis by auto
qed

theorem wireguard_cleanup_exact_witness:
  "wk_get (snd (wk_cleanup sample_env sample_config sample_keys)) ''pve1'' ''wg1'' = None"
proof -
  have "(''pve1'', ''wg1'') \<notin> used_interfaces sample_config"
    using sample_used_interfaces unfolding config_sets_eq by auto
  then show ?thesis
    using wireguard_cleanup_exact [OF sample_keys_wf sample_hash_iter surjective_pairing] by simp
qed

end
