(* ===== verification/Wireguard_Cleanup.thy ===== *)
theory Wireguard_Cleanup
  imports Wireguard_Build_Props
begin

text \<open>
  Cleaning up the private keys (\<open>protocol/wireguard.rs\<close>) and building the configuration of a node
  (\<open>sdn/wireguard.rs\<close>) together: clean-up removes no key that a node still needs, and it is done
  after one run.
\<close>

section \<open>Building reads the keys of used interfaces only\<close>

lemma try_fold_cong:
  "(\<And>s x. x \<in> set xs \<Longrightarrow> f s x = g s x) \<Longrightarrow> try_fold f s xs = try_fold g s xs"
  by (induction xs arbitrary: s) simp_all

lemma job_used:
  assumes "fc_wf cfg" and "(fe, f, n, i) \<in> set (all_jobs cfg current)"
  shows "(current, wgi_name i) \<in> used_interfaces cfg"
proof -
  obtain k x where "(k, fe) \<in> set cfg" "(current, x) \<in> set (fe_nodes fe)"
    and x: "wg_internal x = Some n" "i \<in> set (wgn_interfaces n)"
    using assms(2) unfolding all_jobs_iff [OF assms(1)] by blast
  then have "(current, x) \<in> set (fc_all_nodes cfg)" by (force simp: fc_all_nodes_def)
  moreover have "(current, wgi_name i)
      \<in> (case wg_interface_pairs (current, x) of None \<Rightarrow> {} | Some is \<Rightarrow> set is)"
    using x by (auto simp: wg_internal_iff wg_interface_pairs_def)
  ultimately show ?thesis unfolding used_interfaces_def by blast
qed

lemma build_same_keys:
  assumes "fc_wf cfg"
    and "\<And>i. (current, i) \<in> used_interfaces cfg \<Longrightarrow> wk_get keys' current i = wk_get keys current i"
  shows "wireguard_build env cfg keys' current = wireguard_build env cfg keys current"
  unfolding wireguard_build_jobs all_jobs_def [symmetric]
  by (rule try_fold_cong)
    (auto simp: run_job_def build_interface_def assms(2) job_used [OF assms(1)])

section \<open>Clean-up is done after one run\<close>

lemma wk_remove_keys: "set (bt_keys (snd (wk_remove n i m))) \<subseteq> set (bt_keys m)"
proof (cases "bt_get m n")
  case (Some c)
  then have "n \<in> set (bt_keys m)" by (metis bt_get_None option.distinct(1))
  with Some show ?thesis
    using bt_keys_remove [of n m] bt_keys_insert [of n "bt_remove i c" m]
    by (auto simp: wk_remove_def Let_def)
qed (simp add: wk_remove_def)

lemma drop_interfaces_keys:
  fixes s :: "bool \<times> 'a private_keys"
  shows "set (bt_keys (snd (foldl drop_interface s ps))) \<subseteq> set (bt_keys (snd s))"
proof (rule foldl_inv [where P = "\<lambda>s'. set (bt_keys (snd s')) \<subseteq> set (bt_keys (snd s))"])
  fix s' :: "bool \<times> 'a private_keys" and p
  assume "set (bt_keys (snd s')) \<subseteq> set (bt_keys (snd s))"
  then show "set (bt_keys (snd (drop_interface s' p))) \<subseteq> set (bt_keys (snd s))"
    using wk_remove_keys [of "fst p" "snd p" "snd s'"] drop_interface_eq [of "fst s'" "snd s'" p] by auto
qed simp

lemma cleanup_nodes:
  assumes "wk_wf m" and "hash_iter_ok env" and "wk_cleanup env cfg m = (ch, m')"
  shows "set (bt_keys m') \<subseteq> fst (config_sets cfg)"
proof -
  let ?ns = "hash_iter_ids env (set (bt_keys m) - fst (config_sets cfg))"
  let ?ps = "hash_iter_pairs env (snd (key_sets m) - used_interfaces cfg)"
  obtain ch1 m1 where first: "foldl drop_node (False, m) ?ns = (ch1, m1)" by force
  have "foldl drop_interface (ch1, m1) ?ps = (ch, m')"
    using assms(3) first by (simp add: wk_cleanup_def config_sets_eq key_sets_eq)
  then have sub: "set (bt_keys m') \<subseteq> set (bt_keys m1)" using drop_interfaces_keys [of "(ch1, m1)" ?ps] by simp
  have ns: "set ?ns = set (bt_keys m) - fst (config_sets cfg)"
    by (rule hash_iter_ids_set [OF assms(2)]) simp
  have "bt_get m1 n = (if n \<in> set ?ns then None else bt_get m n)" for n
    using drop_nodes [OF assms(1) first] by blast
  then have "n \<in> set (bt_keys m1) \<longleftrightarrow> n \<in> set (bt_keys m) \<and> n \<in> fst (config_sets cfg)" for n
    using ns bt_get_None [of m1 n] bt_get_None [of m n] by (auto split: if_splits)
  with sub show ?thesis by blast
qed

lemma cleanup_again:
  assumes "wk_wf m" and "hash_iter_ok env" and "wk_cleanup env cfg m = (ch, m')"
  shows "wk_cleanup env cfg m' = (False, m')"
proof -
  note get = wk_cleanup_get [OF assms]
  have "set (bt_keys m') - fst (config_sets cfg) = {}" using cleanup_nodes [OF assms] by blast
  then have nodes: "hash_iter_ids env (set (bt_keys m') - fst (config_sets cfg)) = []"
    using hash_iter_ids_Nil [OF assms(2), of "{}"] by (simp only: finite.emptyI simp_thms)
  have "p \<in> used_interfaces cfg" if "p \<in> snd (key_sets m')" for p
  proof -
    have "wk_at m' p \<noteq> None" using that unfolding wk_get_iff [OF get(1)] key_sets_eq by (cases p) force
    then show ?thesis using get(2) [of p] by (auto split: if_splits)
  qed
  then have "snd (key_sets m') - used_interfaces cfg = {}" by blast
  then have "hash_iter_pairs env (snd (key_sets m') - used_interfaces cfg) = []"
    using hash_iter_pairs_Nil [OF assms(2), of "{}"] by (simp only: finite.emptyI simp_thms)
  with nodes show ?thesis by (simp add: wk_cleanup_def config_sets_eq key_sets_eq)
qed

lemma sample_built: "is_ok (wireguard_build sample_env sample_config sample_keys ''pve1'')"
  by code_simp

text \<open>
  C27: clean-up is safe and done after one run. Whatever order the hash sets are iterated in, every
  node's WireGuard configuration, or the error building it ends with, is the same before and after
  the keys are cleaned up, for every reachable fabric configuration, and a second clean-up finds
  nothing to remove and reports no change.
\<close>

theorem wireguard_cleanup_safe:
  assumes "config_reachable env cfg" and "hash_iter_ok env" and "wk_wf keys"
    and "wk_cleanup env cfg keys = (changed, keys')"
  shows "wireguard_build env cfg keys' current = wireguard_build env cfg keys current
    \<and> wk_cleanup env cfg keys' = (False, keys')"
proof
  show "wireguard_build env cfg keys' current = wireguard_build env cfg keys current"
    using wk_cleanup_get(2) [OF assms(3,2,4), of "(current, i)" for i]
    by (intro build_same_keys config_reachable_wf [OF assms(1)]) simp
  show "wk_cleanup env cfg keys' = (False, keys')" by (rule cleanup_again [OF assms(3,2,4)])
qed
theorem wireguard_cleanup_safe_witness:
  "is_ok (wireguard_build sample_env sample_config
     (snd (wk_cleanup sample_env sample_config sample_keys)) ''pve1'')"
  using wireguard_cleanup_safe [OF sample_reachable sample_hash_iter sample_keys_wf surjective_pairing,
      of "''pve1''"] sample_built
  by simp

end
