(* ===== verification/Net_Title.thy ===== *)
theory Net_Title
  imports Sdn_Types
begin

text \<open>
  The Network Entity Title of an OpenFabric node (\<open>proxmox-sdn-types/src/net.rs\<close>): the four parts
  with their patterns, the text form, and the titles derived from addresses.
\<close>

section \<open>The parts\<close>

definition is_hex_digit :: "char \<Rightarrow> bool" where
  "is_hex_digit c \<longleftrightarrow> is_ascii_digit c \<or> 65 \<le> code c \<and> code c \<le> 70 \<or> 97 \<le> code c \<and> code c \<le> 102"

definition hex_digits :: "nat \<Rightarrow> string \<Rightarrow> bool" where
  "hex_digits n s \<longleftrightarrow> length s = n \<and> list_all is_hex_digit s"

definition net_afi_ok :: "string \<Rightarrow> bool" where
  "net_afi_ok = hex_digits 2"

definition net_area_ok :: "string \<Rightarrow> bool" where
  "net_area_ok s \<longleftrightarrow> even (length s) \<and> length s \<le> 26 \<and> list_all is_hex_digit s"

definition net_system_ok :: "string \<Rightarrow> bool" where
  "net_system_ok s \<longleftrightarrow> (case split_on (CHR ''.'') s of
     [a, b, c] \<Rightarrow> hex_digits 4 a \<and> hex_digits 4 b \<and> hex_digits 4 c | _ \<Rightarrow> False)"

definition net_selector_ok :: "string \<Rightarrow> bool" where
  "net_selector_ok = hex_digits 2"

record net =
  net_afi :: string
  net_area :: string
  net_system :: string
  net_selector :: string

definition net_ok :: "net \<Rightarrow> bool" where
  "net_ok n \<longleftrightarrow> net_afi_ok (net_afi n) \<and> net_area_ok (net_area n) \<and> net_system_ok (net_system n)
     \<and> net_selector_ok (net_selector n)"

section \<open>The text form\<close>

datatype net_error = NetTooShort | InvalidAfi | InvalidNetArea | InvalidSystemId | InvalidSelector

definition net_from_str :: "string \<Rightarrow> (net_error, net) result" where
  "net_from_str s =
     (let parts = split_on (CHR ''.'') s in
      if length parts < 5 then Err NetTooShort
      else
        let selector_idx = length parts - 1;
            selector = parts ! selector_idx;
            system = join_with ''.'' (drop (selector_idx - 3) (take selector_idx parts));
            afi = parts ! 0;
            area = concat (drop 1 (take (selector_idx - 3) parts))
        in and_then (ensure (net_afi_ok afi) InvalidAfi) (\<lambda>_.
           and_then (ensure (net_area_ok area) InvalidNetArea) (\<lambda>_.
           and_then (ensure (net_system_ok system) InvalidSystemId) (\<lambda>_.
           and_then (ensure (net_selector_ok selector) InvalidSelector) (\<lambda>_.
             Ok \<lparr>net_afi = afi, net_area = area, net_system = system, net_selector = selector\<rparr>)))))"

text \<open>\<open>slice::chunks(4)\<close>: the last chunk may be shorter.\<close>

fun chunks4 :: "'a list \<Rightarrow> 'a list list" where
  "chunks4 [] = []"
| "chunks4 (a # b # c # d # xs) = [a, b, c, d] # chunks4 xs"
| "chunks4 xs = [xs]"

definition net_display :: "net \<Rightarrow> string" where
  "net_display n =
     net_afi n @ (if net_area n = [] then [] else ''.'' @ join_with ''.'' (chunks4 (net_area n)))
     @ ''.'' @ net_system n @ ''.'' @ net_selector n"

section \<open>Titles of addresses\<close>

definition pad_zero :: "nat \<Rightarrow> string \<Rightarrow> string" where
  "pad_zero w s = replicate (w - length s) (CHR ''0'') @ s"

definition system_id_from_ipv4 :: "ipv4_addr \<Rightarrow> string" where
  "system_id_from_ipv4 ip = (case map unat (ipv4_octets ip) of
     [a, b, c, d] \<Rightarrow>
       pad_zero 3 (dec a) @ pad_zero 1 (dec (b div 100)) @ ''.''
       @ pad_zero 2 (dec (b mod 100)) @ pad_zero 2 (dec (c div 10)) @ ''.''
       @ pad_zero 1 (dec (c mod 10)) @ pad_zero 3 (dec d)
   | _ \<Rightarrow> [])"

definition hex_char :: "nat \<Rightarrow> char" where
  "hex_char n = (if n < 10 then digit_char n else char_of (87 + n))"

text \<open>\<open>{:04x}\<close> of a \<open>u16\<close>.\<close>

definition hex4 :: "16 word \<Rightarrow> string" where
  "hex4 w = (let n = unat w in
     [hex_char (n div 4096), hex_char (n div 256 mod 16), hex_char (n div 16 mod 16), hex_char (n mod 16)])"

definition ipv6_segments :: "ipv6_addr \<Rightarrow> 16 word list" where
  "ipv6_segments a = map (\<lambda>i. ucast (drop_bit (16 * i) a)) [7, 6, 5, 4, 3, 2, 1, 0]"

definition system_id_from_ipv6 :: "ipv6_addr \<Rightarrow> string" where
  "system_id_from_ipv6 a = (let s = ipv6_segments a in
     hex4 (s ! 5) @ ''.'' @ hex4 (s ! 6) @ ''.'' @ hex4 (s ! 7))"

definition net_with_system :: "string \<Rightarrow> net" where
  "net_with_system system =
     \<lparr>net_afi = ''49'', net_area = ''0001'', net_system = system, net_selector = ''00''\<rparr>"

definition net_from_ipv4 :: "ipv4_addr \<Rightarrow> net" where
  "net_from_ipv4 ip = net_with_system (system_id_from_ipv4 ip)"

definition net_from_ipv6 :: "ipv6_addr \<Rightarrow> net" where
  "net_from_ipv6 ip = net_with_system (system_id_from_ipv6 ip)"

definition net_from_ip :: "ip_addr \<Rightarrow> net" where
  "net_from_ip ip = (case ip of IpV4 a \<Rightarrow> net_from_ipv4 a | IpV6 a \<Rightarrow> net_from_ipv6 a)"

section \<open>The text form is read back\<close>

lemma hex_no_dot: "list_all is_hex_digit s \<Longrightarrow> CHR ''.'' \<notin> set s"
  by (auto simp: list_all_iff is_hex_digit_def char_class_defs)

lemma concat_chunks4 [simp]: "concat (chunks4 xs) = xs"
  by (induction xs rule: chunks4.induct) simp_all

lemma chunks4_empty [simp]: "chunks4 xs = [] \<longleftrightarrow> xs = []"
  by (induction xs rule: chunks4.induct) simp_all

lemma chunks4_set: "c \<in> set (chunks4 xs) \<Longrightarrow> set c \<subseteq> set xs"
  by (metis concat_chunks4 UN_upper set_concat)

lemma join_with_append:
  "xs \<noteq> [] \<Longrightarrow> ys \<noteq> [] \<Longrightarrow> join_with sep (xs @ ys) = join_with sep xs @ sep @ join_with sep ys"
proof (induction sep xs rule: join_with.induct)
  case (2 sep p)
  then show ?case by (cases ys) simp_all
qed simp_all

lemma net_system_parts:
  assumes "net_system_ok s"
  obtains a b c where "s = join_with ''.'' [a, b, c]" "hex_digits 4 a" "hex_digits 4 b" "hex_digits 4 c"
proof -
  obtain a b c where abc: "split_on (CHR ''.'') s = [a, b, c]" "hex_digits 4 a" "hex_digits 4 b" "hex_digits 4 c"
    using assms by (auto simp: net_system_ok_def split: list.splits)
  from abc(1) have "s = join_with ''.'' [a, b, c]" by (metis join_split_on)
  then show thesis using abc(2-4) by (rule that)
qed

lemma net_display_parts:
  assumes "net_system n = join_with ''.'' [a, b, c]"
  shows "net_display n = join_with ''.'' (net_afi n # chunks4 (net_area n) @ [a, b, c, net_selector n])"
proof -
  have "net_display n = join_with ''.'' ([net_afi n] @ chunks4 (net_area n)) @ ''.'' @ net_system n @ ''.'' @ net_selector n"
    by (cases "chunks4 (net_area n)") (auto simp: net_display_def)
  also have "\<dots> = join_with ''.'' (([net_afi n] @ chunks4 (net_area n)) @ [a, b, c, net_selector n])"
    by (subst join_with_append) (simp_all add: assms)
  finally show ?thesis by simp
qed

lemma net_from_str_display:
  assumes "net_ok n"
  shows "net_from_str (net_display n) = Ok n"
proof -
  obtain a b c where s: "net_system n = join_with ''.'' [a, b, c]" "hex_digits 4 a" "hex_digits 4 b" "hex_digits 4 c"
    using assms by (auto simp: net_ok_def elim: net_system_parts)
  let ?ps = "net_afi n # chunks4 (net_area n) @ [a, b, c, net_selector n]"
  have "CHR ''.'' \<notin> set p" if "p \<in> set ?ps" for p
  proof -
    have "CHR ''.'' \<notin> set (net_area n)"
      using assms by (auto simp: net_ok_def net_area_ok_def dest: hex_no_dot)
    then have "CHR ''.'' \<notin> set p" if "p \<in> set (chunks4 (net_area n))"
      using chunks4_set [OF that] by blast
    with that s(2-4) assms show ?thesis
      by (auto simp: net_ok_def hex_digits_def net_afi_ok_def net_selector_ok_def dest: hex_no_dot)
  qed
  then have parts: "split_on (CHR ''.'') (net_display n) = ?ps"
    unfolding net_display_parts [OF s(1)] by (intro split_on_join) auto
  define k where "k = length (chunks4 (net_area n))"
  have "drop (Suc k) (take (Suc (Suc (Suc (Suc k)))) ?ps) = [a, b, c]"
    and "drop 1 (take (Suc k) ?ps) = chunks4 (net_area n)" and "?ps ! (k + 4) = net_selector n"
    by (simp_all add: k_def nth_append)
  moreover have "\<lparr>net_afi = net_afi n, net_area = net_area n, net_system = join_with ''.'' [a, b, c],
      net_selector = net_selector n\<rparr> = n"
    unfolding s(1) [symmetric] by simp
  ultimately show ?thesis
    using assms s(1)
    by (simp add: net_from_str_def parts k_def [symmetric] net_ok_def numeral_eq_Suc ensure_def)
qed

text \<open>
  Reading a NET accepts only titles whose four parts match their patterns, and the text a title
  is written as, with its area in groups of four digits, is read back as the same title.
\<close>

theorem net_roundtrip:
  assumes "net_from_str s = Ok n"
  shows "net_ok n \<and> net_from_str (net_display n) = Ok n"
proof -
  have "net_ok n"
    using assms by (auto simp: net_from_str_def net_ok_def Let_def result_simps split: if_splits)
  then show ?thesis using net_from_str_display by blast
qed

theorem net_roundtrip_witness:
  "net_display \<lparr>net_afi = ''49'', net_area = ''000102'', net_system = ''1921.6800.1002'', net_selector = ''00''\<rparr>
     = ''49.0001.02.1921.6800.1002.00''
   \<and> net_from_str ''49.0001.02.1921.6800.1002.00''
     = Ok \<lparr>net_afi = ''49'', net_area = ''000102'', net_system = ''1921.6800.1002'', net_selector = ''00''\<rparr>"
proof -
  have "net_from_str ''49.00.01.02.1921.6800.1002.00''
     = Ok \<lparr>net_afi = ''49'', net_area = ''000102'', net_system = ''1921.6800.1002'', net_selector = ''00''\<rparr>"
    by code_simp
  from net_roundtrip [OF this] show ?thesis by (simp add: net_display_def)
qed

section \<open>Different addresses, different titles\<close>

lemma pad_zero_digits:
  "digits_value acc (replicate k (CHR ''0'') @ s) = digits_value (10 ^ k * acc) s"
proof (induction k arbitrary: acc)
  case (Suc k)
  then show ?case by (simp add: is_ascii_digit_def ac_simps)
qed simp

lemma digits_value_pad: "digits_value 0 (pad_zero w (dec n)) = Some n"
  by (simp add: pad_zero_def pad_zero_digits digits_value_dec)

lemma pad_zero_inj: "pad_zero w (dec m) = pad_zero w (dec n) \<longleftrightarrow> m = n"
  by (metis digits_value_pad option.inject)

lemma length_pad_zero: "length (dec n) \<le> w \<Longrightarrow> length (pad_zero w (dec n)) = w"
  by (simp add: pad_zero_def)

lemma octet_bounds: "unat (w :: 8 word) < 256"
  using unsigned_less [where ?'a = nat, of w] by simp

lemma octet_parts_length:
  fixes a b c d :: "8 word"
  shows "length (pad_zero 3 (dec (unat a))) = 3" "length (pad_zero 1 (dec (unat b div 100))) = 1"
    "length (pad_zero 2 (dec (unat b mod 100))) = 2" "length (pad_zero 2 (dec (unat c div 10))) = 2"
    "length (pad_zero 1 (dec (unat c mod 10))) = 1" "length (pad_zero 3 (dec (unat d))) = 3"
  using octet_bounds [of a] octet_bounds [of b] octet_bounds [of c] octet_bounds [of d]
    dec_small(1) [of "unat a"] dec_small(3) [of "unat b div 100"] dec_small(2) [of "unat b mod 100"]
    dec_small(2) [of "unat c div 10"] dec_small(3) [of "unat c mod 10"] dec_small(1) [of "unat d"]
  by (intro length_pad_zero; simp)+

lemma system_id_from_ipv4_inj:
  assumes "system_id_from_ipv4 x = system_id_from_ipv4 y"
  shows "x = y"
proof -
  obtain a b c d where x: "ipv4_octets x = [a, b, c, d]" using ipv4_octets_list by blast
  obtain a' b' c' d' where y: "ipv4_octets y = [a', b', c', d']" using ipv4_octets_list by blast
  have "unat a = unat a' \<and> unat b div 100 = unat b' div 100 \<and> unat b mod 100 = unat b' mod 100
      \<and> unat c div 10 = unat c' div 10 \<and> unat c mod 10 = unat c' mod 10 \<and> unat d = unat d'"
    using assms
    by (simp add: system_id_from_ipv4_def x y append_eq_append_conv octet_parts_length pad_zero_inj
        del: One_nat_def)
  then have "unat a = unat a' \<and> unat b = unat b' \<and> unat c = unat c' \<and> unat d = unat d'"
    by (metis div_mult_mod_eq)
  then have "ipv4_octets x = ipv4_octets y" by (simp add: x y word_unat_eq_iff)
  then show ?thesis using ipv4_from_octets_octets x y by metis
qed

lemma hex_char_inj:
  assumes "m < 16" and "n < 16"
  shows "hex_char m = hex_char n \<longleftrightarrow> m = n"
proof
  have code_hex: "code (hex_char k) = (if k < 10 then 48 + k else 87 + k)" if "k < 16" for k
    using that by (simp add: hex_char_def)
  assume "hex_char m = hex_char n"
  then have "code (hex_char m) = code (hex_char n)" by simp
  then show "m = n" unfolding code_hex [OF assms(1)] code_hex [OF assms(2)] by (auto split: if_splits)
qed simp

lemma base_16_sum:
  fixes n :: nat
  shows "n = 16 * q + a \<Longrightarrow> q = 16 * r + b \<Longrightarrow> r = 16 * t + c \<Longrightarrow> n = 4096 * t + 256 * c + 16 * b + a"
  by simp

lemma nibbles:
  fixes n :: nat
  shows "n = 4096 * (n div 4096) + 256 * (n div 256 mod 16) + 16 * (n div 16 mod 16) + n mod 16"
proof -
  define q r t where "q = n div 16" and "r = q div 16" and "t = r div 16"
  have div: "n div 256 = r" "n div 4096 = t"
    by (simp_all add: q_def r_def t_def div_mult2_eq [symmetric])
  have "n = 16 * q + n mod 16" and "q = 16 * r + q mod 16" and "r = 16 * t + r mod 16"
    by (simp_all add: q_def r_def t_def)
  then have "n = 4096 * t + 256 * (r mod 16) + 16 * (q mod 16) + n mod 16"
    by (rule base_16_sum)
  then show ?thesis unfolding div q_def .
qed

lemma hex4_inj: "hex4 v = hex4 w \<longleftrightarrow> v = w"
proof
  assume "hex4 v = hex4 w"
  have "unat u div 4096 < 16" for u :: "16 word"
    using unsigned_less [where ?'a = nat, of u] by simp
  with \<open>hex4 v = hex4 w\<close> have "unat v div 4096 = unat w div 4096 \<and> unat v div 256 mod 16 = unat w div 256 mod 16
      \<and> unat v div 16 mod 16 = unat w div 16 mod 16 \<and> unat v mod 16 = unat w mod 16"
    by (simp add: hex4_def Let_def hex_char_inj)
  then have "unat v = unat w" using nibbles [of "unat v"] nibbles [of "unat w"] by simp
  then show "v = w" by (simp add: word_unat_eq_iff)
qed simp

lemma take_bit_48_segments:
  "take_bit 48 x = take_bit 48 y \<longleftrightarrow> drop 5 (ipv6_segments x) = drop 5 (ipv6_segments y)"
proof
  assume eq: "take_bit 48 x = take_bit 48 y"
  then have "bit x n = bit y n" if "n < 48" for n
    using that by (metis bit_take_bit_iff)
  then show "drop 5 (ipv6_segments x) = drop 5 (ipv6_segments y)"
    by (auto simp: ipv6_segments_def bit_eq_iff bit_ucast_iff bit_drop_bit_eq)
next
  assume "drop 5 (ipv6_segments x) = drop 5 (ipv6_segments y)"
  then have seg: "(ucast (drop_bit (16 * i) x) :: 16 word) = ucast (drop_bit (16 * i) y)" if "i < 3" for i
    using that by (auto simp: ipv6_segments_def less_Suc_eq numeral_3_eq_3)
  show "take_bit 48 x = take_bit 48 y"
  proof (rule bit_eqI)
    fix n
    have "bit x n = bit y n" if "n < 48"
    proof -
      have "n div 16 < 3" using that by simp
      from arg_cong [OF seg [OF this], of "\<lambda>w. bit w (n mod 16)"] show ?thesis
        using that by (simp add: bit_ucast_iff bit_drop_bit_eq)
    qed
    then show "bit (take_bit 48 x) n = bit (take_bit 48 y) n"
      by (auto simp: bit_take_bit_iff)
  qed
qed

lemma length_hex4 [simp]: "length (hex4 w) = 4"
  by (simp add: hex4_def Let_def)

lemma system_id_from_ipv6_eq:
  "system_id_from_ipv6 x = system_id_from_ipv6 y \<longleftrightarrow> take_bit 48 x = take_bit 48 y"
  unfolding take_bit_48_segments
  by (simp add: system_id_from_ipv6_def Let_def hex4_inj ipv6_segments_def append_eq_append_conv)

lemma hex4_digits: "hex_digits 4 (hex4 w)"
proof -
  have "is_hex_digit (hex_char k)" if "k < 16" for k
    using that by (simp add: is_hex_digit_def hex_char_def)
  moreover have "unat w div 4096 < 16" using unsigned_less [where ?'a = nat, of w] by simp
  ultimately show ?thesis by (simp add: hex_digits_def hex4_def Let_def)
qed

lemma net_system_ok_join:
  "hex_digits 4 a \<Longrightarrow> hex_digits 4 b \<Longrightarrow> hex_digits 4 c \<Longrightarrow> net_system_ok (a @ ''.'' @ b @ ''.'' @ c)"
  using split_on_join [of "[a, b, c]" "CHR ''.''"] hex_no_dot
  by (simp add: net_system_ok_def hex_digits_def)

lemma pad_zero_dec_hex: "list_all is_hex_digit (pad_zero w (dec n))"
  using dec_digits [of n]
  by (auto simp: pad_zero_def list_all_iff is_hex_digit_def is_ascii_digit_def)

lemma system_ids_ok: "net_system_ok (system_id_from_ipv4 a)" "net_system_ok (system_id_from_ipv6 b)"
proof -
  obtain w x y z where o8: "ipv4_octets a = [w, x, y, z]" using ipv4_octets_list by blast
  have "net_system_ok ((pad_zero 3 (dec (unat w)) @ pad_zero 1 (dec (unat x div 100))) @ ''.''
       @ (pad_zero 2 (dec (unat x mod 100)) @ pad_zero 2 (dec (unat y div 10))) @ ''.''
       @ (pad_zero 1 (dec (unat y mod 10)) @ pad_zero 3 (dec (unat z))))"
    by (rule net_system_ok_join) (simp_all add: hex_digits_def pad_zero_dec_hex octet_parts_length del: One_nat_def)
  then show "net_system_ok (system_id_from_ipv4 a)" by (simp add: system_id_from_ipv4_def o8)
  show "net_system_ok (system_id_from_ipv6 b)"
    unfolding system_id_from_ipv6_def Let_def by (rule net_system_ok_join) (rule hex4_digits)+
qed

text \<open>
  C32: the title derived from an address is always valid. IPv4 addresses have different titles; two
  IPv6 addresses have the same title exactly when they agree in their last 48 bits, although the
  host part must differ on every node.
\<close>

theorem net_of_address_unique:
  "net_ok (net_from_ip ip)
   \<and> (net_from_ip (IpV4 a) = net_from_ip (IpV4 b) \<longleftrightarrow> a = b)
   \<and> (net_from_ip (IpV6 c) = net_from_ip (IpV6 d) \<longleftrightarrow> take_bit 48 c = take_bit 48 d)"
proof -
  have "net_ok (net_with_system s) \<longleftrightarrow> net_system_ok s" for s
    by (simp add: net_ok_def net_with_system_def net_afi_ok_def net_area_ok_def net_selector_ok_def
        hex_digits_def is_hex_digit_def is_ascii_digit_def)
  then have "net_ok (net_from_ip ip)"
    by (cases ip) (simp_all add: net_from_ip_def net_from_ipv4_def net_from_ipv6_def system_ids_ok)
  then show ?thesis
    using system_id_from_ipv4_inj [of a b] system_id_from_ipv6_eq [of c d]
    by (auto simp: net_from_ip_def net_from_ipv4_def net_from_ipv6_def net_with_system_def)
qed

end
