(* ===== verification/Frr_Types.thy ===== *)
theory Frr_Types
  imports Frr_Route_Map Fabric_Types Net_Title BTree_Map
begin

text \<open>
  The FRR configuration as data (\<open>proxmox-frr/src/ser\<close>): words and interface names with their
  checks, the routers and interfaces of the protocols, and \<open>FrrConfig\<close>, which the generators fill.
  A name type that wraps a word or a string is that string.
\<close>

section \<open>Words and interface names\<close>

datatype frr_word_error = WordIsEmpty | WordInvalidCharacter

type_synonym frr_word = string

definition frr_word_new :: "string \<Rightarrow> (frr_word_error, frr_word) result" where
  "frr_word_new name =
     (if name = [] then Err WordIsEmpty
      else if list_ex (\<lambda>c. \<not> code c < 128 \<or> is_ascii_whitespace c) name then Err WordInvalidCharacter
      else Ok name)"

datatype interface_name_error = InterfaceNameTooLong

type_synonym frr_interface_name = string

definition frr_interface_name_new :: "string \<Rightarrow> (interface_name_error, frr_interface_name) result" where
  "frr_interface_name_new s = (if length s \<le> 15 then Ok s else Err InterfaceNameTooLong)"

record ('x, 'p) frr_interface =
  fi_addresses_v4 :: "'x ipv4_cidr list"
  fi_addresses_v6 :: "'x ipv6_cidr list"
  fi_properties :: 'p

definition frr_interface_from :: "'p \<Rightarrow> ('x, 'p) frr_interface" where
  "frr_interface_from p = \<lparr>fi_addresses_v4 = [], fi_addresses_v6 = [], fi_properties = p\<rparr>"

datatype ip_or_interface = RouteViaIp ip_addr | RouteViaInterface frr_interface_name

record 'x ip_route =
  ir_is_ipv6 :: bool
  ir_prefix :: "'x cidr"
  ir_via :: ip_or_interface
  ir_vrf :: "frr_interface_name option"

section \<open>OpenFabric, OSPF and IS-IS\<close>

record openfabric_router =
  ofr_net :: net

type_synonym openfabric_router_name = frr_word

record openfabric_interface =
  ofif_fabric_id :: openfabric_router_name
  ofif_passive :: "bool option"
  ofif_hello_interval :: "hello_interval option"
  ofif_csnp_interval :: "csnp_interval option"
  ofif_hello_multiplier :: "hello_multiplier option"
  ofif_is_ipv4 :: bool
  ofif_is_ipv6 :: bool

type_synonym frr_area = frr_word

datatype area_parsing_error = InvalidArea

definition frr_area_new :: "frr_word \<Rightarrow> (area_parsing_error, frr_area) result" where
  "frr_area_new name = (if parse_u32 name \<noteq> None \<or> ipv4_parse name \<noteq> None then Ok name else Err InvalidArea)"

record ospf_router =
  ospfr_router_id :: ipv4_addr
  ospfr_redistribute :: "ospf_redistribution list"

definition ospf_router_new :: "ipv4_addr \<Rightarrow> ospf_router" where
  "ospf_router_new i = \<lparr>ospfr_router_id = i, ospfr_redistribute = []\<rparr>"

record ospf_interface =
  ospfif_area :: frr_area
  ospfif_passive :: "bool option"
  ospfif_network_type :: "network_type option"

datatype isis_level = IsisLevel1 | IsisLevel2 | IsisLevel12

record isis_redistribute =
  isr_ipv4_connected :: isis_level
  isr_ipv6_connected :: isis_level

record isis_router =
  isis_net :: net
  isis_log_adjacency_changes :: "bool option"
  isis_redistribute_levels :: "isis_redistribute option"
  isis_custom :: "string list"

record isis_interface =
  isif_domain :: frr_word
  isif_is_ipv4 :: bool
  isif_is_ipv6 :: bool
  isif_custom :: "string list"

section \<open>BGP\<close>

datatype neighbor_remote_as = AsInternal | AsExternal | AsNumber "32 word"

datatype local_as_flags = NoPrepend | ReplaceAs | DualAs

record local_as_settings =
  las_asn :: "32 word"
  las_mode :: "local_as_flags option"

record neighbor_group =
  ng_name :: frr_word
  ng_bfd :: bool
  ng_local_as :: "local_as_settings option"
  ng_remote_as :: neighbor_remote_as
  ng_ips :: "ip_addr list"
  ng_interfaces :: "frr_interface_name list"
  ng_ebgp_multihop :: "8 word option"
  ng_update_source :: "frr_interface_name option"

datatype redistribute_protocol =
  RedistConnected | RedistStatic | RedistOspf | RedistKernel | RedistIsis | RedistOspf6 | RedistOpenfabric

record redistribution =
  red_protocol :: redistribute_protocol
  red_metric :: "32 word option"
  red_route_map :: "route_map_name option"

record address_family_neighbor =
  afn_name :: string
  afn_soft_reconfiguration_inbound :: "bool option"
  afn_route_map_in :: "route_map_name option"
  afn_route_map_out :: "route_map_name option"

record common_address_family_options =
  caf_import_vrf :: "frr_word list"
  caf_neighbors :: "address_family_neighbor list"
  caf_custom :: "string list"

text \<open>The two unicast families differ in the type of their networks only.\<close>

record 'c unicast_af =
  af_common_options :: common_address_family_options
  af_networks :: "'c list"
  af_redistribute :: "redistribution list"

datatype default_originate = OriginateIpv4 | OriginateIpv6

record route_targets =
  rt_import :: "frr_word list"
  rt_export :: "frr_word list"
  rt_both :: "frr_word list"

record l2vpn_evpn_af =
  evpn_common_options :: common_address_family_options
  evpn_advertise_all_vni :: "bool option"
  evpn_advertise_default_gw :: "bool option"
  evpn_default_originate :: "default_originate list"
  evpn_advertise_ipv4_unicast :: "bool option"
  evpn_advertise_ipv6_unicast :: "bool option"
  evpn_autort_as :: "32 word option"
  evpn_route_targets :: "route_targets option"

record 'x address_families =
  afs_ipv4_unicast :: "'x ipv4_cidr unicast_af option"
  afs_ipv6_unicast :: "'x ipv6_cidr unicast_af option"
  afs_l2vpn_evpn :: "l2vpn_evpn_af option"

definition address_families_default :: "'x address_families" where
  "address_families_default = \<lparr>afs_ipv4_unicast = None, afs_ipv6_unicast = None, afs_l2vpn_evpn = None\<rparr>"

text \<open>One \<open>match\<close> of \<open>AddressFamilies::extend\<close>; the code has it once per family.\<close>

definition extend_unicast :: "'c unicast_af option \<Rightarrow> 'c unicast_af option \<Rightarrow> 'c unicast_af option" where
  "extend_unicast self other = (case (self, other) of
     (Some e, Some i) \<Rightarrow> Some (e\<lparr>
        af_common_options := \<lparr>
          caf_import_vrf = caf_import_vrf (af_common_options e) @ caf_import_vrf (af_common_options i),
          caf_neighbors = caf_neighbors (af_common_options e) @ caf_neighbors (af_common_options i),
          caf_custom = caf_custom (af_common_options e) @ caf_custom (af_common_options i)\<rparr>,
        af_networks := af_networks e @ af_networks i,
        af_redistribute := af_redistribute e @ af_redistribute i\<rparr>)
   | (None, Some i) \<Rightarrow> Some i
   | _ \<Rightarrow> self)"

definition address_families_extend :: "'x address_families \<Rightarrow> 'x address_families \<Rightarrow> 'x address_families" where
  "address_families_extend self other = self\<lparr>
     afs_ipv4_unicast := extend_unicast (afs_ipv4_unicast self) (afs_ipv4_unicast other),
     afs_ipv6_unicast := extend_unicast (afs_ipv6_unicast self) (afs_ipv6_unicast other),
     afs_l2vpn_evpn := (if afs_l2vpn_evpn self = None then afs_l2vpn_evpn other else afs_l2vpn_evpn self)\<rparr>"

record 'x bgp_router =
  bgpr_asn :: "32 word"
  bgpr_router_id :: ipv4_addr
  bgpr_coalesce_time :: "32 word option"
  bgpr_default_ipv4_unicast :: "bool option"
  bgpr_hard_administrative_reset :: "bool option"
  bgpr_graceful_restart_notification :: "bool option"
  bgpr_disable_ebgp_connected_route_check :: "bool option"
  bgpr_bestpath_as_path_multipath_relax :: "bool option"
  bgpr_neighbor_groups :: "neighbor_group list"
  bgpr_address_families :: "'x address_families"
  bgpr_custom :: "string list"

definition merge_fabric :: "'x bgp_router \<Rightarrow> 'x bgp_router \<Rightarrow> 'x bgp_router" where
  "merge_fabric self other = self\<lparr>
     bgpr_neighbor_groups := bgpr_neighbor_groups self @ bgpr_neighbor_groups other,
     bgpr_address_families := address_families_extend (bgpr_address_families self) (bgpr_address_families other),
     bgpr_default_ipv4_unicast :=
       (case bgpr_default_ipv4_unicast self of None \<Rightarrow> bgpr_default_ipv4_unicast other | Some b \<Rightarrow> Some b)\<rparr>"

record 'x vrf =
  vrf_vni :: "32 word option"
  vrf_ip_routes :: "'x ip_route list"
  vrf_custom :: "string list"

type_synonym community_list_name = string

record ext_community_route_target =
  ecrt_asn :: "16 word"
  ecrt_value :: "32 word"

datatype route_target_error = NotARouteTarget

definition route_target_from_str :: "string \<Rightarrow> (route_target_error, ext_community_route_target) result" where
  "route_target_from_str s = (case split_once (CHR '':'') s of
     Some (asn, value) \<Rightarrow>
       and_then (ok_or NotARouteTarget (parse_u16 asn)) (\<lambda>a.
       and_then (ok_or NotARouteTarget (parse_u32 value)) (\<lambda>v. Ok \<lparr>ecrt_asn = a, ecrt_value = v\<rparr>))
   | None \<Rightarrow> Err NotARouteTarget)"

definition route_target_display :: "ext_community_route_target \<Rightarrow> string" where
  "route_target_display t = dec (unat (ecrt_asn t)) @ '':'' @ dec (unat (ecrt_value t))"

record expanded_ext_community_entry =
  eece_action :: access_action
  eece_match :: string

record standard_ext_community_entry =
  sece_action :: access_action
  sece_match :: ext_community_route_target

datatype ext_community_list =
  StandardList "standard_ext_community_entry list" | ExpandedList "expanded_ext_community_entry list"

section \<open>The configuration\<close>

datatype frr_protocol = FrrOspf | FrrOpenfabric | FrrBgp

datatype vrf_name = VrfDefault | VrfCustom string

primrec frr_protocol_rank :: "frr_protocol \<Rightarrow> nat" where
  "frr_protocol_rank FrrOspf = 0" | "frr_protocol_rank FrrOpenfabric = 1" | "frr_protocol_rank FrrBgp = 2"

lemma frr_protocol_rank_inj: "frr_protocol_rank a = frr_protocol_rank b \<Longrightarrow> a = b"
  by (cases a; cases b) simp_all

text \<open>The derived orders: by variant first.\<close>

instantiation frr_protocol :: linorder
begin

definition less_eq_frr_protocol :: "frr_protocol \<Rightarrow> frr_protocol \<Rightarrow> bool" where
  "less_eq_frr_protocol a b \<longleftrightarrow> frr_protocol_rank a \<le> frr_protocol_rank b"

definition less_frr_protocol :: "frr_protocol \<Rightarrow> frr_protocol \<Rightarrow> bool" where
  "less_frr_protocol a b \<longleftrightarrow> frr_protocol_rank a < frr_protocol_rank b"

instance
  by standard (auto simp: less_eq_frr_protocol_def less_frr_protocol_def intro: frr_protocol_rank_inj)

end

instantiation vrf_name :: linorder
begin

definition less_eq_vrf_name :: "vrf_name \<Rightarrow> vrf_name \<Rightarrow> bool" where
  "less_eq_vrf_name a b = (case (a, b) of
     (VrfDefault, _) \<Rightarrow> True | (VrfCustom _, VrfDefault) \<Rightarrow> False | (VrfCustom x, VrfCustom y) \<Rightarrow> x \<le> y)"

definition less_vrf_name :: "vrf_name \<Rightarrow> vrf_name \<Rightarrow> bool" where
  "less_vrf_name a b \<longleftrightarrow> a \<le> b \<and> \<not> b \<le> a"

instance
  by standard (auto simp: less_eq_vrf_name_def less_vrf_name_def split: vrf_name.splits)

end

record ip_protocol_route_map =
  iprm_v4 :: "route_map_name option"
  iprm_v6 :: "route_map_name option"

record 'x openfabric_frr_config =
  ofc_router :: "(openfabric_router_name, openfabric_router) btree_map"
  ofc_interfaces :: "(frr_interface_name, ('x, openfabric_interface) frr_interface) btree_map"

record 'x isis_frr_config =
  isc_router :: "(frr_word, isis_router) btree_map"
  isc_interfaces :: "(frr_interface_name, ('x, isis_interface) frr_interface) btree_map"

record 'x ospf_frr_config =
  osc_router :: "ospf_router option"
  osc_interfaces :: "(frr_interface_name, ('x, ospf_interface) frr_interface) btree_map"

record 'x bgp_frr_config =
  bgpc_vrf_router :: "(vrf_name, 'x bgp_router) btree_map"
  bgpc_view_router :: "(32 word, 'x bgp_router) btree_map"
  bgpc_vrfs :: "(frr_interface_name, 'x vrf) btree_map"
  bgpc_ext_community_lists :: "(community_list_name, ext_community_list) btree_map"

record 'x frr_config =
  frr_openfabric :: "'x openfabric_frr_config"
  frr_ospf :: "'x ospf_frr_config"
  frr_bgp :: "'x bgp_frr_config"
  frr_isis :: "'x isis_frr_config"
  frr_ip_routes :: "'x ip_route list"
  frr_protocol_routemaps :: "(frr_protocol, ip_protocol_route_map) btree_map"
  frr_routemaps :: "(route_map_name, route_map_entry list) btree_map"
  frr_access_lists :: "(access_list_name, 'x access_list_rule list) btree_map"
  frr_prefix_lists :: "(prefix_list_name, 'x prefix_list_rule list) btree_map"
  frr_custom :: "string list"

definition frr_config_default :: "'x frr_config" where
  "frr_config_default = \<lparr>frr_openfabric = \<lparr>ofc_router = [], ofc_interfaces = []\<rparr>,
     frr_ospf = \<lparr>osc_router = None, osc_interfaces = []\<rparr>,
     frr_bgp = \<lparr>bgpc_vrf_router = [], bgpc_view_router = [], bgpc_vrfs = [], bgpc_ext_community_lists = []\<rparr>,
     frr_isis = \<lparr>isc_router = [], isc_interfaces = []\<rparr>, frr_ip_routes = [], frr_protocol_routemaps = [],
     frr_routemaps = [], frr_access_lists = [], frr_prefix_lists = [], frr_custom = []\<rparr>"

lemma frr_word_newI: "s \<noteq> [] \<Longrightarrow> \<forall>c\<in>set s. code c < 128 \<and> \<not> is_ascii_whitespace c \<Longrightarrow> frr_word_new s = Ok s"
  by (auto simp: frr_word_new_def list_ex_iff)

end
