(* ===== verification/Frr_Build.thy ===== *)
theory Frr_Build
  imports Frr_Types Bgp_Router_Id Fabric_Config
begin

text \<open>
  The FRR configuration of the fabrics of one node (\<open>sdn/fabric/frr.rs\<close>): the loop over the
  fabrics carries the next sequence number of a route map, the OSPF router id and the NET, which
  all fabrics of the node share, and fills the \<open>FrrConfig\<close> it is given. \<open>u16\<close> addition wraps. An
  error ends the generation; what was written to the configuration before it is dropped here.
\<close>

datatype frr_error =
  FrrWordError frr_word_error | FrrInterfaceError interface_name_error | FrrAreaError area_parsing_error
| NoNodeAddress | NodeNeedsIpv4 | NoRouterId | FrrPanic

record 'x build_state =
  bs_routemap_seq :: "16 word"
  bs_current_router_id :: "ipv4_addr option"
  bs_current_net :: "net option"
  bs_frr :: "'x frr_config"

section \<open>Typed views of an entry\<close>

text \<open>
  \<open>fabric_section\<close> and \<open>node_section\<close> of the macro \<open>impl_entry\<close>. \<open>let Ok(node) = .. else continue\<close>
  skips a fabric without the node; it does not catch the panic for a node of another protocol.
\<close>

definition openfabric_fabric_section ::
  "'x entry \<Rightarrow> ('x fabric_config_error, ('x, openfabric_properties) fabric_section) result" where
  "openfabric_fabric_section e = (case en_fabric e of FabricOpenfabric s \<Rightarrow> Ok s | _ \<Rightarrow> Err PanicUnreachable)"

definition openfabric_node_section ::
  "'x entry \<Rightarrow> node_id \<Rightarrow> ('x fabric_config_error, 'x openfabric_node_properties node_section) result" where
  "openfabric_node_section e k =
     and_then (entry_get_node e k) (\<lambda>n. case n of NodeOpenfabric s \<Rightarrow> Ok s | _ \<Rightarrow> Err PanicUnreachable)"

definition ospf_node_section ::
  "'x entry \<Rightarrow> node_id \<Rightarrow> ('x fabric_config_error, 'x ospf_node_properties node_section) result" where
  "ospf_node_section e k =
     and_then (entry_get_node e k) (\<lambda>n. case n of NodeOspf s \<Rightarrow> Ok s | _ \<Rightarrow> Err PanicUnreachable)"

definition bgp_fabric_section ::
  "'x entry \<Rightarrow> ('x fabric_config_error, ('x, bgp_properties) fabric_section) result" where
  "bgp_fabric_section e = (case en_fabric e of FabricBgp s \<Rightarrow> Ok s | _ \<Rightarrow> Err PanicUnreachable)"

definition bgp_node_section ::
  "'x entry \<Rightarrow> node_id \<Rightarrow> ('x fabric_config_error, bgp_node node_section) result" where
  "bgp_node_section e k =
     and_then (entry_get_node e k) (\<lambda>n. case n of NodeBgp s \<Rightarrow> Ok s | _ \<Rightarrow> Err PanicUnreachable)"

definition let_ok :: "('x fabric_config_error, 'a) result \<Rightarrow> (frr_error, 'a option) result" where
  "let_ok r = (case r of
     Ok a \<Rightarrow> Ok (Some a) | Err e \<Rightarrow> if e = PanicUnreachable then Err FrrPanic else Ok None)"

definition or_panic :: "('x fabric_config_error, 'a) result \<Rightarrow> (frr_error, 'a) result" where
  "or_panic r = map_err (\<lambda>_. FrrPanic) r"

section \<open>Routers and interfaces\<close>

definition build_ospf_router :: "ipv4_addr \<Rightarrow> (frr_error, ospf_router) result" where
  "build_ospf_router router_id = Ok (ospf_router_new router_id)"

definition build_openfabric_router ::
  "fabric_id \<Rightarrow> net \<Rightarrow> (frr_error, frr_word \<times> openfabric_router) result" where
  "build_openfabric_router fid n =
     and_then (map_err FrrWordError (frr_word_new fid)) (\<lambda>name. Ok (name, \<lparr>ofr_net = n\<rparr>))"

definition build_ospf_interface ::
  "frr_area \<Rightarrow> 'x ospf_interface_properties
    \<Rightarrow> (frr_error, ('x, ospf_interface) frr_interface \<times> frr_interface_name) result" where
  "build_ospf_interface area i =
     (let p = \<lparr>ospfif_area = area, ospfif_passive = None, ospfif_network_type =
          (case ospfi_network_type i of
             None \<Rightarrow> if ospfi_ip i \<noteq> None then None else Some PointToPoint
           | Some t \<Rightarrow> Some t)\<rparr>
      in and_then (map_err FrrInterfaceError (frr_interface_name_new (ospfi_name i)))
           (\<lambda>name. Ok (frr_interface_from p, name)))"

definition build_ospf_dummy_interface ::
  "fabric_id \<Rightarrow> frr_area \<Rightarrow> (frr_error, ('x, ospf_interface) frr_interface \<times> frr_interface_name) result" where
  "build_ospf_dummy_interface fid area =
     (let p = \<lparr>ospfif_area = area, ospfif_passive = Some True, ospfif_network_type = None\<rparr>
      in and_then (map_err FrrInterfaceError (frr_interface_name_new (''dummy_'' @ fid)))
           (\<lambda>name. Ok (frr_interface_from p, name)))"

definition build_openfabric_interface ::
  "fabric_id \<Rightarrow> 'x openfabric_interface_properties \<Rightarrow> openfabric_properties \<Rightarrow> bool \<Rightarrow> bool
    \<Rightarrow> (frr_error, ('x, openfabric_interface) frr_interface \<times> frr_interface_name) result" where
  "build_openfabric_interface fid i f v4 v6 =
     and_then (map_err FrrWordError (frr_word_new fid)) (\<lambda>word.
       let p = \<lparr>ofif_fabric_id = word, ofif_passive = None, ofif_hello_interval = of_hello_interval f,
            ofif_csnp_interval = of_csnp_interval f, ofif_hello_multiplier = ofi_hello_multiplier i,
            ofif_is_ipv4 = v4, ofif_is_ipv6 = v6\<rparr>;
           p = (if ofif_hello_interval p = None then p\<lparr>ofif_hello_interval := of_hello_interval f\<rparr> else p)
       in and_then (map_err FrrInterfaceError (frr_interface_name_new (ofi_name i)))
            (\<lambda>name. Ok (frr_interface_from p, name)))"

definition build_openfabric_dummy_interface ::
  "fabric_id \<Rightarrow> bool \<Rightarrow> bool \<Rightarrow> (frr_error, ('x, openfabric_interface) frr_interface \<times> frr_interface_name) result" where
  "build_openfabric_dummy_interface fid v4 v6 =
     and_then (map_err FrrWordError (frr_word_new fid)) (\<lambda>word.
       let p = \<lparr>ofif_fabric_id = word, ofif_passive = Some True, ofif_hello_interval = None,
            ofif_csnp_interval = None, ofif_hello_multiplier = None, ofif_is_ipv4 = v4, ofif_is_ipv6 = v6\<rparr>
       in and_then (map_err FrrInterfaceError (frr_interface_name_new (''dummy_'' @ fid)))
            (\<lambda>name. Ok (frr_interface_from p, name)))"

definition build_source_routemap :: "ip_addr \<Rightarrow> 16 word \<Rightarrow> route_map_entry" where
  "build_source_routemap ip n = \<lparr>rme_seq = n, rme_action = Permit, rme_matches = [], rme_sets = [RsSrc ip],
     rme_call = None, rme_exit_action = None, rme_custom_frr_config = []\<rparr>"

section \<open>Writing to the configuration\<close>

definition add_openfabric_interface ::
  "'x frr_config \<Rightarrow> ('x, openfabric_interface) frr_interface \<times> frr_interface_name \<Rightarrow> 'x frr_config" where
  "add_openfabric_interface c = (\<lambda>(i, name). c\<lparr>frr_openfabric := (frr_openfabric c)
     \<lparr>ofc_interfaces := bt_insert name i (ofc_interfaces (frr_openfabric c))\<rparr>\<rparr>)"

definition add_openfabric_router :: "'x frr_config \<Rightarrow> frr_word \<times> openfabric_router \<Rightarrow> 'x frr_config" where
  "add_openfabric_router c = (\<lambda>(name, r). c\<lparr>frr_openfabric := (frr_openfabric c)
     \<lparr>ofc_router := bt_insert name r (ofc_router (frr_openfabric c))\<rparr>\<rparr>)"

definition add_ospf_interface ::
  "'x frr_config \<Rightarrow> ('x, ospf_interface) frr_interface \<times> frr_interface_name \<Rightarrow> 'x frr_config" where
  "add_ospf_interface c = (\<lambda>(i, name). c\<lparr>frr_ospf := (frr_ospf c)
     \<lparr>osc_interfaces := bt_insert name i (osc_interfaces (frr_ospf c))\<rparr>\<rparr>)"

text \<open>\<open>routemaps.entry(name).or_default().push(entry)\<close>.\<close>

definition push_routemap :: "route_map_name \<Rightarrow> route_map_entry \<Rightarrow> 'x frr_config \<Rightarrow> 'x frr_config" where
  "push_routemap name e c = c\<lparr>frr_routemaps :=
     bt_insert name ((case bt_get (frr_routemaps c) name of None \<Rightarrow> [] | Some es \<Rightarrow> es) @ [e]) (frr_routemaps c)\<rparr>"

text \<open>\<open>protocol_routemaps.entry(protocol).or_default()\<close>, then one of its two fields.\<close>

definition set_protocol_routemap ::
  "frr_protocol \<Rightarrow> bool \<Rightarrow> route_map_name \<Rightarrow> 'x frr_config \<Rightarrow> 'x frr_config" where
  "set_protocol_routemap p v6 name c =
     (let r = (case bt_get (frr_protocol_routemaps c) p of
          None \<Rightarrow> \<lparr>iprm_v4 = None, iprm_v6 = None\<rparr> | Some r \<Rightarrow> r);
          r = (if v6 then r\<lparr>iprm_v6 := Some name\<rparr> else r\<lparr>iprm_v4 := Some name\<rparr>)
      in c\<lparr>frr_protocol_routemaps := bt_insert p r (frr_protocol_routemaps c)\<rparr>)"

text \<open>
  The match of a fabric: the prefix list the user chose, or an access list made of the prefix of
  the fabric, which is added to the configuration.
\<close>

definition fabric_matches ::
  "bool \<Rightarrow> prefix_list_id option \<Rightarrow> 'x cidr option \<Rightarrow> access_list_name \<Rightarrow> 'x frr_config
    \<Rightarrow> route_map_match list \<times> 'x frr_config" where
  "fabric_matches v6 route_filter prefix acl c = (case route_filter of
     Some p \<Rightarrow> ([if v6 then RmIp6AddressPrefixList p else RmIpAddressPrefixList p], c)
   | None \<Rightarrow> (case prefix of
       None \<Rightarrow> ([], c)
     | Some n \<Rightarrow> ([if v6 then RmIp6AddressAccessList acl else RmIpAddressAccessList acl],
         c\<lparr>frr_access_lists := bt_insert acl
             [\<lparr>alr_action = Permit, alr_network = n, alr_seq = None, alr_is_ipv6 = v6\<rparr>] (frr_access_lists c)\<rparr>)))"

text \<open>The entry that sets the source address, and the protocol it is for.\<close>

definition push_source_routemap ::
  "frr_protocol \<Rightarrow> bool \<Rightarrow> route_map_name \<Rightarrow> ip_addr \<Rightarrow> route_map_match list
    \<Rightarrow> 'x build_state \<Rightarrow> 'x build_state" where
  "push_source_routemap p v6 name ip matches st = st\<lparr>
     bs_routemap_seq := bs_routemap_seq st + 10,
     bs_frr := set_protocol_routemap p v6 name (push_routemap name
       ((build_source_routemap ip (bs_routemap_seq st))\<lparr>rme_matches := matches\<rparr>) (bs_frr st))\<rparr>"

definition add_source_routemap ::
  "frr_protocol \<Rightarrow> bool \<Rightarrow> route_map_name \<Rightarrow> ip_addr \<Rightarrow> prefix_list_id option \<Rightarrow> 'x cidr option
    \<Rightarrow> access_list_name \<Rightarrow> 'x build_state \<Rightarrow> 'x build_state" where
  "add_source_routemap p v6 name ip route_filter prefix acl st =
     (case fabric_matches v6 route_filter prefix acl (bs_frr st) of
        (matches, c) \<Rightarrow> push_source_routemap p v6 name ip matches (st\<lparr>bs_frr := c\<rparr>))"

section \<open>One OpenFabric fabric\<close>

definition node_net :: "'x openfabric_node_properties node_section \<Rightarrow> net option" where
  "node_net n = (case (ns_ip n, ns_ip6 n) of
     (Some ip, _) \<Rightarrow> Some (net_from_ipv4 ip) | (_, Some ip6) \<Rightarrow> Some (net_from_ipv6 ip6) | _ \<Rightarrow> None)"

definition openfabric_routemaps ::
  "fabric_id \<Rightarrow> ('x, openfabric_properties) fabric_section \<Rightarrow> 'x openfabric_node_properties node_section
    \<Rightarrow> 'x build_state \<Rightarrow> 'x build_state" where
  "openfabric_routemaps fid f n st =
     (let st = (case ns_ip n of None \<Rightarrow> st | Some ip \<Rightarrow>
            add_source_routemap FrrOpenfabric False ''pve_openfabric'' (IpV4 ip)
              (of_route_filter (fs_properties f)) (map_option CidrIpv4 (fs_ip_prefix f))
              (''pve_openfabric_'' @ fid @ ''_ips'') st)
      in (case ns_ip6 n of None \<Rightarrow> st | Some ip \<Rightarrow>
            add_source_routemap FrrOpenfabric True ''pve_openfabric6'' (IpV6 ip)
              (of_route_filter (fs_properties f)) (map_option CidrIpv6 (fs_ip6_prefix f))
              (''pve_openfabric_'' @ fid @ ''_ip6s'') st))"

definition build_openfabric ::
  "node_id \<Rightarrow> fabric_id \<Rightarrow> 'x entry \<Rightarrow> 'x build_state \<Rightarrow> (frr_error, 'x build_state) result" where
  "build_openfabric current fid e st =
     and_then (let_ok (openfabric_node_section e current)) (\<lambda>found. case found of
       None \<Rightarrow> Ok st
     | Some n \<Rightarrow>
       (let v4 = ns_ip n \<noteq> None; v6 = ns_ip6 n \<noteq> None;
            current_net = (case bs_current_net st of None \<Rightarrow> node_net n | Some t \<Rightarrow> Some t)
        in and_then (ok_or NoNodeAddress current_net) (\<lambda>title.
           and_then (build_openfabric_router fid title) (\<lambda>router.
           and_then (build_openfabric_dummy_interface fid v4 v6) (\<lambda>dummy.
           and_then (or_panic (openfabric_fabric_section e)) (\<lambda>f.
           and_then (try_fold (\<lambda>c i. and_then (build_openfabric_interface fid i (fs_properties f) v4 v6)
                 (\<lambda>i. Ok (add_openfabric_interface c i)))
               (add_openfabric_interface (add_openfabric_router (bs_frr st) router) dummy)
               (ofn_interfaces (ns_properties n))) (\<lambda>c.
             Ok (openfabric_routemaps fid f n (st\<lparr>bs_current_net := current_net, bs_frr := c\<rparr>)))))))))"

section \<open>One OSPF fabric\<close>

text \<open>\<open>get_or_insert\<close> evaluates \<open>expect\<close> also when there is a router id already.\<close>

definition build_ospf ::
  "node_id \<Rightarrow> fabric_id \<Rightarrow> 'x entry \<Rightarrow> 'x build_state \<Rightarrow> (frr_error, 'x build_state) result" where
  "build_ospf current fid e st =
     and_then (let_ok (ospf_node_section e current)) (\<lambda>found. case found of
       None \<Rightarrow> Ok st
     | Some n \<Rightarrow>
        and_then (ok_or FrrPanic (ns_ip n)) (\<lambda>expected.
        let router_id = (case bs_current_router_id st of None \<Rightarrow> expected | Some r \<Rightarrow> r) in
        and_then (or_panic (ospf_fabric_section e)) (\<lambda>f.
        and_then (map_err FrrWordError (frr_word_new (area_display (ospf_area (fs_properties f))))) (\<lambda>word.
        and_then (map_err FrrAreaError (frr_area_new word)) (\<lambda>area.
        and_then (case osc_router (frr_ospf (bs_frr st)) of
            Some _ \<Rightarrow> Ok (bs_frr st)
          | None \<Rightarrow> and_then (build_ospf_router router_id) (\<lambda>r.
              Ok ((bs_frr st)\<lparr>frr_ospf := (frr_ospf (bs_frr st))
                \<lparr>osc_router := Some (r\<lparr>ospfr_redistribute := ospf_redistribute (fs_properties f)\<rparr>)\<rparr>\<rparr>))) (\<lambda>c.
        and_then (build_ospf_dummy_interface fid area) (\<lambda>dummy.
        and_then (try_fold (\<lambda>c i. and_then (build_ospf_interface area i) (\<lambda>i. Ok (add_ospf_interface c i)))
            (add_ospf_interface c dummy) (ospfn_interfaces (ns_properties n))) (\<lambda>c.
        and_then (ok_or NodeNeedsIpv4 (ns_ip n)) (\<lambda>source_ip.
          Ok (add_source_routemap FrrOspf False ''pve_ospf'' (IpV4 source_ip)
            (ospf_route_filter (fs_properties f)) (map_option CidrIpv4 (fs_ip_prefix f))
            (''pve_ospf_'' @ fid @ ''_ips'')
            (st\<lparr>bs_current_router_id := Some router_id, bs_frr := c\<rparr>)))))))))))"

section \<open>One BGP fabric\<close>

definition redistribution_from :: "bgp_redistribution \<Rightarrow> redistribution" where
  "redistribution_from r = \<lparr>
     red_protocol = (case bred_source r of
         BgpOspf \<Rightarrow> RedistOspf | BgpConnected \<Rightarrow> RedistConnected | BgpIsis \<Rightarrow> RedistIsis
       | BgpKernel \<Rightarrow> RedistKernel | BgpOpenfabric \<Rightarrow> RedistOpenfabric | BgpOspf6 \<Rightarrow> RedistOspf6
       | BgpStatic \<Rightarrow> RedistStatic),
     red_metric = bred_metric r, red_route_map = bred_route_map r\<rparr>"

text \<open>
  A family of the router: the matches of the fabric guard a route map for what peers send, which
  calls the route map of the user, and a source address like the other protocols have. The names
  of IPv4 and IPv6 differ in a digit.
\<close>

definition bgp_family ::
  "bool \<Rightarrow> ('x, bgp_properties) fabric_section \<Rightarrow> fabric_id \<Rightarrow> 'x cidr option \<Rightarrow> ip_addr \<Rightarrow> 'c
    \<Rightarrow> redistribution list \<Rightarrow> 'x build_state \<Rightarrow> 'c unicast_af \<times> 'x build_state" where
  "bgp_family v6 f fid prefix ip network redistribute st =
     (let name = (if v6 then ''pve_bgp6'' else ''pve_bgp'');
          p = fs_properties f;
          (matches, c) = fabric_matches v6 (bgp_route_filter p) prefix
             (''pve_bgp_'' @ fid @ (if v6 then ''_ip6s'' else ''_ips'')) (bs_frr st);
          (auto_in, c) = (if matches \<noteq> []
             then (Some (name @ ''_'' @ fid @ ''_in''),
                   push_routemap (name @ ''_'' @ fid @ ''_in'')
                     \<lparr>rme_seq = 10, rme_action = Permit, rme_matches = matches, rme_sets = [],
                      rme_call = bgp_route_map_in p, rme_exit_action = None, rme_custom_frr_config = []\<rparr> c)
             else (None, c));
          af = \<lparr>af_common_options = \<lparr>caf_import_vrf = [], caf_neighbors =
                  [\<lparr>afn_name = fs_id f, afn_soft_reconfiguration_inbound = Some True,
                    afn_route_map_in = auto_in, afn_route_map_out = bgp_route_map_out p\<rparr>], caf_custom = []\<rparr>,
                af_networks = [network], af_redistribute = redistribute\<rparr>
      in (af, push_source_routemap FrrBgp v6 name ip matches (st\<lparr>bs_frr := c\<rparr>)))"

definition bgp_families ::
  "'x env \<Rightarrow> ('x, bgp_properties) fabric_section \<Rightarrow> fabric_id \<Rightarrow> bgp_node node_section \<Rightarrow> redistribution list
    \<Rightarrow> 'x build_state \<Rightarrow> 'x address_families \<times> 'x build_state" where
  "bgp_families env f fid n redistribute st =
     (let (fams, st) = (case ns_ip n of None \<Rightarrow> (address_families_default, st) | Some ip \<Rightarrow>
            (case bgp_family False f fid (map_option CidrIpv4 (fs_ip_prefix f)) (IpV4 ip) (v4_from env ip)
                redistribute st of
               (af, st) \<Rightarrow> (address_families_default\<lparr>afs_ipv4_unicast := Some af\<rparr>, st)))
      in (case ns_ip6 n of None \<Rightarrow> (fams, st) | Some ip \<Rightarrow>
            (case bgp_family True f fid (map_option CidrIpv6 (fs_ip6_prefix f)) (IpV6 ip) (v6_from env ip)
                redistribute st of
               (af, st) \<Rightarrow> (fams\<lparr>afs_ipv6_unicast := Some af\<rparr>, st))))"

definition local_as_of :: "'x frr_config \<Rightarrow> 32 word \<Rightarrow> local_as_settings option" where
  "local_as_of c asn = (case bt_get (bgpc_vrf_router (frr_bgp c)) VrfDefault of
     None \<Rightarrow> None
   | Some r \<Rightarrow> if bgpr_asn r \<noteq> asn then Some \<lparr>las_asn = asn, las_mode = Some ReplaceAs\<rparr> else None)"

definition set_bgp_router :: "'x bgp_router \<Rightarrow> 'x frr_config \<Rightarrow> 'x frr_config" where
  "set_bgp_router r c = c\<lparr>frr_bgp := (frr_bgp c)\<lparr>bgpc_vrf_router := bt_insert VrfDefault
     (case bt_get (bgpc_vrf_router (frr_bgp c)) VrfDefault of
        Some old \<Rightarrow> merge_fabric old r | None \<Rightarrow> r) (bgpc_vrf_router (frr_bgp c))\<rparr>\<rparr>"

definition build_bgp ::
  "'x env \<Rightarrow> node_id \<Rightarrow> fabric_id \<Rightarrow> 'x entry \<Rightarrow> 'x build_state \<Rightarrow> (frr_error, 'x build_state) result" where
  "build_bgp env current fid e st =
     and_then (let_ok (bgp_node_section e current)) (\<lambda>found. case found of
       None \<Rightarrow> Ok st
     | Some n \<Rightarrow> (case ns_properties n of
         BgpExternal _ \<Rightarrow> Ok st
       | BgpInternal p \<Rightarrow>
          and_then (or_panic (bgp_fabric_section e)) (\<lambda>f.
          and_then (map_err FrrInterfaceError (try_map frr_interface_name_new (bgpn_interfaces p))) (\<lambda>ifs.
          and_then (map_err FrrWordError (frr_word_new (fs_id f))) (\<lambda>word.
            let group = \<lparr>ng_name = word, ng_bfd = bgp_bfd (fs_properties f),
                  ng_local_as = local_as_of (bs_frr st) (bgpn_asn p), ng_remote_as = AsExternal, ng_ips = [],
                  ng_interfaces = ifs, ng_ebgp_multihop = None, ng_update_source = None\<rparr>;
                redistribute = map redistribution_from (bgp_redistribute (fs_properties f));
                (fams, st) = bgp_families env f fid n redistribute st
            in and_then (ok_or NoRouterId (bgp_router_id n)) (\<lambda>router_id.
               Ok (st\<lparr>bs_frr := set_bgp_router \<lparr>bgpr_asn = bgpn_asn p, bgpr_router_id = router_id,
                 bgpr_coalesce_time = None, bgpr_default_ipv4_unicast = Some False,
                 bgpr_hard_administrative_reset = None, bgpr_graceful_restart_notification = None,
                 bgpr_disable_ebgp_connected_route_check = None,
                 bgpr_bestpath_as_path_multipath_relax = None, bgpr_neighbor_groups = [group],
                 bgpr_address_families = fams, bgpr_custom = []\<rparr> (bs_frr st)\<rparr>)))))))"

section \<open>All fabrics\<close>

definition build_entry ::
  "'x env \<Rightarrow> node_id \<Rightarrow> 'x build_state \<Rightarrow> fabric_id \<times> 'x fabric_entry
    \<Rightarrow> (frr_error, 'x build_state) result" where
  "build_entry env current st = (\<lambda>(fid, fe). case fe of
     EntryOpenfabric e \<Rightarrow> build_openfabric current fid e st
   | EntryOspf e \<Rightarrow> build_ospf current fid e st
   | EntryWireGuard _ \<Rightarrow> Ok st
   | EntryBgp e \<Rightarrow> build_bgp env current fid e st)"

definition permit_all :: route_map_entry where
  "permit_all = \<lparr>rme_seq = 65535, rme_action = Permit, rme_matches = [], rme_sets = [], rme_call = None,
     rme_exit_action = None, rme_custom_frr_config = []\<rparr>"

definition append_permit_all :: "'x frr_config \<Rightarrow> route_map_name \<Rightarrow> 'x frr_config" where
  "append_permit_all c name = (case bt_get (frr_routemaps c) name of
     None \<Rightarrow> c | Some es \<Rightarrow> c\<lparr>frr_routemaps := bt_insert name (es @ [permit_all]) (frr_routemaps c)\<rparr>)"

definition build_fabric ::
  "'x env \<Rightarrow> node_id \<Rightarrow> 'x fabric_config \<Rightarrow> 'x frr_config \<Rightarrow> (frr_error, 'x frr_config) result" where
  "build_fabric env current cfg c =
     and_then (try_fold (build_entry env current)
         \<lparr>bs_routemap_seq = 100, bs_current_router_id = None, bs_current_net = None, bs_frr = c\<rparr> cfg)
       (\<lambda>st. Ok (foldl append_permit_all (bs_frr st) [''pve_bgp'', ''pve_bgp6'']))"

end
