(* ===== verification/Frr_Build_Total.thy ===== *)
theory Frr_Build_Total
  imports Frr_Build Fabric_Properties
begin

text \<open>
  Generating the FRR configuration of a validated fabric configuration never fails and never
  panics, whatever the node and whatever the configuration to extend: validation gives the
  addresses, the patterns of the identifiers give valid FRR words and interface names.
\<close>

section \<open>What the types of the configuration guarantee\<close>

definition node_interface_names :: "'x node \<Rightarrow> interface_name list" where
  "node_interface_names n = (case n of
     NodeOpenfabric s \<Rightarrow> map ofi_name (ofn_interfaces (ns_properties s))
   | NodeOspf s \<Rightarrow> map ospfi_name (ospfn_interfaces (ns_properties s))
   | NodeBgp s \<Rightarrow> (case ns_properties s of BgpInternal p \<Rightarrow> bgpn_interfaces p | BgpExternal _ \<Rightarrow> [])
   | NodeWireGuard _ \<Rightarrow> [])"

text \<open>A \<open>FabricId\<close> matches its pattern and an \<open>InterfaceName\<close> has at most 15 characters.\<close>

definition typed_config :: "'x fabric_config \<Rightarrow> bool" where
  "typed_config cfg \<longleftrightarrow> (\<forall>(k, fe)\<in>set cfg. fabric_id_ok k
     \<and> (\<forall>(nid, n)\<in>set (fe_nodes fe). \<forall>i\<in>set (node_interface_names n). length i \<le> 15))"

lemma fabric_word: "fabric_id_ok k \<Longrightarrow> frr_word_new k = Ok k"
  using id_chars(1,3) [of 6 k]
  by (intro frr_word_newI) (auto simp: fabric_id_ok_def fabric_id_pattern_def is_id_char_def char_class_defs)

lemma fabric_dummy: "fabric_id_ok k \<Longrightarrow> frr_interface_name_new (''dummy_'' @ k) = Ok (''dummy_'' @ k)"
  using id_chars(2) [of 6 k] by (simp add: fabric_id_ok_def fabric_id_pattern_def frr_interface_name_new_def)

lemma ipv4_display_chars: "\<forall>c\<in>set (ipv4_display a). is_ascii_digit c \<or> c = CHR ''.''"
proof -
  obtain w x y z where o8: "ipv4_octets a = [w, x, y, z]" using ipv4_octets_list by blast
  show ?thesis
    using dec_digits [of "unat w"] dec_digits [of "unat x"] dec_digits [of "unat y"] dec_digits [of "unat z"]
    by (auto simp: ipv4_display_def o8)
qed

lemma area_display_chars: "\<forall>c\<in>set (area_display a). is_ascii_digit c \<or> c = CHR ''.''"
  using ipv4_display_chars dec_digits by (cases a) (auto simp: area_display_def)

lemma area_display_nonempty: "area_display a \<noteq> []"
proof (cases a)
  case (AreaIpAddress i)
  obtain w x y z where "ipv4_octets i = [w, x, y, z]" using ipv4_octets_list by blast
  with AreaIpAddress show ?thesis by (simp add: area_display_def ipv4_display_def)
qed (simp add: area_display_def)

lemma digit_in_word: "is_ascii_digit c \<Longrightarrow> code c < 128 \<and> \<not> is_ascii_whitespace c"
proof -
  assume "is_ascii_digit c"
  then have "48 \<le> code c" and "code c \<le> 57" by (simp_all add: is_ascii_digit_def)
  then show ?thesis unfolding is_ascii_whitespace_def by (cases "code c = 9 \<or> code c = 10") auto
qed

lemma area_word: "frr_word_new (area_display a) = Ok (area_display a)"
proof (rule frr_word_newI [OF area_display_nonempty])
  have "code (CHR ''.'') < 128 \<and> \<not> is_ascii_whitespace (CHR ''.'')" by code_simp
  then show "\<forall>c\<in>set (area_display a). code c < 128 \<and> \<not> is_ascii_whitespace c"
    using area_display_chars digit_in_word by blast
qed

lemma area_is_area: "frr_area_new (area_display a) = Ok (area_display a)"
  by (cases a) (simp_all add: frr_area_new_def area_display_def parse_u32_dec ipv4_parse_display)

section \<open>Typed views\<close>

lemma let_ok_openfabric:
  "fe_wf (EntryOpenfabric e) \<Longrightarrow> \<exists>found. let_ok (openfabric_node_section e k) = Ok found
    \<and> (\<forall>s. found = Some s \<longrightarrow> bt_get (en_nodes e) k = Some (NodeOpenfabric s))"
  using fe_wf_get [of "EntryOpenfabric e" k]
  by (cases "bt_get (en_nodes e) k")
    (auto simp: let_ok_def openfabric_node_section_def entry_get_node_def fe_accessor_defs
      node_in_place_def node_protocol_def split: node.splits)

lemma let_ok_ospf:
  "fe_wf (EntryOspf e) \<Longrightarrow> \<exists>found. let_ok (ospf_node_section e k) = Ok found
    \<and> (\<forall>s. found = Some s \<longrightarrow> bt_get (en_nodes e) k = Some (NodeOspf s))"
  using fe_wf_get [of "EntryOspf e" k]
  by (cases "bt_get (en_nodes e) k")
    (auto simp: let_ok_def ospf_node_section_def entry_get_node_def fe_accessor_defs
      node_in_place_def node_protocol_def split: node.splits)

lemma let_ok_bgp:
  "fe_wf (EntryBgp e) \<Longrightarrow> \<exists>found. let_ok (bgp_node_section e k) = Ok found
    \<and> (\<forall>s. found = Some s \<longrightarrow> bt_get (en_nodes e) k = Some (NodeBgp s))"
  using fe_wf_get [of "EntryBgp e" k]
  by (cases "bt_get (en_nodes e) k")
    (auto simp: let_ok_def bgp_node_section_def entry_get_node_def fe_accessor_defs
      node_in_place_def node_protocol_def split: node.splits)

lemma fabric_sections_ok:
  "fe_wf (EntryOpenfabric e) \<Longrightarrow> \<exists>f. or_panic (openfabric_fabric_section e) = Ok f"
  "fe_wf (EntryOspf e) \<Longrightarrow> \<exists>f. or_panic (ospf_fabric_section e) = Ok f"
  "fe_wf (EntryBgp e) \<Longrightarrow> \<exists>f. or_panic (bgp_fabric_section e) = Ok f
     \<and> fs_id f = fabric_id (en_fabric e)"
  by (auto simp: fe_wf_def fe_accessor_defs fabric_protocol_def or_panic_def openfabric_fabric_section_def
      ospf_fabric_section_def bgp_fabric_section_def fabric_id_def split: fabric.splits)

lemma try_fold_ok: "(\<And>s x. x \<in> set xs \<Longrightarrow> is_ok (f s x)) \<Longrightarrow> is_ok (try_fold f s xs)"
proof (induction xs arbitrary: s)
  case (Cons x xs)
  then obtain s' where "f s x = Ok s'" by (metis is_ok_iff list.set_intros(1))
  with Cons show ?case by simp
qed simp

lemma is_ok_and_then_Ok: "is_ok (and_then r (\<lambda>a. Ok (g a))) \<longleftrightarrow> is_ok r"
  by (cases r) auto

section \<open>The protocols\<close>

lemma build_openfabric_ok:
  assumes wf: "fe_wf (EntryOpenfabric e)" and fid: "fabric_id_ok fid"
    and node: "\<And>n. bt_get (en_nodes e) current = Some n
      \<Longrightarrow> node_ok n \<and> (\<forall>i\<in>set (node_interface_names n). length i \<le> 15)"
  shows "is_ok (build_openfabric current fid e st)"
proof -
  obtain found where found: "let_ok (openfabric_node_section e current) = Ok found"
    "\<forall>s. found = Some s \<longrightarrow> bt_get (en_nodes e) current = Some (NodeOpenfabric s)"
    using let_ok_openfabric [OF wf] by blast
  obtain f where f: "or_panic (openfabric_fabric_section e) = Ok f"
    using fabric_sections_ok(1) [OF wf] by blast
  show ?thesis
  proof (cases found)
    case (Some n)
    note n = node [OF found(2) [rule_format, OF Some]]
    have "node_net n \<noteq> None" using n by (auto simp: node_ok_def node_net_def split: option.splits)
    then obtain t where t: "(case bs_current_net st of None \<Rightarrow> node_net n | Some t \<Rightarrow> Some t) = Some t"
      by (cases "bs_current_net st") auto
    have "is_ok (try_fold (\<lambda>c i. and_then (build_openfabric_interface fid i (fs_properties f) v4 v6)
                 (\<lambda>i. Ok (add_openfabric_interface c i))) c (ofn_interfaces (ns_properties n)))" for c v4 v6
      using n fid by (intro try_fold_ok)
        (simp add: build_openfabric_interface_def fabric_word frr_interface_name_new_def
          node_interface_names_def Let_def)
    then show ?thesis
      by (simp add: build_openfabric_def found(1) Some Let_def t f build_openfabric_router_def
          build_openfabric_dummy_interface_def fabric_word [OF fid] fabric_dummy [OF fid, simplified] is_ok_and_then_Ok)
  qed (simp add: build_openfabric_def found(1))
qed

lemma build_ospf_ok:
  assumes wf: "fe_wf (EntryOspf e)" and fid: "fabric_id_ok fid"
    and node: "\<And>n. bt_get (en_nodes e) current = Some n
      \<Longrightarrow> node_ok n \<and> (\<forall>i\<in>set (node_interface_names n). length i \<le> 15)"
  shows "is_ok (build_ospf current fid e st)"
proof -
  obtain found where found: "let_ok (ospf_node_section e current) = Ok found"
    "\<forall>s. found = Some s \<longrightarrow> bt_get (en_nodes e) current = Some (NodeOspf s)"
    using let_ok_ospf [OF wf] by blast
  obtain f where f: "or_panic (ospf_fabric_section e) = Ok f"
    using fabric_sections_ok(2) [OF wf] by blast
  show ?thesis
  proof (cases found)
    case (Some n)
    note n = node [OF found(2) [rule_format, OF Some]]
    then obtain ip where ip: "ns_ip n = Some ip" by (auto simp: node_ok_def)
    have "is_ok (try_fold (\<lambda>c i. and_then (build_ospf_interface area i) (\<lambda>i. Ok (add_ospf_interface c i)))
        c (ospfn_interfaces (ns_properties n)))" for c area
      using n by (intro try_fold_ok)
        (simp add: build_ospf_interface_def frr_interface_name_new_def node_interface_names_def Let_def)
    then show ?thesis
      by (cases "osc_router (frr_ospf (bs_frr st))")
        (simp_all add: build_ospf_def found(1) Some Let_def ip f area_word area_is_area build_ospf_router_def
          build_ospf_dummy_interface_def fabric_dummy [OF fid, simplified] is_ok_and_then_Ok)
  qed (simp add: build_ospf_def found(1))
qed

lemma bgp_router_id_some: "ns_ip s \<noteq> None \<or> ns_ip6 s \<noteq> None \<Longrightarrow> \<exists>r. bgp_router_id s = Some r"
  by (auto simp: bgp_router_id_def split: option.split)

lemma build_bgp_ok:
  assumes wf: "fe_wf (EntryBgp e)" and fid: "fabric_id_ok (fabric_id (en_fabric e))"
    and node: "\<And>n. bt_get (en_nodes e) current = Some n
      \<Longrightarrow> (node_ip n \<noteq> None \<or> node_ip6 n \<noteq> None) \<and> (\<forall>i\<in>set (node_interface_names n). length i \<le> 15)"
  shows "is_ok (build_bgp env current fid e st)"
proof -
  obtain found where found: "let_ok (bgp_node_section e current) = Ok found"
    "\<forall>s. found = Some s \<longrightarrow> bt_get (en_nodes e) current = Some (NodeBgp s)"
    using let_ok_bgp [OF wf] by blast
  obtain f where f: "or_panic (bgp_fabric_section e) = Ok f" "fs_id f = fabric_id (en_fabric e)"
    using fabric_sections_ok(3) [OF wf] by blast
  show ?thesis
  proof (cases found)
    case (Some n)
    note n = node [OF found(2) [rule_format, OF Some]]
    obtain r where r: "bgp_router_id n = Some r"
      using bgp_router_id_some n by (fastforce simp: node_ip_def node_ip6_def)
    show ?thesis
    proof (cases "ns_properties n")
      case (BgpInternal p)
      have "try_map frr_interface_name_new (bgpn_interfaces p) = Ok (bgpn_interfaces p)"
        using n BgpInternal
        by (auto simp: try_map_Ok list_all2_same frr_interface_name_new_def node_interface_names_def)
      then show ?thesis
        by (simp add: build_bgp_def found(1) Some BgpInternal f fabric_word [OF fid] r Let_def split: prod.split)
    qed (simp add: build_bgp_def found(1) Some)
  qed (simp add: build_bgp_def found(1))
qed

section \<open>All fabrics\<close>

lemma in_fabric_address:
  assumes "fabric_ok f" and "fabric_protocol f = Bgp" and "node_in_fabric env f n"
  shows "node_ip n \<noteq> None \<or> node_ip6 n \<noteq> None"
  using assms
  by (auto simp: fabric_ok_def fabric_protocol_def node_in_fabric_def prefix_ok_def
      split: fabric.splits option.splits)

lemma build_entry_ok:
  assumes wf: "fc_wf cfg" and valid: "fc_valid env cfg" and typed: "typed_config cfg"
    and kv: "(fid, fe) \<in> set cfg"
  shows "is_ok (build_entry env current st (fid, fe))"
proof -
  have fe: "fe_wf fe" "fabric_id (fe_fabric fe) = fid" using wf kv by (auto simp: fc_wf_def)
  have fev: "fe_valid env fe" using valid kv by (force simp: fc_valid_def)
  have fid: "fabric_id_ok fid" using typed kv by (auto simp: typed_config_def)
  have node: "node_in_fabric env (fe_fabric fe) n \<and> (\<forall>i\<in>set (node_interface_names n). length i \<le> 15)"
    if "bt_get (fe_nodes fe) current = Some n" for n
  proof -
    have n: "(current, n) \<in> set (fe_nodes fe)" using that by (rule bt_get_SomeD)
    then have "node_in_fabric env (fe_fabric fe) n" using fev by (force simp: fe_valid_def)
    moreover have "\<forall>i\<in>set (node_interface_names n). length i \<le> 15"
      using typed kv n by (force simp: typed_config_def)
    ultimately show ?thesis ..
  qed
  have ok: "fabric_ok (fe_fabric fe)" using fev by (simp add: fe_valid_def)
  show ?thesis
  proof (cases fe)
    case (EntryOpenfabric e)
    then show ?thesis
      using build_openfabric_ok [of e fid current st] fe fid node
      by (simp add: build_entry_def fe_accessor_defs node_in_fabric_def)
  next
    case (EntryOspf e)
    then show ?thesis
      using build_ospf_ok [of e fid current st] fe fid node
      by (simp add: build_entry_def fe_accessor_defs node_in_fabric_def)
  next
    case (EntryWireGuard e)
    then show ?thesis by (simp add: build_entry_def)
  next
    case (EntryBgp e)
    then have "fabric_protocol (fe_fabric fe) = Bgp" using fe(1) by (simp add: fe_wf_def fe_protocol_def)
    note address = in_fabric_address [OF ok this]
    have "is_ok (build_bgp env current fid e st)"
    proof (rule build_bgp_ok)
      show "fe_wf (EntryBgp e)" and "fabric_id_ok (fabric_id (en_fabric e))"
        using fe fid EntryBgp by (simp_all add: fe_accessor_defs)
      fix n
      assume "bt_get (en_nodes e) current = Some n"
      then have "bt_get (fe_nodes fe) current = Some n" by (simp add: EntryBgp fe_accessor_defs)
      from node [OF this] address
      show "(node_ip n \<noteq> None \<or> node_ip6 n \<noteq> None) \<and> (\<forall>i\<in>set (node_interface_names n). length i \<le> 15)"
        by blast
    qed
    then show ?thesis by (simp add: build_entry_def EntryBgp)
  qed
qed

lemma build_fabric_ok:
  assumes "fc_wf cfg" and "fc_valid env cfg" and "typed_config cfg"
  shows "\<exists>c'. build_fabric env current cfg c = Ok c'"
proof -
  have "is_ok (try_fold (build_entry env current) st cfg)" for st
    by (rule try_fold_ok) (metis build_entry_ok [OF assms] surj_pair)
  then show ?thesis by (auto simp: build_fabric_def is_ok_iff result_simps)
qed

lemma sample_typed: "typed_config sample_config"
  by code_simp

lemma sample_frr_built: "\<exists>c'. build_fabric sample_env current sample_config c = Ok c'"
  by (rule build_fabric_ok [OF fc_validD [OF sample_reachable sample_hash_iter sample_validate] sample_typed])



end
