(* ===== verification/Frr_References.thy ===== *)
theory Frr_References
  imports Frr_Build_Props
begin

text \<open>
  Generated references do not dangle: an access list a route map matches on exists, and so do the
  route maps that protocols and BGP neighbors refer to. Names only become more (an interpretation
  of \<open>frr_writes\<close>), so a reference that resolves keeps resolving.
\<close>

section \<open>References\<close>

definition access_list_of :: "route_map_match \<Rightarrow> access_list_name option" where
  "access_list_of m = (case m of
     RmIpAddressAccessList a \<Rightarrow> Some a | RmIp6AddressAccessList a \<Rightarrow> Some a | _ \<Rightarrow> None)"

definition matches_resolve :: "'x frr_config \<Rightarrow> route_map_match list \<Rightarrow> bool" where
  "matches_resolve c ms \<longleftrightarrow> (\<forall>m\<in>set ms. \<forall>a. access_list_of m = Some a \<longrightarrow> bt_get (frr_access_lists c) a \<noteq> None)"

definition has_map :: "'x frr_config \<Rightarrow> route_map_name option \<Rightarrow> bool" where
  "has_map c n \<longleftrightarrow> (\<forall>name. n = Some name \<longrightarrow> bt_get (frr_routemaps c) name \<noteq> None)"

definition family_in_maps :: "'c unicast_af option \<Rightarrow> route_map_name option set" where
  "family_in_maps af = (case af of None \<Rightarrow> {} | Some f \<Rightarrow>
     afn_route_map_in ` set (caf_neighbors (af_common_options f)))"

definition in_maps :: "'x address_families \<Rightarrow> route_map_name option set" where
  "in_maps fams = family_in_maps (afs_ipv4_unicast fams) \<union> family_in_maps (afs_ipv6_unicast fams)"

definition frr_closed :: "'x frr_config \<Rightarrow> bool" where
  "frr_closed c \<longleftrightarrow>
     (\<forall>name es. bt_get (frr_routemaps c) name = Some es \<longrightarrow> (\<forall>e\<in>set es. matches_resolve c (rme_matches e)))
     \<and> (\<forall>p r. bt_get (frr_protocol_routemaps c) p = Some r \<longrightarrow> has_map c (iprm_v4 r) \<and> has_map c (iprm_v6 r))
     \<and> (\<forall>r. bt_get (bgpc_vrf_router (frr_bgp c)) VrfDefault = Some r
          \<longrightarrow> (\<forall>n\<in>in_maps (bgpr_address_families r). has_map c n))"

definition names_grow :: "'x frr_config \<Rightarrow> 'x frr_config \<Rightarrow> bool" where
  "names_grow c c' \<longleftrightarrow>
     (\<forall>n. bt_get (frr_routemaps c) n \<noteq> None \<longrightarrow> bt_get (frr_routemaps c') n \<noteq> None)
     \<and> (\<forall>a. bt_get (frr_access_lists c) a \<noteq> None \<longrightarrow> bt_get (frr_access_lists c') a \<noteq> None)"

interpretation names: frr_writes names_grow
  by unfold_locales
    (auto simp: names_grow_def push_routemap_def set_protocol_routemap_def set_bgp_router_def bt_get_insert Let_def)

lemma grow_matches: "names_grow c c' \<Longrightarrow> matches_resolve c ms \<Longrightarrow> matches_resolve c' ms"
  by (auto simp: names_grow_def matches_resolve_def)

lemma grow_map: "names_grow c c' \<Longrightarrow> has_map c n \<Longrightarrow> has_map c' n"
  by (auto simp: names_grow_def has_map_def)

section \<open>The writes\<close>

lemma closed_interfaces:
  "frr_closed c \<Longrightarrow> frr_closed (c\<lparr>frr_openfabric := p\<rparr>)" "frr_closed c \<Longrightarrow> frr_closed (c\<lparr>frr_ospf := q\<rparr>)"
  by (simp_all add: frr_closed_def matches_resolve_def has_map_def)

lemma closed_add:
  "frr_closed c \<Longrightarrow> frr_closed (add_openfabric_interface c i)"
  "frr_closed c \<Longrightarrow> frr_closed (add_openfabric_router c r)"
  "frr_closed c \<Longrightarrow> frr_closed (add_ospf_interface c j)"
  by (simp_all add: add_openfabric_interface_def add_openfabric_router_def add_ospf_interface_def
      closed_interfaces split: prod.split)

lemma closed_matches:
  assumes "fabric_matches v6 fl pre a c = (ms, c')" and "frr_closed c"
  shows "frr_closed c'" and "matches_resolve c' ms"
proof -
  have grow: "names_grow c c'" using names.rel_matches [of c v6 fl pre a] assms(1) by simp
  have same: "frr_routemaps c' = frr_routemaps c" "frr_protocol_routemaps c' = frr_protocol_routemaps c"
    "frr_bgp c' = frr_bgp c"
    using assms(1) by (auto simp: fabric_matches_def split: option.splits)
  show "frr_closed c'"
    using assms(2) grow_matches [OF grow] grow_map [OF grow] unfolding frr_closed_def same by blast
  show "matches_resolve c' ms"
    using assms(1) by (auto simp: fabric_matches_def matches_resolve_def access_list_of_def bt_get_insert
        split: option.splits if_splits)
qed

lemma closed_push:
  assumes "frr_closed c" and "matches_resolve c (rme_matches e)"
  shows "frr_closed (push_routemap name e c)" and "has_map (push_routemap name e c) (Some name)"
proof -
  have grow: "names_grow c (push_routemap name e c)" by (rule names.rel_push)
  have same: "frr_protocol_routemaps (push_routemap name e c) = frr_protocol_routemaps c"
    "frr_bgp (push_routemap name e c) = frr_bgp c"
    by (simp_all add: push_routemap_def)
  have "matches_resolve (push_routemap name e c) (rme_matches x)"
    if "bt_get (frr_routemaps (push_routemap name e c)) n = Some es" and "x \<in> set es" for n es x
  proof -
    have "x = e \<or> (\<exists>n es. bt_get (frr_routemaps c) n = Some es \<and> x \<in> set es)"
      using that by (auto simp: push_routemap_def bt_get_insert split: if_splits option.splits)
    then have "matches_resolve c (rme_matches x)" using assms by (auto simp: frr_closed_def)
    then show ?thesis by (rule grow_matches [OF grow])
  qed
  then show "frr_closed (push_routemap name e c)"
    using assms(1) grow_map [OF grow] unfolding frr_closed_def same by blast
  show "has_map (push_routemap name e c) (Some name)"
    by (simp add: has_map_def push_routemap_def bt_get_insert)
qed

lemma closed_protocol:
  assumes "frr_closed c" and "has_map c (Some name)"
  shows "frr_closed (set_protocol_routemap p v6 name c)"
proof -
  have "has_map c (iprm_v4 r) \<and> has_map c (iprm_v6 r)"
    if "bt_get (frr_protocol_routemaps (set_protocol_routemap p v6 name c)) q = Some r" for q r
    using that assms
    by (auto simp: set_protocol_routemap_def Let_def bt_get_insert frr_closed_def has_map_def
        split: if_splits option.splits)
  then show ?thesis
    using assms(1)
    by (simp add: frr_closed_def set_protocol_routemap_def Let_def matches_resolve_def has_map_def)
qed

lemma closed_push_source:
  assumes "frr_closed (bs_frr st)" and "matches_resolve (bs_frr st) ms"
  shows "frr_closed (bs_frr (push_source_routemap p v6 name ip ms st))"
  using closed_push [OF assms(1), of "(build_source_routemap ip (bs_routemap_seq st))\<lparr>rme_matches := ms\<rparr>" name]
    assms(2)
  by (simp add: push_source_routemap_def closed_protocol)

lemma closed_add_source:
  assumes "frr_closed (bs_frr st)"
  shows "frr_closed (bs_frr (add_source_routemap p v6 name ip fl pre a st))"
proof -
  obtain ms c where m: "fabric_matches v6 fl pre a (bs_frr st) = (ms, c)" by force
  show ?thesis
    using closed_matches [OF m assms] closed_push_source [of "st\<lparr>bs_frr := c\<rparr>" ms]
    by (simp add: add_source_routemap_def m)
qed

lemma family_in_maps_extend: "family_in_maps (extend_unicast u v) \<subseteq> family_in_maps u \<union> family_in_maps v"
  by (auto simp: family_in_maps_def extend_unicast_def split: option.splits)

lemma in_maps_extend: "in_maps (address_families_extend x y) \<subseteq> in_maps x \<union> in_maps y"
  using family_in_maps_extend [of "afs_ipv4_unicast x" "afs_ipv4_unicast y"]
    family_in_maps_extend [of "afs_ipv6_unicast x" "afs_ipv6_unicast y"]
  by (auto simp: in_maps_def address_families_extend_def)

lemma closed_set_router:
  assumes "frr_closed c" and "\<forall>n\<in>in_maps (bgpr_address_families r). has_map c n"
  shows "frr_closed (set_bgp_router r c)"
proof -
  have "has_map c n" if "bt_get (bgpc_vrf_router (frr_bgp (set_bgp_router r c))) VrfDefault = Some r'"
    and "n \<in> in_maps (bgpr_address_families r')" for r' n
    using that assms
    by (auto simp: set_bgp_router_def bt_get_insert merge_fabric_def frr_closed_def split: option.splits
        dest!: subsetD [OF in_maps_extend])
  then show ?thesis
    using assms(1) by (simp add: frr_closed_def set_bgp_router_def matches_resolve_def has_map_def)
qed

section \<open>The protocols\<close>

lemma closed_openfabric:
  assumes "build_openfabric current fid e st = Ok st'" and "frr_closed (bs_frr st)"
  shows "frr_closed (bs_frr st')"
  using assms(1)
proof (cases rule: build_openfabric_cases)
  case (routed n r d f c net)
  have "frr_closed c"
    by (rule try_fold_inv [OF _ _ routed(1), where P = frr_closed]) (auto simp: result_simps closed_add assms(2))
  then show ?thesis
    by (cases "ns_ip n"; cases "ns_ip6 n") (simp_all add: routed(2) openfabric_routemaps_def closed_add_source)
qed (simp add: assms(2))

lemma closed_ospf:
  assumes "build_ospf current fid e st = Ok st'" and "frr_closed (bs_frr st)"
  shows "frr_closed (bs_frr st')"
  using assms(1)
proof (cases rule: build_ospf_cases)
  case (routed n f area d c0 c ip router_id)
  have "frr_closed c0" using routed(1) assms(2) by (auto simp: closed_interfaces)
  then have "frr_closed c"
    by (intro try_fold_inv [OF _ _ routed(2), where P = frr_closed]) (auto simp: result_simps closed_add)
  then show ?thesis by (simp add: routed(3) closed_add_source)
qed (simp add: assms(2))

lemma closed_bgp_family:
  assumes "bgp_family v6 f fid prefix ip network redistribute st = (af, st')" and "frr_closed (bs_frr st)"
  shows "frr_closed (bs_frr st')" and "\<forall>n\<in>family_in_maps (Some af). has_map (bs_frr st') n"
proof -
  obtain ms c where m: "fabric_matches v6 (bgp_route_filter (fs_properties f)) prefix
      (bgp_list_name v6 fid) (bs_frr st) = (ms, c)" by force
  define c' where "c' = (if ms = [] then c else push_routemap (bgp_in_name v6 fid) (bgp_in_entry f ms) c)"
  have st': "st' = push_source_routemap FrrBgp v6 (bgp_map_name v6) ip ms (st\<lparr>bs_frr := c'\<rparr>)"
    and af: "family_in_maps (Some af) = {if ms = [] then None else Some (bgp_in_name v6 fid)}"
    using assms(1) unfolding bgp_family_split [OF m] c'_def by (auto simp: family_in_maps_def)
  note c = closed_matches [OF m assms(2)]
  have c': "frr_closed c'" "has_map c' (if ms = [] then None else Some (bgp_in_name v6 fid))"
    using c closed_push [OF c(1), of "bgp_in_entry f ms"]
    by (simp_all add: c'_def bgp_in_entry_def) (simp add: has_map_def)
  have "matches_resolve c' ms"
    using c(2) grow_matches [OF names.rel_push c(2)] by (simp add: c'_def matches_resolve_def)
  then show "frr_closed (bs_frr st')"
    using closed_push_source [of "st\<lparr>bs_frr := c'\<rparr>" ms] c'(1) by (simp add: st')
  have "names_grow c' (bs_frr st')"
    using names.rel_push_source [of "st\<lparr>bs_frr := c'\<rparr>"] by (simp add: st')
  then show "\<forall>n\<in>family_in_maps (Some af). has_map (bs_frr st') n"
    using c'(2) grow_map unfolding af by blast
qed

lemma closed_bgp_families:
  assumes "bgp_families env f fid n redistribute st = (fams, st')" and "frr_closed (bs_frr st)"
  shows "frr_closed (bs_frr st') \<and> (\<forall>m\<in>in_maps fams. has_map (bs_frr st') m)"
proof -
  define r where "r = (case ns_ip n of None \<Rightarrow> (address_families_default, st) | Some ip \<Rightarrow>
      (case bgp_family False f fid (map_option CidrIpv4 (fs_ip_prefix f)) (IpV4 ip) (v4_from env ip) redistribute st of
         (af, st) \<Rightarrow> (address_families_default\<lparr>afs_ipv4_unicast := Some af\<rparr>, st)))"
  obtain fams1 st1 where r1: "r = (fams1, st1)" by force
  have one: "frr_closed (bs_frr st1) \<and> (\<forall>m\<in>family_in_maps (afs_ipv4_unicast fams1). has_map (bs_frr st1) m)
      \<and> afs_ipv6_unicast fams1 = None"
  proof (cases "ns_ip n")
    case None
    then show ?thesis
      using r1 assms(2) by (auto simp: r_def address_families_default_def family_in_maps_def)
  next
    case (Some ip)
    obtain af where af: "bgp_family False f fid (map_option CidrIpv4 (fs_ip_prefix f)) (IpV4 ip) (v4_from env ip)
        redistribute st = (af, st1)" and "fams1 = address_families_default\<lparr>afs_ipv4_unicast := Some af\<rparr>"
      using r1 Some by (auto simp: r_def split: prod.splits)
    then show ?thesis
      using closed_bgp_family [OF af assms(2)] by (simp add: address_families_default_def)
  qed
  show ?thesis
  proof (cases "ns_ip6 n")
    case None
    then have "fams = fams1" "st' = st1" using assms(1) r1 by (simp_all add: bgp_families_def r_def [symmetric])
    with one show ?thesis by (auto simp: in_maps_def family_in_maps_def)
  next
    case (Some ip)
    obtain af st2 where two: "bgp_family True f fid (map_option CidrIpv6 (fs_ip6_prefix f)) (IpV6 ip)
        (v6_from env ip) redistribute st1 = (af, st2)" by force
    then have "fams = fams1\<lparr>afs_ipv6_unicast := Some af\<rparr>" "st' = st2"
      using assms(1) r1 Some by (simp_all add: bgp_families_def r_def [symmetric])
    moreover have "names_grow (bs_frr st1) (bs_frr st2)" by (rule names.rel_bgp_family [OF two])
    ultimately show ?thesis
      using one closed_bgp_family [OF two] by (auto simp: in_maps_def intro: grow_map)
  qed
qed

lemma closed_bgp:
  assumes "build_bgp env current fid e st = Ok st'" and "frr_closed (bs_frr st)"
  shows "frr_closed (bs_frr st')"
  using assms(1)
proof (cases rule: build_bgp_cases)
  case (routed n p f redistribute ifs fams st1 router_id)
  show ?thesis
    using closed_bgp_families [OF routed(1) assms(2)]
    by (simp add: routed(2) closed_set_router bgp_fabric_router_def)
qed (simp add: assms(2))

lemma closed_permit_all:
  assumes "frr_closed c"
  shows "frr_closed (append_permit_all c name)"
proof (cases "bt_get (frr_routemaps c) name")
  case None
  then show ?thesis using assms by (simp add: append_permit_all_def)
next
  case (Some es)
  then have "append_permit_all c name = push_routemap name permit_all c"
    by (simp add: append_permit_all_def push_routemap_def)
  then show ?thesis
    using closed_push(1) [OF assms, of permit_all name] by (simp add: permit_all_def matches_resolve_def)
qed


lemma sample_closed: "frr_closed sample_evpn_config"
  by (simp add: frr_closed_def sample_evpn_config_def frr_config_default_def in_maps_def family_in_maps_def
      address_families_default_def)


end
