(* ===== verification/Frr_Sequences.thy ===== *)
theory Frr_Sequences
  imports Frr_Build_Props
begin

text \<open>
  The order of the generated route map entries. FRR identifies an entry by its sequence number and
  applies the entries in their order, so the numbers of a map must increase. They come from one
  \<open>u16\<close> counter, which grows by ten per entry and does not wrap up to 3,000 fabrics.
\<close>

definition ordered_maps :: "'x frr_config \<Rightarrow> 16 word \<Rightarrow> bool" where
  "ordered_maps c s \<longleftrightarrow> (\<forall>name es. bt_get (frr_routemaps c) name = Some es \<longrightarrow>
     es \<noteq> [] \<and> sorted_wrt (<) (map rme_seq es) \<and> (\<forall>e\<in>set es. rme_seq e < s))"

text \<open>Which inbound maps exist, and how far the counter is after \<open>k\<close> entries.\<close>

definition seq_inv :: "(bool \<times> fabric_id) set \<Rightarrow> nat \<Rightarrow> 'x build_state \<Rightarrow> bool" where
  "seq_inv D k st \<longleftrightarrow> ordered_maps (bs_frr st) (bs_routemap_seq st)
     \<and> 100 \<le> unat (bs_routemap_seq st) \<and> unat (bs_routemap_seq st) \<le> 100 + 10 * k
     \<and> (\<forall>v6 fid. bt_get (frr_routemaps (bs_frr st)) (bgp_in_name v6 fid) \<noteq> None \<longrightarrow> (v6, fid) \<in> D)"

lemma bgp_in_name_inj [simp]: "bgp_in_name v6 fid = bgp_in_name v6' fid' \<longleftrightarrow> v6 = v6' \<and> fid = fid'"
  by (auto simp: bgp_in_name_def bgp_map_name_def split: if_splits)

lemma source_names [simp]:
  "bgp_in_name v6 fid \<noteq> bgp_map_name w6" "bgp_in_name v6 fid \<noteq> ''pve_openfabric''"
  "bgp_in_name v6 fid \<noteq> ''pve_openfabric6''" "bgp_in_name v6 fid \<noteq> ''pve_ospf''"
  by (auto simp: bgp_in_name_def bgp_map_name_def split: if_splits)

lemma seq_inv_mono: "seq_inv D k st \<Longrightarrow> D \<subseteq> D' \<Longrightarrow> k \<le> k' \<Longrightarrow> seq_inv D' k' st"
  by (auto simp: seq_inv_def)

lemma seq_inv_maps:
  "frr_routemaps (bs_frr st') = frr_routemaps (bs_frr st) \<Longrightarrow> bs_routemap_seq st' = bs_routemap_seq st
    \<Longrightarrow> seq_inv D k st' \<longleftrightarrow> seq_inv D k st"
  by (simp add: seq_inv_def ordered_maps_def)

lemma ordered_push:
  assumes "ordered_maps c s" and "s \<le> s'" and "rme_seq e < s'"
    and "\<And>es x. bt_get (frr_routemaps c) name = Some es \<Longrightarrow> x \<in> set es \<Longrightarrow> rme_seq x < rme_seq e"
  shows "ordered_maps (push_routemap name e c) s'"
proof -
  have bound: "rme_seq x < s'" if "bt_get (frr_routemaps c) n = Some es" "x \<in> set es" for n es x
    using assms(1,2) that unfolding ordered_maps_def by (meson order_less_le_trans)
  show ?thesis
    using assms(1,3,4) bound
    by (auto simp: ordered_maps_def push_routemap_def bt_get_insert sorted_wrt_append split: option.splits)
qed

lemma seq_inv_push_source:
  assumes inv: "seq_inv D k st" and k: "k < 6000" and name: "\<forall>v6 fid. bgp_in_name v6 fid \<noteq> name"
  shows "seq_inv D (Suc k) (push_source_routemap p v6 name ip ms st)"
proof -
  let ?s = "bs_routemap_seq st"
  have s: "unat ?s \<le> 100 + 10 * k" "100 \<le> unat ?s" using inv by (simp_all add: seq_inv_def)
  then have next_seq: "unat (?s + 10) = unat ?s + 10"
    using k by (subst unat_add_lem [THEN iffD1]) simp_all
  then have up: "?s < ?s + 10" "?s \<le> ?s + 10" by (simp_all add: word_less_nat_alt word_le_nat_alt)
  let ?e = "(build_source_routemap ip ?s)\<lparr>rme_matches := ms\<rparr>"
  have "ordered_maps (push_routemap name ?e (bs_frr st)) (?s + 10)"
    using inv up
    by (intro ordered_push [of _ ?s]) (auto simp: seq_inv_def ordered_maps_def build_source_routemap_def)
  then show ?thesis
    using inv s next_seq name
    by (auto simp: seq_inv_def push_source_routemap_def ordered_maps_def set_protocol_routemap_def Let_def
        push_routemap_def bt_get_insert)
qed

lemma matches_same_maps: "fabric_matches v6 fl pre a c = (ms, c') \<Longrightarrow> frr_routemaps c' = frr_routemaps c"
  by (auto simp: fabric_matches_def split: option.splits)

lemma seq_inv_add_source:
  assumes "seq_inv D k st" and "k < 6000" and "\<forall>v6 fid. bgp_in_name v6 fid \<noteq> name"
  shows "seq_inv D (Suc k) (add_source_routemap p v6 name ip fl pre a st)"
proof -
  obtain ms c where m: "fabric_matches v6 fl pre a (bs_frr st) = (ms, c)" by force
  have "seq_inv D k (st\<lparr>bs_frr := c\<rparr>)"
    using assms(1) matches_same_maps [OF m] seq_inv_maps [of "st\<lparr>bs_frr := c\<rparr>" st] by simp
  then show ?thesis using seq_inv_push_source assms(2,3) by (simp add: add_source_routemap_def m)
qed

section \<open>The protocols\<close>

lemma fold_same_maps:
  assumes "\<And>c x c'. f c x = Ok c' \<Longrightarrow> frr_routemaps c' = frr_routemaps c" and "try_fold f c xs = Ok c'"
  shows "frr_routemaps c' = frr_routemaps c"
  by (rule try_fold_inv [OF _ _ assms(2), where P = "\<lambda>d. frr_routemaps d = frr_routemaps c"])
    (simp_all add: assms(1))

lemma interfaces_same_maps [simp]:
  "frr_routemaps (add_openfabric_interface c i) = frr_routemaps c"
  "frr_routemaps (add_openfabric_router c r) = frr_routemaps c"
  "frr_routemaps (add_ospf_interface c j) = frr_routemaps c"
  by (simp_all add: add_openfabric_interface_def add_openfabric_router_def add_ospf_interface_def split: prod.split)

lemma seq_inv_openfabric:
  assumes "build_openfabric current fid e st = Ok st'" and inv: "seq_inv D k st" and k: "k < 5999"
  shows "seq_inv D (k + 2) st'"
  using assms(1)
proof (cases rule: build_openfabric_cases)
  case skipped
  then show ?thesis using inv by (auto intro: seq_inv_mono)
next
  case (routed n r d f c net)
  have "frr_routemaps c = frr_routemaps (add_openfabric_interface (add_openfabric_router (bs_frr st) r) d)"
    by (rule fold_same_maps [OF _ routed(1)]) (auto simp: result_simps)
  then have "frr_routemaps c = frr_routemaps (bs_frr st)" by simp
  then have "seq_inv D k (st\<lparr>bs_current_net := net, bs_frr := c\<rparr>)"
    using inv seq_inv_maps [of "st\<lparr>bs_current_net := net, bs_frr := c\<rparr>" st] by simp
  then show ?thesis
    using k unfolding routed(2) openfabric_routemaps_def
    by (cases "ns_ip n"; cases "ns_ip6 n")
      (auto simp: Let_def intro!: seq_inv_add_source intro: seq_inv_mono)
qed

lemma seq_inv_ospf:
  assumes "build_ospf current fid e st = Ok st'" and inv: "seq_inv D k st" and k: "k < 5999"
  shows "seq_inv D (k + 2) st'"
  using assms(1)
proof (cases rule: build_ospf_cases)
  case skipped
  then show ?thesis using inv by (auto intro: seq_inv_mono)
next
  case (routed n f area d c0 c ip router_id)
  have "frr_routemaps c = frr_routemaps (add_ospf_interface c0 d)"
    by (rule fold_same_maps [OF _ routed(2)]) (auto simp: result_simps)
  then have "frr_routemaps c = frr_routemaps (bs_frr st)" using routed(1) by auto
  then have "seq_inv D k (st\<lparr>bs_current_router_id := Some router_id, bs_frr := c\<rparr>)"
    using inv seq_inv_maps [of "st\<lparr>bs_current_router_id := Some router_id, bs_frr := c\<rparr>" st] by simp
  then have "seq_inv D (Suc k) st'"
    unfolding routed(3) using k by (intro seq_inv_add_source) simp_all
  then show ?thesis by (rule seq_inv_mono) simp_all
qed

lemma seq_inv_push_in:
  assumes inv: "seq_inv D k st" and fresh: "(v6, fid) \<notin> D"
  shows "seq_inv (insert (v6, fid) D) k (st\<lparr>bs_frr := push_routemap (bgp_in_name v6 fid) (bgp_in_entry f ms) (bs_frr st)\<rparr>)"
proof -
  have none: "bt_get (frr_routemaps (bs_frr st)) (bgp_in_name v6 fid) = None"
    using inv fresh unfolding seq_inv_def by blast
  have "100 \<le> unat (bs_routemap_seq st)" using inv by (simp add: seq_inv_def)
  then have "rme_seq (bgp_in_entry f ms) < bs_routemap_seq st"
    by (simp add: bgp_in_entry_def word_less_nat_alt)
  then have "ordered_maps (push_routemap (bgp_in_name v6 fid) (bgp_in_entry f ms) (bs_frr st)) (bs_routemap_seq st)"
    using inv none by (intro ordered_push [of _ "bs_routemap_seq st"]) (auto simp: seq_inv_def)
  then show ?thesis
    using inv by (auto simp: seq_inv_def push_routemap_def bt_get_insert split: if_splits)
qed

lemma seq_inv_bgp_family:
  assumes "bgp_family v6 f fid prefix ip network redistribute st = (af, st')"
    and inv: "seq_inv D k st" and k: "k < 6000" and fresh: "(v6, fid) \<notin> D"
  shows "seq_inv (insert (v6, fid) D) (Suc k) st'"
proof -
  obtain ms c where m: "fabric_matches v6 (bgp_route_filter (fs_properties f)) prefix
      (bgp_list_name v6 fid) (bs_frr st) = (ms, c)" by force
  define c' where "c' = (if ms = [] then c else push_routemap (bgp_in_name v6 fid) (bgp_in_entry f ms) c)"
  have st': "st' = push_source_routemap FrrBgp v6 (bgp_map_name v6) ip ms (st\<lparr>bs_frr := c'\<rparr>)"
    using assms(1) unfolding bgp_family_split [OF m] c'_def by simp
  have "seq_inv D k (st\<lparr>bs_frr := c\<rparr>)"
    using inv matches_same_maps [OF m] seq_inv_maps [of "st\<lparr>bs_frr := c\<rparr>" st] by simp
  then have "seq_inv (insert (v6, fid) D) k (st\<lparr>bs_frr := c'\<rparr>)"
    using seq_inv_push_in [of D k "st\<lparr>bs_frr := c\<rparr>"] fresh
    by (auto simp: c'_def intro: seq_inv_mono)
  then show ?thesis unfolding st' using k by (intro seq_inv_push_source) simp_all
qed

lemma seq_inv_bgp_families:
  assumes "bgp_families env f fid n redistribute st = (fams, st')"
    and inv: "seq_inv D k st" and k: "k < 5999" and fresh: "\<forall>v6. (v6, fid) \<notin> D"
  shows "seq_inv (insert (True, fid) (insert (False, fid) D)) (k + 2) st'"
proof -
  obtain st1 where st1: "seq_inv (insert (False, fid) D) (Suc k) st1"
    and rest: "case ns_ip6 n of None \<Rightarrow> st' = st1
      | Some ip \<Rightarrow> \<exists>af. bgp_family True f fid (map_option CidrIpv6 (fs_ip6_prefix f)) (IpV6 ip)
          (v6_from env ip) redistribute st1 = (af, st')"
  proof (cases "ns_ip n")
    case None
    then show ?thesis
      using assms(1) seq_inv_mono [OF inv, of "insert (False, fid) D" "Suc k"]
      by (intro that [of st]) (auto simp: bgp_families_def split: option.splits prod.splits)
  next
    case (Some ip)
    obtain af st1 where af: "bgp_family False f fid (map_option CidrIpv4 (fs_ip_prefix f)) (IpV4 ip)
        (v4_from env ip) redistribute st = (af, st1)" by force
    have "seq_inv (insert (False, fid) D) (Suc k) st1"
      using seq_inv_bgp_family [OF af inv] k fresh by simp
    then show ?thesis
      using assms(1) Some af
      by (intro that [of st1]) (auto simp: bgp_families_def split: option.splits prod.splits)
  qed
  show ?thesis
  proof (cases "ns_ip6 n")
    case None
    then show ?thesis using rest st1 by (auto intro: seq_inv_mono)
  next
    case (Some ip)
    then obtain af where "bgp_family True f fid (map_option CidrIpv6 (fs_ip6_prefix f)) (IpV6 ip)
          (v6_from env ip) redistribute st1 = (af, st')" using rest by auto
    from seq_inv_bgp_family [OF this st1] k fresh show ?thesis by simp
  qed
qed

lemma set_router_maps [simp]: "frr_routemaps (set_bgp_router r c) = frr_routemaps c"
  by (simp add: set_bgp_router_def)

lemma seq_inv_bgp:
  assumes "build_bgp env current fid e st = Ok st'"
    and inv: "seq_inv D k st" and k: "k < 5999" and fresh: "\<forall>v6. (v6, fid) \<notin> D"
  shows "seq_inv (insert (True, fid) (insert (False, fid) D)) (k + 2) st'"
  using assms(1)
proof (cases rule: build_bgp_cases)
  case skipped
  then show ?thesis using inv by (auto intro: seq_inv_mono)
next
  case (routed n p f redistribute ifs fams st1 router_id)
  from seq_inv_bgp_families [OF routed(1) inv k fresh] show ?thesis
    unfolding routed(2) by (subst seq_inv_maps [of _ st1]) simp_all
qed

section \<open>All fabrics\<close>

definition in_map_keys :: "'x fabric_config \<Rightarrow> (bool \<times> fabric_id) set" where
  "in_map_keys cfg = UNIV \<times> set (bt_keys cfg)"

lemma seq_inv_entry:
  assumes "build_entry env current st (fid, fe) = Ok st'"
    and inv: "seq_inv D k st" and k: "k < 5999" and fresh: "\<forall>v6. (v6, fid) \<notin> D"
  shows "seq_inv (D \<union> UNIV \<times> {fid}) (k + 2) st'"
proof -
  have both: "insert (True, fid) (insert (False, fid) D) = D \<union> UNIV \<times> {fid}"
    by (auto simp: UNIV_bool)
  show ?thesis
  proof (cases fe)
    case (EntryOpenfabric e)
    with assms(1) have "build_openfabric current fid e st = Ok st'" by (simp add: build_entry_def)
    then have "seq_inv D (k + 2) st'" by (rule seq_inv_openfabric [OF _ inv k])
    then show ?thesis by (rule seq_inv_mono) simp_all
  next
    case (EntryOspf e)
    with assms(1) have "build_ospf current fid e st = Ok st'" by (simp add: build_entry_def)
    then have "seq_inv D (k + 2) st'" by (rule seq_inv_ospf [OF _ inv k])
    then show ?thesis by (rule seq_inv_mono) simp_all
  next
    case (EntryWireGuard e)
    with assms(1) inv show ?thesis by (auto simp: build_entry_def intro: seq_inv_mono)
  next
    case (EntryBgp e)
    with assms(1) have "build_bgp env current fid e st = Ok st'" by (simp add: build_entry_def)
    from seq_inv_bgp [OF this inv k fresh] show ?thesis unfolding both .
  qed
qed

lemma seq_inv_fold:
  "try_fold (build_entry env current) st cfg = Ok st' \<Longrightarrow> seq_inv D k st \<Longrightarrow> k + 2 * length cfg \<le> 6000
    \<Longrightarrow> distinct (bt_keys cfg) \<Longrightarrow> \<forall>fid\<in>set (bt_keys cfg). \<forall>v6. (v6, fid) \<notin> D
    \<Longrightarrow> seq_inv (D \<union> in_map_keys cfg) (k + 2 * length cfg) st'"
proof (induction cfg arbitrary: st D k)
  case (Cons kv cfg)
  obtain fid fe where kv: "kv = (fid, fe)" by force
  obtain st1 where st1: "build_entry env current st (fid, fe) = Ok st1"
    and rest: "try_fold (build_entry env current) st1 cfg = Ok st'"
    using Cons.prems(1) by (auto simp: kv result_simps)
  have "seq_inv (D \<union> UNIV \<times> {fid}) (k + 2) st1"
    using seq_inv_entry [OF st1 Cons.prems(2)] Cons.prems(3,5) by (simp add: kv)
  from Cons.IH [OF rest this] Cons.prems(3-5)
  have "seq_inv ((D \<union> UNIV \<times> {fid}) \<union> in_map_keys cfg) (k + 2 + 2 * length cfg) st'"
    by (force simp: kv)
  then show ?case by (rule seq_inv_mono) (auto simp: kv in_map_keys_def)
qed (simp add: in_map_keys_def)



end
