(* ===== verification/Sorted_Table.thy ===== *)
theory Sorted_Table
  imports Prelude
begin

text \<open>
  Tables that the macro \<open>sorted!\<close> sorts by name when the program is compiled, and the binary search
  of the standard library in them: a search in a table with distinct names is a lookup.
\<close>

text \<open>
  \<open>slice::binary_search_by\<close>: \<open>base\<close> is the start of the part that is left, which is halved until
  one entry remains.
\<close>

function search_base :: "(string \<times> 'v) list \<Rightarrow> string \<Rightarrow> nat \<Rightarrow> nat \<Rightarrow> nat" where
  "search_base t s base n =
     (if n \<le> 1 then base
      else let half = n div 2; mid = base + half in
           search_base t s (if fst (t ! mid) > s then base else mid) (n - half))"
  by auto
termination by (relation "measure (\<lambda>(t, s, base, n). n)") auto

declare search_base.simps [simp del]

definition binary_search :: "(string \<times> 'v) list \<Rightarrow> string \<Rightarrow> nat option" where
  "binary_search t s =
     (if t = [] then None
      else let base = search_base t s 0 (length t) in if fst (t ! base) = s then Some base else None)"

definition sorted_table :: "(string \<times> 'v) list \<Rightarrow> (string \<times> 'v) list" where
  "sorted_table t = sort_key fst t"

definition table_lookup :: "(string \<times> 'v) list \<Rightarrow> string \<Rightarrow> (string \<times> 'v) option" where
  "table_lookup t s = map_option (\<lambda>i. sorted_table t ! i) (binary_search (sorted_table t) s)"

lemma search_base_range:
  "n \<ge> 1 \<Longrightarrow> search_base t s base n < base + n"
proof (induction t s base n rule: search_base.induct)
  case (1 t s base n)
  show ?case
  proof (cases "n \<le> 1")
    case False
    then have "search_base t s (if fst (t ! (base + n div 2)) > s then base else base + n div 2)
        (n - n div 2) < (if fst (t ! (base + n div 2)) > s then base else base + n div 2) + (n - n div 2)"
      by (intro "1.IH") auto
    with False show ?thesis by (subst search_base.simps) (auto simp: Let_def split: if_splits)
  qed (use "1.prems" in \<open>simp add: search_base.simps\<close>)
qed

lemma search_base_finds:
  "sorted_wrt (<) (map fst t) \<Longrightarrow> base + n \<le> length t \<Longrightarrow> base \<le> i \<Longrightarrow> i < base + n
    \<Longrightarrow> fst (t ! i) = s \<Longrightarrow> search_base t s base n = i"
proof (induction t s base n rule: search_base.induct)
  case (1 t s base n)
  show ?case
  proof (cases "n \<le> 1")
    case False
    let ?mid = "base + n div 2"
    have mono: "j < k \<Longrightarrow> k < length t \<Longrightarrow> fst (t ! j) < fst (t ! k)" for j k
      using "1.prems"(1) by (simp add: sorted_wrt_iff_nth_less)
    have "fst (t ! ?mid) > s \<longleftrightarrow> i < ?mid"
      using "1.prems" mono [of ?mid i] mono [of i ?mid] False
      by (cases "i < ?mid"; cases "i = ?mid") auto
    moreover have "search_base t s (if fst (t ! ?mid) > s then base else ?mid) (n - n div 2) = i"
      by (rule "1.IH" [OF False refl refl])
        (use "1.prems" False calculation in auto)
    ultimately show ?thesis using False by (subst search_base.simps) (simp add: Let_def)
  qed (use "1.prems" in \<open>simp add: search_base.simps\<close>)
qed

text \<open>In a sorted table without duplicates the search finds what is there.\<close>

lemma binary_search_Some:
  assumes "sorted_wrt (<) (map fst t)"
  shows "binary_search t s = Some i \<longleftrightarrow> i < length t \<and> fst (t ! i) = s"
proof
  assume "binary_search t s = Some i"
  then show "i < length t \<and> fst (t ! i) = s"
    using search_base_range [of "length t" t s 0]
    by (auto simp: binary_search_def Let_def Suc_le_eq split: if_splits)
next
  assume a: "i < length t \<and> fst (t ! i) = s"
  then have "search_base t s 0 (length t) = i"
    by (intro search_base_finds [OF assms]) auto
  with a show "binary_search t s = Some i" by (auto simp: binary_search_def)
qed

lemma table_lookup_map_of:
  assumes "distinct (map fst t)"
  shows "table_lookup t s = map_option (Pair s) (map_of t s)"
proof -
  let ?t = "sorted_table t"
  have d: "distinct (map fst ?t)"
    using assms by (simp add: sorted_table_def distinct_map) 
  then have "sorted_wrt (<) (map fst ?t)"
    by (simp add: strict_sorted_iff) (simp add: sorted_table_def)
  note find = binary_search_Some [OF this, of s]
  have "map_of ?t = map_of t"
    by (rule map_of_inject_set [THEN iffD2, OF d assms]) (simp add: sorted_table_def)
  moreover have "table_lookup t s = map_option (Pair s) (map_of ?t s)"
  proof (cases "binary_search ?t s")
    case None
    then have "s \<notin> fst ` set ?t" using find by (metis (no_types, lifting) image_iff in_set_conv_nth option.distinct(1))
    then show ?thesis using None by (simp add: table_lookup_def map_of_eq_None_iff)
  next
    case (Some i)
    then have "i < length ?t" "fst (?t ! i) = s" using find by auto
    then have "(s, snd (?t ! i)) \<in> set ?t" by (metis nth_mem prod.collapse)
    then have "map_of ?t s = Some (snd (?t ! i))" using d by simp
    then show ?thesis using Some \<open>fst (?t ! i) = s\<close> by (auto simp: table_lookup_def)
  qed
  ultimately show ?thesis by simp
qed

end
