(* ===== verification/Frr_Templates.thy ===== *)
theory Frr_Templates
  imports Frr_Types Sorted_Table
begin

text \<open>
  Writing the FRR configuration (\<open>proxmox-frr/src/ser/serializer.rs\<close>): the table of templates, the
  loader that finds a template by its name, and the text that is rendered. The texts of the templates
  are read from the paths where \<open>proxmox-frr-templates\<close> installs them when the program is compiled
  (\<open>include\<close>); the template engine is another crate (\<open>engine\<close>).
\<close>

section \<open>The templates\<close>

definition templates :: "(string \<Rightarrow> string) \<Rightarrow> (string \<times> string) list" where
  "templates include = [
     (''fabricd.jinja'', include ''/usr/share/proxmox-frr/templates/fabricd.jinja''),
     (''bgpd.jinja'', include ''/usr/share/proxmox-frr/templates/bgpd.jinja''),
     (''isisd.jinja'', include ''/usr/share/proxmox-frr/templates/isisd.jinja''),
     (''ospfd.jinja'', include ''/usr/share/proxmox-frr/templates/ospfd.jinja''),
     (''bgp_router.jinja'', include ''/usr/share/proxmox-frr/templates/bgp_router.jinja''),
     (''interface.jinja'', include ''/usr/share/proxmox-frr/templates/interface.jinja''),
     (''access_lists.jinja'', include ''/usr/share/proxmox-frr/templates/access_lists.jinja''),
     (''prefix_lists.jinja'', include ''/usr/share/proxmox-frr/templates/prefix_lists.jinja''),
     (''route_maps.jinja'', include ''/usr/share/proxmox-frr/templates/route_maps.jinja''),
     (''ip_routes.jinja'', include ''/usr/share/proxmox-frr/templates/ip_routes.jinja''),
     (''protocol_routemaps.jinja'', include ''/usr/share/proxmox-frr/templates/protocol_routemaps.jinja''),
     (''frr.conf.jinja'', include ''/usr/share/proxmox-frr/templates/frr.conf.jinja'')]"

text \<open>The loader that \<open>create_env\<close> installs: the text of a template, if there is one of that name.\<close>

definition load_template :: "(string \<Rightarrow> string) \<Rightarrow> string \<Rightarrow> string option" where
  "load_template include name = map_option snd (table_lookup (templates include) name)"

section \<open>Rendering\<close>

text \<open>
  The engine with strict undefined values and trimmed blocks: \<open>engine_template\<close> is \<open>get_template\<close>,
  which loads and compiles a template, \<open>engine_render\<close> renders it. Both may load further templates.
\<close>

record ('t, 'x) template_engine =
  engine_template :: "(string \<Rightarrow> string option) \<Rightarrow> string \<Rightarrow> 't option"
  engine_render :: "(string \<Rightarrow> string option) \<Rightarrow> 't \<Rightarrow> 'x frr_config \<Rightarrow> string option"

datatype dump_error = TemplateNotObtained | TemplateNotRendered

definition dump ::
  "(string \<Rightarrow> string) \<Rightarrow> ('t, 'x) template_engine \<Rightarrow> 'x frr_config \<Rightarrow> (dump_error, string) result" where
  "dump include engine config =
     (let loader = load_template include in
      and_then (ok_or TemplateNotObtained (engine_template engine loader ''frr.conf.jinja'')) (\<lambda>t.
      ok_or TemplateNotRendered (engine_render engine loader t config)))"

text \<open>\<open>str::lines\<close>: a line ends at a line feed, with the carriage return before it if there is one.\<close>

definition strip_cr :: "string \<Rightarrow> string" where
  "strip_cr l = (if l \<noteq> [] \<and> last l = char_of (13 :: nat) then butlast l else l)"

definition str_lines :: "string \<Rightarrow> string list" where
  "str_lines s = (let parts = split_on (char_of (10 :: nat)) s in
     map strip_cr (butlast parts) @ (if last parts = [] then [] else [last parts]))"

definition to_raw_config ::
  "(string \<Rightarrow> string) \<Rightarrow> ('t, 'x) template_engine \<Rightarrow> 'x frr_config
    \<Rightarrow> (dump_error, string list) result" where
  "to_raw_config include engine config =
     and_then (dump include engine config) (\<lambda>s. Ok (str_lines s))"

section \<open>What is written\<close>

definition template_names :: "string list" where
  "template_names =
     [''fabricd.jinja'', ''bgpd.jinja'', ''isisd.jinja'', ''ospfd.jinja'', ''bgp_router.jinja'',
      ''interface.jinja'', ''access_lists.jinja'', ''prefix_lists.jinja'', ''route_maps.jinja'',
      ''ip_routes.jinja'', ''protocol_routemaps.jinja'', ''frr.conf.jinja'']"

definition template_path :: "string \<Rightarrow> string" where
  "template_path name = ''/usr/share/proxmox-frr/templates/'' @ name"

lemma templates_map: "templates include = map (\<lambda>n. (n, include (template_path n))) template_names"
  by (simp add: templates_def template_names_def template_path_def)

lemma template_names_distinct: "distinct template_names"
  by code_simp

lemma map_of_names: "map_of (map (\<lambda>n. (n, g n)) ns) n = (if n \<in> set ns then Some (g n) else None)"
  by (induction ns) auto

lemma load_template_exact:
  "load_template include name =
     (if name \<in> set template_names then Some (include (template_path name)) else None)"
  by (simp add: load_template_def templates_map table_lookup_map_of comp_def template_names_distinct
      map_of_names)

lemma strip_cr_id [simp]: "char_of (13 :: nat) \<notin> set l \<Longrightarrow> strip_cr l = l"
  by (auto simp: strip_cr_def dest: last_in_set)

lemma strip_cr_subset: "set (strip_cr l) \<subseteq> set l"
  by (auto simp: strip_cr_def dest: in_set_butlastD)

lemma split_on_chars: "p \<in> set (split_on c s) \<Longrightarrow> set p \<subseteq> set s"
proof (induction s arbitrary: p)
  case (Cons x s)
  then show ?case by (fastforce split: if_splits list.splits)
qed simp

lemma str_lines_no_feed:
  assumes "l \<in> set (str_lines s)"
  shows "char_of (10 :: nat) \<notin> set l"
proof -
  let ?parts = "split_on (char_of (10 :: nat)) s"
  have "\<exists>p\<in>set ?parts. l = strip_cr p \<or> l = p"
    using assms by (auto simp: str_lines_def Let_def split: if_splits dest: in_set_butlastD)
  then show ?thesis using strip_cr_subset split_on_parts by (metis subsetD)
qed

lemma ended_parts:
  "ps \<noteq> [] \<Longrightarrow>
     concat (map (\<lambda>p. p @ [c]) (butlast ps)) @ last ps = join_with [c] ps"
  by (induction "[c]" ps rule: join_with.induct) auto

lemma str_lines_text:
  assumes "char_of (13 :: nat) \<notin> set s"
  shows "concat (map (\<lambda>l. l @ [char_of (10 :: nat)]) (str_lines s))
    = (if s = [] \<or> last s = char_of (10 :: nat) then s else s @ [char_of (10 :: nat)])"
proof -
  define lf where "lf = (char_of (10 :: nat) :: char)"
  define parts where "parts = split_on lf s"
  define ended where "ended = concat (map (\<lambda>p. p @ [lf]) (butlast parts))"
  have ne: "parts \<noteq> []" by (simp add: parts_def)
  have "strip_cr p = p" if "p \<in> set (butlast parts)" for p
  proof -
    have "set p \<subseteq> set s" using that by (auto simp: parts_def dest!: in_set_butlastD split_on_chars)
    with assms show ?thesis by (intro strip_cr_id) auto
  qed
  then have lines: "str_lines s = butlast parts @ (if last parts = [] then [] else [last parts])"
    by (simp add: str_lines_def parts_def lf_def Let_def map_idI)
  have whole: "s = ended @ last parts"
    using ended_parts [OF ne, of lf] by (simp add: parts_def ended_def)
  have "lf \<notin> set (last parts)" using ne by (intro split_on_parts [where s = s]) (simp add: parts_def)
  then have l: "last parts \<noteq> [] \<Longrightarrow> last s \<noteq> lf"
    by (metis last_appendR last_in_set whole)
  have e: "last parts = [] \<Longrightarrow> s = [] \<or> last s = lf"
    unfolding whole ended_def by (cases "butlast parts" rule: rev_cases) auto
  have "concat (map (\<lambda>l. l @ [lf]) (str_lines s)) = (if last parts = [] then s else s @ [lf])"
    unfolding lines using whole by (simp add: ended_def)
  then show ?thesis using l e whole unfolding lf_def [symmetric] by auto
qed


text \<open>
  An engine whose templates are texts: the main template, the template it includes last, and the
  description of the configuration.
\<close>

definition sample_include :: "string \<Rightarrow> string" where
  "sample_include path = path @ [char_of (10 :: nat)]"

definition sample_engine :: "(string, 'x) template_engine" where
  "sample_engine = \<lparr>engine_template = (\<lambda>loader name. loader name),
     engine_render = (\<lambda>loader t config.
       map_option (\<lambda>u. t @ u @ ''end'') (loader ''interface.jinja''))\<rparr>"


end
