(* ===== verification/Fw_Values.thy ===== *)
theory Fw_Values
  imports Fw_Ipset "HOL-Library.AList"
begin

text \<open>
  The values in firewall rules and options: ports with the names of \<open>/etc/services\<close>
  (\<open>firewall/ports.rs\<close>, \<open>types/port.rs\<close>), log levels and rate limits (\<open>types/log.rs\<close>), lists of
  addresses (\<open>types/address.rs\<close>). \<open>fw_env\<close> adds to \<open>env\<close> what the firewall uses of other crates,
  and the lines of \<open>/etc/services\<close>, if the file can be opened.
\<close>

datatype family = FamilyV4 | FamilyV6

record 'x fw_env =
  net_env :: "'x env"
  range_parse :: "string \<Rightarrow> 'x ip_range option"
  range_family :: "'x ip_range \<Rightarrow> family"
  perl_bool :: "string \<Rightarrow> bool option"
  perl_i64 :: "string \<Rightarrow> int option"
  services :: "string list option"

section \<open>Named ports\<close>

fun split_whitespace :: "string \<Rightarrow> string list" where
  "split_whitespace [] = [[]]"
| "split_whitespace (c # cs) =
     (if is_ascii_whitespace c then [] # split_whitespace cs
      else case split_whitespace cs of [] \<Rightarrow> [[c]] | p # ps \<Rightarrow> (c # p) # ps)"

definition split_ascii_whitespace :: "string \<Rightarrow> string list" where
  "split_ascii_whitespace s = filter (\<lambda>p. p \<noteq> []) (split_whitespace s)"

text \<open>What one line of the file adds: the port under its name and its other names.\<close>

definition services_line :: "string \<Rightarrow> (string \<times> 16 word) list" where
  "services_line line =
     (let line = trim_start line in
      if line = [] \<or> starts_with ''#'' line then []
      else case split_ascii_whitespace line of
          name # proto # parts \<Rightarrow>
            (case parse_u16 (hd (split_on (CHR ''/'') proto)) of
               None \<Rightarrow> []
             | Some num \<Rightarrow> (name, num)
                 # map (\<lambda>a. (a, num)) (takeWhile (\<lambda>a. \<not> starts_with ''#'' a) parts))
        | _ \<Rightarrow> [])"

definition named_ports_new :: "string list option \<Rightarrow> (string \<times> 16 word) list" where
  "named_ports_new file = (case file of
     None \<Rightarrow> []
   | Some lines \<Rightarrow> foldl (\<lambda>m line. foldl (\<lambda>m (k, v). AList.update k v m) m (services_line line)) [] lines)"

definition parse_named_port :: "'x fw_env \<Rightarrow> string \<Rightarrow> (parse_error, 16 word) result" where
  "parse_named_port env name = ok_or (InvalidPort name) (map_of (named_ports_new (services env)) name)"

section \<open>Ports\<close>

datatype port_entry = Port "16 word" | PortRange "16 word" "16 word"

definition port_entry_display :: "port_entry \<Rightarrow> string" where
  "port_entry_display e = (case e of
     Port p \<Rightarrow> dec (unat p)
   | PortRange a b \<Rightarrow> dec (unat a) @ ''-'' @ dec (unat b))"

definition parse_port :: "'x fw_env \<Rightarrow> string \<Rightarrow> (parse_error, 16 word) result" where
  "parse_port env port = (case parse_u16 port of
     Some p \<Rightarrow> Ok p
   | None \<Rightarrow> (case parse_named_port env port of
        Ok p \<Rightarrow> Ok p
      | Err _ \<Rightarrow> Err (InvalidPort port)))"

definition port_entry_try_from :: "16 word \<times> 16 word \<Rightarrow> (parse_error, port_entry) result" where
  "port_entry_try_from ports =
     (if fst ports > snd ports then Err StartPortGreater else Ok (PortRange (fst ports) (snd ports)))"

definition port_entry_from_str :: "'x fw_env \<Rightarrow> string \<Rightarrow> (parse_error, port_entry) result" where
  "port_entry_from_str env s = (case split_once (CHR '':'') (trim s) of
     None \<Rightarrow> and_then (parse_port env (trim s)) (\<lambda>p. Ok (Port p))
   | Some (first, second) \<Rightarrow>
       and_then (parse_port env first) (\<lambda>a.
       and_then (parse_port env second) (\<lambda>b. port_entry_try_from (a, b))))"

type_synonym port_list = "port_entry list"

definition port_list_from_str :: "'x fw_env \<Rightarrow> string \<Rightarrow> (parse_error, port_list) result" where
  "port_list_from_str env s =
     (if s = [] then Err EmptyPorts
      else and_then (try_map (port_entry_from_str env) (split_on (CHR '','') (trim s))) (\<lambda>entries.
        if entries = [] then Err EmptyPorts else Ok entries))"

definition port_list_display :: "port_list \<Rightarrow> string" where
  "port_list_display l =
     (if length l > 1 then ''{'' else '''') @ join_with '','' (map port_entry_display l)
     @ (if length l > 1 then ''}'' else '''')"

text \<open>A range runs upwards, and a list has an entry.\<close>

definition port_entry_wf :: "port_entry \<Rightarrow> bool" where
  "port_entry_wf e = (case e of Port _ \<Rightarrow> True | PortRange a b \<Rightarrow> a \<le> b)"

definition port_list_wf :: "port_list \<Rightarrow> bool" where
  "port_list_wf l \<longleftrightarrow> l \<noteq> [] \<and> list_all port_entry_wf l"

lemma port_entry_from_str_wf: "port_entry_from_str env s = Ok e \<Longrightarrow> port_entry_wf e"
  by (auto simp: port_entry_from_str_def port_entry_try_from_def port_entry_wf_def result_simps
      split: option.splits if_splits)

lemma try_map_all: "try_map f xs = Ok ys \<Longrightarrow> (\<And>x y. f x = Ok y \<Longrightarrow> P y) \<Longrightarrow> list_all P ys"
  by (induction xs arbitrary: ys) (auto simp: result_simps)

lemma port_list_from_str_wf: "port_list_from_str env s = Ok l \<Longrightarrow> port_list_wf l"
  unfolding port_list_from_str_def port_list_wf_def
  by (auto simp: result_simps split: if_splits intro: try_map_all [OF _ port_entry_from_str_wf])

section \<open>Logging\<close>

datatype log_timescale = Second | Minute | Hour | Day

definition log_timescale_from_str :: "string \<Rightarrow> (parse_error, log_timescale) result" where
  "log_timescale_from_str s =
     (if s = ''second'' then Ok Second
      else if s = ''minute'' then Ok Minute
      else if s = ''hour'' then Ok Hour
      else if s = ''day'' then Ok Day
      else Err InvalidTimescale)"

record log_rate_limit =
  lrl_enabled :: bool
  lrl_rate :: int
  lrl_per :: log_timescale
  lrl_burst :: int

definition log_rate_limit_default :: log_rate_limit where
  "log_rate_limit_default = \<lparr>lrl_enabled = True, lrl_rate = 1, lrl_per = Second, lrl_burst = 5\<rparr>"

definition log_i64 :: "string \<Rightarrow> (parse_error, int) result" where
  "log_i64 s = ok_or (InvalidNumber s) (parse_i64 s)"

definition log_rate_limit_element ::
  "log_rate_limit \<Rightarrow> string \<Rightarrow> (parse_error, log_rate_limit) result" where
  "log_rate_limit_element limit element = (case split_once (CHR ''='') element of
     None \<Rightarrow> and_then (parse_bool element) (\<lambda>b. Ok (limit\<lparr>lrl_enabled := b\<rparr>))
   | Some (key, value) \<Rightarrow>
       if key \<noteq> [] \<and> value \<noteq> [] then
         (if key = ''enable'' then and_then (parse_bool value) (\<lambda>b. Ok (limit\<lparr>lrl_enabled := b\<rparr>))
          else if key = ''burst'' then and_then (log_i64 value) (\<lambda>n. Ok (limit\<lparr>lrl_burst := n\<rparr>))
          else if key = ''rate'' then
            (case split_once (CHR ''/'') value of
               None \<Rightarrow> and_then (log_i64 value) (\<lambda>n. Ok (limit\<lparr>lrl_rate := n\<rparr>))
             | Some (rate, unit) \<Rightarrow>
                 if unit = [] then Err EmptyUnit
                 else and_then (log_i64 rate) (\<lambda>n.
                      and_then (log_timescale_from_str unit) (\<lambda>t.
                      Ok (limit\<lparr>lrl_rate := n, lrl_per := t\<rparr>))))
          else Err InvalidRateLimitKey)
       else Err InvalidRateLimit)"

definition log_rate_limit_from_str :: "string \<Rightarrow> (parse_error, log_rate_limit) result" where
  "log_rate_limit_from_str s =
     try_fold log_rate_limit_element log_rate_limit_default (split_on (CHR '','') s)"

datatype log_level =
  Nolog | Emergency | Alert | Critical | LogError | Warning | Notice | Info | Debug

definition log_level_from_str :: "string \<Rightarrow> (parse_error, log_level) result" where
  "log_level_from_str s =
     (if s = ''nolog'' then Ok Nolog
      else if s = ''emerg'' then Ok Emergency
      else if s = ''alert'' then Ok Alert
      else if s = ''crit'' then Ok Critical
      else if s = ''err'' then Ok LogError
      else if s = ''warn'' then Ok Warning
      else if s = ''warning'' then Ok Warning
      else if s = ''notice'' then Ok Notice
      else if s = ''info'' then Ok Info
      else if s = ''debug'' then Ok Debug
      else Err (InvalidLogLevel s))"

definition log_level_display :: "log_level \<Rightarrow> string" where
  "log_level_display l = (case l of
     Nolog \<Rightarrow> ''nolog'' | Emergency \<Rightarrow> ''emerg'' | Alert \<Rightarrow> ''alert'' | Critical \<Rightarrow> ''crit''
   | LogError \<Rightarrow> ''err'' | Warning \<Rightarrow> ''warn'' | Notice \<Rightarrow> ''notice'' | Info \<Rightarrow> ''info''
   | Debug \<Rightarrow> ''debug'')"

section \<open>Addresses\<close>

datatype 'x ip_entry = IpCidr "'x cidr" | IpRangeEntry "'x ip_range"

definition ip_entry_from_str :: "'x fw_env \<Rightarrow> string \<Rightarrow> (parse_error, 'x ip_entry) result" where
  "ip_entry_from_str env s = (case cidr_parse (net_env env) s of
     Some c \<Rightarrow> Ok (IpCidr c)
   | None \<Rightarrow> (case range_parse env s of
        Some r \<Rightarrow> Ok (IpRangeEntry r)
      | None \<Rightarrow> Err (InvalidAddress s)))"

definition ip_entry_family :: "'x fw_env \<Rightarrow> 'x ip_entry \<Rightarrow> family" where
  "ip_entry_family env e = (case e of
     IpCidr c \<Rightarrow> (case c of CidrIpv4 _ \<Rightarrow> FamilyV4 | CidrIpv6 _ \<Rightarrow> FamilyV6)
   | IpRangeEntry r \<Rightarrow> range_family env r)"

record 'x ip_list =
  il_entries :: "'x ip_entry list"
  il_family :: family

definition ip_list_from :: "'x fw_env \<Rightarrow> 'x ip_entry \<Rightarrow> 'x ip_list" where
  "ip_list_from env e = \<lparr>il_entries = [e], il_family = ip_entry_family env e\<rparr>"

definition ip_list_add ::
  "'x fw_env \<Rightarrow> 'x ip_entry list \<times> family option \<Rightarrow> string
     \<Rightarrow> (parse_error, 'x ip_entry list \<times> family option) result" where
  "ip_list_add env st element =
     and_then (ip_entry_from_str env element) (\<lambda>entry.
     case snd st of
       Some family \<Rightarrow>
         if family \<noteq> ip_entry_family env entry then Err MixedFamilies
         else Ok (fst st @ [entry], Some family)
     | None \<Rightarrow> Ok (fst st @ [entry], Some (ip_entry_family env entry)))"

definition ip_list_from_str :: "'x fw_env \<Rightarrow> string \<Rightarrow> (parse_error, 'x ip_list) result" where
  "ip_list_from_str env s =
     (if s = [] then Err EmptyAddress
      else and_then (try_fold (ip_list_add env) ([], None) (split_on (CHR '','') s))
        (\<lambda>(entries, family).
        if entries = [] then Err EmptyAddress
        else case family of
            Some family \<Rightarrow> Ok \<lparr>il_entries = entries, il_family = family\<rparr>
          | None \<Rightarrow> Err UnwrapNone))"

definition ip_list_new :: "'x fw_env \<Rightarrow> 'x ip_entry list \<Rightarrow> (parse_error, 'x ip_list) result" where
  "ip_list_new env entries =
     and_then (try_fold (\<lambda>result entry. case result of
           Some family \<Rightarrow>
             if ip_entry_family env entry \<noteq> family then Err MixedFamilies else Ok (Some family)
         | None \<Rightarrow> Ok (Some (ip_entry_family env entry))) None entries) (\<lambda>family.
     case family of
       Some family \<Rightarrow> Ok \<lparr>il_entries = entries, il_family = family\<rparr>
     | None \<Rightarrow> Err EmptyAddress)"

text \<open>The invariant the struct documents: all entries have the family of the list.\<close>

definition ip_list_wf :: "'x fw_env \<Rightarrow> 'x ip_list \<Rightarrow> bool" where
  "ip_list_wf env l \<longleftrightarrow> il_entries l \<noteq> [] \<and> (\<forall>e\<in>set (il_entries l). ip_entry_family env e = il_family l)"

abbreviation family_state_ok :: "'x fw_env \<Rightarrow> 'x ip_entry list \<times> family option \<Rightarrow> bool" where
  "family_state_ok env st \<equiv> (case snd st of
     None \<Rightarrow> fst st = [] | Some f \<Rightarrow> (\<forall>e\<in>set (fst st). ip_entry_family env e = f))"

lemma ip_list_add_inv:
  assumes "try_fold (ip_list_add env) st ss = Ok st'" and "family_state_ok env st"
  shows "family_state_ok env st'"
  by (rule try_fold_inv [where P = "family_state_ok env", OF _ assms(2) assms(1)])
    (auto simp: ip_list_add_def result_simps split: option.splits if_splits)

lemma ip_list_from_str_wf: "ip_list_from_str env s = Ok l \<Longrightarrow> ip_list_wf env l"
  by (auto simp: ip_list_from_str_def ip_list_wf_def result_simps split: if_splits option.splits
      dest!: ip_list_add_inv)

lemma ip_list_from_wf: "ip_list_wf env (ip_list_from env e)"
  by (simp add: ip_list_wf_def ip_list_from_def)

lemma ip_list_family_inv:
  "try_fold (\<lambda>result entry. case result of
        Some family \<Rightarrow> if fam entry \<noteq> family then Err MixedFamilies else Ok (Some family)
      | None \<Rightarrow> Ok (Some (fam entry))) r es = Ok (Some f)
    \<Longrightarrow> (\<forall>e\<in>set es. fam e = f) \<and> (r = None \<longrightarrow> es \<noteq> []) \<and> (r = None \<or> r = Some f)"
proof (induction es arbitrary: r)
  case (Cons e es)
  from Cons.prems show ?case
    by (cases r) (auto simp: result_simps split: if_splits dest!: Cons.IH)
qed simp

lemma ip_list_new_wf: "ip_list_new env es = Ok l \<Longrightarrow> ip_list_wf env l \<and> il_entries l = es"
  by (auto simp: ip_list_new_def ip_list_wf_def result_simps split: option.splits
      dest!: ip_list_family_inv)

section \<open>A concrete environment\<close>

text \<open>
  For the witnesses: two networks and one range can be read, and the file of services has
  three lines.
\<close>

definition sample_fw_env :: "sample fw_env" where
  "sample_fw_env = \<lparr>net_env = sample_env,
     range_parse = (\<lambda>s. if s = ''10.0.0.1-10.0.0.9'' then Some (IpRange (0x0A000001, 0x0A000009))
       else None),
     range_family = (\<lambda>_. FamilyV4),
     perl_bool = (\<lambda>s. if s = ''1'' then Some True else if s = ''0'' then Some False else None),
     perl_i64 = parse_i64,
     services = Some [''# services'', ''ssh 22/tcp'', ''http 80/tcp www # web'']\<rparr>"

section \<open>Reading port lists\<close>

definition port_entry_text :: "port_entry \<Rightarrow> string" where
  "port_entry_text e = (case e of
     Port p \<Rightarrow> dec (unat p)
   | PortRange a b \<Rightarrow> dec (unat a) @ '':'' @ dec (unat b))"

lemma dec_no_space: "\<forall>c\<in>set (dec n). \<not> is_whitespace c"
  using dec_digits [of n] by (fastforce simp: char_class_defs)

lemma port_entry_text_chars: "c \<in> set (port_entry_text e) \<Longrightarrow> is_ascii_digit c \<or> c = CHR '':''"
  using dec_digits by (cases e) (auto simp: port_entry_text_def)

lemma port_entry_text_plain:
  "c \<in> set (port_entry_text e) \<Longrightarrow> \<not> is_whitespace c" "CHR '','' \<notin> set (port_entry_text e)"
  "port_entry_text e \<noteq> []"
  using port_entry_text_chars [of c e] port_entry_text_chars [of "CHR '',''" e]
  by (auto simp: char_class_defs) (cases e; simp add: port_entry_text_def)

lemma port_entry_reads: "port_entry_wf e \<Longrightarrow> port_entry_from_str env (port_entry_text e) = Ok e"
proof -
  assume wf: "port_entry_wf e"
  have colon: "CHR '':'' \<notin> set (dec n)" for n using dec_not_in [of "CHR '':''" n] by simp
  have "trim (port_entry_text e) = port_entry_text e"
    by (rule trim_no_whitespace) (use port_entry_text_plain(1) in blast)
  with wf colon show ?thesis
    by (cases e) (simp_all add: port_entry_from_str_def port_entry_text_def port_entry_wf_def
        port_entry_try_from_def split_once_None [THEN iffD2] parse_port_def parse_u16_dec linorder_not_less)
qed

text \<open>
  The list of ports of a rule is read as it is written, single ports and ranges in their order,
  whatever names \<open>/etc/services\<close> defines: a name cannot shadow a number.
\<close>

theorem port_list_reads:
  assumes "port_list_wf l"
  shows "port_list_from_str env (join_with '','' (map port_entry_text l)) = Ok l"
proof -
  let ?t = "join_with '','' (map port_entry_text l)"
  have l: "l \<noteq> []" "\<forall>e\<in>set l. port_entry_wf e" using assms by (auto simp: port_list_wf_def list_all_iff)
  have parts: "split_on (CHR '','') ?t = map port_entry_text l"
    using l(1) port_entry_text_plain(2) by (intro split_on_join) auto
  have "c \<in> set ?t \<Longrightarrow> \<not> is_whitespace c" for c
  proof -
    have "c \<in> set (join_with '','' ps) \<Longrightarrow> c = CHR '','' \<or> (\<exists>p\<in>set ps. c \<in> set p)" for ps
      by (induction "'',''" ps rule: join_with.induct) auto
    then show "c \<in> set ?t \<Longrightarrow> \<not> is_whitespace c"
      using port_entry_text_plain(1) by (fastforce simp: char_class_defs)
  qed
  then have "trim ?t = ?t" by (intro trim_no_whitespace) blast
  moreover have "?t \<noteq> []"
    using parts l(1) port_entry_text_plain(3) by (cases l; cases "tl l") auto
  moreover have "try_map (port_entry_from_str env) (map port_entry_text l) = Ok l"
    using l(2) by (auto simp: try_map_Ok list_all2_map1 port_entry_reads intro: list.rel_refl_strong)
  ultimately show ?thesis using l(1) parts by (simp add: port_list_from_str_def)
qed

theorem port_list_reads_witness:
  "port_list_from_str sample_fw_env ''22,80:443'' = Ok [Port 22, PortRange 80 443]"
proof -
  have "dec 22 = ''22''" "dec 80 = ''80''" "dec 443 = ''443''"
    by code_simp+
  then show ?thesis
    using port_list_reads [of "[Port 22, PortRange 80 443]" sample_fw_env]
    by (simp add: port_list_wf_def port_entry_wf_def port_entry_text_def)
qed

end
