(* ===== verification/Fw_Icmp.thy ===== *)
theory Fw_Icmp
  imports Fw_Values Sorted_Table
begin

text \<open>
  ICMP types and codes of rules (\<open>firewall/types/rule_match.rs\<close>): the tables of names and the
  reading of types and codes.
\<close>

section \<open>Types and codes\<close>

text \<open>\<open>IcmpTypeMap\<close>: \<open>NftType\<close> is the variant \<open>Map\<close>.\<close>

datatype icmp_type_map = NftType string | Custom "8 word" "8 word"

datatype icmp_type = IcmpTypeNumeric "8 word" | IcmpTypeNamed string | IcmpTypeAny
datatype icmp_code = IcmpCodeNumeric "8 word" | IcmpCodeNamed string

record icmp =
  icmp_ty :: "icmp_type option"
  icmp_code :: "icmp_code option"

definition iptables_icmp_types_mapping :: "(string \<times> icmp_type_map) list" where
  "iptables_icmp_types_mapping = [
     (''network-unreachable'', Custom 3 0),
     (''host-unreachable'', Custom 3 1),
     (''protocol-unreachable'', Custom 3 2),
     (''port-unreachable'', Custom 3 3),
     (''fragmentation-needed'', Custom 3 4),
     (''source-route-failed'', Custom 3 5),
     (''network-unknown'', Custom 3 6),
     (''host-unknown'', Custom 3 7),
     (''network-prohibited'', Custom 3 9),
     (''host-prohibited'', Custom 3 10),
     (''TOS-network-unreachable'', Custom 3 11),
     (''TOS-host-unreachable'', Custom 3 12),
     (''communication-prohibited'', Custom 3 13),
     (''host-precedence-violation'', Custom 3 14),
     (''precedence-cutoff'', Custom 3 15),
     (''network-redirect'', Custom 5 0),
     (''host-redirect'', Custom 5 1),
     (''TOS-network-redirect'', Custom 5 2),
     (''TOS-host-redirect'', Custom 5 3),
     (''ttl-zero-during-transit'', Custom 11 0),
     (''ttl-zero-during-reassembly'', Custom 11 1),
     (''ip-header-bad'', Custom 12 0),
     (''required-option-missing'', Custom 12 1)]"

definition icmp_types :: "(string \<times> 8 word) list" where
  "icmp_types = [
     (''address-mask-reply'', 18),
     (''address-mask-request'', 17),
     (''destination-unreachable'', 3),
     (''echo-reply'', 0),
     (''echo-request'', 8),
     (''info-reply'', 16),
     (''info-request'', 15),
     (''parameter-problem'', 12),
     (''redirect'', 5),
     (''router-advertisement'', 9),
     (''router-solicitation'', 10),
     (''source-quench'', 4),
     (''time-exceeded'', 11),
     (''timestamp-reply'', 14),
     (''timestamp-request'', 13)]"

definition icmp_codes :: "(string \<times> 8 word) list" where
  "icmp_codes = [
     (''admin-prohibited'', 13),
     (''host-prohibited'', 10),
     (''host-unreachable'', 1),
     (''net-prohibited'', 9),
     (''net-unreachable'', 0),
     (''port-unreachable'', 3),
     (''prot-unreachable'', 2)]"

definition icmp_type_from_str :: "string \<Rightarrow> (parse_error, icmp_type) result" where
  "icmp_type_from_str s =
     (if eq_ignore_ascii_case s ''any'' then Ok IcmpTypeAny
      else case parse_u8 (trim s) of
          Some ty \<Rightarrow> Ok (IcmpTypeNumeric ty)
        | None \<Rightarrow> (case table_lookup icmp_types s of
            Some (name, _) \<Rightarrow> Ok (IcmpTypeNamed name)
          | None \<Rightarrow> Err (InvalidIcmpType s)))"

definition icmp_type_display :: "icmp_type \<Rightarrow> string" where
  "icmp_type_display t = (case t of
     IcmpTypeNumeric n \<Rightarrow> dec (unat n) | IcmpTypeNamed n \<Rightarrow> n | IcmpTypeAny \<Rightarrow> ''any'')"

definition icmp_code_from_str :: "string \<Rightarrow> (parse_error, icmp_code) result" where
  "icmp_code_from_str s = (case parse_u8 (trim s) of
     Some c \<Rightarrow> Ok (IcmpCodeNumeric c)
   | None \<Rightarrow> (case table_lookup icmp_codes s of
       Some (name, _) \<Rightarrow> Ok (IcmpCodeNamed name)
     | None \<Rightarrow> Err (InvalidIcmpCode s)))"

definition icmp_code_display :: "icmp_code \<Rightarrow> string" where
  "icmp_code_display c = (case c of IcmpCodeNumeric n \<Rightarrow> dec (unat n) | IcmpCodeNamed n \<Rightarrow> n)"

definition icmp_default :: icmp where
  "icmp_default = \<lparr>icmp_ty = None, icmp_code = None\<rparr>"

definition icmp_from_str :: "string \<Rightarrow> (parse_error, icmp) result" where
  "icmp_from_str s = (case table_lookup iptables_icmp_types_mapping s of
     Some (_, NftType name) \<Rightarrow> Ok (icmp_default\<lparr>icmp_ty := Some (IcmpTypeNamed name)\<rparr>)
   | Some (_, Custom ty c) \<Rightarrow>
       Ok \<lparr>icmp_ty = Some (IcmpTypeNumeric ty), icmp_code = Some (IcmpCodeNumeric c)\<rparr>
   | None \<Rightarrow> (case icmp_type_from_str s of
       Ok ty \<Rightarrow> Ok (icmp_default\<lparr>icmp_ty := Some ty\<rparr>)
     | Err _ \<Rightarrow> Err (InvalidIcmpType s)))"

section \<open>ICMPv6\<close>

datatype icmpv6_type = Icmpv6TypeNumeric "8 word" | Icmpv6TypeNamed string | Icmpv6TypeAny
datatype icmpv6_code = Icmpv6CodeNumeric "8 word" | Icmpv6CodeNamed string

record icmpv6 =
  icmpv6_ty :: "icmpv6_type option"
  icmpv6_code :: "icmpv6_code option"

text \<open>The quote at the end of one name is in the source.\<close>

definition iptables_icmpv6_types_mapping :: "(string \<times> icmp_type_map) list" where
  "iptables_icmpv6_types_mapping = [
     (''no-route'', Custom 1 0),
     (''communication-prohibited'', Custom 1 1),
     (''beyond-scope'', Custom 1 2),
     (''address-unreachable'', Custom 1 3),
     (''port-unreachable'', Custom 1 4),
     (''failed-policy'', Custom 1 5),
     (''reject-route'' @ [CHR 0x27], Custom 1 6),
     (''ttl-zero-during-transit'', Custom 3 0),
     (''ttl-zero-during-reassembly'', Custom 3 1),
     (''bad-header'', Custom 4 0),
     (''unknown-header-type'', Custom 4 1),
     (''unknown-option'', Custom 4 2),
     (''router-solicitation'', NftType ''nd-router-solicit''),
     (''router-advertisement'', NftType ''nd-router-advert''),
     (''neighbor-solicitation'', NftType ''nd-neighbor-solicit''),
     (''neighbour-solicitation'', NftType ''nd-neighbor-solicit''),
     (''neighbor-advertisement'', NftType ''nd-neighbor-advert''),
     (''neighbour-advertisement'', NftType ''nd-neighbor-advert''),
     (''redirect'', NftType ''nd-redirect'')]"

definition icmpv6_types :: "(string \<times> 8 word) list" where
  "icmpv6_types = [
     (''destination-unreachable'', 1),
     (''echo-reply'', 129),
     (''echo-request'', 128),
     (''ind-neighbor-advert'', 142),
     (''ind-neighbor-solicit'', 141),
     (''mld-listener-done'', 132),
     (''mld-listener-query'', 130),
     (''mld-listener-reduction'', 132),
     (''mld-listener-report'', 131),
     (''mld2-listener-report'', 143),
     (''nd-neighbor-advert'', 136),
     (''nd-neighbor-solicit'', 135),
     (''nd-redirect'', 137),
     (''nd-router-advert'', 134),
     (''nd-router-solicit'', 133),
     (''packet-too-big'', 2),
     (''parameter-problem'', 4),
     (''router-renumbering'', 138),
     (''time-exceeded'', 3)]"

definition icmpv6_codes :: "(string \<times> 8 word) list" where
  "icmpv6_codes = [
     (''addr-unreachable'', 3),
     (''admin-prohibited'', 1),
     (''no-route'', 0),
     (''policy-fail'', 5),
     (''port-unreachable'', 4),
     (''reject-route'', 6)]"

definition icmpv6_type_from_str :: "string \<Rightarrow> (parse_error, icmpv6_type) result" where
  "icmpv6_type_from_str s =
     (if eq_ignore_ascii_case s ''any'' then Ok Icmpv6TypeAny
      else case parse_u8 (trim s) of
          Some ty \<Rightarrow> Ok (Icmpv6TypeNumeric ty)
        | None \<Rightarrow> (case table_lookup icmpv6_types s of
            Some (name, _) \<Rightarrow> Ok (Icmpv6TypeNamed name)
          | None \<Rightarrow> Err (InvalidIcmpType s)))"

definition icmpv6_type_display :: "icmpv6_type \<Rightarrow> string" where
  "icmpv6_type_display t = (case t of
     Icmpv6TypeNumeric n \<Rightarrow> dec (unat n) | Icmpv6TypeNamed n \<Rightarrow> n | Icmpv6TypeAny \<Rightarrow> ''any'')"

definition icmpv6_code_from_str :: "string \<Rightarrow> (parse_error, icmpv6_code) result" where
  "icmpv6_code_from_str s = (case parse_u8 (trim s) of
     Some c \<Rightarrow> Ok (Icmpv6CodeNumeric c)
   | None \<Rightarrow> (case table_lookup icmpv6_codes s of
       Some (name, _) \<Rightarrow> Ok (Icmpv6CodeNamed name)
     | None \<Rightarrow> Err (InvalidIcmpCode s)))"

definition icmpv6_code_display :: "icmpv6_code \<Rightarrow> string" where
  "icmpv6_code_display c = (case c of Icmpv6CodeNumeric n \<Rightarrow> dec (unat n) | Icmpv6CodeNamed n \<Rightarrow> n)"

definition icmpv6_default :: icmpv6 where
  "icmpv6_default = \<lparr>icmpv6_ty = None, icmpv6_code = None\<rparr>"

definition icmpv6_from_str :: "string \<Rightarrow> (parse_error, icmpv6) result" where
  "icmpv6_from_str s = (case table_lookup iptables_icmpv6_types_mapping s of
     Some (_, NftType name) \<Rightarrow> Ok (icmpv6_default\<lparr>icmpv6_ty := Some (Icmpv6TypeNamed name)\<rparr>)
   | Some (_, Custom ty c) \<Rightarrow>
       Ok \<lparr>icmpv6_ty = Some (Icmpv6TypeNumeric ty), icmpv6_code = Some (Icmpv6CodeNumeric c)\<rparr>
   | None \<Rightarrow> (case icmpv6_type_from_str s of
       Ok ty \<Rightarrow> Ok (icmpv6_default\<lparr>icmpv6_ty := Some ty\<rparr>)
     | Err _ \<Rightarrow> Err (InvalidIcmpType s)))"


section \<open>What is read\<close>

text \<open>Every name of a table is its own, so the search in the sorted table is a lookup.\<close>

lemma icmp_tables_distinct [simp]:
  "distinct (map fst iptables_icmp_types_mapping)" "distinct (map fst icmp_types)"
  "distinct (map fst icmp_codes)" "distinct (map fst iptables_icmpv6_types_mapping)"
  "distinct (map fst icmpv6_types)" "distinct (map fst icmpv6_codes)"
  by (simp_all add: iptables_icmp_types_mapping_def icmp_types_def icmp_codes_def
      iptables_icmpv6_types_mapping_def icmpv6_types_def icmpv6_codes_def)

text \<open>A name that is not a number and not \<open>any\<close>, in any case, can only be read as a name.\<close>

definition plain_name :: "string \<Rightarrow> bool" where
  "plain_name s \<longleftrightarrow> s \<noteq> [] \<and> is_ascii_alphabetic (hd s) \<and> list_all (\<lambda>c. \<not> is_whitespace c) s
     \<and> \<not> eq_ignore_ascii_case s ''any''"

lemma parse_u8_plain: "plain_name s \<Longrightarrow> parse_u8 (trim s) = None"
proof -
  assume a: "plain_name s"
  then obtain c cs where c: "s = c # cs" "is_ascii_alphabetic c" by (cases s) (auto simp: plain_name_def)
  then have "\<not> is_ascii_digit c" "c \<noteq> CHR ''+''" by (auto simp: char_class_defs)
  moreover have "trim s = s" using a by (simp add: plain_name_def trim_no_whitespace list_all_iff)
  ultimately show ?thesis by (simp add: parse_u8_def parse_unsigned_def c(1))
qed

lemma icmp_name_chars:
  "list_all (\<lambda>c. \<not> is_whitespace c \<and> to_ascii_lowercase c = c) ''abcdefghijklmnopqrstuvwxyz0123456789-''"
  "list_all is_ascii_alphabetic ''abcdefghijklmnopqrstuvwxyz''"
  by code_simp+

lemma icmp_names_plain:
  "list_all plain_name (map fst icmp_types)" "list_all plain_name (map fst icmpv6_types)"
  using icmp_name_chars
  by (simp_all add: icmp_types_def icmpv6_types_def plain_name_def eq_ignore_ascii_case_def)

lemma dec_is_number:
  "\<not> eq_ignore_ascii_case (dec n) ''any''" "trim (dec n) = dec n"
proof -
  obtain c cs where c: "dec n = c # cs" "is_ascii_digit c" using dec_head by blast
  then have "to_ascii_lowercase c \<noteq> CHR ''a''"
    by (auto simp: to_ascii_lowercase_def char_class_defs)
  with c show "\<not> eq_ignore_ascii_case (dec n) ''any''"
    by (simp add: eq_ignore_ascii_case_def to_ascii_lowercase_def is_ascii_uppercase_def)
  show "trim (dec n) = dec n"
    using dec_digits [of n] by (intro trim_no_whitespace) (fastforce simp: char_class_defs)
qed

text \<open>The display of a type that is a number, \<open>any\<close>, or a name of the table is read back.\<close>

definition icmp_type_wf :: "icmp_type \<Rightarrow> bool" where
  "icmp_type_wf t = (case t of IcmpTypeNamed n \<Rightarrow> n \<in> fst ` set icmp_types | _ \<Rightarrow> True)"

definition icmpv6_type_wf :: "icmpv6_type \<Rightarrow> bool" where
  "icmpv6_type_wf t = (case t of Icmpv6TypeNamed n \<Rightarrow> n \<in> fst ` set icmpv6_types | _ \<Rightarrow> True)"

lemma map_of_member: "n \<in> fst ` set t \<Longrightarrow> \<exists>v. map_of t n = Some v"
  by (metis domIff dom_map_of_conv_image_fst option.exhaust)

lemma map_of_SomeI_fst: "map_of t n = Some v \<Longrightarrow> n \<in> fst ` set t"
  by (metis fst_conv image_eqI map_of_SomeD)

lemma any_is_any: "eq_ignore_ascii_case ''any'' ''any''"
  by (simp add: eq_ignore_ascii_case_def)

lemma icmp_type_display_read: "icmp_type_wf t \<Longrightarrow> icmp_type_from_str (icmp_type_display t) = Ok t"
proof (cases t)
  case (IcmpTypeNamed n)
  moreover assume "icmp_type_wf t"
  ultimately have n: "n \<in> fst ` set icmp_types" by (simp add: icmp_type_wf_def)
  with icmp_names_plain(1) have "plain_name n" by (auto simp: list_all_iff)
  with n IcmpTypeNamed parse_u8_plain [of n] map_of_member [OF n] show ?thesis
    by (auto simp: icmp_type_from_str_def icmp_type_display_def plain_name_def table_lookup_map_of)
qed (simp_all add: icmp_type_from_str_def icmp_type_display_def dec_is_number parse_u8_dec any_is_any)

lemma icmpv6_type_display_read:
  "icmpv6_type_wf t \<Longrightarrow> icmpv6_type_from_str (icmpv6_type_display t) = Ok t"
proof (cases t)
  case (Icmpv6TypeNamed n)
  moreover assume "icmpv6_type_wf t"
  ultimately have n: "n \<in> fst ` set icmpv6_types" by (simp add: icmpv6_type_wf_def)
  with icmp_names_plain(2) have "plain_name n" by (auto simp: list_all_iff)
  with n Icmpv6TypeNamed parse_u8_plain [of n] map_of_member [OF n] show ?thesis
    by (auto simp: icmpv6_type_from_str_def icmpv6_type_display_def plain_name_def table_lookup_map_of)
qed (simp_all add: icmpv6_type_from_str_def icmpv6_type_display_def dec_is_number parse_u8_dec any_is_any)

text \<open>Every name that a rule's type is mapped to is a name of nftables.\<close>

lemma mapped_names_known:
  "list_all (\<lambda>(_, m). case m of NftType n \<Rightarrow> icmp_type_wf (IcmpTypeNamed n) | _ \<Rightarrow> True)
     iptables_icmp_types_mapping"
  "list_all (\<lambda>(_, m). case m of NftType n \<Rightarrow> icmpv6_type_wf (Icmpv6TypeNamed n) | _ \<Rightarrow> True)
     iptables_icmpv6_types_mapping"
  by code_simp+

lemma icmp_type_from_str_wf: "icmp_type_from_str s = Ok t \<Longrightarrow> icmp_type_wf t"
  by (auto simp: icmp_type_from_str_def icmp_type_wf_def table_lookup_map_of
      split: if_splits option.splits intro: image_eqI [where f = fst, OF fst_conv [symmetric]])

lemma icmpv6_type_from_str_wf: "icmpv6_type_from_str s = Ok t \<Longrightarrow> icmpv6_type_wf t"
  by (auto simp: icmpv6_type_from_str_def icmpv6_type_wf_def table_lookup_map_of
      split: if_splits option.splits intro: image_eqI [where f = fst, OF fst_conv [symmetric]])

lemma icmp_from_str_wf: "icmp_from_str s = Ok i \<Longrightarrow> icmp_ty i = Some t \<Longrightarrow> icmp_type_wf t"
  using mapped_names_known(1)
  by (auto simp: icmp_from_str_def icmp_default_def table_lookup_map_of list_all_iff
      split: option.splits icmp_type_map.splits result.splits
      dest!: map_of_SomeD icmp_type_from_str_wf) (auto simp: icmp_type_wf_def)

lemma icmpv6_from_str_wf: "icmpv6_from_str s = Ok i \<Longrightarrow> icmpv6_ty i = Some t \<Longrightarrow> icmpv6_type_wf t"
  using mapped_names_known(2)
  by (auto simp: icmpv6_from_str_def icmpv6_default_def table_lookup_map_of list_all_iff
      split: option.splits icmp_type_map.splits result.splits
      dest!: map_of_SomeD icmpv6_type_from_str_wf) (auto simp: icmpv6_type_wf_def)

text \<open>
  The ICMP types of rules survive being printed: whatever text a rule gives, the type that was
  read from it, by number, by an nftables name, or by an iptables name that is mapped, has a text
  that is read as the same type.
\<close>

theorem icmp_types_roundtrip:
  assumes "icmp_from_str s = Ok i" and "icmp_ty i = Some t"
    and "icmpv6_from_str s6 = Ok i6" and "icmpv6_ty i6 = Some t6"
  shows "icmp_type_from_str (icmp_type_display t) = Ok t
    \<and> icmpv6_type_from_str (icmpv6_type_display t6) = Ok t6"
  using icmp_type_display_read [OF icmp_from_str_wf [OF assms(1,2)]]
    icmpv6_type_display_read [OF icmpv6_from_str_wf [OF assms(3,4)]] by blast

theorem icmp_types_roundtrip_witness:
  "icmp_type_from_str (icmp_type_display (IcmpTypeNumeric 3)) = Ok (IcmpTypeNumeric 3)
    \<and> icmpv6_type_from_str (icmpv6_type_display (Icmpv6TypeNamed ''nd-redirect''))
      = Ok (Icmpv6TypeNamed ''nd-redirect'')"
  by (rule icmp_types_roundtrip [of "''host-unreachable''"
        "\<lparr>icmp_ty = Some (IcmpTypeNumeric 3), icmp_code = Some (IcmpCodeNumeric 1)\<rparr>" _ "''redirect''"
        "\<lparr>icmpv6_ty = Some (Icmpv6TypeNamed ''nd-redirect''), icmpv6_code = None\<rparr>"])
    (simp_all add: icmp_from_str_def icmpv6_from_str_def table_lookup_map_of
      iptables_icmp_types_mapping_def iptables_icmpv6_types_mapping_def icmpv6_default_def)

text \<open>
  The binary searches in the tables that the compiler sorts find exactly the names the source
  lists: reading an ICMP type is the lookup in the two lists as they are written, with numbers and
  \<open>any\<close> in between.
\<close>

theorem icmp_lookup_exact:
  "icmp_from_str s = (case map_of iptables_icmp_types_mapping s of
      Some (NftType name) \<Rightarrow> Ok \<lparr>icmp_ty = Some (IcmpTypeNamed name), icmp_code = None\<rparr>
    | Some (Custom ty c) \<Rightarrow>
        Ok \<lparr>icmp_ty = Some (IcmpTypeNumeric ty), icmp_code = Some (IcmpCodeNumeric c)\<rparr>
    | None \<Rightarrow>
        if eq_ignore_ascii_case s ''any'' then Ok \<lparr>icmp_ty = Some IcmpTypeAny, icmp_code = None\<rparr>
        else case parse_u8 (trim s) of
            Some ty \<Rightarrow> Ok \<lparr>icmp_ty = Some (IcmpTypeNumeric ty), icmp_code = None\<rparr>
          | None \<Rightarrow> if s \<in> fst ` set icmp_types
              then Ok \<lparr>icmp_ty = Some (IcmpTypeNamed s), icmp_code = None\<rparr>
              else Err (InvalidIcmpType s))"
proof -
  have known: "s \<in> fst ` set icmp_types \<longleftrightarrow> (map_of icmp_types s \<noteq> None)"
    by (simp only: map_of_eq_None_iff not_not)
  show ?thesis unfolding known
    by (simp del: map_of_eq_Some_iff not_None_eq add: icmp_from_str_def icmp_default_def icmp_type_from_str_def table_lookup_map_of
        split: option.split icmp_type_map.split)
qed

end
