(* ===== verification/Fw_Rule.thy ===== *)
theory Fw_Rule
  imports Fw_Icmp "HOL-Library.Multiset"
begin

text \<open>
  Firewall rules (\<open>firewall/types/rule.rs\<close>, \<open>types/rule_match.rs\<close>): directions and verdicts, the
  options of a rule, what is matched, and the two kinds of rules. The wrappers \<open>Tcp\<close>, \<open>Udp\<close> and
  \<open>Sctp\<close>, which only hold ports, are their ports.
\<close>

section \<open>Directions and verdicts\<close>

datatype direction = DirIn | DirOut | DirForward

text \<open>The loop over the names returns at the first name that is equal.\<close>

definition direction_from_str :: "string \<Rightarrow> (parse_error, direction) result" where
  "direction_from_str s =
     (case find (\<lambda>(name, _). eq_ignore_ascii_case s name)
         [(''IN'', DirIn), (''OUT'', DirOut), (''FORWARD'', DirForward)] of
        Some (_, dir) \<Rightarrow> Ok dir
      | None \<Rightarrow> Err (InvalidDirection s))"

definition direction_display :: "direction \<Rightarrow> string" where
  "direction_display d = (case d of DirIn \<Rightarrow> ''in'' | DirOut \<Rightarrow> ''out'' | DirForward \<Rightarrow> ''forward'')"

datatype verdict = Accept | Reject | Drop

definition verdict_from_str :: "string \<Rightarrow> (parse_error, verdict) result" where
  "verdict_from_str s =
     (case find (\<lambda>(name, _). eq_ignore_ascii_case s name)
         [(''ACCEPT'', Accept), (''REJECT'', Reject), (''DROP'', Drop)] of
        Some (_, v) \<Rightarrow> Ok v
      | None \<Rightarrow> Err (InvalidVerdict s))"

definition verdict_display :: "verdict \<Rightarrow> string" where
  "verdict_display v = (case v of Accept \<Rightarrow> ''ACCEPT'' | Drop \<Rightarrow> ''DROP'' | Reject \<Rightarrow> ''REJECT'')"

section \<open>Options\<close>

text \<open>
  A parser that takes a word off a text leaves less text, which is what the loop over the options
  of a rule ends by.
\<close>

locale consuming =
  fixes parser :: "string \<Rightarrow> (string \<times> string) option"
  assumes consumes: "parser s = Some (w, r) \<Longrightarrow> length r < length s"
begin

lemma consumes_suffix: "parser s = Some (w, r) \<Longrightarrow> length s \<le> n \<Longrightarrow> length r < n"
  using consumes by fastforce

lemma consumes_trim: "parser (trim_start s) = Some (w, r) \<Longrightarrow> length r < length s"
  by (drule consumes) (simp add: trim_start_def, meson length_dropWhile_le order_less_le_trans)

end

lemma length_trim_start: "length (trim_start s) \<le> length s"
  by (simp add: trim_start_def length_dropWhile_le)

interpretation name_parser: consuming match_name
  by unfold_locales (auto simp: match_name_iff)

lemma match_non_whitespace_split:
  "match_non_whitespace s = Some (w, r) \<Longrightarrow>
     \<exists>ws. s = w @ ws \<and> w \<noteq> [] \<and> r = trim_start ws \<and> list_all (\<lambda>c. \<not> is_ascii_whitespace c) w"
  unfolding match_non_whitespace_def Let_def
  by (auto simp: list_all_iff dest: set_takeWhileD split: if_splits
      intro: exI [of _ "dropWhile (\<lambda>c. \<not> is_ascii_whitespace c) s"])

interpretation value_parser: consuming match_non_whitespace
proof
  fix s w r
  assume "match_non_whitespace s = Some (w, r)"
  then obtain ws where "s = w @ ws" "w \<noteq> []" "r = trim_start ws"
    using match_non_whitespace_split by blast
  with length_trim_start [of ws] show "length r < length s" by (cases w) auto
qed

text \<open>
  The loop over the text of the options. The options found so far are a hash map from names to
  values; a list of its bindings here.
\<close>

function (sequential) read_options ::
  "(string \<times> string) list \<Rightarrow> string \<Rightarrow> (parse_error, (string \<times> string) list) result" where
  "read_options options line =
     (case trim_start line of
        [] \<Rightarrow> Ok options
      | c # rest \<Rightarrow>
          if c \<noteq> CHR ''-'' then Err MissingDash
          else
            (case match_name (case strip_prefix ''-'' rest of Some l \<Rightarrow> l | None \<Rightarrow> rest) of
               None \<Rightarrow> Err MissingParameter
             | Some (param, line2) \<Rightarrow>
                 (case match_non_whitespace (trim_start line2) of
                    None \<Rightarrow> Err (MissingOptionValue param)
                  | Some (value, line3) \<Rightarrow>
                      if map_of options param \<noteq> None then Err (DuplicateOption param)
                      else read_options ((param, value) # options) line3)))"
  by pat_completeness auto
termination
proof (relation "measure (\<lambda>(_, line). length line)", goal_cases)
  case (2 opts line c rest x param line2 y v line3)
  let ?l = "case strip_prefix ''-'' rest of None \<Rightarrow> rest | Some l \<Rightarrow> l"
  have "length ?l \<le> length rest" by (auto split: option.split)
  then have "length line2 < length rest" using 2(3,4) name_parser.consumes_suffix by blast
  moreover have "length line3 < length line2" using 2(5,6) value_parser.consumes_trim by blast
  ultimately show ?case using 2(1) length_trim_start [of line] by simp
qed simp

declare read_options.simps [simp del]

record rule_options =
  ro_proto :: "string option"
  ro_dport :: "string option"
  ro_sport :: "string option"
  ro_dest :: "string option"
  ro_source :: "string option"
  ro_iface :: "string option"
  ro_log :: "log_level option"
  ro_icmp_type :: "string option"

definition rule_options_default :: rule_options where
  "rule_options_default = \<lparr>ro_proto = None, ro_dport = None, ro_sport = None, ro_dest = None,
     ro_source = None, ro_iface = None, ro_log = None, ro_icmp_type = None\<rparr>"

text \<open>
  The derived \<open>Deserialize\<close> over the bindings of the map: a key names a field or its alias, a field
  is set once, and unknown keys are denied. All its errors are one error here, because the order of
  a hash map's bindings, which decides between them, is not specified.
\<close>

definition set_field ::
  "('a option) \<Rightarrow> ('a option \<Rightarrow> rule_options) \<Rightarrow> 'a \<Rightarrow> (parse_error, rule_options) result" where
  "set_field old upd v = (if old \<noteq> None then Err DeserializeError else Ok (upd (Some v)))"

definition set_option :: "rule_options \<Rightarrow> string \<times> string \<Rightarrow> (parse_error, rule_options) result" where
  "set_option o1 kv =
     (let k = fst kv; v = snd kv in
      if k = ''proto'' \<or> k = ''p'' then set_field (ro_proto o1) (\<lambda>x. o1\<lparr>ro_proto := x\<rparr>) v
      else if k = ''dport'' then set_field (ro_dport o1) (\<lambda>x. o1\<lparr>ro_dport := x\<rparr>) v
      else if k = ''sport'' then set_field (ro_sport o1) (\<lambda>x. o1\<lparr>ro_sport := x\<rparr>) v
      else if k = ''dest'' then set_field (ro_dest o1) (\<lambda>x. o1\<lparr>ro_dest := x\<rparr>) v
      else if k = ''source'' then set_field (ro_source o1) (\<lambda>x. o1\<lparr>ro_source := x\<rparr>) v
      else if k = ''iface'' \<or> k = ''i'' then set_field (ro_iface o1) (\<lambda>x. o1\<lparr>ro_iface := x\<rparr>) v
      else if k = ''log'' then
        (case log_level_from_str v of
           Ok l \<Rightarrow> set_field (ro_log o1) (\<lambda>x. o1\<lparr>ro_log := x\<rparr>) l
         | Err _ \<Rightarrow> Err DeserializeError)
      else if k = ''icmp-type'' then set_field (ro_icmp_type o1) (\<lambda>x. o1\<lparr>ro_icmp_type := x\<rparr>) v
      else Err DeserializeError)"

definition deserialize_options :: "(string \<times> string) list \<Rightarrow> (parse_error, rule_options) result" where
  "deserialize_options kvs = try_fold set_option rule_options_default kvs"

definition rule_options_from_str :: "string \<Rightarrow> (parse_error, rule_options) result" where
  "rule_options_from_str line = and_then (read_options [] line) deserialize_options"

section \<open>Matches\<close>

datatype 'x ip_addr_match =
  MatchIp "'x ip_list" | MatchSet rule_ipset_name | MatchAlias rule_alias_name

definition ip_addr_match_family :: "'x ip_addr_match \<Rightarrow> family option" where
  "ip_addr_match_family m = (case m of MatchIp l \<Rightarrow> Some (il_family l) | _ \<Rightarrow> None)"

definition ip_addr_match_from_str :: "'x fw_env \<Rightarrow> string \<Rightarrow> (parse_error, 'x ip_addr_match) result" where
  "ip_addr_match_from_str env value =
     (if value = [] then Err EmptyAddress
      else case ip_list_from_str env value of
          Ok l \<Rightarrow> Ok (MatchIp l)
        | Err _ \<Rightarrow> (case rule_ipset_name_from_str value of
            Ok n \<Rightarrow> Ok (MatchSet n)
          | Err _ \<Rightarrow> (case rule_alias_name_from_str value of
              Ok n \<Rightarrow> Ok (MatchAlias n)
            | Err _ \<Rightarrow> Err (InvalidAddress value))))"

record 'x ip_match =
  im_src :: "'x ip_addr_match option"
  im_dst :: "'x ip_addr_match option"

definition ip_match_new ::
  "'x ip_addr_match option \<Rightarrow> 'x ip_addr_match option \<Rightarrow> (parse_error, 'x ip_match) result" where
  "ip_match_new src dst =
     (if src = None \<and> dst = None then Err NoSourceOrDest
      else case (src, dst) of
          (Some (MatchIp s), Some (MatchIp d)) \<Rightarrow>
            if il_family s \<noteq> il_family d then Err DifferentFamilies
            else Ok \<lparr>im_src = src, im_dst = dst\<rparr>
        | _ \<Rightarrow> Ok \<lparr>im_src = src, im_dst = dst\<rparr>)"

text \<open>\<open>option.map(parse).transpose()\<close>\<close>

definition transpose :: "('a \<Rightarrow> ('e, 'b) result) \<Rightarrow> 'a option \<Rightarrow> ('e, 'b option) result" where
  "transpose f x = (case x of None \<Rightarrow> Ok None | Some a \<Rightarrow> and_then (f a) (\<lambda>b. Ok (Some b)))"

definition ip_match_from_options ::
  "'x fw_env \<Rightarrow> rule_options \<Rightarrow> (parse_error, 'x ip_match option) result" where
  "ip_match_from_options env options =
     and_then (transpose (ip_addr_match_from_str env) (ro_source options)) (\<lambda>src.
     and_then (transpose (ip_addr_match_from_str env) (ro_dest options)) (\<lambda>dst.
     if src \<noteq> None \<or> dst \<noteq> None then and_then (ip_match_new src dst) (\<lambda>m. Ok (Some m))
     else Ok None))"

record ports =
  po_sport :: "port_list option"
  po_dport :: "port_list option"

definition ports_from_options :: "'x fw_env \<Rightarrow> rule_options \<Rightarrow> (parse_error, ports) result" where
  "ports_from_options env options =
     and_then (transpose (port_list_from_str env) (ro_sport options)) (\<lambda>sport.
     and_then (transpose (port_list_from_str env) (ro_dport options)) (\<lambda>dport.
     Ok \<lparr>po_sport = sport, po_dport = dport\<rparr>))"

definition ports_from_u16 :: "16 word option \<Rightarrow> 16 word option \<Rightarrow> ports" where
  "ports_from_u16 sport dport =
     \<lparr>po_sport = map_option (\<lambda>p. [Port p]) sport, po_dport = map_option (\<lambda>p. [Port p]) dport\<rparr>"

datatype rule_protocol =
  ProtoDccp ports | ProtoSctp ports | ProtoTcp ports | ProtoUdp ports | ProtoUdpLite ports
| ProtoIcmp icmp | ProtoIcmpv6 icmpv6 | ProtoNamed string | ProtoNumeric "8 word"

definition icmp_from_options :: "rule_options \<Rightarrow> (parse_error, icmp) result" where
  "icmp_from_options options = (case ro_icmp_type options of
     Some ty \<Rightarrow> icmp_from_str ty | None \<Rightarrow> Ok icmp_default)"

definition icmpv6_from_options :: "rule_options \<Rightarrow> (parse_error, icmpv6) result" where
  "icmpv6_from_options options = (case ro_icmp_type options of
     Some ty \<Rightarrow> icmpv6_from_str ty | None \<Rightarrow> Ok icmpv6_default)"

definition protocol_from_options ::
  "'x fw_env \<Rightarrow> rule_options \<Rightarrow> (parse_error, rule_protocol option) result" where
  "protocol_from_options env options =
     (let ports = \<lambda>f. and_then (ports_from_options env options) (\<lambda>p. Ok (Some (f p))) in
      case ro_proto options of
        None \<Rightarrow> Ok None
      | Some p \<Rightarrow>
          if p = ''dccp'' \<or> p = ''33'' then ports ProtoDccp
          else if p = ''sctp'' \<or> p = ''132'' then ports ProtoSctp
          else if p = ''tcp'' \<or> p = ''6'' then ports ProtoTcp
          else if p = ''udp'' \<or> p = ''17'' then ports ProtoUdp
          else if p = ''udplite'' \<or> p = ''136'' then ports ProtoUdpLite
          else if p = ''icmp'' \<or> p = ''1'' then
            and_then (icmp_from_options options) (\<lambda>i. Ok (Some (ProtoIcmp i)))
          else if p = ''ipv6-icmp'' \<or> p = ''icmpv6'' \<or> p = ''58'' then
            and_then (icmpv6_from_options options) (\<lambda>i. Ok (Some (ProtoIcmpv6 i)))
          else case parse_u8 p of
              Some num \<Rightarrow> Ok (Some (ProtoNumeric num))
            | None \<Rightarrow> Ok (Some (ProtoNamed p)))"

definition protocol_family :: "rule_protocol \<Rightarrow> family option" where
  "protocol_family p = (case p of
     ProtoIcmp _ \<Rightarrow> Some FamilyV4 | ProtoIcmpv6 _ \<Rightarrow> Some FamilyV6 | _ \<Rightarrow> None)"

record 'x rule_match =
  rm_dir :: direction
  rm_verdict :: verdict
  rm_macro :: "string option"
  rm_iface :: "string option"
  rm_log :: "log_level option"
  rm_ip :: "'x ip_match option"
  rm_proto :: "rule_protocol option"

definition rule_match_from_options ::
  "'x fw_env \<Rightarrow> direction \<Rightarrow> verdict \<Rightarrow> string option \<Rightarrow> rule_options
     \<Rightarrow> (parse_error, 'x rule_match) result" where
  "rule_match_from_options env dir verdict fw_macro options =
     (if ro_dport options \<noteq> None \<and> ro_icmp_type options \<noteq> None then Err DportAndIcmpType
      else
        and_then (ip_match_from_options env options) (\<lambda>ip.
        and_then (protocol_from_options env options) (\<lambda>proto.
        Ok \<lparr>rm_dir = dir, rm_verdict = verdict, rm_macro = fw_macro, rm_iface = ro_iface options,
            rm_log = ro_log options, rm_ip = ip, rm_proto = proto\<rparr>)))"

definition parse_action :: "string \<Rightarrow> (parse_error, string option \<times> verdict \<times> string) result" where
  "parse_action line =
     and_then (ok_or MissingVerdict (match_name line)) (\<lambda>(verdict, line).
     case strip_prefix ''('' line of
       Some line \<Rightarrow>
         let macro_name = verdict in
         and_then (ok_or MissingVerdict (match_name line)) (\<lambda>(verdict, line).
         and_then (ok_or MissingParenthesis (strip_prefix '')'' line)) (\<lambda>line.
         and_then (verdict_from_str verdict) (\<lambda>verdict.
         Ok (Some macro_name, verdict, trim_start line))))
     | None \<Rightarrow>
         and_then (verdict_from_str verdict) (\<lambda>verdict. Ok (None, verdict, trim_start line)))"

definition rule_match_from_str :: "'x fw_env \<Rightarrow> string \<Rightarrow> (parse_error, 'x rule_match) result" where
  "rule_match_from_str env line =
     and_then (ok_or MissingDirection (match_name line)) (\<lambda>(dir, rest).
     and_then (direction_from_str dir) (\<lambda>direction.
     and_then (parse_action (trim_start rest)) (\<lambda>(fw_macro, verdict, rest).
     and_then (rule_options_from_str (trim_start rest)) (\<lambda>options.
     rule_match_from_options env direction verdict fw_macro options))))"

section \<open>Rules\<close>

record rule_group =
  rg_group :: string
  rg_iface :: "string option"

definition rule_group_from_options :: "string \<Rightarrow> rule_options \<Rightarrow> (parse_error, rule_group) result" where
  "rule_group_from_options grp options =
     and_then (ensure (ro_proto options = None \<and> ro_dport options = None \<and> ro_sport options = None
         \<and> ro_dest options = None \<and> ro_source options = None \<and> ro_log options = None
         \<and> ro_icmp_type options = None) NotAnInterfaceOption) (\<lambda>_.
     Ok \<lparr>rg_group = grp, rg_iface = ro_iface options\<rparr>)"

definition rule_group_from_str :: "string \<Rightarrow> (parse_error, rule_group) result" where
  "rule_group_from_str input =
     and_then (ok_or MissingGroupKeyword (match_name input)) (\<lambda>(keyword, rest).
     if \<not> eq_ignore_ascii_case keyword ''group'' then Err MissingGroupKeyword
     else
       and_then (ok_or MissingGroupName (match_name (trim rest))) (\<lambda>(name, rest).
       and_then (rule_options_from_str (trim_start rest)) (\<lambda>options.
       rule_group_from_options name options)))"

datatype 'x rule_kind = KindGroup rule_group | KindMatch "'x rule_match"

record 'x rule =
  ru_disabled :: bool
  ru_kind :: "'x rule_kind"
  ru_comment :: "string option"

definition rule_from_str :: "'x fw_env \<Rightarrow> string \<Rightarrow> (parse_error, 'x rule) result" where
  "rule_from_str env input =
     (if CHR 0x0A \<in> set input \<or> CHR 0x0D \<in> set input then Err NewlineInRule
      else
        let (line, comment) = (case split_once (CHR ''#'') input of
              Some (line, comment) \<Rightarrow>
                if comment \<noteq> [] then (trim line, Some (trim comment)) else (trim input, None)
            | None \<Rightarrow> (trim input, None));
            (disabled, line) = (case strip_prefix ''|'' line of
              Some line \<Rightarrow> (True, trim_start line) | None \<Rightarrow> (False, line))
        in and_then (if starts_with ''GROUP'' line
             then and_then (rule_group_from_str line) (\<lambda>g. Ok (KindGroup g))
             else and_then (rule_match_from_str env line) (\<lambda>m. Ok (KindMatch m))) (\<lambda>kind.
           Ok \<lparr>ru_disabled = disabled, ru_kind = kind, ru_comment = comment\<rparr>))"

definition rule_iface :: "'x rule \<Rightarrow> string option" where
  "rule_iface r = (case ru_kind r of KindGroup g \<Rightarrow> rg_iface g | KindMatch m \<Rightarrow> rm_iface m)"

end
