(* ===== verification/Fw_Config.thy ===== *)
theory Fw_Config
  imports Fw_Rule BTree_Map
begin

text \<open>
  Firewall configuration files (\<open>firewall/common.rs\<close>, \<open>types/group.rs\<close>): the sections of a file and
  the state machine that reads its lines. The section that is being read is kept apart from the
  configuration; it is stored when the next section starts or the file ends. Reading lines from the
  file is not modelled: the input is the list of lines.
\<close>

section \<open>The configuration\<close>

record 'x fw_group =
  fg_rules :: "'x rule list"
  fg_comment :: "string option"

definition fw_group_new :: "'x fw_group" where
  "fw_group_new = \<lparr>fg_rules = [], fg_comment = None\<rparr>"

definition fw_group_set_comment :: "string option \<Rightarrow> 'x fw_group \<Rightarrow> 'x fw_group" where
  "fw_group_set_comment comment g = g\<lparr>fg_comment := comment\<rparr>"

definition fw_group_parse_entry ::
  "'x fw_env \<Rightarrow> string \<Rightarrow> 'x fw_group \<Rightarrow> (parse_error, unit) result \<times> 'x fw_group" where
  "fw_group_parse_entry env line g = (case rule_from_str env line of
     Err e \<Rightarrow> (Err e, g)
   | Ok r \<Rightarrow> (Ok (), g\<lparr>fg_rules := fg_rules g @ [r]\<rparr>))"

record ('x, 'o) fw_config =
  cf_options :: 'o
  cf_rules :: "'x rule list"
  cf_aliases :: "(string, 'x fw_alias) btree_map"
  cf_ipsets :: "(string, 'x ipset) btree_map"
  cf_groups :: "(string, 'x fw_group) btree_map"

datatype 'x fw_section =
  SecNone | SecOptions | SecAliases | SecRules
| SecIpset string "'x ipset"
| SecGroup string "'x fw_group"

record parser_config =
  pc_guest_iface_names :: bool
  pc_ipset_scope :: "ipset_scope option"
  pc_allowed_directions :: "direction list"

text \<open>
  What the generic code uses of the type of the options: its default, and its deserialization from
  the bindings of a hash map.
\<close>

record 'o options_type =
  ot_default :: 'o
  ot_deserialize :: "(string \<times> string) list \<Rightarrow> (parse_error, 'o) result"

definition fw_config_new :: "'o options_type \<Rightarrow> ('x, 'o) fw_config" where
  "fw_config_new ot = \<lparr>cf_options = ot_default ot, cf_rules = [], cf_aliases = [], cf_ipsets = [],
     cf_groups = []\<rparr>"

section \<open>Lines\<close>

definition parse_option ::
  "string \<Rightarrow> (string \<times> string) list \<Rightarrow> (parse_error, (string \<times> string) list) result" where
  "parse_option line options =
     and_then (ok_or (MissingColon line) (split_key_value line)) (\<lambda>(key, val).
     if map_of options key \<noteq> None then Err (DuplicateKey key) else Ok (options @ [(key, val)]))"

definition parse_alias ::
  "'x fw_env \<Rightarrow> string \<Rightarrow> ('x, 'o) fw_config \<Rightarrow> (parse_error, ('x, 'o) fw_config) result" where
  "parse_alias env line c =
     and_then (alias_from_str (net_env env) line) (\<lambda>al.
     if bt_contains_key (cf_aliases c) (al_name al) then Err (DuplicateAlias line)
     else Ok (c\<lparr>cf_aliases := bt_insert (al_name al) al (cf_aliases c)\<rparr>))"

definition check_rule :: "parser_config \<Rightarrow> 'x rule \<Rightarrow> (parse_error, unit) result" where
  "check_rule cfg r =
     and_then (if pc_guest_iface_names cfg
       then (case rule_iface r of
           Some iface \<Rightarrow>
             and_then (ok_or InvalidInterfaceName (strip_prefix ''net'' iface)) (\<lambda>n.
             and_then (ok_or InvalidInterfaceName (parse_u16 n)) (\<lambda>_. Ok ()))
         | None \<Rightarrow> Ok ())
       else Ok ()) (\<lambda>_.
     case ru_kind r of
       KindMatch m \<Rightarrow>
         if rm_dir m \<notin> set (pc_allowed_directions cfg) then Err DirectionNotAllowed else Ok ()
     | KindGroup _ \<Rightarrow> Ok ())"

definition parse_rule ::
  "'x fw_env \<Rightarrow> parser_config \<Rightarrow> string \<Rightarrow> ('x, 'o) fw_config \<Rightarrow> (parse_error, ('x, 'o) fw_config) result" where
  "parse_rule env cfg line c =
     and_then (rule_from_str env line) (\<lambda>r.
     and_then (check_rule cfg r) (\<lambda>_.
     Ok (c\<lparr>cf_rules := cf_rules c @ [r]\<rparr>)))"

text \<open>
  Leaving a section: a set or group is stored under its name. On an error the whole configuration
  is dropped, so only the error is returned.
\<close>

definition set_section ::
  "'x fw_section \<Rightarrow> 'x fw_section \<Rightarrow> ('x, 'o) fw_config
     \<Rightarrow> (parse_error, 'x fw_section \<times> ('x, 'o) fw_config) result" where
  "set_section prev to c = (case prev of
     SecIpset name s \<Rightarrow>
       if bt_contains_key (cf_ipsets c) name then Err (DuplicateIpset name)
       else Ok (to, c\<lparr>cf_ipsets := bt_insert name s (cf_ipsets c)\<rparr>)
   | SecGroup name g \<Rightarrow>
       if bt_contains_key (cf_groups c) name then Err (DuplicateGroup name)
       else Ok (to, c\<lparr>cf_groups := bt_insert name g (cf_groups c)\<rparr>)
   | _ \<Rightarrow> Ok (to, c))"

record ('x, 'o) parser_state =
  ps_section :: "'x fw_section"
  ps_config :: "('x, 'o) fw_config"
  ps_options :: "(string \<times> string) list"

definition enter_section ::
  "('x, 'o) parser_state \<Rightarrow> 'x fw_section \<Rightarrow> (parse_error, ('x, 'o) parser_state) result" where
  "enter_section st to =
     and_then (set_section (ps_section st) to (ps_config st)) (\<lambda>(sec, c).
     Ok (st\<lparr>ps_section := sec, ps_config := c\<rparr>))"

text \<open>A line that is not the header of a section.\<close>

definition section_entry ::
  "'x fw_env \<Rightarrow> parser_config \<Rightarrow> ('x, 'o) parser_state \<Rightarrow> string
     \<Rightarrow> (parse_error, ('x, 'o) parser_state) result" where
  "section_entry env cfg st line = (case ps_section st of
     SecNone \<Rightarrow> Err (NoSection line)
   | SecOptions \<Rightarrow>
       and_then (parse_option line (ps_options st)) (\<lambda>opts. Ok (st\<lparr>ps_options := opts\<rparr>))
   | SecAliases \<Rightarrow>
       and_then (parse_alias env line (ps_config st)) (\<lambda>c. Ok (st\<lparr>ps_config := c\<rparr>))
   | SecRules \<Rightarrow>
       and_then (parse_rule env cfg line (ps_config st)) (\<lambda>c. Ok (st\<lparr>ps_config := c\<rparr>))
   | SecIpset name s \<Rightarrow> (case ipset_parse_entry (net_env env) line s of
       (Err e, _) \<Rightarrow> Err e
     | (Ok _, s) \<Rightarrow> Ok (st\<lparr>ps_section := SecIpset name s\<rparr>))
   | SecGroup name g \<Rightarrow> (case fw_group_parse_entry env line g of
       (Err e, _) \<Rightarrow> Err e
     | (Ok _, g) \<Rightarrow> Ok (st\<lparr>ps_section := SecGroup name g\<rparr>)))"

definition parse_line ::
  "'x fw_env \<Rightarrow> parser_config \<Rightarrow> ('x, 'o) parser_state \<Rightarrow> string
     \<Rightarrow> (parse_error, ('x, 'o) parser_state) result" where
  "parse_line env cfg st line0 =
     (let line = trim line0 in
      if line = [] \<or> starts_with ''#'' line then Ok st
      else if eq_ignore_ascii_case line ''[OPTIONS]'' then enter_section st SecOptions
      else if eq_ignore_ascii_case line ''[ALIASES]'' then enter_section st SecAliases
      else if eq_ignore_ascii_case line ''[RULES]'' then enter_section st SecRules
      else case strip_prefix ''[IPSET'' line of
          Some tail \<Rightarrow>
            and_then (parse_named_section_tail ''ipset'' tail) (\<lambda>(name, comment).
            and_then (ok_or NoIpsetScope (pc_ipset_scope cfg)) (\<lambda>scope.
            enter_section st (SecIpset name
              ((ipset_new \<lparr>in_scope = scope, in_name = name\<rparr>)\<lparr>is_comment := comment\<rparr>))))
        | None \<Rightarrow> (case strip_prefix ''[group'' line of
          Some tail \<Rightarrow>
            and_then (parse_named_section_tail ''group'' tail) (\<lambda>(name, comment).
            enter_section st (SecGroup name (fw_group_set_comment comment fw_group_new)))
        | None \<Rightarrow>
            if starts_with ''['' line then Err (InvalidSection line)
            else section_entry env cfg st line))"

definition fw_config_parse ::
  "'x fw_env \<Rightarrow> parser_config \<Rightarrow> 'o options_type \<Rightarrow> string list \<Rightarrow> (parse_error, ('x, 'o) fw_config) result" where
  "fw_config_parse env cfg ot lines =
     and_then (try_fold (parse_line env cfg)
         \<lparr>ps_section = SecNone, ps_config = fw_config_new ot, ps_options = []\<rparr> lines) (\<lambda>st.
     and_then (enter_section st SecNone) (\<lambda>st.
     and_then (ot_deserialize ot (ps_options st)) (\<lambda>options.
     Ok ((ps_config st)\<lparr>cf_options := options\<rparr>))))"

definition fw_config_ipset :: "('x, 'o) fw_config \<Rightarrow> string \<Rightarrow> 'x ipset option" where
  "fw_config_ipset c name = bt_get (cf_ipsets c) name"

definition fw_config_alias :: "('x, 'o) fw_config \<Rightarrow> string \<Rightarrow> 'x fw_alias option" where
  "fw_config_alias c name = bt_get (cf_aliases c) name"

end
