(* ===== verification/Fw_Files.thy ===== *)
theory Fw_Files
  imports Fw_Config
begin

text \<open>
  The configuration files of the cluster, of bridges and of hosts (\<open>firewall/cluster.rs\<close>,
  \<open>bridge.rs\<close>, \<open>host.rs\<close>): what each allows in its file, its options with their defaults, and the
  addresses a host is managed by. The macros and connection tracking helpers rules can name
  (\<open>fw_macros.rs\<close>, \<open>ct_helper.rs\<close>) come from JSON files, whose decoded contents are arguments.
\<close>

section \<open>Options\<close>

text \<open>
  The derived \<open>Deserialize\<close> of an options struct: each field is read from the binding with its name;
  other keys are ignored. The keys of the map are distinct, so the order of the bindings is
  irrelevant.
\<close>

definition option_field_of ::
  "(string \<Rightarrow> 'a option) \<Rightarrow> string \<Rightarrow> (string \<times> string) list \<Rightarrow> (parse_error, 'a option) result" where
  "option_field_of parse key kvs = (case map_of kvs key of
     None \<Rightarrow> Ok None
   | Some v \<Rightarrow> (case parse v of Some a \<Rightarrow> Ok (Some a) | None \<Rightarrow> Err DeserializeError))"

primrec result_ok :: "('e, 'a) result \<Rightarrow> 'a option" where
  "result_ok (Err e) = None"
| "result_ok (Ok a) = Some a"

definition read_verdict :: "string \<Rightarrow> verdict option" where
  "read_verdict s = result_ok (verdict_from_str s)"

definition read_log_level :: "string \<Rightarrow> log_level option" where
  "read_log_level s = result_ok (log_level_from_str s)"

definition unwrap_or :: "'a \<Rightarrow> 'a option \<Rightarrow> 'a" where
  "unwrap_or d x = (case x of None \<Rightarrow> d | Some a \<Rightarrow> a)"

section \<open>Cluster\<close>

record cluster_options =
  co_enable :: "bool option"
  co_ebtables :: "bool option"
  co_log_ratelimit :: "log_rate_limit option"
  co_policy_in :: "verdict option"
  co_policy_out :: "verdict option"
  co_policy_forward :: "verdict option"

definition cluster_options_deserialize ::
  "'x fw_env \<Rightarrow> (string \<times> string) list \<Rightarrow> (parse_error, cluster_options) result" where
  "cluster_options_deserialize env kvs =
     and_then (option_field_of (perl_bool env) ''enable'' kvs) (\<lambda>enable.
     and_then (option_field_of (perl_bool env) ''ebtables'' kvs) (\<lambda>ebtables.
     and_then (option_field_of (\<lambda>s. result_ok (log_rate_limit_from_str s)) ''log_ratelimit'' kvs) (\<lambda>limit.
     and_then (option_field_of read_verdict ''policy_in'' kvs) (\<lambda>pin.
     and_then (option_field_of read_verdict ''policy_out'' kvs) (\<lambda>pout.
     and_then (option_field_of read_verdict ''policy_forward'' kvs) (\<lambda>pfwd.
     Ok \<lparr>co_enable = enable, co_ebtables = ebtables, co_log_ratelimit = limit, co_policy_in = pin,
         co_policy_out = pout, co_policy_forward = pfwd\<rparr>))))))"

definition cluster_options_type :: "'x fw_env \<Rightarrow> cluster_options options_type" where
  "cluster_options_type env = \<lparr>
     ot_default = \<lparr>co_enable = None, co_ebtables = None, co_log_ratelimit = None, co_policy_in = None,
       co_policy_out = None, co_policy_forward = None\<rparr>,
     ot_deserialize = cluster_options_deserialize env\<rparr>"

type_synonym 'x cluster_config = "('x, cluster_options) fw_config"

definition cluster_parser_config :: parser_config where
  "cluster_parser_config = \<lparr>pc_guest_iface_names = False, pc_ipset_scope = Some IpsetDatacenter,
     pc_allowed_directions = [DirIn, DirOut, DirForward]\<rparr>"

definition cluster_config_parse ::
  "'x fw_env \<Rightarrow> string list \<Rightarrow> (parse_error, 'x cluster_config) result" where
  "cluster_config_parse env lines =
     fw_config_parse env cluster_parser_config (cluster_options_type env) lines"

definition cluster_is_enabled :: "'x cluster_config \<Rightarrow> bool" where
  "cluster_is_enabled c = unwrap_or False (co_enable (cf_options c))"

definition cluster_ebtables :: "'x cluster_config \<Rightarrow> bool" where
  "cluster_ebtables c = unwrap_or False (co_ebtables (cf_options c))"

definition cluster_default_policy :: "'x cluster_config \<Rightarrow> direction \<Rightarrow> verdict" where
  "cluster_default_policy c dir = (case dir of
     DirIn \<Rightarrow> unwrap_or Drop (co_policy_in (cf_options c))
   | DirOut \<Rightarrow> unwrap_or Accept (co_policy_out (cf_options c))
   | DirForward \<Rightarrow> unwrap_or Accept (co_policy_forward (cf_options c)))"

definition cluster_log_ratelimit :: "'x cluster_config \<Rightarrow> log_rate_limit option" where
  "cluster_log_ratelimit c =
     (let limit = unwrap_or log_rate_limit_default (co_log_ratelimit (cf_options c)) in
      if lrl_enabled limit then Some limit else None)"

section \<open>Bridges\<close>

record bridge_options =
  bo_enable :: "bool option"
  bo_policy_forward :: "verdict option"
  bo_log_level_forward :: "log_level option"

definition bridge_options_deserialize ::
  "'x fw_env \<Rightarrow> (string \<times> string) list \<Rightarrow> (parse_error, bridge_options) result" where
  "bridge_options_deserialize env kvs =
     and_then (option_field_of (perl_bool env) ''enable'' kvs) (\<lambda>enable.
     and_then (option_field_of read_verdict ''policy_forward'' kvs) (\<lambda>pfwd.
     and_then (option_field_of read_log_level ''log_level_forward'' kvs) (\<lambda>level.
     Ok \<lparr>bo_enable = enable, bo_policy_forward = pfwd, bo_log_level_forward = level\<rparr>)))"

definition bridge_options_type :: "'x fw_env \<Rightarrow> bridge_options options_type" where
  "bridge_options_type env = \<lparr>
     ot_default = \<lparr>bo_enable = None, bo_policy_forward = None, bo_log_level_forward = None\<rparr>,
     ot_deserialize = bridge_options_deserialize env\<rparr>"

type_synonym 'x bridge_config = "('x, bridge_options) fw_config"

definition bridge_parser_config :: parser_config where
  "bridge_parser_config = \<lparr>pc_guest_iface_names = False, pc_ipset_scope = None,
     pc_allowed_directions = [DirForward]\<rparr>"

definition bridge_config_parse :: "'x fw_env \<Rightarrow> string list \<Rightarrow> (parse_error, 'x bridge_config) result" where
  "bridge_config_parse env lines = fw_config_parse env bridge_parser_config (bridge_options_type env) lines"

definition bridge_enabled :: "'x bridge_config \<Rightarrow> bool" where
  "bridge_enabled c = unwrap_or False (bo_enable (cf_options c))"

definition bridge_log_level_forward :: "'x bridge_config \<Rightarrow> log_level" where
  "bridge_log_level_forward c = unwrap_or Nolog (bo_log_level_forward (cf_options c))"

definition bridge_policy_forward :: "'x bridge_config \<Rightarrow> verdict" where
  "bridge_policy_forward c = unwrap_or Accept (bo_policy_forward (cf_options c))"

section \<open>Hosts\<close>

record host_options =
  ho_enable :: "bool option"
  ho_nftables :: "bool option"
  ho_log_level_in :: "log_level option"
  ho_log_level_out :: "log_level option"
  ho_log_level_forward :: "log_level option"
  ho_log_nf_conntrack :: "bool option"
  ho_ndp :: "bool option"
  ho_nf_conntrack_allow_invalid :: "bool option"
  ho_nf_conntrack_helpers :: "string list option"
  ho_nf_conntrack_max :: "int option"
  ho_nf_conntrack_tcp_timeout_established :: "int option"
  ho_nf_conntrack_tcp_timeout_syn_recv :: "int option"
  ho_nosmurfs :: "bool option"
  ho_protection_synflood :: "bool option"
  ho_protection_synflood_burst :: "int option"
  ho_protection_synflood_rate :: "int option"
  ho_smurf_log_level :: "log_level option"
  ho_tcp_flags_log_level :: "log_level option"
  ho_tcpflags :: "bool option"

text \<open>\<open>serde_option_conntrack_helpers\<close>: no helper, or those between the commas.\<close>

definition conntrack_helpers_of :: "string option \<Rightarrow> string list option" where
  "conntrack_helpers_of v = (case v of
     None \<Rightarrow> None | Some s \<Rightarrow> if s = [] then None else Some (split_on (CHR '','') s))"

definition host_options_deserialize ::
  "'x fw_env \<Rightarrow> (string \<times> string) list \<Rightarrow> (parse_error, host_options) result" where
  "host_options_deserialize env kvs =
     (let flag = (\<lambda>key. option_field_of (perl_bool env) key kvs);
          num = (\<lambda>key. option_field_of (perl_i64 env) key kvs);
          level = (\<lambda>key. option_field_of read_log_level key kvs) in
      and_then (flag ''enable'') (\<lambda>enable.
      and_then (flag ''nftables'') (\<lambda>nftables.
      and_then (level ''log_level_in'') (\<lambda>lin.
      and_then (level ''log_level_out'') (\<lambda>lout.
      and_then (level ''log_level_forward'') (\<lambda>lfwd.
      and_then (flag ''log_nf_conntrack'') (\<lambda>logct.
      and_then (flag ''ndp'') (\<lambda>ndp.
      and_then (flag ''nf_conntrack_allow_invalid'') (\<lambda>allow.
      and_then (num ''nf_conntrack_max'') (\<lambda>max1.
      and_then (num ''nf_conntrack_tcp_timeout_established'') (\<lambda>established.
      and_then (num ''nf_conntrack_tcp_timeout_syn_recv'') (\<lambda>syn.
      and_then (flag ''nosmurfs'') (\<lambda>nosmurfs.
      and_then (flag ''protection_synflood'') (\<lambda>flood.
      and_then (num ''protection_synflood_burst'') (\<lambda>burst.
      and_then (num ''protection_synflood_rate'') (\<lambda>rate.
      and_then (level ''smurf_log_level'') (\<lambda>smurf.
      and_then (level ''tcp_flags_log_level'') (\<lambda>tcplog.
      and_then (flag ''tcpflags'') (\<lambda>tcpflags.
      Ok \<lparr>ho_enable = enable, ho_nftables = nftables, ho_log_level_in = lin, ho_log_level_out = lout,
          ho_log_level_forward = lfwd, ho_log_nf_conntrack = logct, ho_ndp = ndp,
          ho_nf_conntrack_allow_invalid = allow,
          ho_nf_conntrack_helpers = conntrack_helpers_of (map_of kvs ''nf_conntrack_helpers''),
          ho_nf_conntrack_max = max1, ho_nf_conntrack_tcp_timeout_established = established,
          ho_nf_conntrack_tcp_timeout_syn_recv = syn, ho_nosmurfs = nosmurfs,
          ho_protection_synflood = flood, ho_protection_synflood_burst = burst,
          ho_protection_synflood_rate = rate, ho_smurf_log_level = smurf,
          ho_tcp_flags_log_level = tcplog, ho_tcpflags = tcpflags\<rparr>)))))))))))))))))))"

definition host_options_default :: host_options where
  "host_options_default = \<lparr>ho_enable = None, ho_nftables = None, ho_log_level_in = None,
     ho_log_level_out = None, ho_log_level_forward = None, ho_log_nf_conntrack = None, ho_ndp = None,
     ho_nf_conntrack_allow_invalid = None, ho_nf_conntrack_helpers = None, ho_nf_conntrack_max = None,
     ho_nf_conntrack_tcp_timeout_established = None, ho_nf_conntrack_tcp_timeout_syn_recv = None,
     ho_nosmurfs = None, ho_protection_synflood = None, ho_protection_synflood_burst = None,
     ho_protection_synflood_rate = None, ho_smurf_log_level = None, ho_tcp_flags_log_level = None,
     ho_tcpflags = None\<rparr>"

definition host_options_type :: "'x fw_env \<Rightarrow> host_options options_type" where
  "host_options_type env =
     \<lparr>ot_default = host_options_default, ot_deserialize = host_options_deserialize env\<rparr>"

type_synonym 'x host_config = "('x, host_options) fw_config"

definition host_config_new :: "'x fw_env \<Rightarrow> 'x host_config" where
  "host_config_new env = fw_config_new (host_options_type env)"

definition host_parser_config :: parser_config where
  "host_parser_config = \<lparr>pc_guest_iface_names = False, pc_ipset_scope = None,
     pc_allowed_directions = [DirIn, DirOut, DirForward]\<rparr>"

definition host_config_parse :: "'x fw_env \<Rightarrow> string list \<Rightarrow> (parse_error, 'x host_config) result" where
  "host_config_parse env lines =
     and_then (fw_config_parse env host_parser_config (host_options_type env) lines) (\<lambda>c.
     if cf_groups c \<noteq> [] then Err GroupsNotAllowed
     else if cf_aliases c \<noteq> [] then Err AliasesNotAllowed
     else if cf_ipsets c \<noteq> [] then Err IpsetsNotAllowed
     else Ok c)"

text \<open>The addresses of the host and the networks of its interfaces are arguments.\<close>

definition management_ips :: "'x env \<Rightarrow> ip_addr list \<Rightarrow> 'x cidr list \<Rightarrow> 'x cidr list" where
  "management_ips env host_ips cidrs =
     concat (map (\<lambda>ip. concat (map (\<lambda>c.
       case (ip, c) of
         (IpV4 a, CidrIpv4 n) \<Rightarrow> if v4_contains_address env n a then [c] else []
       | (IpV6 a, CidrIpv6 n) \<Rightarrow> if v6_contains_address env n a then [c] else []
       | _ \<Rightarrow> []) cidrs)) host_ips)"

definition host_is_enabled :: "'x host_config \<Rightarrow> bool" where
  "host_is_enabled c = unwrap_or True (ho_enable (cf_options c))"

definition host_nftables :: "'x host_config \<Rightarrow> bool" where
  "host_nftables c = unwrap_or False (ho_nftables (cf_options c))"

definition host_allow_ndp :: "'x host_config \<Rightarrow> bool" where
  "host_allow_ndp c = unwrap_or True (ho_ndp (cf_options c))"

definition host_block_smurfs :: "'x host_config \<Rightarrow> bool" where
  "host_block_smurfs c = unwrap_or True (ho_nosmurfs (cf_options c))"

definition host_block_smurfs_log_level :: "'x host_config \<Rightarrow> log_level" where
  "host_block_smurfs_log_level c = unwrap_or Nolog (ho_smurf_log_level (cf_options c))"

definition host_block_synflood :: "'x host_config \<Rightarrow> bool" where
  "host_block_synflood c = unwrap_or False (ho_protection_synflood (cf_options c))"

definition host_synflood_rate :: "'x host_config \<Rightarrow> int" where
  "host_synflood_rate c = unwrap_or 200 (ho_protection_synflood_rate (cf_options c))"

definition host_synflood_burst :: "'x host_config \<Rightarrow> int" where
  "host_synflood_burst c = unwrap_or 1000 (ho_protection_synflood_burst (cf_options c))"

definition host_block_invalid_tcp :: "'x host_config \<Rightarrow> bool" where
  "host_block_invalid_tcp c = unwrap_or False (ho_tcpflags (cf_options c))"

definition host_block_invalid_tcp_log_level :: "'x host_config \<Rightarrow> log_level" where
  "host_block_invalid_tcp_log_level c = unwrap_or Nolog (ho_tcp_flags_log_level (cf_options c))"

definition host_block_invalid_conntrack :: "'x host_config \<Rightarrow> bool" where
  "host_block_invalid_conntrack c \<longleftrightarrow> \<not> unwrap_or False (ho_nf_conntrack_allow_invalid (cf_options c))"

definition host_log_nf_conntrack :: "'x host_config \<Rightarrow> bool" where
  "host_log_nf_conntrack c = unwrap_or False (ho_log_nf_conntrack (cf_options c))"

definition host_log_level :: "'x host_config \<Rightarrow> direction \<Rightarrow> log_level" where
  "host_log_level c dir = (case dir of
     DirIn \<Rightarrow> unwrap_or Nolog (ho_log_level_in (cf_options c))
   | DirOut \<Rightarrow> unwrap_or Nolog (ho_log_level_out (cf_options c))
   | DirForward \<Rightarrow> unwrap_or Nolog (ho_log_level_forward (cf_options c)))"

section \<open>Macros and helpers\<close>

record fw_macro =
  fm_description :: string
  fm_code :: "rule_protocol list"

text \<open>
  \<open>macros\<close>: the protocols of each macro; a macro with an entry that has no protocol or that cannot
  be read is left out.
\<close>

fun macro_code :: "'x fw_env \<Rightarrow> rule_options list \<Rightarrow> rule_protocol list option" where
  "macro_code env [] = Some []"
| "macro_code env (o1 # os) = (case protocol_from_options env o1 of
     Ok (Some p) \<Rightarrow> map_option (Cons p) (macro_code env os)
   | _ \<Rightarrow> None)"

definition fw_macros ::
  "'x fw_env \<Rightarrow> (string \<times> string \<times> rule_options list) list \<Rightarrow> (string \<times> fw_macro) list" where
  "fw_macros env data =
     foldl (\<lambda>m (name, description, code). case macro_code env code of
         None \<Rightarrow> m
       | Some ps \<Rightarrow> AList.update name \<lparr>fm_description = description, fm_code = ps\<rparr> m) [] data"

definition get_macro ::
  "'x fw_env \<Rightarrow> (string \<times> string \<times> rule_options list) list \<Rightarrow> string \<Rightarrow> fw_macro option" where
  "get_macro env data name = map_of (fw_macros env data) name"

record ct_helper_json =
  chj_v4 :: "bool option"
  chj_v6 :: "bool option"
  chj_name :: string
  chj_tcp :: "16 word option"
  chj_udp :: "16 word option"

record ct_helper =
  ch_family :: "family option"
  ch_name :: string
  ch_tcp :: "rule_protocol option"
  ch_udp :: "rule_protocol option"

datatype ct_helper_error = NoPort | NoFamily

definition ct_helper_try_from :: "ct_helper_json \<Rightarrow> (ct_helper_error, ct_helper) result" where
  "ct_helper_try_from j =
     (if chj_tcp j = None \<and> chj_udp j = None then Err NoPort
      else
        and_then (if chj_v4 j = Some True \<and> chj_v6 j = Some True then Ok None
          else if chj_v4 j = Some True then Ok (Some FamilyV4)
          else if chj_v6 j = Some True then Ok (Some FamilyV6)
          else Err NoFamily) (\<lambda>family.
        Ok \<lparr>ch_family = family, ch_name = chj_name j,
          ch_tcp = map_option (\<lambda>p. ProtoTcp (ports_from_u16 None (Some p))) (chj_tcp j),
          ch_udp = map_option (\<lambda>p. ProtoUdp (ports_from_u16 None (Some p))) (chj_udp j)\<rparr>))"

definition ct_helper_name :: "ct_helper \<Rightarrow> string \<Rightarrow> string" where
  "ct_helper_name h proto = ''helper-'' @ ch_name h @ ''-'' @ proto"

text \<open>The table of helpers: nothing if one entry of the file is invalid; later entries win.\<close>

definition ct_helpers :: "ct_helper_json list \<Rightarrow> (string \<times> ct_helper) list" where
  "ct_helpers js = (case try_map ct_helper_try_from js of
     Err _ \<Rightarrow> []
   | Ok hs \<Rightarrow> foldl (\<lambda>m h. AList.update (ch_name h) h m) [] hs)"

definition get_cthelper :: "ct_helper_json list \<Rightarrow> string \<Rightarrow> ct_helper option" where
  "get_cthelper js name = map_of (ct_helpers js) name"

end
