(* ===== verification/Fw_Guest.thy ===== *)
theory Fw_Guest
  imports Fw_Files
begin

text \<open>
  Guests: their ids and types (\<open>guest/types.rs\<close>, \<open>guest/mod.rs\<close>), their network devices and the
  part of their configuration that lists them (\<open>guest/vm.rs\<close>), and the firewall configuration of a
  guest (\<open>firewall/guest.rs\<close>). Property strings are read by another crate; the readers are fields
  of \<open>guest_env\<close>.
\<close>

section \<open>Guests\<close>

datatype guest_id = Vmid "32 word"

definition vmid_display :: "guest_id \<Rightarrow> string" where
  "vmid_display v = (case v of Vmid n \<Rightarrow> dec (unat n))"

definition vmid_from_str :: "string \<Rightarrow> (parse_error, guest_id) result" where
  "vmid_from_str s = (case parse_u32 s of Some n \<Rightarrow> Ok (Vmid n) | None \<Rightarrow> Err (InvalidNumber s))"

datatype guest_type = GuestVm | GuestCt

definition guest_iface_prefix :: "guest_type \<Rightarrow> string" where
  "guest_iface_prefix t = (case t of GuestVm \<Rightarrow> ''tap'' | GuestCt \<Rightarrow> ''veth'')"

definition guest_config_folder :: "guest_type \<Rightarrow> string" where
  "guest_config_folder t = (case t of GuestVm \<Rightarrow> ''qemu-server'' | GuestCt \<Rightarrow> ''lxc'')"

record guest_entry =
  ge_node :: string
  ge_type :: guest_type

text \<open>The name of the local node is an argument.\<close>

definition guest_is_local :: "string \<Rightarrow> guest_entry \<Rightarrow> bool" where
  "guest_is_local nodename e \<longleftrightarrow> nodename = ge_node e"

definition firewall_config_path :: "guest_id \<Rightarrow> string" where
  "firewall_config_path v = ''/etc/pve/firewall/'' @ vmid_display v @ ''.fw''"

definition guest_config_path :: "guest_id \<Rightarrow> guest_entry \<Rightarrow> string" where
  "guest_config_path v e =
     ''/etc/pve/local/'' @ guest_config_folder (ge_type e) @ ''/'' @ vmid_display v @ ''.conf''"

text \<open>
  The list of guests: the file system (\<open>read\<close>) and the JSON reader (\<open>from_slice\<close>) are arguments. The
  version is read and not used.
\<close>

type_synonym guest_map = "guest_id \<rightharpoonup> guest_entry"

datatype guest_map_error = GuestMapNotRead | GuestMapNotParsed

definition guest_map_new ::
  "(string \<Rightarrow> string option) \<Rightarrow> (string \<Rightarrow> guest_map option) \<Rightarrow> (guest_map_error, guest_map) result" where
  "guest_map_new read from_slice =
     and_then (ok_or GuestMapNotRead (read ''/etc/pve/.vmlist'')) (\<lambda>data.
     ok_or GuestMapNotParsed (from_slice data))"

section \<open>Network devices\<close>

datatype network_device_model = VirtIO | Veth | E1000 | Vmxnet3 | RTL8139

definition device_model_from_str :: "string \<Rightarrow> (parse_error, network_device_model) result" where
  "device_model_from_str s =
     (if s = ''virtio'' then Ok VirtIO
      else if s = ''e1000'' then Ok E1000
      else if s = ''rtl8139'' then Ok RTL8139
      else if s = ''vmxnet3'' then Ok Vmxnet3
      else if s = ''veth'' then Ok Veth
      else Err (InvalidName s))"

record 'x qemu_device =
  qd_model :: network_device_model
  qd_mac :: "'x mac_address"
  qd_firewall :: "bool option"

datatype 'x lxc_ipv4 = LxcV4 "'x ipv4_cidr" | LxcV4Dhcp | LxcV4Manual
datatype 'x lxc_ipv6 = LxcV6 "'x ipv6_cidr" | LxcV6Dhcp | LxcV6Auto | LxcV6Manual

record 'x lxc_device =
  ld_type :: network_device_model
  ld_mac :: "'x mac_address"
  ld_firewall :: "bool option"
  ld_ip :: "'x lxc_ipv4 option"
  ld_ip6 :: "'x lxc_ipv6 option"

record 'x guest_env =
  fw_part :: "'x fw_env"
  qemu_parse :: "string \<Rightarrow> 'x qemu_device option"
  lxc_parse :: "string \<Rightarrow> 'x lxc_device option"
  v4_cidr_parse :: "string \<Rightarrow> 'x ipv4_cidr option"
  v6_cidr_parse :: "string \<Rightarrow> 'x ipv6_cidr option"

definition lxc_ipv4_cidr :: "'x lxc_ipv4 \<Rightarrow> 'x ipv4_cidr option" where
  "lxc_ipv4_cidr a = (case a of LxcV4 c \<Rightarrow> Some c | _ \<Rightarrow> None)"

definition lxc_ipv6_cidr :: "'x lxc_ipv6 \<Rightarrow> 'x ipv6_cidr option" where
  "lxc_ipv6_cidr a = (case a of LxcV6 c \<Rightarrow> Some c | _ \<Rightarrow> None)"

definition lxc_ipv4_from_str :: "'x guest_env \<Rightarrow> string \<Rightarrow> (parse_error, 'x lxc_ipv4) result" where
  "lxc_ipv4_from_str env s =
     (if s = ''dhcp'' then Ok LxcV4Dhcp
      else if s = ''manual'' then Ok LxcV4Manual
      else and_then (ok_or (InvalidAddress s) (v4_cidr_parse env s)) (\<lambda>c. Ok (LxcV4 c)))"

definition lxc_ipv6_from_str :: "'x guest_env \<Rightarrow> string \<Rightarrow> (parse_error, 'x lxc_ipv6) result" where
  "lxc_ipv6_from_str env s =
     (if s = ''dhcp'' then Ok LxcV6Dhcp
      else if s = ''manual'' then Ok LxcV6Manual
      else if s = ''auto'' then Ok LxcV6Auto
      else and_then (ok_or (InvalidAddress s) (v6_cidr_parse env s)) (\<lambda>c. Ok (LxcV6 c)))"

datatype 'x network_device = QemuDevice "'x qemu_device" | LxcDevice "'x lxc_device"

definition device_model :: "'x network_device \<Rightarrow> network_device_model" where
  "device_model d = (case d of QemuDevice q \<Rightarrow> qd_model q | LxcDevice l \<Rightarrow> ld_type l)"

definition device_mac :: "'x network_device \<Rightarrow> 'x mac_address" where
  "device_mac d = (case d of QemuDevice q \<Rightarrow> qd_mac q | LxcDevice l \<Rightarrow> ld_mac l)"

definition device_ip :: "'x network_device \<Rightarrow> 'x ipv4_cidr option" where
  "device_ip d = (case d of
     QemuDevice _ \<Rightarrow> None | LxcDevice l \<Rightarrow> Option.bind (ld_ip l) lxc_ipv4_cidr)"

definition device_ip6 :: "'x network_device \<Rightarrow> 'x ipv6_cidr option" where
  "device_ip6 d = (case d of
     QemuDevice _ \<Rightarrow> None | LxcDevice l \<Rightarrow> Option.bind (ld_ip6 l) lxc_ipv6_cidr)"

definition device_has_firewall :: "'x network_device \<Rightarrow> bool" where
  "device_has_firewall d =
     unwrap_or False (case d of QemuDevice q \<Rightarrow> qd_firewall q | LxcDevice l \<Rightarrow> ld_firewall l)"

definition network_device_from_str :: "'x guest_env \<Rightarrow> string \<Rightarrow> (parse_error, 'x network_device) result" where
  "network_device_from_str env s = (case qemu_parse env s of
     Some q \<Rightarrow> Ok (QemuDevice q)
   | None \<Rightarrow> (case lxc_parse env s of
       Some l \<Rightarrow> Ok (LxcDevice l)
     | None \<Rightarrow> Err (InvalidNetworkDevice s)))"

type_synonym 'x network_config = "(int, 'x network_device) btree_map"

text \<open>The loop over the lines; the first section header ends it.\<close>

fun network_config_lines ::
  "'x guest_env \<Rightarrow> 'x network_config \<Rightarrow> string list \<Rightarrow> (parse_error, 'x network_config) result" where
  "network_config_lines env devices [] = Ok devices"
| "network_config_lines env devices (line0 # lines) =
     (let line = trim line0 in
      if line = [] \<or> starts_with ''#'' line then network_config_lines env devices lines
      else if starts_with ''['' line then Ok devices
      else if starts_with ''net'' line then
        (case split_once (CHR '':'') line of
           None \<Rightarrow> network_config_lines env devices lines
         | Some (key, val) \<Rightarrow>
             if key = [] \<or> val = [] then network_config_lines env devices lines
             else
               (case index_from_net_key (trim key) of
                  Err _ \<Rightarrow> Err (InvalidNetKey (trim key))
                | Ok index \<Rightarrow>
                    and_then (network_device_from_str env (trim val)) (\<lambda>device.
                    if bt_contains_key devices index then Err (DuplicateNetKey (trim key))
                    else network_config_lines env (bt_insert index device devices) lines)))
      else network_config_lines env devices lines)"

definition network_config_parse ::
  "'x guest_env \<Rightarrow> string list \<Rightarrow> (parse_error, 'x network_config) result" where
  "network_config_parse env lines = network_config_lines env [] lines"

section \<open>The firewall of a guest\<close>

record guest_options =
  go_dhcp :: "bool option"
  go_enable :: "bool option"
  go_ipfilter :: "bool option"
  go_ndp :: "bool option"
  go_radv :: "bool option"
  go_log_level_in :: "log_level option"
  go_log_level_out :: "log_level option"
  go_macfilter :: "bool option"
  go_policy_in :: "verdict option"
  go_policy_out :: "verdict option"
  go_policy_forward :: "verdict option"

definition guest_options_deserialize ::
  "'x fw_env \<Rightarrow> (string \<times> string) list \<Rightarrow> (parse_error, guest_options) result" where
  "guest_options_deserialize env kvs =
     (let flag = (\<lambda>key. option_field_of (perl_bool env) key kvs) in
      and_then (flag ''dhcp'') (\<lambda>dhcp.
      and_then (flag ''enable'') (\<lambda>enable.
      and_then (flag ''ipfilter'') (\<lambda>ipfilter.
      and_then (flag ''ndp'') (\<lambda>ndp.
      and_then (flag ''radv'') (\<lambda>radv.
      and_then (option_field_of read_log_level ''log_level_in'' kvs) (\<lambda>lin.
      and_then (option_field_of read_log_level ''log_level_out'' kvs) (\<lambda>lout.
      and_then (flag ''macfilter'') (\<lambda>macfilter.
      and_then (option_field_of read_verdict ''policy_in'' kvs) (\<lambda>pin.
      and_then (option_field_of read_verdict ''policy_out'' kvs) (\<lambda>pout.
      and_then (option_field_of read_verdict ''policy_forward'' kvs) (\<lambda>pfwd.
      Ok \<lparr>go_dhcp = dhcp, go_enable = enable, go_ipfilter = ipfilter, go_ndp = ndp, go_radv = radv,
          go_log_level_in = lin, go_log_level_out = lout, go_macfilter = macfilter, go_policy_in = pin,
          go_policy_out = pout, go_policy_forward = pfwd\<rparr>))))))))))))"

definition guest_options_type :: "'x fw_env \<Rightarrow> guest_options options_type" where
  "guest_options_type env = \<lparr>
     ot_default = \<lparr>go_dhcp = None, go_enable = None, go_ipfilter = None, go_ndp = None, go_radv = None,
       go_log_level_in = None, go_log_level_out = None, go_macfilter = None, go_policy_in = None,
       go_policy_out = None, go_policy_forward = None\<rparr>,
     ot_deserialize = guest_options_deserialize env\<rparr>"

record 'x guest_config =
  gc_vmid :: guest_id
  gc_iface_prefix :: string
  gc_network_config :: "'x network_config"
  gc_config :: "('x, guest_options) fw_config"

definition guest_parser_config :: parser_config where
  "guest_parser_config = \<lparr>pc_guest_iface_names = True, pc_ipset_scope = Some IpsetGuest,
     pc_allowed_directions = [DirIn, DirOut]\<rparr>"

definition guest_config_parse ::
  "'x guest_env \<Rightarrow> guest_id \<Rightarrow> string \<Rightarrow> string list \<Rightarrow> string list \<Rightarrow> (parse_error, 'x guest_config) result" where
  "guest_config_parse env vmid iface_prefix firewall_input network_input =
     and_then (fw_config_parse (fw_part env) guest_parser_config (guest_options_type (fw_part env))
         firewall_input) (\<lambda>config.
     if cf_groups config \<noteq> [] then Err GroupsNotAllowed
     else
       and_then (network_config_parse env network_input) (\<lambda>network.
       Ok \<lparr>gc_vmid = vmid, gc_iface_prefix = iface_prefix, gc_network_config = network,
           gc_config = config\<rparr>))"

definition int_display :: "int \<Rightarrow> string" where
  "int_display n = (if n < 0 then ''-'' else '''') @ dec (nat \<bar>n\<bar>)"

definition iface_name_by_index :: "'x guest_config \<Rightarrow> int \<Rightarrow> string" where
  "iface_name_by_index g index =
     gc_iface_prefix g @ vmid_display (gc_vmid g) @ ''i'' @ int_display index"

definition iface_name_by_key :: "'x guest_config \<Rightarrow> string \<Rightarrow> (parse_error, string) result" where
  "iface_name_by_key g key =
     and_then (index_from_net_key key) (\<lambda>index.
     Ok (gc_iface_prefix g @ vmid_display (gc_vmid g) @ ''i'' @ int_display index))"

definition guest_fw_ipset :: "'x guest_config \<Rightarrow> string \<Rightarrow> 'x ipset option" where
  "guest_fw_ipset g name = fw_config_ipset (gc_config g) name"

definition guest_fw_alias :: "'x guest_config \<Rightarrow> string \<Rightarrow> 'x fw_alias option" where
  "guest_fw_alias g name = fw_config_alias (gc_config g) name"

definition guest_is_enabled :: "'x guest_config \<Rightarrow> bool" where
  "guest_is_enabled g = unwrap_or False (go_enable (cf_options (gc_config g)))"

definition guest_log_level :: "'x guest_config \<Rightarrow> direction \<Rightarrow> log_level" where
  "guest_log_level g dir = (case dir of
     DirIn \<Rightarrow> unwrap_or Nolog (go_log_level_in (cf_options (gc_config g)))
   | DirOut \<Rightarrow> unwrap_or Nolog (go_log_level_out (cf_options (gc_config g)))
   | DirForward \<Rightarrow> Nolog)"

definition guest_allow_ndp :: "'x guest_config \<Rightarrow> bool" where
  "guest_allow_ndp g = unwrap_or True (go_ndp (cf_options (gc_config g)))"

definition guest_allow_dhcp :: "'x guest_config \<Rightarrow> bool" where
  "guest_allow_dhcp g = unwrap_or True (go_dhcp (cf_options (gc_config g)))"

definition guest_allow_ra :: "'x guest_config \<Rightarrow> bool" where
  "guest_allow_ra g = unwrap_or False (go_radv (cf_options (gc_config g)))"

definition guest_macfilter :: "'x guest_config \<Rightarrow> bool" where
  "guest_macfilter g = unwrap_or True (go_macfilter (cf_options (gc_config g)))"

definition guest_ipfilter :: "'x guest_config \<Rightarrow> bool" where
  "guest_ipfilter g = unwrap_or False (go_ipfilter (cf_options (gc_config g)))"

definition guest_default_policy :: "'x guest_config \<Rightarrow> direction \<Rightarrow> verdict" where
  "guest_default_policy g dir = (case dir of
     DirIn \<Rightarrow> unwrap_or Drop (go_policy_in (cf_options (gc_config g)))
   | DirOut \<Rightarrow> unwrap_or Accept (go_policy_out (cf_options (gc_config g)))
   | DirForward \<Rightarrow> unwrap_or Accept (go_policy_forward (cf_options (gc_config g))))"

end
