(* ===== verification/Fw_Rule_Props.thy ===== *)
theory Fw_Rule_Props
  imports Fw_Rule
begin

text \<open>
  What is read from the text of a rule: the options in any order, the parts of the text as they
  were written, and rules that are well-formed whatever the text was.
\<close>

section \<open>Options in any order\<close>

lemma and_then_assoc: "and_then (and_then r f) g = and_then r (\<lambda>a. and_then (f a) g)"
  by (cases r) auto

lemma try_fold_move:
  assumes "\<And>s x y. and_then (f s x) (\<lambda>s. f s y) = and_then (f s y) (\<lambda>s. f s x)"
  shows "try_fold f s (us @ x # vs) = try_fold f s (x # us @ vs)"
proof (induction us arbitrary: s)
  case (Cons u us)
  have "try_fold f s ((u # us) @ x # vs) = and_then (and_then (f s u) (\<lambda>s. f s x)) (\<lambda>s. try_fold f s (us @ vs))"
    by (simp add: Cons.IH and_then_assoc)
  also have "\<dots> = try_fold f s (x # (u # us) @ vs)"
    by (subst assms) (simp add: and_then_assoc)
  finally show ?case .
qed simp

text \<open>Steps that commute can be run in any order.\<close>

lemma try_fold_mset:
  assumes "\<And>s x y. and_then (f s x) (\<lambda>s. f s y) = and_then (f s y) (\<lambda>s. f s x)"
    and "mset xs = mset ys"
  shows "try_fold f s xs = try_fold f s ys"
  using assms(2)
proof (induction xs arbitrary: ys s)
  case (Cons x xs)
  then have "x \<in> set ys" by (metis list.set_intros(1) set_mset_mset)
  then obtain us vs where ys: "ys = us @ x # vs" by (meson split_list)
  with Cons.prems have "mset xs = mset (us @ vs)" by simp
  then have "try_fold f s (x # xs) = try_fold f s (x # us @ vs)" for s
    using Cons.IH by (cases "f s x") auto
  then show ?case unfolding ys try_fold_move [of f, OF assms(1)] .
qed simp

text \<open>
  Setting fields of a struct: a binding is bad, or it sets the one field it is for, which must not
  be set yet. Such steps commute.
\<close>

locale field_setter =
  fixes step :: "'s \<Rightarrow> 'b \<Rightarrow> ('e, 's) result"
    and bad :: "'b \<Rightarrow> bool" and field :: "'b \<Rightarrow> nat"
    and taken :: "nat \<Rightarrow> 's \<Rightarrow> bool" and put :: "'b \<Rightarrow> 's \<Rightarrow> 's" and err :: 'e
  assumes step_eq: "step s x = (if bad x \<or> taken (field x) s then Err err else Ok (put x s))"
    and taken_put: "\<not> bad x \<Longrightarrow> taken i (put x s) \<longleftrightarrow> taken i s \<or> i = field x"
    and put_comm: "\<not> bad x \<Longrightarrow> \<not> bad y \<Longrightarrow> field x \<noteq> field y \<Longrightarrow> put x (put y s) = put y (put x s)"
begin

lemma step_comm: "and_then (step s x) (\<lambda>s. step s y) = and_then (step s y) (\<lambda>s. step s x)"
  by (cases "bad x"; cases "bad y") (auto simp: step_eq taken_put put_comm)

lemma any_order: "mset xs = mset ys \<Longrightarrow> try_fold step s xs = try_fold step s ys"
  by (rule try_fold_mset [OF step_comm])

end

definition option_field :: "string \<times> string \<Rightarrow> nat" where
  "option_field kv = (let k = fst kv in
     if k = ''proto'' \<or> k = ''p'' then 0 else if k = ''dport'' then 1 else if k = ''sport'' then 2
     else if k = ''dest'' then 3 else if k = ''source'' then 4
     else if k = ''iface'' \<or> k = ''i'' then 5 else if k = ''log'' then 6
     else if k = ''icmp-type'' then 7 else 8)"

definition option_bad :: "string \<times> string \<Rightarrow> bool" where
  "option_bad kv \<longleftrightarrow> option_field kv = 8
     \<or> (option_field kv = 6 \<and> \<not> is_ok (log_level_from_str (snd kv)))"

definition option_taken :: "nat \<Rightarrow> rule_options \<Rightarrow> bool" where
  "option_taken i s \<longleftrightarrow> (i = 0 \<and> ro_proto s \<noteq> None) \<or> (i = 1 \<and> ro_dport s \<noteq> None)
     \<or> (i = 2 \<and> ro_sport s \<noteq> None) \<or> (i = 3 \<and> ro_dest s \<noteq> None) \<or> (i = 4 \<and> ro_source s \<noteq> None)
     \<or> (i = 5 \<and> ro_iface s \<noteq> None) \<or> (i = 6 \<and> ro_log s \<noteq> None) \<or> (i = 7 \<and> ro_icmp_type s \<noteq> None)"

definition option_put :: "string \<times> string \<Rightarrow> rule_options \<Rightarrow> rule_options" where
  "option_put kv s = (let i = option_field kv; v = Some (snd kv) in
     if i = 0 then s\<lparr>ro_proto := v\<rparr> else if i = 1 then s\<lparr>ro_dport := v\<rparr>
     else if i = 2 then s\<lparr>ro_sport := v\<rparr> else if i = 3 then s\<lparr>ro_dest := v\<rparr>
     else if i = 4 then s\<lparr>ro_source := v\<rparr> else if i = 5 then s\<lparr>ro_iface := v\<rparr>
     else if i = 6 then s\<lparr>ro_log := (case log_level_from_str (snd kv) of Ok l \<Rightarrow> Some l | Err _ \<Rightarrow> None)\<rparr>
     else if i = 7 then s\<lparr>ro_icmp_type := v\<rparr> else s)"

definition option_keys :: "string list" where
  "option_keys = [''proto'', ''p'', ''dport'', ''sport'', ''dest'', ''source'', ''iface'', ''i'', ''log'',
     ''icmp-type'']"

lemma set_option_eq:
  "set_option s kv =
     (if option_bad kv \<or> option_taken (option_field kv) s then Err DeserializeError
      else Ok (option_put kv s))"
proof -
  note defs = set_option_def option_bad_def option_put_def option_taken_def option_field_def set_field_def
  obtain k v where kv: "kv = (k, v)" by (cases kv)
  have "k \<in> set option_keys \<Longrightarrow> ?thesis"
    unfolding kv option_keys_def set_simps
    by (elim insertE emptyE; hypsubst; cases "log_level_from_str v") (simp_all add: defs)
  moreover have "k \<notin> set option_keys \<Longrightarrow> ?thesis"
    unfolding kv by (simp add: defs option_keys_def)
  ultimately show ?thesis by blast
qed

lemma option_field_cases: "option_field kv \<in> {0, 1, 2, 3, 4, 5, 6, 7, 8}"
  by (simp add: option_field_def Let_def)

interpretation options: field_setter set_option option_bad option_field option_taken option_put
  DeserializeError
proof
  fix x y s i
  show "set_option s x = (if option_bad x \<or> option_taken (option_field x) s then Err DeserializeError
      else Ok (option_put x s))"
    by (rule set_option_eq)
  show "\<not> option_bad x \<Longrightarrow> option_taken i (option_put x s) \<longleftrightarrow> option_taken i s \<or> i = option_field x"
    using option_field_cases [of x]
    by (elim insertE emptyE)
      (auto simp add: option_bad_def option_put_def option_taken_def is_ok_iff simp del: not_None_eq)
  show "\<not> option_bad x \<Longrightarrow> \<not> option_bad y \<Longrightarrow> option_field x \<noteq> option_field y
      \<Longrightarrow> option_put x (option_put y s) = option_put y (option_put x s)"
    using option_field_cases [of x] option_field_cases [of y]
    by (elim insertE emptyE) (simp_all add: option_put_def)
qed

lemma deserialize_mset: "mset xs = mset ys \<Longrightarrow> deserialize_options xs = deserialize_options ys"
  unfolding deserialize_options_def by (rule options.any_order)

section \<open>The text of options\<close>

text \<open>An option as it is written: one or two dashes, a name, and a value without white space.\<close>

definition option_text :: "bool \<times> string \<times> string \<Rightarrow> string" where
  "option_text opt = (case opt of (two, param, v) \<Rightarrow>
     '' '' @ (if two then ''--'' else ''-'') @ param @ '' '' @ v)"

definition option_ok :: "bool \<times> string \<times> string \<Rightarrow> bool" where
  "option_ok opt \<longleftrightarrow> (case opt of (_, param, v) \<Rightarrow>
     match_name param = Some (param, []) \<and> v \<noteq> [] \<and> list_all (\<lambda>c. \<not> is_whitespace c) v)"

definition options_text :: "(bool \<times> string \<times> string) list \<Rightarrow> string" where
  "options_text opts = concat (map option_text opts)"

lemma trim_start_idem [simp]: "trim_start (trim_start s) = trim_start s"
  unfolding trim_start_def by (rule dropWhile_idem)

lemma read_options_trim: "read_options opts (trim_start s) = read_options opts s"
  by (subst (1 2) read_options.simps) simp

lemma space_is_whitespace [simp]: "is_whitespace (CHR '' '')" "is_ascii_whitespace (CHR '' '')"
  by (simp_all add: char_class_defs)

lemma not_ascii_whitespace: "\<not> is_whitespace c \<Longrightarrow> \<not> is_ascii_whitespace c"
  by (auto simp: char_class_defs)

lemma space_not_name [simp]: "\<not> is_name_char (CHR '' '')"
  by (simp add: is_name_char_def char_class_defs)

lemma match_name_space:
  "match_name p = Some (p, []) \<Longrightarrow> match_name (p @ CHR '' '' # r) = Some (p, CHR '' '' # r)"
  by (simp add: match_name_iff)

lemma match_non_whitespace_space:
  assumes "v \<noteq> []" and "list_all (\<lambda>c. \<not> is_whitespace c) v" and "r = [] \<or> hd r = CHR '' ''"
  shows "match_non_whitespace (v @ r) = Some (v, trim_start r)"
proof -
  have v: "\<forall>c\<in>set v. \<not> is_ascii_whitespace c"
    using assms(2) not_ascii_whitespace by (auto simp: list_all_iff)
  have "takeWhile (\<lambda>c. \<not> is_ascii_whitespace c) (v @ r) = v"
    and "dropWhile (\<lambda>c. \<not> is_ascii_whitespace c) (v @ r) = r"
    using v assms(3) by (cases r; simp add: takeWhile_append2 dropWhile_append2)+
  then show ?thesis using assms(1) by (simp add: match_non_whitespace_def)
qed

lemma options_text_start: "options_text opts = [] \<or> hd (options_text opts) = CHR '' ''"
  by (cases opts) (simp_all add: options_text_def option_text_def split: prod.split)

lemma read_options_step:
  assumes "option_ok (two, param, v)" and "map_of acc param = None" and "r = [] \<or> hd r = CHR '' ''"
  shows "read_options acc (option_text (two, param, v) @ r) = read_options ((param, v) # acc) r"
proof -
  obtain c cs where p: "param = c # cs" "is_ascii_alphabetic c"
    using assms(1) by (cases param) (auto simp: option_ok_def match_name_iff)
  have c: "c \<noteq> CHR ''-''" using p(2) by (auto simp: char_class_defs)
  obtain d ds where v: "v = d # ds" "\<not> is_whitespace d"
    using assms(1) by (cases v) (auto simp: option_ok_def)
  let ?rest = "(if two then ''-'' else []) @ param @ '' '' @ v @ r"
  have start: "trim_start (option_text (two, param, v) @ r) = CHR ''-'' # ?rest"
    by (simp add: option_text_def trim_start_def is_whitespace_def)
  have strip: "(case strip_prefix ''-'' ?rest of None \<Rightarrow> ?rest | Some l \<Rightarrow> l) = param @ '' '' @ v @ r"
    using c p(1) by simp
  have name: "match_name (param @ '' '' @ v @ r) = Some (param, '' '' @ v @ r)"
    using assms(1) match_name_space by (simp add: option_ok_def)
  have val: "match_non_whitespace (trim_start ('' '' @ v @ r)) = Some (v, trim_start r)"
    using match_non_whitespace_space [OF _ _ assms(3), of v] assms(1) v
    by (simp add: option_ok_def trim_start_def)
  show ?thesis
    by (subst read_options.simps) (simp only: start strip name val assms(2) list.case option.case prod.case
      simp_thms if_True if_False read_options_trim)
qed

lemma read_options_text:
  assumes "list_all option_ok opts" and "distinct (map (fst \<circ> snd) opts)"
    and "\<forall>opt\<in>set opts. map_of acc (fst (snd opt)) = None"
  shows "read_options acc (options_text opts) = Ok (rev (map snd opts) @ acc)"
  using assms
proof (induction opts arbitrary: acc)
  case Nil
  then show ?case by (simp add: options_text_def read_options.simps trim_start_def)
next
  case (Cons opt opts)
  obtain two param v where opt: "opt = (two, param, v)" by (cases opt)
  have "read_options acc (options_text (opt # opts)) = read_options ((param, v) # acc) (options_text opts)"
    using read_options_step [of two param v acc, OF _ _ options_text_start] Cons.prems
    by (simp add: opt options_text_def)
  also have "\<dots> = Ok (rev (map snd opts) @ (param, v) # acc)"
    using Cons.prems by (intro Cons.IH) (auto simp: opt rev_image_eqI)
  finally show ?case by (simp add: opt)
qed

lemma options_text_read:
  assumes "list_all option_ok opts" and "distinct (map (fst \<circ> snd) opts)"
  shows "rule_options_from_str (options_text opts) = deserialize_options (map snd opts)"
proof -
  have "read_options [] (options_text opts) = Ok (rev (map snd opts))"
    using read_options_text [OF assms, of "[]"] by simp
  then show ?thesis unfolding rule_options_from_str_def by (simp add: deserialize_mset [of "rev _"])
qed

text \<open>
  C17: the order of the options of a rule does not matter, and neither does the number of dashes:
  whatever the order in which distinct options are written, reading their text fills the fields
  with the values of exactly these options, or fails exactly when that fails.
\<close>

theorem rule_options_any_order:
  assumes "list_all option_ok opts" and "distinct (map (fst \<circ> snd) opts)"
    and "mset (map snd opts) = mset kvs"
  shows "rule_options_from_str (options_text opts) = deserialize_options kvs"
  using options_text_read [OF assms(1,2)] deserialize_mset [OF assms(3)] by simp

theorem rule_options_any_order_witness:
  "rule_options_from_str '' --dport 22 -p tcp -i net0''
     = deserialize_options [(''i'', ''net0''), (''p'', ''tcp''), (''dport'', ''22'')]"
proof -
  let ?o = "[(True, ''dport'', ''22''), (False, ''p'', ''tcp''), (False, ''i'', ''net0'')]"
  have "options_text ?o = '' --dport 22 -p tcp -i net0''" by (simp add: options_text_def option_text_def)
  moreover have "list_all option_ok ?o" by code_simp
  ultimately show ?thesis
    using rule_options_any_order [of ?o "[(''i'', ''net0''), (''p'', ''tcp''), (''dport'', ''22'')]"] by simp
qed

section \<open>The loop over the options ends\<close>

text \<open>
  One iteration of the loop: either the loop is left, with a result or an error, or it goes on with
  one more option and the rest of the text.
\<close>

definition option_step ::
  "(string \<times> string) list \<Rightarrow> string
     \<Rightarrow> (parse_error, (string \<times> string) list) result + (string \<times> string) list \<times> string" where
  "option_step options line =
     (case trim_start line of
        [] \<Rightarrow> Inl (Ok options)
      | c # rest \<Rightarrow>
          if c \<noteq> CHR ''-'' then Inl (Err MissingDash)
          else
            (case match_name (case strip_prefix ''-'' rest of Some l \<Rightarrow> l | None \<Rightarrow> rest) of
               None \<Rightarrow> Inl (Err MissingParameter)
             | Some (param, line2) \<Rightarrow>
                 (case match_non_whitespace (trim_start line2) of
                    None \<Rightarrow> Inl (Err (MissingOptionValue param))
                  | Some (value, line3) \<Rightarrow>
                      if map_of options param \<noteq> None then Inl (Err (DuplicateOption param))
                      else Inr ((param, value) # options, line3))))"

text \<open>The loop with a limit on its iterations; \<open>None\<close> when it is still running.\<close>

primrec run_options ::
  "nat \<Rightarrow> (string \<times> string) list \<Rightarrow> string \<Rightarrow> (parse_error, (string \<times> string) list) result option" where
  "run_options 0 options line = None"
| "run_options (Suc n) options line = (case option_step options line of
     Inl r \<Rightarrow> Some r | Inr (options, line) \<Rightarrow> run_options n options line)"

lemma read_options_option_step:
  "read_options options line = (case option_step options line of
     Inl r \<Rightarrow> r | Inr (options, line) \<Rightarrow> read_options options line)"
  by (subst read_options.simps) (simp add: option_step_def split: list.split option.split)

lemma option_step_shorter:
  assumes "option_step options line = Inr (options', line')"
  shows "length line' + 3 \<le> length line"
proof -
  from assms obtain c rest param line2 v where start: "trim_start line = c # rest"
    and name: "match_name (case strip_prefix ''-'' rest of Some l \<Rightarrow> l | None \<Rightarrow> rest) = Some (param, line2)"
    and v: "match_non_whitespace (trim_start line2) = Some (v, line')"
    by (auto simp: option_step_def split: list.splits option.splits if_splits)
  have "length (case strip_prefix ''-'' rest of Some l \<Rightarrow> l | None \<Rightarrow> rest) \<le> length rest"
    by (auto split: option.split)
  then have "length line2 < length rest" using name name_parser.consumes_suffix by blast
  moreover have "length line' < length line2" using v value_parser.consumes_trim by blast
  moreover have "Suc (length rest) \<le> length line" using length_trim_start [of line] start by simp
  ultimately show ?thesis by simp
qed

text \<open>
  C18: the loop that reads the options of a rule ends on every text. Each iteration takes at least
  three characters off the text (a dash, a name and a value), so more iterations than a third of its
  length are never needed; the result is that of \<open>read_options\<close>.
\<close>

theorem rule_options_loop_ends:
  assumes "length line div 3 < n"
  shows "run_options n options line = Some (read_options options line)"
  using assms
proof (induction n arbitrary: options line)
  case (Suc n)
  show ?case
  proof (cases "option_step options line")
    case (Inr p)
    obtain options' line' where p: "p = (options', line')" by force
    from option_step_shorter [OF Inr [unfolded p]] Suc.prems have "length line' div 3 < n" by linarith
    then show ?thesis using Suc.IH Inr p read_options_option_step [of options line] by simp
  qed (simp add: read_options_option_step [of options line])
qed simp

theorem rule_options_loop_ends_witness:
  "run_options 3 [] ''-p tcp'' = Some (read_options [] ''-p tcp'')"
  by (rule rule_options_loop_ends) simp

section \<open>The text of a rule\<close>

definition direction_word :: "direction \<Rightarrow> string" where
  "direction_word d = (case d of DirIn \<Rightarrow> ''IN'' | DirOut \<Rightarrow> ''OUT'' | DirForward \<Rightarrow> ''FORWARD'')"

definition action_text :: "string option \<Rightarrow> verdict \<Rightarrow> string" where
  "action_text fw_macro v = (case fw_macro of
     None \<Rightarrow> verdict_display v | Some m \<Rightarrow> m @ ''('' @ verdict_display v @ '')'')"

definition rule_text ::
  "bool \<Rightarrow> direction \<Rightarrow> string option \<Rightarrow> verdict \<Rightarrow> (bool \<times> string \<times> string) list
     \<Rightarrow> string option \<Rightarrow> string" where
  "rule_text off dir fw_macro v opts comment =
     (if off then ''|'' else []) @ direction_word dir @ '' '' @ action_text fw_macro v
     @ options_text opts @ (case comment of None \<Rightarrow> [] | Some c \<Rightarrow> ''#'' @ c)"

lemma direction_word_read [simp]:
  "direction_from_str (direction_word d) = Ok d" "match_name (direction_word d) = Some (direction_word d, [])"
  by (cases d; simp add: direction_word_def direction_from_str_def eq_ignore_ascii_case_def
      to_ascii_lowercase_def match_name_def is_name_char_def char_class_defs)+

lemma verdict_display_read [simp]:
  "verdict_from_str (verdict_display v) = Ok v" "match_name (verdict_display v) = Some (verdict_display v, [])"
  by (cases v; simp add: verdict_display_def verdict_from_str_def eq_ignore_ascii_case_def
      to_ascii_lowercase_def match_name_def is_name_char_def char_class_defs)+

lemma match_name_then:
  "match_name p = Some (p, []) \<Longrightarrow> r = [] \<or> \<not> is_name_char (hd r) \<Longrightarrow> match_name (p @ r) = Some (p, r)"
  by (simp add: match_name_iff)

lemma paren_not_name [simp]: "\<not> is_name_char (CHR ''('')" "\<not> is_name_char (CHR '')'')"
  by (simp_all add: is_name_char_def char_class_defs)

lemma parse_action_text:
  assumes "case fw_macro of None \<Rightarrow> True | Some m \<Rightarrow> match_name m = Some (m, [])"
    and "r = [] \<or> hd r = CHR '' ''"
  shows "parse_action (action_text fw_macro v @ r) = Ok (fw_macro, v, trim_start r)"
proof (cases fw_macro)
  case None
  have "match_name (verdict_display v @ r) = Some (verdict_display v, r)"
    using assms(2) by (intro match_name_then) auto
  moreover have "strip_prefix ''('' r = None" using assms(2) by (cases r) auto
  ultimately show ?thesis by (simp add: None action_text_def parse_action_def)
next
  case (Some m)
  have "match_name (m @ ''('' @ verdict_display v @ '')'' @ r) = Some (m, ''('' @ verdict_display v @ '')'' @ r)"
    using assms(1) Some by (intro match_name_then) simp_all
  moreover have "match_name (verdict_display v @ '')'' @ r) = Some (verdict_display v, '')'' @ r)"
    by (intro match_name_then) simp_all
  ultimately show ?thesis by (simp add: Some action_text_def parse_action_def)
qed

lemma rule_options_trim: "rule_options_from_str (trim_start s) = rule_options_from_str s"
  by (simp add: rule_options_from_str_def read_options_trim)

lemma name_no_trim: "match_name p = Some (p, []) \<Longrightarrow> trim_start (p @ r) = p @ r"
  by (cases p) (auto simp: match_name_iff trim_start_def char_class_defs)

lemma rule_match_text:
  assumes "case fw_macro of None \<Rightarrow> True | Some m \<Rightarrow> match_name m = Some (m, [])"
    and "r = [] \<or> hd r = CHR '' ''"
  shows "rule_match_from_str env (direction_word d @ '' '' @ action_text fw_macro v @ r)
    = and_then (rule_options_from_str r) (rule_match_from_options env d v fw_macro)"
proof -
  have "trim_start ('' '' @ action_text fw_macro v @ r) = action_text fw_macro v @ r"
    using assms(1) name_no_trim [of "verdict_display v"]
    by (cases fw_macro) (simp_all add: action_text_def trim_start_def name_no_trim [unfolded trim_start_def])
  moreover have "match_name (direction_word d @ '' '' @ action_text fw_macro v @ r)
      = Some (direction_word d, '' '' @ action_text fw_macro v @ r)"
    by (intro match_name_then) simp_all
  ultimately show ?thesis
    by (simp add: rule_match_from_str_def parse_action_text [OF assms] rule_options_trim)
qed

lemma trim_id: "s \<noteq> [] \<Longrightarrow> \<not> is_whitespace (hd s) \<Longrightarrow> \<not> is_whitespace (last s) \<Longrightarrow> trim s = s"
  by (simp add: trim_def trim_start_def trim_end_def dropWhile_eq_self_iff [THEN iffD2] hd_rev)

definition on_one_line :: "string \<Rightarrow> bool" where
  "on_one_line s \<longleftrightarrow> CHR 0x0A \<notin> set s \<and> CHR 0x0D \<notin> set s"

definition uncommented :: "string \<Rightarrow> bool" where
  "uncommented s \<longleftrightarrow> CHR ''#'' \<notin> set s \<and> on_one_line s"

lemma uncommented_append [simp]: "uncommented (a @ b) \<longleftrightarrow> uncommented a \<and> uncommented b"
  by (auto simp: uncommented_def on_one_line_def)

lemma uncommented_Cons [simp]:
  "uncommented (c # s) \<longleftrightarrow> c \<noteq> CHR ''#'' \<and> c \<noteq> CHR 0x0A \<and> c \<noteq> CHR 0x0D \<and> uncommented s"
  by (auto simp: uncommented_def on_one_line_def)

lemma uncommented_name: "match_name p = Some (p, []) \<Longrightarrow> uncommented p"
  by (auto simp: uncommented_def on_one_line_def match_name_iff list_all_iff is_name_char_def char_class_defs)

lemma uncommented_words [simp]:
  "uncommented []" "uncommented (direction_word d)" "uncommented (verdict_display v)"
proof -
  show n: "uncommented []" by (simp add: uncommented_def on_one_line_def)
  show "uncommented (direction_word d)" by (cases d) (simp_all add: direction_word_def n)
  show "uncommented (verdict_display v)" by (cases v) (simp_all add: verdict_display_def n)
qed

lemma uncommented_options:
  "list_all option_ok opts \<Longrightarrow> \<forall>opt\<in>set opts. uncommented (snd (snd opt)) \<Longrightarrow> uncommented (options_text opts)"
  by (induction opts)
    (auto simp: options_text_def option_text_def option_ok_def uncommented_name split: prod.splits)

lemma last_option: "opts \<noteq> [] \<Longrightarrow> list_all option_ok opts \<Longrightarrow> \<not> is_whitespace (last (options_text opts))"
proof (induction opts rule: rev_induct)
  case (snoc opt opts)
  then show ?case by (cases opt) (auto simp: options_text_def option_text_def option_ok_def list_all_iff)
qed simp

lemma name_char_not_whitespace: "is_name_char c \<Longrightarrow> \<not> is_whitespace c"
  by (auto simp: is_name_char_def char_class_defs)

lemma last_action: "\<not> is_whitespace (last (action_text m v)) \<and> action_text m v \<noteq> []"
  by (cases m; cases v) (simp_all add: action_text_def verdict_display_def is_whitespace_def)

lemma first_direction: "direction_word d \<noteq> []" "\<not> is_whitespace (hd (direction_word d))"
  "hd (direction_word d) \<noteq> CHR ''|''" "hd (direction_word d) \<noteq> CHR ''G''"
  by (cases d; simp add: direction_word_def is_whitespace_def)+

text \<open>
  C15: the parts of a rule come back as they were written: for every direction, verdict, macro,
  list of distinct options and comment, the text of the rule, disabled or not, is read as the rule
  with this direction, verdict and macro, whose options are matched by \<open>from_options\<close>, and with the
  comment without the white space around it.
\<close>

theorem rule_text_reads:
  assumes "case fw_macro of None \<Rightarrow> True | Some m \<Rightarrow> match_name m = Some (m, [])"
    and "list_all option_ok opts" and "distinct (map (fst \<circ> snd) opts)"
    and "\<forall>opt\<in>set opts. uncommented (snd (snd opt))"
    and "case comment of None \<Rightarrow> True | Some c \<Rightarrow> c \<noteq> [] \<and> on_one_line c"
  shows "rule_from_str env (rule_text off dir fw_macro v opts comment) =
    and_then (deserialize_options (map snd opts)) (\<lambda>options.
    and_then (rule_match_from_options env dir v fw_macro options) (\<lambda>m.
    Ok \<lparr>ru_disabled = off, ru_kind = KindMatch m, ru_comment = map_option trim comment\<rparr>))"
proof -
  let ?m = "direction_word dir @ '' '' @ action_text fw_macro v @ options_text opts"
  let ?l = "(if off then ''|'' else []) @ ?m"
  have "uncommented (action_text fw_macro v)"
    using assms(1) by (cases fw_macro) (simp_all add: action_text_def uncommented_name)
  then have plain: "uncommented ?l" using uncommented_options [OF assms(2,4)] by simp
  have "\<not> is_whitespace (last ?m)"
    using last_option [OF _ assms(2)] last_action [of fw_macro v]
    by (cases "options_text opts = []"; cases "opts = []") (simp_all add: options_text_def)
  then have trim: "trim ?l = ?l" "trim_start ?m = ?m"
    using first_direction [of dir]
    by (intro trim_id trim_start_id; auto simp: is_whitespace_def hd_append)+
  have no_group: "starts_with ''GROUP'' ?m = False" and "strip_prefix ''|'' ?m = None"
    using first_direction [of dir] by (cases "direction_word dir"; simp add: starts_with_def)+
  then have off: "(case strip_prefix ''|'' ?l of Some line \<Rightarrow> (True, trim_start line)
      | None \<Rightarrow> (False, ?l)) = (off, ?m)"
    using trim(2) by simp
  have hash: "CHR ''#'' \<notin> set ?l" using plain by (simp add: uncommented_def)
  let ?t = "rule_text off dir fw_macro v opts comment"
  have t: "?t = ?l @ (case comment of None \<Rightarrow> [] | Some c \<Rightarrow> CHR ''#'' # c)"
    by (simp add: rule_text_def split: option.split)
  have split: "(case split_once (CHR ''#'') ?t of
        Some (line, comment) \<Rightarrow> if comment \<noteq> [] then (trim line, Some (trim comment)) else (trim ?t, None)
      | None \<Rightarrow> (trim ?t, None)) = (?l, map_option trim comment)"
  proof (cases comment)
    case None
    then have "?t = ?l" and "split_once (CHR ''#'') ?l = None"
      using hash split_once_None [of "CHR ''#''" ?l] by (simp add: rule_text_def, blast)
    then show ?thesis using trim(1) None by (simp only: option.case option.map)
  next
    case (Some c)
    then have "?t = ?l @ CHR ''#'' # c" by (simp add: rule_text_def)
    then have "split_once (CHR ''#'') ?t = Some (?l, c)" using split_once_append [OF hash, of c] by simp
    moreover have "c \<noteq> []" using assms(5) Some by simp
    ultimately show ?thesis using trim(1) Some by (simp only: option.case option.map prod.case if_True simp_thms)
  qed
  have "CHR 0x0A \<notin> set ?t" "CHR 0x0D \<notin> set ?t"
    unfolding t using plain assms(5) by (cases comment; simp add: uncommented_def on_one_line_def)+
  then show ?thesis
    unfolding rule_from_str_def split Let_def
    by (simp only: prod.case off no_group if_False simp_thms and_then_assoc)
      (simp only: rule_match_text [OF assms(1) options_text_start] options_text_read [OF assms(2,3)]
        and_then_assoc and_then.simps)
qed

theorem rule_text_reads_witness:
  "rule_from_str sample_fw_env ''|IN SSH(ACCEPT) -i net0# ssh''
    = Ok \<lparr>ru_disabled = True,
        ru_kind = KindMatch \<lparr>rm_dir = DirIn, rm_verdict = Accept, rm_macro = Some ''SSH'',
          rm_iface = Some ''net0'', rm_log = None, rm_ip = None, rm_proto = None\<rparr>,
        ru_comment = Some ''ssh''\<rparr>"
proof -
  let ?o = "[(False, ''i'', ''net0'')]"
  have ok: "match_name ''SSH'' = Some (''SSH'', [])" "list_all option_ok ?o"
    "uncommented ''net0''" "on_one_line '' ssh''" "trim '' ssh'' = ''ssh''"
    by code_simp+
  have "rule_text True DirIn (Some ''SSH'') Accept ?o (Some '' ssh'') = ''|IN SSH(ACCEPT) -i net0# ssh''"
    by (simp add: rule_text_def direction_word_def action_text_def verdict_display_def options_text_def
        option_text_def)
  moreover have "deserialize_options (map snd ?o) = Ok (rule_options_default\<lparr>ro_iface := Some ''net0''\<rparr>)"
    by (simp add: deserialize_options_def set_option_def set_field_def rule_options_default_def)
  moreover have "rule_match_from_options sample_fw_env DirIn Accept (Some ''SSH'')
      (rule_options_default\<lparr>ro_iface := Some ''net0''\<rparr>)
    = Ok \<lparr>rm_dir = DirIn, rm_verdict = Accept, rm_macro = Some ''SSH'', rm_iface = Some ''net0'',
          rm_log = None, rm_ip = None, rm_proto = None\<rparr>"
    by (simp add: rule_match_from_options_def rule_options_default_def ip_match_from_options_def
        transpose_def protocol_from_options_def)
  ultimately show ?thesis
    using rule_text_reads [of "Some ''SSH''" ?o "Some '' ssh''" sample_fw_env True DirIn Accept] ok
    by simp
qed

section \<open>Well-formed rules\<close>

definition ports_wf :: "ports \<Rightarrow> bool" where
  "ports_wf p \<longleftrightarrow> (\<forall>l. po_sport p = Some l \<or> po_dport p = Some l \<longrightarrow> port_list_wf l)"

definition protocol_wf :: "rule_protocol \<Rightarrow> bool" where
  "protocol_wf p = (case p of
     ProtoDccp po \<Rightarrow> ports_wf po | ProtoSctp po \<Rightarrow> ports_wf po | ProtoTcp po \<Rightarrow> ports_wf po
   | ProtoUdp po \<Rightarrow> ports_wf po | ProtoUdpLite po \<Rightarrow> ports_wf po
   | ProtoIcmp i \<Rightarrow> (\<forall>t. icmp_ty i = Some t \<longrightarrow> icmp_type_wf t)
   | ProtoIcmpv6 i \<Rightarrow> (\<forall>t. icmpv6_ty i = Some t \<longrightarrow> icmpv6_type_wf t)
   | _ \<Rightarrow> True)"

definition addr_wf :: "'x fw_env \<Rightarrow> 'x ip_addr_match option \<Rightarrow> bool" where
  "addr_wf env a \<longleftrightarrow> (\<forall>l. a = Some (MatchIp l) \<longrightarrow> ip_list_wf env l)"

definition ip_match_wf :: "'x fw_env \<Rightarrow> 'x ip_match \<Rightarrow> bool" where
  "ip_match_wf env m \<longleftrightarrow> (im_src m \<noteq> None \<or> im_dst m \<noteq> None) \<and> addr_wf env (im_src m)
     \<and> addr_wf env (im_dst m)
     \<and> (\<forall>s d. im_src m = Some (MatchIp s) \<and> im_dst m = Some (MatchIp d) \<longrightarrow> il_family s = il_family d)"

definition rule_wf :: "'x fw_env \<Rightarrow> 'x rule \<Rightarrow> bool" where
  "rule_wf env r = (case ru_kind r of
     KindGroup g \<Rightarrow> match_name (rg_group g) = Some (rg_group g, [])
   | KindMatch m \<Rightarrow> (\<forall>i. rm_ip m = Some i \<longrightarrow> ip_match_wf env i)
       \<and> (\<forall>p. rm_proto m = Some p \<longrightarrow> protocol_wf p)
       \<and> (\<forall>n. rm_macro m = Some n \<longrightarrow> match_name n = Some (n, [])))"

lemma transpose_Ok: "transpose f x = Ok y \<longleftrightarrow> (x = None \<and> y = None) \<or> (\<exists>a b. x = Some a \<and> y = Some b \<and> f a = Ok b)"
  by (auto simp: transpose_def result_simps split: option.splits)

lemma match_name_name: "match_name s = Some (n, r) \<Longrightarrow> match_name n = Some (n, [])"
  by (simp add: match_name_iff)

lemma ports_from_options_wf: "ports_from_options env o1 = Ok p \<Longrightarrow> ports_wf p"
  by (auto simp: ports_from_options_def ports_wf_def result_simps transpose_Ok port_list_from_str_wf)

lemma icmp_from_options_wf: "icmp_from_options o1 = Ok i \<Longrightarrow> icmp_ty i = Some t \<Longrightarrow> icmp_type_wf t"
  by (auto simp: icmp_from_options_def icmp_default_def icmp_from_str_wf split: option.split_asm)

lemma icmpv6_from_options_wf:
  "icmpv6_from_options o1 = Ok i \<Longrightarrow> icmpv6_ty i = Some t \<Longrightarrow> icmpv6_type_wf t"
  by (auto simp: icmpv6_from_options_def icmpv6_default_def icmpv6_from_str_wf split: option.split_asm)

definition yields_wf :: "(parse_error, rule_protocol option) result \<Rightarrow> bool" where
  "yields_wf r \<longleftrightarrow> (\<forall>p. r = Ok (Some p) \<longrightarrow> protocol_wf p)"

lemma yields_wf_if: "yields_wf x \<Longrightarrow> yields_wf y \<Longrightarrow> yields_wf (if b then x else y)"
  by simp

lemma yields_wf_ports:
  "(\<And>po. ports_wf po \<Longrightarrow> protocol_wf (f po))
    \<Longrightarrow> yields_wf (and_then (ports_from_options env o1) (\<lambda>po. Ok (Some (f po))))"
  by (auto simp: yields_wf_def result_simps dest: ports_from_options_wf)

lemma protocol_from_options_wf: "protocol_from_options env o1 = Ok (Some p) \<Longrightarrow> protocol_wf p"
proof -
  have "yields_wf (protocol_from_options env o1)"
  proof (cases "ro_proto o1")
    case (Some p)
    have "yields_wf (and_then (icmp_from_options o1) (\<lambda>i. Ok (Some (ProtoIcmp i))))"
      "yields_wf (and_then (icmpv6_from_options o1) (\<lambda>i. Ok (Some (ProtoIcmpv6 i))))"
      "yields_wf (case parse_u8 p of None \<Rightarrow> Ok (Some (ProtoNamed p)) | Some n \<Rightarrow> Ok (Some (ProtoNumeric n)))"
      by (auto simp: yields_wf_def protocol_wf_def result_simps icmp_from_options_wf icmpv6_from_options_wf
          split: option.splits)
    then show ?thesis unfolding protocol_from_options_def Let_def Some option.case
      by (intro yields_wf_if yields_wf_ports) (simp_all add: protocol_wf_def)
  qed (simp add: protocol_from_options_def yields_wf_def)
  then show "protocol_from_options env o1 = Ok (Some p) \<Longrightarrow> protocol_wf p" by (simp add: yields_wf_def)
qed

lemma ip_addr_match_wf: "ip_addr_match_from_str env s = Ok a \<Longrightarrow> addr_wf env (Some a)"
  by (auto simp: ip_addr_match_from_str_def addr_wf_def ip_list_from_str_wf split: if_splits result.splits)

lemma ip_match_new_wf:
  "ip_match_new src dst = Ok m \<Longrightarrow> addr_wf env src \<Longrightarrow> addr_wf env dst \<Longrightarrow> ip_match_wf env m"
  by (auto simp: ip_match_new_def ip_match_wf_def split: if_splits option.splits ip_addr_match.splits)

lemma ip_match_from_options_wf: "ip_match_from_options env o1 = Ok (Some m) \<Longrightarrow> ip_match_wf env m"
  by (auto simp: ip_match_from_options_def result_simps transpose_Ok split: if_splits
      intro!: ip_match_new_wf dest!: ip_addr_match_wf) (auto simp: addr_wf_def)

lemma rule_match_wf:
  assumes "rule_match_from_str env s = Ok m"
  shows "rule_wf env \<lparr>ru_disabled = off, ru_kind = KindMatch m, ru_comment = c\<rparr>"
  using assms
  by (auto simp: rule_match_from_str_def rule_match_from_options_def parse_action_def rule_wf_def result_simps
      protocol_from_options_wf ip_match_from_options_wf match_name_name split: if_splits option.splits)

lemma rule_group_wf:
  assumes "rule_group_from_str s = Ok g"
  shows "rule_wf env \<lparr>ru_disabled = off, ru_kind = KindGroup g, ru_comment = c\<rparr>"
  using assms
  by (auto simp: rule_group_from_str_def rule_group_from_options_def rule_wf_def result_simps
      match_name_name split: if_splits)

lemma rule_from_str_rule_wf:
  assumes "rule_from_str env s = Ok r"
  shows "rule_wf env r"
  using assms rule_match_wf rule_group_wf
  by (auto simp: rule_from_str_def result_simps Let_def split: if_splits option.splits prod.splits)



end
