(* ===== verification/Fw_Config_Props.thy ===== *)
theory Fw_Config_Props
  imports Fw_Config Fw_Rule_Props
begin

text \<open>
  What the state machine of the configuration parser computes: the file is a list of sections, each
  is read by itself, and the configuration collects what the sections hold. The proof compares the
  values of successful runs (\<open>ok\<close>, Rust's \<open>Result::ok\<close>); which of several errors is reported first
  differs.
\<close>

section \<open>Sections of a file\<close>

definition content :: "string list \<Rightarrow> string list" where
  "content lines = filter (\<lambda>l. l \<noteq> [] \<and> \<not> starts_with ''#'' l) (map trim lines)"

abbreviation is_header :: "string \<Rightarrow> bool" where
  "is_header \<equiv> starts_with ''[''"

function (sequential) blocks :: "string list \<Rightarrow> (string \<times> string list) list" where
  "blocks [] = []"
| "blocks (h # ls) =
     (h, takeWhile (\<lambda>l. \<not> is_header l) ls) # blocks (dropWhile (\<lambda>l. \<not> is_header l) ls)"
  by pat_completeness auto
termination by (relation "measure length") (auto simp: less_Suc_eq_le length_dropWhile_le)

text \<open>The section a header opens; any other line opens none.\<close>

definition open_section :: "parser_config \<Rightarrow> string \<Rightarrow> (parse_error, 'x fw_section) result" where
  "open_section cfg line =
     (if eq_ignore_ascii_case line ''[OPTIONS]'' then Ok SecOptions
      else if eq_ignore_ascii_case line ''[ALIASES]'' then Ok SecAliases
      else if eq_ignore_ascii_case line ''[RULES]'' then Ok SecRules
      else case strip_prefix ''[IPSET'' line of
          Some tail \<Rightarrow>
            and_then (parse_named_section_tail ''ipset'' tail) (\<lambda>(name, comment).
            and_then (ok_or NoIpsetScope (pc_ipset_scope cfg)) (\<lambda>scope.
            Ok (SecIpset name
              \<lparr>is_name = \<lparr>in_scope = scope, in_name = name\<rparr>, is_set = [], is_comment = comment\<rparr>)))
        | None \<Rightarrow> (case strip_prefix ''[group'' line of
          Some tail \<Rightarrow>
            and_then (parse_named_section_tail ''group'' tail) (\<lambda>(name, comment).
            Ok (SecGroup name \<lparr>fg_rules = [], fg_comment = comment\<rparr>))
        | None \<Rightarrow> Err (InvalidSection line)))"

text \<open>What a section holds, read by itself.\<close>

datatype 'x fw_item =
  ItemOptions "(string \<times> string) list" | ItemAliases "'x fw_alias list" | ItemRules "'x rule list"
| ItemIpset string "'x ipset" | ItemGroup string "'x fw_group"

definition read_block ::
  "'x fw_env \<Rightarrow> parser_config \<Rightarrow> string \<times> string list \<Rightarrow> (parse_error, 'x fw_item) result" where
  "read_block env cfg block =
     and_then (open_section cfg (fst block)) (\<lambda>sec. case sec of
       SecNone \<Rightarrow> Err (InvalidSection (fst block))
     | SecOptions \<Rightarrow>
         and_then (try_map (\<lambda>l. ok_or (MissingColon l) (split_key_value l)) (snd block))
           (\<lambda>kvs. Ok (ItemOptions kvs))
     | SecAliases \<Rightarrow>
         and_then (try_map (alias_from_str (net_env env)) (snd block)) (\<lambda>als. Ok (ItemAliases als))
     | SecRules \<Rightarrow>
         and_then (try_map (\<lambda>l. and_then (rule_from_str env l) (\<lambda>r.
             and_then (check_rule cfg r) (\<lambda>_. Ok r))) (snd block)) (\<lambda>rs. Ok (ItemRules rs))
     | SecIpset name s \<Rightarrow>
         and_then (try_map (ipset_entry_from_str (net_env env)) (snd block))
           (\<lambda>es. Ok (ItemIpset name (s\<lparr>is_set := es\<rparr>)))
     | SecGroup name g \<Rightarrow>
         and_then (try_map (rule_from_str env) (snd block)) (\<lambda>rs. Ok (ItemGroup name (g\<lparr>fg_rules := rs\<rparr>))))"

definition item_options :: "'x fw_item \<Rightarrow> (string \<times> string) list" where
  "item_options i = (case i of ItemOptions kvs \<Rightarrow> kvs | _ \<Rightarrow> [])"

definition item_aliases :: "'x fw_item \<Rightarrow> (string \<times> 'x fw_alias) list" where
  "item_aliases i = (case i of ItemAliases als \<Rightarrow> map (\<lambda>a. (al_name a, a)) als | _ \<Rightarrow> [])"

definition item_rules :: "'x fw_item \<Rightarrow> 'x rule list" where
  "item_rules i = (case i of ItemRules rs \<Rightarrow> rs | _ \<Rightarrow> [])"

definition item_ipsets :: "'x fw_item \<Rightarrow> (string \<times> 'x ipset) list" where
  "item_ipsets i = (case i of ItemIpset n s \<Rightarrow> [(n, s)] | _ \<Rightarrow> [])"

definition item_groups :: "'x fw_item \<Rightarrow> (string \<times> 'x fw_group) list" where
  "item_groups i = (case i of ItemGroup n g \<Rightarrow> [(n, g)] | _ \<Rightarrow> [])"

lemmas item_defs = item_options_def item_aliases_def item_rules_def item_ipsets_def item_groups_def

abbreviation collect :: "('i \<Rightarrow> 'a list) \<Rightarrow> 'i list \<Rightarrow> 'a list" where
  "collect f items \<equiv> concat (map f items)"

text \<open>The configuration that the sections of a file describe, if they have no duplicates.\<close>

definition config_of_items :: "'o options_type \<Rightarrow> 'x fw_item list \<Rightarrow> ('x, 'o) fw_config option" where
  "config_of_items ot items =
     (if distinct (map fst (collect item_options items)) \<and> distinct (map fst (collect item_aliases items))
         \<and> distinct (map fst (collect item_ipsets items)) \<and> distinct (map fst (collect item_groups items))
      then (case ot_deserialize ot (collect item_options items) of
          Err _ \<Rightarrow> None
        | Ok options \<Rightarrow> Some \<lparr>cf_options = options, cf_rules = collect item_rules items,
            cf_aliases = bt_extend [] (collect item_aliases items),
            cf_ipsets = bt_extend [] (collect item_ipsets items),
            cf_groups = bt_extend [] (collect item_groups items)\<rparr>)
      else None)"

section \<open>Successful results\<close>

primrec ok :: "('e, 'a) result \<Rightarrow> 'a option" where
  "ok (Err e) = None"
| "ok (Ok a) = Some a"

lemma ok_and_then: "ok (and_then r f) = Option.bind (ok r) (\<lambda>a. ok (f a))"
  by (cases r) simp_all

lemma ok_Some: "ok r = Some a \<longleftrightarrow> r = Ok a"
  by (cases r) simp_all

lemma bind_commute: "Option.bind x (\<lambda>a. Option.bind y (f a)) = Option.bind y (\<lambda>b. Option.bind x (\<lambda>a. f a b))"
  by (cases x; cases y) simp_all

text \<open>Adding bindings under new names, to a map and to a list of bindings.\<close>

definition add_new :: "('k::linorder \<times> 'v) list \<Rightarrow> ('k, 'v) btree_map \<Rightarrow> ('k, 'v) btree_map option" where
  "add_new kvs m =
     (if distinct (map fst kvs) \<and> set (map fst kvs) \<inter> set (map fst m) = {} then Some (bt_extend m kvs)
      else None)"

definition append_new :: "('k \<times> 'v) list \<Rightarrow> ('k \<times> 'v) list \<Rightarrow> ('k \<times> 'v) list option" where
  "append_new kvs m =
     (if distinct (map fst kvs) \<and> set (map fst kvs) \<inter> set (map fst m) = {} then Some (m @ kvs)
      else None)"

lemma bt_extend_simps [simp]:
  "bt_extend m [] = m" "bt_extend m (kv # kvs) = bt_extend (bt_insert (fst kv) (snd kv) m) kvs"
  by (simp_all add: bt_extend_def split: prod.split)

lemma bt_extend_append: "bt_extend m (xs @ ys) = bt_extend (bt_extend m xs) ys"
  by (simp add: bt_extend_def)

lemma bt_keys_extend: "set (map fst (bt_extend m kvs)) = set (map fst kvs) \<union> set (map fst m)"
  by (induction kvs arbitrary: m) (auto simp: bt_keys_insert simp del: set_map)

lemma add_new_append: "Option.bind (add_new xs m) (add_new ys) = add_new (xs @ ys) m"
  using bt_keys_extend [of m xs]
  by (auto simp: add_new_def bt_extend_append simp del: set_map)

lemma append_new_append: "Option.bind (append_new xs m) (append_new ys) = append_new (xs @ ys) m"
  by (auto simp: append_new_def)

lemma add_new_Nil [simp]: "add_new [] m = Some m"
  by (simp add: add_new_def)

lemma append_new_Nil [simp]: "append_new [] m = Some m"
  by (simp add: append_new_def)

section \<open>One line\<close>

lemma bracket_first:
  "eq_ignore_ascii_case line ''[OPTIONS]'' \<Longrightarrow> is_header line"
  "eq_ignore_ascii_case line ''[ALIASES]'' \<Longrightarrow> is_header line"
  "eq_ignore_ascii_case line ''[RULES]'' \<Longrightarrow> is_header line"
  "strip_prefix ''[IPSET'' line = Some tail \<Longrightarrow> is_header line"
  "strip_prefix ''[group'' line = Some tail \<Longrightarrow> is_header line"
proof -
  have "map to_ascii_lowercase line = CHR ''['' # r \<Longrightarrow> is_header line" for r
  proof -
    assume "map to_ascii_lowercase line = CHR ''['' # r"
    then obtain c cs where c: "line = c # cs" "to_ascii_lowercase c = CHR ''[''" by auto
    then have "code c = 91 \<or> code c = 59" using code_to_ascii_lowercase [of c] by (auto split: if_splits)
    with c have "c = CHR ''[''"
      by (auto simp: to_ascii_lowercase_def is_ascii_uppercase_def split: if_splits)
    with c show "is_header line" by (simp add: starts_with_def)
  qed
  then show "eq_ignore_ascii_case line ''[OPTIONS]'' \<Longrightarrow> is_header line"
    "eq_ignore_ascii_case line ''[ALIASES]'' \<Longrightarrow> is_header line"
    "eq_ignore_ascii_case line ''[RULES]'' \<Longrightarrow> is_header line"
    by (auto simp: eq_ignore_ascii_case_def to_ascii_lowercase_def is_ascii_uppercase_def)
qed (auto simp: starts_with_def)

text \<open>The header opens a section and leaves the one before; every other line goes into its section.\<close>

definition step ::
  "'x fw_env \<Rightarrow> parser_config \<Rightarrow> ('x, 'o) parser_state \<Rightarrow> string
     \<Rightarrow> (parse_error, ('x, 'o) parser_state) result" where
  "step env cfg st line =
     (if is_header line then and_then (open_section cfg line) (enter_section st)
      else section_entry env cfg st line)"

lemma parse_line_step:
  "parse_line env cfg st l =
     (if trim l = [] \<or> starts_with ''#'' (trim l) then Ok st else step env cfg st (trim l))"
proof -
  let ?l = "trim l"
  show ?thesis
  proof (cases "is_header ?l")
    case True
    then show ?thesis
      by (simp add: parse_line_def step_def open_section_def ipset_new_def fw_group_new_def
          fw_group_set_comment_def and_then_assoc Let_def split: option.split prod.split) 
         (auto simp: case_prod_unfold and_then_assoc)
  next
    case False
    then have "strip_prefix ''[IPSET'' ?l = None" "strip_prefix ''[group'' ?l = None"
      "\<not> eq_ignore_ascii_case ?l ''[OPTIONS]''" "\<not> eq_ignore_ascii_case ?l ''[ALIASES]''"
      "\<not> eq_ignore_ascii_case ?l ''[RULES]''"
      using bracket_first [of ?l] by (meson not_None_eq)+
    with False show ?thesis by (simp only: parse_line_def step_def Let_def if_False option.case)
  qed
qed

lemma parse_lines_content:
  "try_fold (parse_line env cfg) st lines = try_fold (step env cfg) st (content lines)"
  by (induction lines arbitrary: st) (simp_all add: content_def parse_line_step)

text \<open>Leaving a section does not depend on the next one.\<close>

definition leave :: "('x, 'o) parser_state \<Rightarrow> ('x, 'o) parser_state option" where
  "leave st = ok (enter_section st SecNone)"

lemma enter_leave:
  "ok (enter_section st to) = map_option (\<lambda>st. st\<lparr>ps_section := to\<rparr>) (leave st)"
  by (cases "ps_section st") (simp_all add: leave_def enter_section_def set_section_def)

lemma leave_section: "leave st = Some st' \<Longrightarrow> ps_section st' = SecNone"
  by (cases "ps_section st") (auto simp: leave_def enter_section_def set_section_def split: if_splits)

lemma leave_SecNone: "ps_section st = SecNone \<Longrightarrow> leave st = Some st"
  by (simp add: leave_def enter_section_def set_section_def)

section \<open>One section\<close>

text \<open>
  A loop whose state is a part \<open>s\<close> of a larger state \<open>emb s\<close>, and whose step reads a line and adds
  what it read: it adds what all lines hold.
\<close>

locale section_loop =
  fixes run :: "'s \<Rightarrow> string \<Rightarrow> ('e, 's) result" and emb :: "'p \<Rightarrow> 's"
    and parse :: "string \<Rightarrow> ('e, 'a) result" and add :: "'a list \<Rightarrow> 'p \<Rightarrow> 'p option"
    and entry :: "string \<Rightarrow> bool"
  assumes run_emb: "entry l \<Longrightarrow>
      ok (run (emb p) l) = map_option emb (Option.bind (ok (parse l)) (\<lambda>a. add [a] p))"
    and add_Nil: "add [] p = Some p"
    and add_append: "Option.bind (add xs p) (add ys) = add (xs @ ys) p"
begin

lemma run_all:
  "list_all entry ls \<Longrightarrow>
     ok (try_fold run (emb p) ls) = map_option emb (Option.bind (ok (try_map parse ls)) (\<lambda>xs. add xs p))"
proof (induction ls arbitrary: p)
  case (Cons l ls)
  show ?case
  proof (cases "ok (parse l)")
    case None
    with Cons.prems show ?thesis by (simp add: ok_and_then run_emb)
  next
    case (Some a)
    show ?thesis
    proof (cases "add [a] p")
      case None
      then have "add (a # xs) p = None" for xs using add_append [of "[a]" p xs] by simp
      with None Some Cons.prems show ?thesis
        by (cases "ok (try_map parse ls)") (simp_all add: ok_and_then run_emb)
    next
      case (Some q)
      then have "add (a # xs) p = add xs q" for xs using add_append [of "[a]" p xs] by simp
      with Some \<open>ok (parse l) = Some a\<close> Cons show ?thesis
        by (cases "ok (try_map parse ls)") (simp_all add: ok_and_then run_emb)
    qed
  qed
qed (simp add: add_Nil)

end

abbreviation entry_line :: "string \<Rightarrow> bool" where
  "entry_line l \<equiv> \<not> is_header l"

lemma bt_key_in: "bt_contains_key m k \<longleftrightarrow> k \<in> set (map fst m)"
  by (simp add: bt_contains_key_iff)

interpretation option_lines: section_loop "step env cfg"
  "\<lambda>m. st\<lparr>ps_section := SecOptions, ps_options := m\<rparr>"
  "\<lambda>l. ok_or (MissingColon l) (split_key_value l)" append_new entry_line for env cfg st
proof (unfold_locales, goal_cases)
  case (1 l p)
  then show ?case
    by (cases "split_key_value l")
      (auto simp: step_def section_entry_def parse_option_def append_new_def map_of_eq_None_iff
        split: prod.split)
qed (simp_all add: append_new_append)

interpretation alias_lines: section_loop "step env cfg"
  "\<lambda>m. st\<lparr>ps_section := SecAliases, ps_config := (ps_config st)\<lparr>cf_aliases := m\<rparr>\<rparr>"
  "\<lambda>l. and_then (alias_from_str (net_env env) l) (\<lambda>a. Ok (al_name a, a))" add_new entry_line for env cfg st
proof (unfold_locales, goal_cases)
  case (1 l p)
  then show ?case
    by (cases "alias_from_str (net_env env) l")
      (simp_all add: step_def section_entry_def parse_alias_def bt_key_in add_new_def)
qed (simp_all add: add_new_append)

interpretation rule_lines: section_loop "step env cfg"
  "\<lambda>rs. st\<lparr>ps_section := SecRules, ps_config := (ps_config st)\<lparr>cf_rules := rs\<rparr>\<rparr>"
  "\<lambda>l. and_then (rule_from_str env l) (\<lambda>r. and_then (check_rule cfg r) (\<lambda>_. Ok r))"
  "\<lambda>xs rs. Some (rs @ xs)" entry_line for env cfg st
proof (unfold_locales, goal_cases)
  case (1 l p)
  then show ?case
    by (cases "rule_from_str env l")
      (simp_all add: step_def section_entry_def parse_rule_def ok_and_then map_option_bind,
       simp add: bind_map_option o_def)
qed simp_all

interpretation ipset_lines: section_loop "step env cfg"
  "\<lambda>es. st\<lparr>ps_section := SecIpset name (s\<lparr>is_set := es\<rparr>)\<rparr>"
  "ipset_entry_from_str (net_env env)" "\<lambda>xs es. Some (es @ xs)" entry_line for env cfg st name s
proof (unfold_locales, goal_cases)
  case (1 l p)
  then show ?case
    by (cases "ipset_entry_from_str (net_env env) l")
      (simp_all add: step_def section_entry_def ipset_parse_entry_def ipset_push_def)
qed simp_all

interpretation group_lines: section_loop "step env cfg"
  "\<lambda>rs. st\<lparr>ps_section := SecGroup name (g\<lparr>fg_rules := rs\<rparr>)\<rparr>"
  "rule_from_str env" "\<lambda>xs rs. Some (rs @ xs)" entry_line for env cfg st name g
proof (unfold_locales, goal_cases)
  case (1 l p)
  then show ?case
    by (cases "rule_from_str env l")
      (simp_all add: step_def section_entry_def fw_group_parse_entry_def)
qed simp_all

text \<open>What a section that was read by itself adds to the configuration.\<close>

definition absorb :: "'x fw_item \<Rightarrow> ('x, 'o) parser_state \<Rightarrow> ('x, 'o) parser_state option" where
  "absorb i st =
     (let c = ps_config st in
      Option.bind (append_new (item_options i) (ps_options st)) (\<lambda>opts.
      Option.bind (add_new (item_aliases i) (cf_aliases c)) (\<lambda>als.
      Option.bind (add_new (item_ipsets i) (cf_ipsets c)) (\<lambda>sets.
      Option.bind (add_new (item_groups i) (cf_groups c)) (\<lambda>grps.
      Some \<lparr>ps_section = SecNone,
        ps_config = c\<lparr>cf_rules := cf_rules c @ item_rules i, cf_aliases := als, cf_ipsets := sets,
          cf_groups := grps\<rparr>,
        ps_options = opts\<rparr>)))))"

lemma ok_try_map_and_then:
  "ok (try_map (\<lambda>l. and_then (f l) (\<lambda>a. Ok (g a))) ls) = map_option (map g) (ok (try_map f ls))"
proof (induction ls)
  case (Cons l ls)
  then show ?case by (cases "f l"; cases "ok (try_map f ls)") (simp_all add: ok_and_then)
qed simp

lemma open_section_start:
  assumes "open_section cfg h = Ok sec"
  shows "sec \<noteq> SecNone" "sec = SecIpset n s \<Longrightarrow> is_set s = []" "sec = SecGroup n g \<Longrightarrow> fg_rules g = []"
  using assms by (auto simp: open_section_def result_simps split: if_splits option.splits)

text \<open>The state of the parser, given by its parts.\<close>

lemma parser_state_upd:
  "st\<lparr>ps_section := sec, ps_options := ps_options st\<rparr> = st\<lparr>ps_section := sec\<rparr>"
  "st\<lparr>ps_section := sec, ps_config := (ps_config st)\<lparr>cf_aliases := cf_aliases (ps_config st)\<rparr>\<rparr>
     = st\<lparr>ps_section := sec\<rparr>"
  "st\<lparr>ps_section := sec, ps_config := (ps_config st)\<lparr>cf_rules := cf_rules (ps_config st)\<rparr>\<rparr>
     = st\<lparr>ps_section := sec\<rparr>"
  by simp_all

lemma leave_simps:
  "leave \<lparr>ps_section = SecOptions, ps_config = c, ps_options = m\<rparr>
    = Some \<lparr>ps_section = SecNone, ps_config = c, ps_options = m\<rparr>"
  "leave \<lparr>ps_section = SecAliases, ps_config = c, ps_options = m\<rparr>
    = Some \<lparr>ps_section = SecNone, ps_config = c, ps_options = m\<rparr>"
  "leave \<lparr>ps_section = SecRules, ps_config = c, ps_options = m\<rparr>
    = Some \<lparr>ps_section = SecNone, ps_config = c, ps_options = m\<rparr>"
  "leave \<lparr>ps_section = SecIpset n s, ps_config = c, ps_options = m\<rparr>
    = map_option (\<lambda>sets. \<lparr>ps_section = SecNone, ps_config = c\<lparr>cf_ipsets := sets\<rparr>, ps_options = m\<rparr>)
        (add_new [(n, s)] (cf_ipsets c))"
  "leave \<lparr>ps_section = SecGroup n g, ps_config = c, ps_options = m\<rparr>
    = map_option (\<lambda>gs. \<lparr>ps_section = SecNone, ps_config = c\<lparr>cf_groups := gs\<rparr>, ps_options = m\<rparr>)
        (add_new [(n, g)] (cf_groups c))"
  by (simp_all add: leave_def enter_section_def set_section_def bt_key_in add_new_def)

lemma section_run:
  assumes "open_section cfg h = Ok sec" and "list_all entry_line body" and "ps_section st = SecNone"
  shows "Option.bind (ok (try_fold (step env cfg) (st\<lparr>ps_section := sec\<rparr>) body)) leave
    = Option.bind (ok (read_block env cfg (h, body))) (\<lambda>i. absorb i st)"
proof (cases sec)
  case SecNone
  then show ?thesis using open_section_start(1) [OF assms(1)] by simp
next
  case SecOptions
  have "ok (try_fold (step env cfg) (st\<lparr>ps_section := sec\<rparr>) body)
      = map_option (\<lambda>m. st\<lparr>ps_section := SecOptions, ps_options := m\<rparr>)
          (Option.bind (ok (try_map (\<lambda>l. ok_or (MissingColon l) (split_key_value l)) body))
            (\<lambda>kvs. append_new kvs (ps_options st)))"
    using option_lines.run_all [OF assms(2), where env = env and cfg = cfg and st = st and p = "ps_options st"]
    by (simp only: SecOptions parser_state_upd)
  then show ?thesis using assms(1,3) SecOptions
    by (cases "try_map (\<lambda>l. ok_or (MissingColon l) (split_key_value l)) body";
        cases st; cases "append_new (the (ok (try_map (\<lambda>l. ok_or (MissingColon l) (split_key_value l)) body))) (ps_options st)")
      (simp_all add: read_block_def absorb_def item_defs leave_simps)
next
  case SecAliases
  have "ok (try_fold (step env cfg) (st\<lparr>ps_section := sec\<rparr>) body)
      = map_option (\<lambda>m. st\<lparr>ps_section := SecAliases, ps_config := (ps_config st)\<lparr>cf_aliases := m\<rparr>\<rparr>)
          (Option.bind (map_option (map (\<lambda>a. (al_name a, a))) (ok (try_map (alias_from_str (net_env env)) body)))
            (\<lambda>als. add_new als (cf_aliases (ps_config st))))"
    using alias_lines.run_all [OF assms(2), where env = env and cfg = cfg and st = st and p = "cf_aliases (ps_config st)"]
    by (simp only: SecAliases parser_state_upd ok_try_map_and_then)
  then show ?thesis using assms(1,3) SecAliases
    by (cases "try_map (alias_from_str (net_env env)) body"; cases st)
      (simp_all add: read_block_def absorb_def item_defs leave_simps map_option_case split: option.split)
next
  case SecRules
  let ?f = "\<lambda>l. and_then (rule_from_str env l) (\<lambda>r. and_then (check_rule cfg r) (\<lambda>_. Ok r))"
  have "ok (try_fold (step env cfg) (st\<lparr>ps_section := sec\<rparr>) body)
      = map_option (\<lambda>rs. st\<lparr>ps_section := SecRules, ps_config := (ps_config st)\<lparr>cf_rules := rs\<rparr>\<rparr>)
          (Option.bind (ok (try_map ?f body)) (\<lambda>rs. Some (cf_rules (ps_config st) @ rs)))"
    using rule_lines.run_all [OF assms(2), where env = env and cfg = cfg and st = st and p = "cf_rules (ps_config st)"]
    by (simp only: SecRules parser_state_upd)
  then show ?thesis using assms(1,3) SecRules
    by (cases "try_map ?f body"; cases st) (simp_all add: read_block_def absorb_def item_defs leave_simps)
next
  case (SecIpset n s)
  have "is_set s = []" using open_section_start(2) [OF assms(1) SecIpset] .
  then have s: "s\<lparr>is_set := []\<rparr> = s" by simp
  have "ok (try_fold (step env cfg) (st\<lparr>ps_section := sec\<rparr>) body)
      = map_option (\<lambda>es. st\<lparr>ps_section := SecIpset n (s\<lparr>is_set := es\<rparr>)\<rparr>)
          (ok (try_map (ipset_entry_from_str (net_env env)) body))"
    using ipset_lines.run_all [OF assms(2), where env = env and cfg = cfg and st = st and name = n and s = s and p = "[]"] SecIpset
    by (cases "try_map (ipset_entry_from_str (net_env env)) body") (simp_all add: s)
  then show ?thesis using assms(1,3) SecIpset
    by (cases "try_map (ipset_entry_from_str (net_env env)) body"; cases st)
      (simp_all add: read_block_def absorb_def item_defs leave_simps map_option_case split: option.split)
next
  case (SecGroup n g)
  have "fg_rules g = []" using open_section_start(3) [OF assms(1) SecGroup] .
  then have g: "g\<lparr>fg_rules := []\<rparr> = g" by simp
  have "ok (try_fold (step env cfg) (st\<lparr>ps_section := sec\<rparr>) body)
      = map_option (\<lambda>rs. st\<lparr>ps_section := SecGroup n (g\<lparr>fg_rules := rs\<rparr>)\<rparr>)
          (ok (try_map (rule_from_str env) body))"
    using group_lines.run_all [OF assms(2), where env = env and cfg = cfg and st = st and name = n and g = g and p = "[]"] SecGroup
    by (cases "try_map (rule_from_str env) body") (simp_all add: g)
  then show ?thesis using assms(1,3) SecGroup
    by (cases "try_map (rule_from_str env) body"; cases st)
      (simp_all add: read_block_def absorb_def item_defs leave_simps map_option_case split: option.split)
qed

section \<open>The whole file\<close>

definition run_from ::
  "'x fw_env \<Rightarrow> parser_config \<Rightarrow> ('x, 'o) parser_state \<Rightarrow> string list \<Rightarrow> ('x, 'o) parser_state option" where
  "run_from env cfg st ls = Option.bind (ok (try_fold (step env cfg) st ls)) leave"

lemma run_from_Cons: "run_from env cfg st (l # ls) = Option.bind (ok (step env cfg st l)) (\<lambda>st. run_from env cfg st ls)"
  by (simp add: run_from_def ok_and_then bind_assoc)

lemma run_from_append:
  "run_from env cfg st (xs @ ys) = Option.bind (ok (try_fold (step env cfg) st xs)) (\<lambda>st. run_from env cfg st ys)"
  by (simp add: run_from_def try_fold_append ok_and_then bind_assoc)

lemma leave_leave: "Option.bind (leave st) leave = leave st"
  by (cases "leave st") (simp_all add: leave_section leave_SecNone)

text \<open>A header may as well find the section before it left already.\<close>

lemma run_from_leave:
  assumes "ls = [] \<or> is_header (hd ls)"
  shows "run_from env cfg st ls = Option.bind (leave st) (\<lambda>st. run_from env cfg st ls)"
proof (cases ls)
  case Nil
  then show ?thesis by (simp add: run_from_def leave_leave)
next
  case (Cons h r)
  then have h: "is_header h" using assms by simp
  show ?thesis
  proof (cases "leave st")
    case None
    then show ?thesis using h by (simp add: Cons run_from_Cons step_def ok_and_then enter_leave)
  next
    case (Some st2)
    then have "leave st2 = Some st2" by (simp add: leave_section leave_SecNone)
    then show ?thesis using h Some by (simp add: Cons run_from_Cons step_def ok_and_then enter_leave)
  qed
qed

fun absorb_all :: "'x fw_item list \<Rightarrow> ('x, 'o) parser_state \<Rightarrow> ('x, 'o) parser_state option" where
  "absorb_all [] st = Some st"
| "absorb_all (i # is1) st = Option.bind (absorb i st) (absorb_all is1)"

lemma absorb_section: "absorb i st = Some st' \<Longrightarrow> ps_section st' = SecNone"
  by (auto simp: absorb_def Let_def split: bind_splits)

lemma open_section_entry: "entry_line l \<Longrightarrow> ok (open_section cfg l) = None"
  using bracket_first [of l] by (auto simp: open_section_def split: option.split)

lemma read_block_unopened:
  fixes env :: "'x fw_env"
  shows "ok (open_section cfg h :: (parse_error, 'x fw_section) result) = None
    \<Longrightarrow> ok (read_block env cfg (h, body)) = None"
  by (simp add: read_block_def ok_and_then)

lemma hd_dropWhile_header: "dropWhile entry_line ls = [] \<or> is_header (hd (dropWhile entry_line ls))"
  using hd_dropWhile [of entry_line ls] by blast

lemma run_from_blocks:
  fixes env :: "'x fw_env" and st :: "('x, 'o) parser_state"
  shows "ps_section st = SecNone \<Longrightarrow>
     run_from env cfg st ls = Option.bind (ok (try_map (read_block env cfg) (blocks ls))) (\<lambda>items. absorb_all items st)"
proof (induction ls arbitrary: st rule: blocks.induct)
  case 1
  then show ?case by (simp add: run_from_def leave_SecNone)
next
  case (2 h ls)
  let ?body = "takeWhile entry_line ls" and ?rest = "dropWhile entry_line ls"
  show ?case
  proof (cases "is_header h")
    case False
    then show ?thesis using "2.prems"
      by (simp add: run_from_Cons step_def section_entry_def ok_and_then read_block_unopened open_section_entry)
  next
    case True
    show ?thesis
    proof (cases "open_section cfg h :: (parse_error, 'x fw_section) result")
      case (Err e)
      then show ?thesis using True by (simp add: run_from_Cons step_def ok_and_then read_block_unopened)
    next
      case (Ok sec)
      let ?st = "st\<lparr>ps_section := sec\<rparr>"
      have body: "list_all entry_line ?body" by (auto simp: list_all_iff dest: set_takeWhileD)
      have "run_from env cfg st (h # ls) = run_from env cfg ?st (?body @ ?rest)"
        using True Ok "2.prems" by (simp add: run_from_Cons step_def enter_leave leave_SecNone)
      also have "\<dots> = Option.bind (run_from env cfg ?st ?body) (\<lambda>st. run_from env cfg st ?rest)"
        unfolding run_from_append
        by (subst run_from_leave [OF hd_dropWhile_header]) (simp add: run_from_def bind_assoc)
      also have "run_from env cfg ?st ?body = Option.bind (ok (read_block env cfg (h, ?body))) (\<lambda>i. absorb i st)"
        unfolding run_from_def using section_run [OF Ok body "2.prems"] .
      finally show ?thesis
        by (cases "read_block env cfg (h, ?body)"; cases "absorb (the (ok (read_block env cfg (h, ?body)))) st";
            cases "try_map (read_block env cfg) (blocks ?rest)")
          (auto simp: ok_and_then "2.IH" dest: absorb_section)
    qed
  qed
qed

text \<open>What a list of sections adds is what they hold together.\<close>

definition adds ::
  "(string \<times> string) list \<Rightarrow> (string \<times> 'x fw_alias) list \<Rightarrow> 'x rule list \<Rightarrow> (string \<times> 'x ipset) list
     \<Rightarrow> (string \<times> 'x fw_group) list \<Rightarrow> ('x, 'o) parser_state \<Rightarrow> ('x, 'o) parser_state \<Rightarrow> bool" where
  "adds os als rs sets gs st st' \<longleftrightarrow>
     ps_section st' = SecNone
     \<and> append_new os (ps_options st) = Some (ps_options st')
     \<and> add_new als (cf_aliases (ps_config st)) = Some (cf_aliases (ps_config st'))
     \<and> cf_rules (ps_config st') = cf_rules (ps_config st) @ rs
     \<and> add_new sets (cf_ipsets (ps_config st)) = Some (cf_ipsets (ps_config st'))
     \<and> add_new gs (cf_groups (ps_config st)) = Some (cf_groups (ps_config st'))
     \<and> cf_options (ps_config st') = cf_options (ps_config st)"

lemma absorb_iff:
  "absorb i st = Some st' \<longleftrightarrow>
     adds (item_options i) (item_aliases i) (item_rules i) (item_ipsets i) (item_groups i) st st'"
  by (cases st'; cases "ps_config st'"; cases "ps_config st")
    (auto simp: absorb_def adds_def Let_def bind_eq_Some_conv)

lemma adds_append:
  "(\<exists>st1. adds a b c d e st st1 \<and> adds a' b' c' d' e' st1 st') \<longleftrightarrow>
     adds (a @ a') (b @ b') (c @ c') (d @ d') (e @ e') st st'" (is "?l = ?r")
proof
  assume ?l
  then show ?r by (auto simp: adds_def add_new_append [symmetric] append_new_append [symmetric])
next
  assume r: ?r
  then obtain o1 where "append_new a (ps_options st) = Some o1" "append_new a' o1 = Some (ps_options st')"
    by (auto simp: adds_def append_new_append [symmetric] bind_eq_Some_conv)
  moreover obtain a1 where "add_new b (cf_aliases (ps_config st)) = Some a1"
    "add_new b' a1 = Some (cf_aliases (ps_config st'))"
    using r by (auto simp: adds_def add_new_append [symmetric] bind_eq_Some_conv)
  moreover obtain s1 where "add_new d (cf_ipsets (ps_config st)) = Some s1"
    "add_new d' s1 = Some (cf_ipsets (ps_config st'))"
    using r by (auto simp: adds_def add_new_append [symmetric] bind_eq_Some_conv)
  moreover obtain g1 where "add_new e (cf_groups (ps_config st)) = Some g1"
    "add_new e' g1 = Some (cf_groups (ps_config st'))"
    using r by (auto simp: adds_def add_new_append [symmetric] bind_eq_Some_conv)
  ultimately show ?l using r
    by (intro exI [of _ "\<lparr>ps_section = SecNone, ps_config = \<lparr>cf_options = cf_options (ps_config st),
        cf_rules = cf_rules (ps_config st) @ c, cf_aliases = a1, cf_ipsets = s1, cf_groups = g1\<rparr>,
        ps_options = o1\<rparr>"]) (auto simp: adds_def)
qed

lemma absorb_all_iff:
  "ps_section st = SecNone \<Longrightarrow> absorb_all items st = Some st' \<longleftrightarrow>
     adds (collect item_options items) (collect item_aliases items) (collect item_rules items)
       (collect item_ipsets items) (collect item_groups items) st st'"
proof (induction items arbitrary: st)
  case Nil
  then show ?case by (cases st; cases st'; cases "ps_config st"; cases "ps_config st'") (auto simp: adds_def)
next
  case (Cons i items)
  have "absorb_all (i # items) st = Some st' \<longleftrightarrow> (\<exists>st1. absorb i st = Some st1 \<and> absorb_all items st1 = Some st')"
    by (simp add: bind_eq_Some_conv)
  also have "\<dots> \<longleftrightarrow> (\<exists>st1. absorb i st = Some st1 \<and> adds (collect item_options items)
       (collect item_aliases items) (collect item_rules items) (collect item_ipsets items)
       (collect item_groups items) st1 st')"
    using Cons.IH absorb_section by blast
  finally show ?case by (simp only: absorb_iff adds_append list.map concat.simps)
qed

lemma add_new_empty: "add_new kvs [] = Some m \<longleftrightarrow> distinct (map fst kvs) \<and> m = bt_extend [] kvs"
  by (auto simp: add_new_def)

lemma append_new_empty: "append_new kvs [] = Some m \<longleftrightarrow> distinct (map fst kvs) \<and> m = kvs"
  by (auto simp: append_new_def)

lemma absorb_all_start:
  "absorb_all items \<lparr>ps_section = SecNone, ps_config = fw_config_new ot, ps_options = []\<rparr> = Some st \<longleftrightarrow>
     distinct (map fst (collect item_options items)) \<and> distinct (map fst (collect item_aliases items))
     \<and> distinct (map fst (collect item_ipsets items)) \<and> distinct (map fst (collect item_groups items))
     \<and> st = \<lparr>ps_section = SecNone, ps_config = \<lparr>cf_options = ot_default ot,
         cf_rules = collect item_rules items, cf_aliases = bt_extend [] (collect item_aliases items),
         cf_ipsets = bt_extend [] (collect item_ipsets items),
         cf_groups = bt_extend [] (collect item_groups items)\<rparr>,
         ps_options = collect item_options items\<rparr>"
  by (cases st; cases "ps_config st")
    (auto simp: absorb_all_iff adds_def fw_config_new_def add_new_empty append_new_empty)

lemma fw_config_parse_items:
  "fw_config_parse env cfg ot lines = Ok c \<longleftrightarrow>
     (\<exists>items. try_map (read_block env cfg) (blocks (content lines)) = Ok items
       \<and> config_of_items ot items = Some c)"
proof -
  let ?st = "\<lparr>ps_section = SecNone, ps_config = fw_config_new ot, ps_options = []\<rparr>"
  have "fw_config_parse env cfg ot lines = Ok c \<longleftrightarrow>
      (\<exists>st options. run_from env cfg ?st (content lines) = Some st
         \<and> ot_deserialize ot (ps_options st) = Ok options \<and> c = (ps_config st)\<lparr>cf_options := options\<rparr>)"
    by (auto simp: fw_config_parse_def result_simps parse_lines_content run_from_def leave_def
        bind_eq_Some_conv ok_Some)
  also have "\<dots> \<longleftrightarrow> (\<exists>items. try_map (read_block env cfg) (blocks (content lines)) = Ok items
      \<and> (\<exists>st options. absorb_all items ?st = Some st
         \<and> ot_deserialize ot (ps_options st) = Ok options \<and> c = (ps_config st)\<lparr>cf_options := options\<rparr>))"
    by (auto simp: run_from_blocks bind_eq_Some_conv ok_Some)
  also have "\<dots> \<longleftrightarrow> (\<exists>items. try_map (read_block env cfg) (blocks (content lines)) = Ok items
      \<and> config_of_items ot items = Some c)"
    by (intro ex_cong conj_cong refl, unfold absorb_all_start config_of_items_def)
      (auto split: result.splits)
  finally show ?thesis .
qed

text \<open>
  C13: the parser of firewall configurations, a state machine that stores a section when the next one
  begins, implements its specification: a configuration is read exactly when each section of the
  file can be read by itself, no option, alias, set or group occurs twice, and the options are
  valid; it holds the rules of all rule sections in the order of the file, and every alias, set and
  group under its name. Sections may be repeated and mixed in any way.
\<close>

theorem firewall_config_parse_exact:
  "fw_config_parse env cfg ot lines = Ok c \<longleftrightarrow>
     (\<exists>items. try_map (read_block env cfg) (blocks (content lines)) = Ok items
       \<and> config_of_items ot items = Some c)"
  by (rule fw_config_parse_items)

section \<open>Well-formed configurations\<close>

definition fw_config_wf :: "'x fw_env \<Rightarrow> parser_config \<Rightarrow> ('x, 'o) fw_config \<Rightarrow> bool" where
  "fw_config_wf env cfg c \<longleftrightarrow>
     bt_wf (cf_aliases c) \<and> bt_wf (cf_ipsets c) \<and> bt_wf (cf_groups c)
     \<and> (\<forall>(n, a)\<in>set (cf_aliases c). al_name a = n \<and> make_ascii_lowercase n = n)
     \<and> (\<forall>(n, s)\<in>set (cf_ipsets c). in_name (is_name s) = n \<and> pc_ipset_scope cfg = Some (in_scope (is_name s)))
     \<and> (\<forall>(_, g)\<in>set (cf_groups c). \<forall>r\<in>set (fg_rules g). rule_wf env r)
     \<and> (\<forall>r\<in>set (cf_rules c). rule_wf env r \<and> is_ok (check_rule cfg r))"

lemma bt_extend_wf: "bt_wf m \<Longrightarrow> bt_wf (bt_extend m kvs)"
  by (induction kvs arbitrary: m) (simp_all add: bt_wf_insert)

lemma bt_insert_elems: "set (bt_insert k v m) \<subseteq> insert (k, v) (set m)"
  by (induction k v m rule: bt_insert.induct) auto

lemma bt_extend_elems: "set (bt_extend m kvs) \<subseteq> set kvs \<union> set m"
proof (induction kvs arbitrary: m)
  case (Cons kv kvs)
  have "set (bt_extend m (kv # kvs)) \<subseteq> set kvs \<union> set (bt_insert (fst kv) (snd kv) m)" using Cons by simp
  also have "\<dots> \<subseteq> set (kv # kvs) \<union> set m" using bt_insert_elems [of "fst kv" "snd kv" m] by auto
  finally show ?case .
qed simp

definition item_wf :: "'x fw_env \<Rightarrow> parser_config \<Rightarrow> 'x fw_item \<Rightarrow> bool" where
  "item_wf env cfg i = (case i of
     ItemOptions _ \<Rightarrow> True
   | ItemAliases als \<Rightarrow> list_all (\<lambda>a. make_ascii_lowercase (al_name a) = al_name a) als
   | ItemRules rs \<Rightarrow> list_all (\<lambda>r. rule_wf env r \<and> is_ok (check_rule cfg r)) rs
   | ItemIpset n s \<Rightarrow> in_name (is_name s) = n \<and> pc_ipset_scope cfg = Some (in_scope (is_name s))
   | ItemGroup n g \<Rightarrow> list_all (rule_wf env) (fg_rules g))"

lemma alias_lowercase: "alias_from_str env l = Ok a \<Longrightarrow> make_ascii_lowercase (al_name a) = al_name a"
  by (auto simp: alias_from_str_def alias_new_def result_simps Let_def)

lemma open_section_ipset:
  "open_section cfg h = Ok (SecIpset n s) \<Longrightarrow>
     in_name (is_name s) = n \<and> pc_ipset_scope cfg = Some (in_scope (is_name s))"
  by (auto simp: open_section_def result_simps split: if_splits option.splits)

lemma read_block_wf:
  fixes env :: "'x fw_env"
  assumes "read_block env cfg b = Ok i"
  shows "item_wf env cfg i"
proof -
  obtain sec :: "'x fw_section" where sec: "open_section cfg (fst b) = Ok sec"
    using assms by (auto simp: read_block_def result_simps)
  show ?thesis
  proof (cases sec)
    case SecAliases
    with assms sec show ?thesis
      by (auto simp: read_block_def item_wf_def result_simps elim!: try_map_all intro: alias_lowercase)
  next
    case SecRules
    let ?f = "\<lambda>l. and_then (rule_from_str env l) (\<lambda>r. and_then (check_rule cfg r) (\<lambda>_. Ok r))"
    obtain rs where rs: "try_map ?f (snd b) = Ok rs" "i = ItemRules rs"
      using assms sec SecRules by (auto simp: read_block_def result_simps)
    have "rule_wf env r \<and> is_ok (check_rule cfg r)" if "?f l = Ok r" for l r
      using that rule_from_str_rule_wf [of env l r] by (auto simp: result_simps)
    then show ?thesis using try_map_all [OF rs(1)] by (simp add: rs(2) item_wf_def)
  next
    case (SecIpset n s)
    with assms sec show ?thesis
      by (auto simp: read_block_def item_wf_def result_simps dest!: open_section_ipset)
  next
    case (SecGroup n g)
    with assms sec show ?thesis
      by (auto simp: read_block_def item_wf_def result_simps elim!: try_map_all dest: rule_from_str_rule_wf)
  qed (use assms sec in \<open>auto simp: read_block_def item_wf_def result_simps\<close>)
qed

lemma fw_config_parse_wf:
  assumes "fw_config_parse env cfg ot lines = Ok c"
  shows "fw_config_wf env cfg c"
proof -
  obtain items where i: "try_map (read_block env cfg) (blocks (content lines)) = Ok items"
    "config_of_items ot items = Some c"
    using assms by (auto simp: fw_config_parse_items)
  have wf: "\<forall>i\<in>set items. item_wf env cfg i"
    using try_map_all [OF i(1) read_block_wf] by (simp add: list_all_iff)
  have c: "cf_rules c = collect item_rules items" "cf_aliases c = bt_extend [] (collect item_aliases items)"
    "cf_ipsets c = bt_extend [] (collect item_ipsets items)"
    "cf_groups c = bt_extend [] (collect item_groups items)"
    using i(2) by (auto simp: config_of_items_def split: if_splits result.splits)
  have "(\<forall>r\<in>set (item_rules i). rule_wf env r \<and> is_ok (check_rule cfg r))
      \<and> (\<forall>(n, a)\<in>set (item_aliases i). al_name a = n \<and> make_ascii_lowercase n = n)
      \<and> (\<forall>(n, s)\<in>set (item_ipsets i). in_name (is_name s) = n \<and> pc_ipset_scope cfg = Some (in_scope (is_name s)))
      \<and> (\<forall>(_, g)\<in>set (item_groups i). \<forall>r\<in>set (fg_rules g). rule_wf env r)" if "i \<in> set items" for i
    using wf that by (cases i) (auto simp: item_defs item_wf_def list_all_iff)
  then show ?thesis
    unfolding fw_config_wf_def c
    using bt_extend_elems [of "[]" "collect item_aliases items"]
      bt_extend_elems [of "[]" "collect item_ipsets items"]
      bt_extend_elems [of "[]" "collect item_groups items"]
    by (intro conjI ballI) (simp add: bt_extend_wf | (drule (1) subsetD; force) | force)+
qed

end
