(* ===== verification/Fw_Guest_Props.thy ===== *)
theory Fw_Guest_Props
  imports Fw_Guest Fw_Config_Props
begin

text \<open>
  What the configuration files of guests, hosts and bridges can hold, which network devices a guest
  has, and the names of its interfaces.
\<close>

section \<open>Network devices\<close>

text \<open>The lines that configure a network device: those before the first section header.\<close>

definition net_entry :: "string \<Rightarrow> bool" where
  "net_entry l \<longleftrightarrow> starts_with ''net'' l \<and>
     (case split_once (CHR '':'') l of None \<Rightarrow> False | Some (key, v) \<Rightarrow> key \<noteq> [] \<and> v \<noteq> [])"

definition net_entries :: "string list \<Rightarrow> string list" where
  "net_entries lines = filter net_entry (takeWhile entry_line (content lines))"

definition read_net_line :: "'x guest_env \<Rightarrow> string \<Rightarrow> (parse_error, int \<times> 'x network_device) result" where
  "read_net_line env l = (case split_once (CHR '':'') l of
     None \<Rightarrow> Err (InvalidNetKey l)
   | Some (key, v) \<Rightarrow>
       and_then (index_from_net_key (trim key)) (\<lambda>index.
       and_then (network_device_from_str env (trim v)) (\<lambda>device. Ok (index, device))))"

lemma net_entries_simps:
  "net_entries [] = []"
  "trim l = [] \<or> starts_with ''#'' (trim l) \<Longrightarrow> net_entries (l # ls) = net_entries ls"
  "trim l \<noteq> [] \<Longrightarrow> \<not> starts_with ''#'' (trim l) \<Longrightarrow> is_header (trim l) \<Longrightarrow> net_entries (l # ls) = []"
  "trim l \<noteq> [] \<Longrightarrow> \<not> starts_with ''#'' (trim l) \<Longrightarrow> entry_line (trim l) \<Longrightarrow>
     net_entries (l # ls) = (if net_entry (trim l) then [trim l] else []) @ net_entries ls"
  by (auto simp: net_entries_def content_def)

lemma ok_try_map_Cons:
  "ok (try_map f (x # xs)) = Option.bind (ok (f x)) (\<lambda>y. map_option (Cons y) (ok (try_map f xs)))"
  by (cases "f x"; cases "try_map f xs") simp_all

lemma add_new_Cons:
  "add_new (kv # kvs) m = Option.bind (add_new [kv] m) (add_new kvs)"
  using add_new_append [of "[kv]" m kvs] by simp

lemma network_config_lines_ok:
  "ok (network_config_lines env m lines) =
     Option.bind (ok (try_map (read_net_line env) (net_entries lines))) (\<lambda>kvs. add_new kvs m)"
proof (induction lines arbitrary: m)
  case Nil
  then show ?case by (simp add: net_entries_simps)
next
  case (Cons l ls)
  let ?l = "trim l"
  consider "?l = [] \<or> starts_with ''#'' ?l" | "?l \<noteq> []" "\<not> starts_with ''#'' ?l" "is_header ?l"
    | "?l \<noteq> []" "\<not> starts_with ''#'' ?l" "entry_line ?l" "\<not> net_entry ?l"
    | "?l \<noteq> []" "\<not> starts_with ''#'' ?l" "entry_line ?l" "net_entry ?l"
    by blast
  then show ?case
  proof cases
    case 1
    then show ?thesis by (simp only: net_entries_simps(2) network_config_lines.simps Let_def if_True Cons.IH)
  next
    case 2
    then show ?thesis
      by (simp add: net_entries_simps(3))
  next
    case 3
    have skip: "network_config_lines env m (l # ls) = network_config_lines env m ls"
    proof (cases "split_once (CHR '':'') ?l")
      case None
      with 3 show ?thesis by (simp add: Let_def)
    next
      case (Some kv)
      with 3 show ?thesis by (cases kv) (auto simp: Let_def net_entry_def)
    qed
    have "net_entries (l # ls) = net_entries ls" using 3 by (simp add: net_entries_simps(4))
    then show ?thesis by (simp only: skip Cons.IH)
  next
    case 4
    obtain key v where kv: "split_once (CHR '':'') ?l = Some (key, v)" "key \<noteq> []" "v \<noteq> []"
      "starts_with ''net'' ?l"
      using 4(4) by (cases "split_once (CHR '':'') ?l") (auto simp: net_entry_def)
    show ?thesis
    proof (cases "read_net_line env ?l")
      case (Err e)
      with kv 4 show ?thesis
        by (cases "index_from_net_key (trim key)"; cases "network_device_from_str env (trim v)")
          (simp_all add: net_entries_simps ok_try_map_Cons read_net_line_def Let_def)
    next
      case (Ok d)
      then have d: "index_from_net_key (trim key) = Ok (fst d)"
        "network_device_from_str env (trim v) = Ok (snd d)"
        by (auto simp: read_net_line_def kv result_simps)
      show ?thesis
      proof (cases "fst d \<in> set (map fst m)")
        case True
        then have "add_new (d # kvs) m = None" for kvs by (auto simp: add_new_def)
        with 4 kv d Ok True show ?thesis
          by (cases "try_map (read_net_line env) (net_entries ls)")
            (simp_all add: net_entries_simps ok_try_map_Cons Let_def bt_key_in)
      next
        case False
        then have "add_new [d] m = Some (bt_insert (fst d) (snd d) m)" by (simp add: add_new_def)
        then have "add_new (d # kvs) m = add_new kvs (bt_insert (fst d) (snd d) m)" for kvs
          by (subst add_new_Cons) simp
        with 4 kv d Ok False show ?thesis
          by (cases "try_map (read_net_line env) (net_entries ls)")
            (simp_all add: net_entries_simps ok_try_map_Cons Let_def bt_key_in Cons.IH)
      qed
    qed
  qed
qed

text \<open>
  C33: the network devices of a guest are exactly those of the \<open>net\<close> lines before the first section,
  such as the first snapshot, of its configuration: reading them succeeds exactly when every such
  line has a valid key and a valid device and no index occurs twice, whatever the other lines are.
\<close>

theorem network_config_parse_exact:
  "network_config_parse env lines = Ok m \<longleftrightarrow>
     (\<exists>kvs. try_map (read_net_line env) (net_entries lines) = Ok kvs \<and> distinct (map fst kvs)
       \<and> m = bt_extend [] kvs)"
proof -
  have "network_config_parse env lines = Ok m \<longleftrightarrow> ok (network_config_lines env [] lines) = Some m"
    by (simp add: network_config_parse_def ok_Some)
  also have "\<dots> \<longleftrightarrow> (\<exists>kvs. try_map (read_net_line env) (net_entries lines) = Ok kvs
      \<and> add_new kvs [] = Some m)"
    by (simp add: network_config_lines_ok bind_eq_Some_conv ok_Some)
  finally show ?thesis by (simp add: add_new_empty)
qed

section \<open>Names of interfaces\<close>

lemma dec_inj: "dec m = dec n \<Longrightarrow> m = n"
  by (metis digits_value_dec option.inject)

lemma int_display_inj: "int_display a = int_display b \<Longrightarrow> a = b"
proof -
  assume eq: "int_display a = int_display b"
  obtain c cs where "dec (nat \<bar>a\<bar>) = c # cs" "c \<noteq> CHR ''-''" using dec_head [of "nat \<bar>a\<bar>"] by fastforce
  moreover obtain d ds where "dec (nat \<bar>b\<bar>) = d # ds" "d \<noteq> CHR ''-''" using dec_head [of "nat \<bar>b\<bar>"] by fastforce
  ultimately have "(a < 0 \<longleftrightarrow> b < 0) \<and> dec (nat \<bar>a\<bar>) = dec (nat \<bar>b\<bar>)"
    using eq by (auto simp: int_display_def split: if_splits)
  then show ?thesis using dec_inj by fastforce
qed

text \<open>
  C35: two interfaces of guests of one type have the same name on the host only if they are the same
  interface of the same guest: the letter between the id of the guest and the index keeps them
  apart, so firewall rules for one interface never apply to another.
\<close>

theorem guest_iface_names_unique:
  assumes "gc_iface_prefix g = gc_iface_prefix h"
  shows "iface_name_by_index g i = iface_name_by_index h j \<longleftrightarrow> gc_vmid g = gc_vmid h \<and> i = j"
proof -
  obtain v w where vw: "gc_vmid g = Vmid v" "gc_vmid h = Vmid w" by (cases "gc_vmid g"; cases "gc_vmid h")
  have no_i: "CHR ''i'' \<notin> set (dec n)" for n using dec_not_in [of "CHR ''i''" n] by (simp add: is_ascii_digit_def)
  have "dec (unat v) @ CHR ''i'' # int_display i = dec (unat w) @ CHR ''i'' # int_display j
      \<longleftrightarrow> dec (unat v) = dec (unat w) \<and> int_display i = int_display j"
    using split_once_append [OF no_i, of "unat v" "int_display i"]
      split_once_append [OF no_i, of "unat w" "int_display j"] by (metis option.inject prod.inject)
  also have "\<dots> \<longleftrightarrow> v = w \<and> i = j" using dec_inj int_display_inj unsigned_word_eqI by metis
  finally show ?thesis using assms vw by (simp add: iface_name_by_index_def vmid_display_def)
qed

theorem guest_iface_names_unique_witness:
  "iface_name_by_index
       \<lparr>gc_vmid = Vmid 10, gc_iface_prefix = ''tap'', gc_network_config = ([] :: sample network_config),
        gc_config = fw_config_new (guest_options_type sample_fw_env)\<rparr> 11
     \<noteq> iface_name_by_index
       \<lparr>gc_vmid = Vmid 101, gc_iface_prefix = ''tap'', gc_network_config = ([] :: sample network_config),
        gc_config = fw_config_new (guest_options_type sample_fw_env)\<rparr> 1"
  by (subst guest_iface_names_unique) simp_all

section \<open>What the files can hold\<close>

lemma check_rule_guest:
  assumes "check_rule guest_parser_config r = Ok ()"
  shows "(case ru_kind r of KindMatch m \<Rightarrow> rm_dir m \<noteq> DirForward | KindGroup _ \<Rightarrow> True)
    \<and> (case rule_iface r of None \<Rightarrow> True
       | Some iface \<Rightarrow> \<exists>n. iface = ''net'' @ n \<and> parse_u16 n \<noteq> None)"
  using assms
  by (cases "ru_kind r"; cases "rule_iface r")
    (auto simp: check_rule_def guest_parser_config_def result_simps split: if_splits)

text \<open>
  C14: a guest's firewall configuration that was read can only hold what is its own: no groups, no
  rule for forwarded traffic, only interfaces \<open>net\<close> followed by a 16-bit number, IP sets in the
  scope of the guest, and network devices with an index below 31. All rules are well-formed.
\<close>

theorem guest_config_safe:
  assumes "guest_config_parse env v prefix input net = Ok g"
  shows "cf_groups (gc_config g) = []
    \<and> (\<forall>r\<in>set (cf_rules (gc_config g)). rule_wf (fw_part env) r
        \<and> (case ru_kind r of KindMatch m \<Rightarrow> rm_dir m \<noteq> DirForward | KindGroup _ \<Rightarrow> True)
        \<and> (case rule_iface r of None \<Rightarrow> True
           | Some iface \<Rightarrow> \<exists>n. iface = ''net'' @ n \<and> parse_u16 n \<noteq> None))
    \<and> (\<forall>(n, s)\<in>set (cf_ipsets (gc_config g)). is_name s = \<lparr>in_scope = IpsetGuest, in_name = n\<rparr>)
    \<and> (\<forall>(i, d)\<in>set (gc_network_config g). 0 \<le> i \<and> i < 31)"
proof -
  obtain c where c: "fw_config_parse (fw_part env) guest_parser_config (guest_options_type (fw_part env)) input = Ok c"
    "cf_groups c = []" "gc_config g = c" and n: "network_config_parse env net = Ok (gc_network_config g)"
    using assms by (auto simp: guest_config_parse_def result_simps split: if_splits)
  have wf: "fw_config_wf (fw_part env) guest_parser_config c" by (rule fw_config_parse_wf [OF c(1)])
  obtain kvs where kvs: "ok (try_map (read_net_line env) (net_entries net)) = Some kvs"
    "gc_network_config g = bt_extend [] kvs"
    using n by (auto simp: network_config_parse_def ok_Some [symmetric] network_config_lines_ok
        bind_eq_Some_conv add_new_empty)
  have "0 \<le> fst kv \<and> fst kv < 31" if "read_net_line env l = Ok kv" for l kv
    using that by (auto simp: read_net_line_def index_from_net_key_def result_simps
        split: option.splits if_splits)
  then have "list_all (\<lambda>kv. 0 \<le> fst kv \<and> fst kv < 31) kvs"
    using kvs(1) by (auto simp: ok_Some elim!: try_map_all)
  then have "\<forall>(i, d)\<in>set (gc_network_config g). 0 \<le> i \<and> i < 31"
    using bt_extend_elems [of "[]" kvs] by (fastforce simp: kvs(2) list_all_iff)
  moreover have "\<forall>r\<in>set (cf_rules c). rule_wf (fw_part env) r
        \<and> (case ru_kind r of KindMatch m \<Rightarrow> rm_dir m \<noteq> DirForward | KindGroup _ \<Rightarrow> True)
        \<and> (case rule_iface r of None \<Rightarrow> True
           | Some iface \<Rightarrow> \<exists>n. iface = ''net'' @ n \<and> parse_u16 n \<noteq> None)"
  proof
    fix r
    assume "r \<in> set (cf_rules c)"
    then have "rule_wf (fw_part env) r" and "check_rule guest_parser_config r = Ok ()"
      using wf by (simp_all add: fw_config_wf_def is_ok_unit)
    then show "rule_wf (fw_part env) r
        \<and> (case ru_kind r of KindMatch m \<Rightarrow> rm_dir m \<noteq> DirForward | KindGroup _ \<Rightarrow> True)
        \<and> (case rule_iface r of None \<Rightarrow> True
           | Some iface \<Rightarrow> \<exists>n. iface = ''net'' @ n \<and> parse_u16 n \<noteq> None)"
      using check_rule_guest [of r] by blast
  qed
  moreover have "\<forall>(n, s)\<in>set (cf_ipsets c). is_name s = \<lparr>in_scope = IpsetGuest, in_name = n\<rparr>"
    using wf by (auto simp: fw_config_wf_def guest_parser_config_def)
  ultimately show ?thesis using c(2,3) by simp
qed

definition sample_guest_env :: "sample guest_env" where
  "sample_guest_env = \<lparr>fw_part = sample_fw_env,
     qemu_parse = (\<lambda>s. if s = ''v'' then
       Some \<lparr>qd_model = VirtIO, qd_mac = MacAddress (0, 0), qd_firewall = None\<rparr> else None),
     lxc_parse = (\<lambda>_. None), v4_cidr_parse = (\<lambda>_. None), v6_cidr_parse = (\<lambda>_. None)\<rparr>"

lemma index_net0: "index_from_net_key ''net0'' = Ok 0"
proof -
  have "dec 0 = ''0''" by code_simp
  then have "match_digits ''0'' = Some (''0'', [])" "parse_i64 ''0'' = Some 0"
    using match_digits_dec [of 0] parse_i64_dec [of 0] by simp_all
  then show ?thesis by (simp add: index_from_net_key_def)
qed

lemma sample_guest_read:
  "is_ok (guest_config_parse sample_guest_env (Vmid 100) ''tap'' [''[RULES]'', ''IN DROP'']
     [''net0: v'', ''[a]'', ''net0: w''])"
proof -
  have rules: "\<exists>c. fw_config_parse sample_fw_env guest_parser_config (guest_options_type sample_fw_env)
      [''[RULES]'', ''IN DROP''] = Ok c \<and> cf_groups c = []"
  proof -
    have "(case fw_config_parse sample_fw_env guest_parser_config (guest_options_type sample_fw_env)
        [''[RULES]'', ''IN DROP''] of Ok c \<Rightarrow> cf_groups c = [] | Err _ \<Rightarrow> False)"
      by code_simp
    then show ?thesis by (simp split: result.splits)
  qed
  have "starts_with ''net'' ''net0: v'' \<and> \<not> starts_with ''#'' ''net0: v'' \<and> \<not> is_header ''net0: v''
      \<and> is_header ''[a]'' \<and> \<not> starts_with ''#'' ''[a]''
      \<and> split_once (CHR '':'') ''net0: v'' = Some (''net0'', '' v'')
      \<and> is_ok (network_device_from_str sample_guest_env ''v'')"
    by code_simp
  moreover have "trim ''net0: v'' = ''net0: v''" "trim ''net0''= ''net0''" "trim '' v'' = ''v''"
    "trim ''[a]'' = ''[a]''"
    by code_simp+
  ultimately have "is_ok (network_config_parse sample_guest_env [''net0: v'', ''[a]'', ''net0: w''])"
    by (auto simp: network_config_parse_def index_net0 bt_contains_key_def Let_def is_ok_iff)
  with rules show ?thesis
    by (auto simp: guest_config_parse_def sample_guest_env_def is_ok_iff)
qed

theorem guest_config_safe_witness:
  "\<exists>g. guest_config_parse sample_guest_env (Vmid 100) ''tap'' [''[RULES]'', ''IN DROP'']
       [''net0: v'', ''[a]'', ''net0: w''] = Ok g \<and> cf_groups (gc_config g) = []"
  using sample_guest_read conjunct1 [OF guest_config_safe] unfolding is_ok_iff by metis


lemma sample_files_read:
  "is_ok (cluster_config_parse sample_fw_env [''[IPSET web]''])"
  "is_ok (bridge_config_parse sample_fw_env [''[OPTIONS]'', ''enable: 1''])"
  "is_ok (host_config_parse sample_fw_env [''[RULES]'', ''GROUP w''])"
  by code_simp+


lemma fw_config_parse_empty:
  assumes "content lines = []"
  shows "fw_config_parse env cfg ot lines
    = and_then (ot_deserialize ot []) (\<lambda>options. Ok ((fw_config_new ot)\<lparr>cf_options := options\<rparr>))"
  by (simp add: fw_config_parse_def parse_lines_content assms enter_section_def set_section_def)



end
