(* ===== verification/Host_Net.thy ===== *)
theory Host_Net
  imports Fw_Files
begin

text \<open>
  The host (\<open>host/utils.rs\<close>, \<open>host/types.rs\<close>): the addresses its name resolves to, the networks of its
  interfaces, and the management networks that \<open>firewall/host.rs\<close> computes from both. The resolver
  and the list of interfaces that the system returns are arguments; \<open>Err\<close> is a panic of \<open>expect\<close>.
\<close>

unbundle bit_operations_syntax

section \<open>Bridge names\<close>

datatype bridge_name_error = BridgeNameTooLong

definition bridge_name_new :: "string \<Rightarrow> (bridge_name_error, string) result" where
  "bridge_name_new name = (if length name > 15 then Err BridgeNameTooLong else Ok name)"

section \<open>What the system returns\<close>

text \<open>
  Socket addresses of the crate \<open>nix\<close>: \<open>family\<close> tells the variants apart, \<open>as_sockaddr_in\<close> and
  \<open>as_sockaddr_in6\<close> give the address of the variant.
\<close>

datatype sockaddr = SockaddrIn ipv4_addr | SockaddrIn6 ipv6_addr | SockaddrOther

record interface_address =
  ifa_address :: "sockaddr option"
  ifa_netmask :: "sockaddr option"

datatype host_panic =
  HostnameNotResolvable | InterfacesNotQueryable | NetmaskTooLong | NetmaskInvalid

definition host_ips :: "(string \<Rightarrow> (ip_addr \<times> 16 word) list option) \<Rightarrow> string \<Rightarrow> (host_panic, ip_addr list) result" where
  "host_ips resolve hostname =
     and_then (ok_or HostnameNotResolvable (resolve (hostname @ '':0''))) (\<lambda>addrs. Ok (map fst addrs))"

section \<open>The networks of the interfaces\<close>

text \<open>\<open>count_ones\<close> of the integer types, and \<open>u8::try_from\<close> of its result.\<close>

definition count_ones :: "'a::len word \<Rightarrow> nat" where
  "count_ones w = length (filter (bit w) [0..<LENGTH('a)])"

definition u8_try_from :: "nat \<Rightarrow> 8 word option" where
  "u8_try_from n = (if n < 256 then Some (of_nat n) else None)"

definition interface_cidr ::
  "'x env \<Rightarrow> interface_address \<Rightarrow> (host_panic, 'x cidr option) result" where
  "interface_cidr env i = (case (ifa_address i, ifa_netmask i) of
     (Some (SockaddrIn address), Some (SockaddrIn netmask)) \<Rightarrow>
       and_then (ok_or NetmaskTooLong (u8_try_from (count_ones netmask))) (\<lambda>n.
       and_then (ok_or NetmaskInvalid (v4_new env address n)) (\<lambda>c. Ok (Some (CidrIpv4 c))))
   | (Some (SockaddrIn6 address), Some (SockaddrIn6 netmask)) \<Rightarrow>
       and_then (ok_or NetmaskTooLong (u8_try_from (count_ones netmask))) (\<lambda>n.
       and_then (ok_or NetmaskInvalid (v6_new env address n)) (\<lambda>c. Ok (Some (CidrIpv6 c))))
   | _ \<Rightarrow> Ok None)"

definition network_interface_cidrs ::
  "'x env \<Rightarrow> interface_address list option \<Rightarrow> (host_panic, 'x cidr list) result" where
  "network_interface_cidrs env interfaces =
     and_then (ok_or InterfacesNotQueryable interfaces) (\<lambda>interfaces.
     try_fold (\<lambda>cidrs i. and_then (interface_cidr env i) (\<lambda>c.
       Ok (case c of None \<Rightarrow> cidrs | Some c \<Rightarrow> cidrs @ [c]))) [] interfaces)"

text \<open>
  \<open>management_ips\<close> of \<open>firewall/host.rs\<close> with the two functions above: the interfaces are queried once
  for each address of the host; they are taken to be the same each time.
\<close>

definition host_management_ips ::
  "'x env \<Rightarrow> (string \<Rightarrow> (ip_addr \<times> 16 word) list option) \<Rightarrow> string \<Rightarrow> interface_address list option
    \<Rightarrow> (host_panic, 'x cidr list) result" where
  "host_management_ips env resolve hostname interfaces =
     and_then (host_ips resolve hostname) (\<lambda>ips.
     try_fold (\<lambda>cidrs ip. and_then (network_interface_cidrs env interfaces) (\<lambda>networks.
       Ok (cidrs @ management_ips env [ip] networks))) [] ips)"

section \<open>Netmasks\<close>

definition netmask :: "nat \<Rightarrow> 'a::len word" where
  "netmask p = NOT (mask (LENGTH('a) - p))"

lemma count_ones_bound: "count_ones (w :: 'a::len word) \<le> LENGTH('a)"
  unfolding count_ones_def using length_filter_le [of "bit w" "[0..<LENGTH('a)]"] by simp

lemma filter_ge_upt: "filter (\<lambda>n. k \<le> n) [0..<m] = [k..<m]"
  by (induction m) auto

lemma count_ones_netmask:
  assumes "p \<le> LENGTH('a)"
  shows "count_ones (netmask p :: 'a::len word) = p"
proof -
  have "filter (bit (netmask p :: 'a word)) [0..<LENGTH('a)] = filter (\<lambda>n. LENGTH('a) - p \<le> n) [0..<LENGTH('a)]"
    by (rule filter_cong) (auto simp: netmask_def bit_not_iff bit_mask_iff)
  then show ?thesis using assms by (simp add: count_ones_def filter_ge_upt)
qed

text \<open>What the crate of the network types promises of the constructors: every prefix length is accepted.\<close>

definition prefix_law :: "'x env \<Rightarrow> bool" where
  "prefix_law env \<longleftrightarrow> (\<forall>a n. unat n \<le> 32 \<longrightarrow> v4_new env a n \<noteq> None)
     \<and> (\<forall>a n. unat n \<le> 128 \<longrightarrow> v6_new env a n \<noteq> None)"

definition network :: "'x env \<Rightarrow> ip_addr \<Rightarrow> nat \<Rightarrow> 'x cidr" where
  "network env ip p = (case ip of
     IpV4 a \<Rightarrow> CidrIpv4 (the (v4_new env a (of_nat p)))
   | IpV6 a \<Rightarrow> CidrIpv6 (the (v6_new env a (of_nat p))))"

lemma prefix_lawD:
  assumes "prefix_law env"
  shows "p \<le> 32 \<Longrightarrow> v4_new env a (of_nat p) = Some (the (v4_new env a (of_nat p)))"
    and "p \<le> 128 \<Longrightarrow> v6_new env b (of_nat p) = Some (the (v6_new env b (of_nat p)))"
proof -
  have u8: "unat (of_nat p :: 8 word) = p" if "p \<le> 128" using that by (simp add: unat_of_nat)
  show "v4_new env a (of_nat p) = Some (the (v4_new env a (of_nat p)))" if "p \<le> 32"
    using assms u8 that by (auto simp: prefix_law_def)
  show "v6_new env b (of_nat p) = Some (the (v6_new env b (of_nat p)))" if "p \<le> 128"
    using assms u8 that by (auto simp: prefix_law_def)
qed

text \<open>The network of an interface whose address and netmask are of the same family.\<close>

definition interface_network :: "'x env \<Rightarrow> interface_address \<Rightarrow> 'x cidr option" where
  "interface_network env i = (case (ifa_address i, ifa_netmask i) of
     (Some (SockaddrIn a), Some (SockaddrIn m)) \<Rightarrow> Some (network env (IpV4 a) (count_ones m))
   | (Some (SockaddrIn6 a), Some (SockaddrIn6 m)) \<Rightarrow> Some (network env (IpV6 a) (count_ones m))
   | _ \<Rightarrow> None)"

lemma interface_cidr_eq:
  assumes "prefix_law env"
  shows "interface_cidr env i = Ok (interface_network env i)"
proof -
  have v4: "count_ones m \<le> 32" for m :: "32 word" using count_ones_bound [of m] by simp
  have v6: "count_ones m \<le> 128" for m :: "128 word" using count_ones_bound [of m] by simp
  have u8: "u8_try_from (count_ones (m :: 32 word)) = Some (of_nat (count_ones m))"
    "u8_try_from (count_ones (n :: 128 word)) = Some (of_nat (count_ones n))" for m n
    using v4 [of m] v6 [of n] by (simp_all add: u8_try_from_def)
  have new: "ok_or e (v4_new env a (of_nat (count_ones (m :: 32 word))))
        = Ok (the (v4_new env a (of_nat (count_ones m))))"
    "ok_or e (v6_new env b (of_nat (count_ones (n :: 128 word))))
        = Ok (the (v6_new env b (of_nat (count_ones n))))" for e :: host_panic and a b m n
    using prefix_lawD [OF assms] v4 v6 by (metis ok_or_Ok)+
  show ?thesis
    by (simp add: interface_cidr_def interface_network_def network_def u8 new
        split: option.split sockaddr.split)
qed

lemma network_interface_cidrs_eq:
  assumes "prefix_law env"
  shows "network_interface_cidrs env (Some interfaces) = Ok (List.map_filter (interface_network env) interfaces)"
proof -
  have "try_fold (\<lambda>cidrs i. and_then (interface_cidr env i) (\<lambda>c.
       Ok (case c of None \<Rightarrow> cidrs | Some c \<Rightarrow> cidrs @ [c]))) acc interfaces
      = Ok (acc @ List.map_filter (interface_network env) interfaces)" for acc
    by (induction interfaces arbitrary: acc)
      (simp_all add: interface_cidr_eq [OF assms] map_filter_simps split: option.split)
  then show ?thesis by (simp add: network_interface_cidrs_def)
qed

section \<open>The management networks\<close>

text \<open>
  An interface as the system lists it: with an address and the netmask of a prefix length, or with
  something that is no network (\<open>None\<close>), like a link-layer address.
\<close>

definition prefix_fits :: "ip_addr \<times> nat \<Rightarrow> bool" where
  "prefix_fits = (\<lambda>(ip, p). case ip of IpV4 _ \<Rightarrow> p \<le> 32 | IpV6 _ \<Rightarrow> p \<le> 128)"

definition listed_interface :: "(ip_addr \<times> nat) option \<Rightarrow> interface_address" where
  "listed_interface x = (case x of
     None \<Rightarrow> \<lparr>ifa_address = Some SockaddrOther, ifa_netmask = None\<rparr>
   | Some (IpV4 a, p) \<Rightarrow> \<lparr>ifa_address = Some (SockaddrIn a), ifa_netmask = Some (SockaddrIn (netmask p))\<rparr>
   | Some (IpV6 a, p) \<Rightarrow> \<lparr>ifa_address = Some (SockaddrIn6 a), ifa_netmask = Some (SockaddrIn6 (netmask p))\<rparr>)"

definition network_contains :: "'x env \<Rightarrow> 'x cidr \<Rightarrow> ip_addr \<Rightarrow> bool" where
  "network_contains env c ip = (case (ip, c) of
     (IpV4 a, CidrIpv4 n) \<Rightarrow> v4_contains_address env n a
   | (IpV6 a, CidrIpv6 n) \<Rightarrow> v6_contains_address env n a
   | _ \<Rightarrow> False)"

lemma listed_interface_network:
  "prefix_fits x \<Longrightarrow> interface_network env (listed_interface (Some x)) = Some (network env (fst x) (snd x))"
  "interface_network env (listed_interface None) = None"
  by (cases x; cases "fst x";
      simp add: interface_network_def listed_interface_def prefix_fits_def count_ones_netmask)
    (simp add: interface_network_def listed_interface_def)

lemma management_ips_one: "management_ips env [ip] cidrs = filter (\<lambda>c. network_contains env c ip) cidrs"
  by (induction cidrs)
    (simp_all add: management_ips_def network_contains_def split: ip_addr.split cidr.split)

lemma listed_networks:
  assumes "\<forall>x\<in>set nets. case x of None \<Rightarrow> True | Some y \<Rightarrow> prefix_fits y"
  shows "List.map_filter (interface_network env) (map listed_interface nets)
    = map (\<lambda>(ip, p). network env ip p) (List.map_filter (\<lambda>x. x) nets)"
  using assms
  by (induction nets) (auto simp: map_filter_simps listed_interface_network split: option.split)

text \<open>
  C40: the networks of a host and its management networks are computed without a panic and are the
  right ones. If the system lists the interfaces with the netmasks of their prefix lengths, between
  entries that are no networks, the host has exactly the networks of these addresses and lengths, in
  the order of the interfaces; the management networks are, for each address that the host name
  resolves to, the networks that contain it, in this order and with repetitions.
\<close>

theorem management_networks_exact:
  assumes "prefix_law env" and "resolve (hostname @ '':0'') = Some addrs"
    and "\<forall>x\<in>set nets. case x of None \<Rightarrow> True | Some y \<Rightarrow> prefix_fits y"
  shows "let networks = map (\<lambda>(ip, p). network env ip p) (List.map_filter (\<lambda>x. x) nets) in
    network_interface_cidrs env (Some (map listed_interface nets)) = Ok networks
    \<and> host_management_ips env resolve hostname (Some (map listed_interface nets))
      = Ok (concat (map (\<lambda>(ip, port). filter (\<lambda>c. network_contains env c ip) networks) addrs))"
proof -
  let ?ifs = "Some (map listed_interface nets)"
  define networks where "networks = map (\<lambda>(ip, p). network env ip p) (List.map_filter (\<lambda>x. x) nets)"
  have cidrs: "network_interface_cidrs env ?ifs = Ok networks"
    by (simp only: network_interface_cidrs_eq [OF assms(1)] listed_networks [OF assms(3)] networks_def)
  have "try_fold (\<lambda>cidrs ip. and_then (network_interface_cidrs env ?ifs) (\<lambda>networks.
       Ok (cidrs @ management_ips env [ip] networks))) acc (map fst addrs)
      = Ok (acc @ concat (map (\<lambda>(ip, port). filter (\<lambda>c. network_contains env c ip) networks) addrs))" for acc
    by (induction addrs arbitrary: acc) (simp_all add: cidrs management_ips_one case_prod_unfold)
  then have "host_management_ips env resolve hostname ?ifs
      = Ok (concat (map (\<lambda>(ip, port). filter (\<lambda>c. network_contains env c ip) networks) addrs))"
    using assms(2) by (simp add: host_management_ips_def host_ips_def)
  with cidrs show ?thesis by (simp add: networks_def)
qed

lemma sample_prefix_law: "prefix_law sample_env"
  by (simp add: prefix_law_def sample_env_def)

theorem management_networks_exact_witness:
  "host_management_ips sample_env (\<lambda>_. Some [(IpV4 0x0A000001, 0)]) ''pve1''
     (Some (map listed_interface [None, Some (IpV4 0x0A000001, 24), Some (IpV4 0xC0A80001, 16)]))
   = Ok [CidrIpv4 (net_v4 0x0A000001 24)]"
proof -
  let ?nets = "[None, Some (IpV4 0x0A000001, 24), Some (IpV4 0xC0A80001, 16)]"
  have "\<forall>x\<in>set ?nets. case x of None \<Rightarrow> True | Some y \<Rightarrow> prefix_fits y"
    by (simp add: prefix_fits_def)
  from management_networks_exact [OF sample_prefix_law _ this,
      of "\<lambda>_. Some [(IpV4 0x0A000001, 0)]" "''pve1''" "[(IpV4 0x0A000001, 0)]"]
  have "host_management_ips sample_env (\<lambda>_. Some [(IpV4 0x0A000001, 0)]) ''pve1''
      (Some (map listed_interface ?nets))
    = Ok (filter (\<lambda>c. network_contains sample_env c (IpV4 0x0A000001))
        [network sample_env (IpV4 0x0A000001) 24, network sample_env (IpV4 0xC0A80001) 16])"
    by (simp add: map_filter_simps Let_def)
  moreover have "filter (\<lambda>c. network_contains sample_env c (IpV4 0x0A000001))
      [network sample_env (IpV4 0x0A000001) 24, network sample_env (IpV4 0xC0A80001) 16]
    = [CidrIpv4 (net_v4 0x0A000001 24)]"
    by code_simp
  ultimately show ?thesis by simp
qed

end
