(* ===== verification/Spec2Isabelle.thy ===== *)
theory Spec2Isabelle
  imports Fabric_Properties Fabric_Buildable Fabric_File Sdn_Properties Ipset_Names Prefix_List_Props Route_Map
    Wireguard_Cleanup Frr_References Frr_Sequences Frr_Templates Fw_Guest_Props Host_Net
begin
text \<open>
  A model of the Rust workspace proxmox-ve-rs in HOL, with the theorems that make it correct.

  \<^bold>\<open>The program.\<close> The crate \<open>proxmox-ve-config\<close> reads, checks, edits and writes the configuration of
  a Proxmox VE cluster: SDN fabrics, the running SDN configuration with its IPAM database, prefix
  lists and route maps, and the firewall files of the cluster, its nodes, bridges and guests. From
  it, \<open>sdn/fabric/frr.rs\<close> generates the routing configuration of a node as data of the crate
  \<open>proxmox-frr\<close>, and \<open>sdn/wireguard.rs\<close> its WireGuard configuration. \<open>proxmox-sdn-types\<close> holds value
  types that all of them share. Sources below are relative to \<open>proxmox-ve-config/src\<close> unless they
  begin with the name of another crate.

  \<^bold>\<open>How the parts interact.\<close> A fabric configuration arrives as sections, is read into \<open>FabricConfig\<close>,
  changed by operations of the API, and validated; only validated configurations reach the two
  generators. Route maps and prefix lists are added to the same FRR configuration. The running SDN
  configuration and the IPAM database yield IP sets for the firewall, in the types that the firewall
  files are parsed into; a guest's firewall configuration also reads its network devices.

  \<^bold>\<open>Shared theories.\<close>
  \<^item> \<open>Prelude\<close>: Rust's \<open>Result\<close> and its \<open>?\<close> operator, loops over iterators that may fail, and the
    interfaces of such loops: \<open>invariant_step\<close> (a step keeps an invariant), \<open>claim_collector\<close> (a step
    that claims names and fails on a name already taken).
  \<^item> \<open>Rust_Str\<close>: \<open>str\<close> and the integer parsers; \<open>BTree_Map\<close>: ordered maps as sorted lists, with their
    interface \<open>keyed_map\<close>; \<open>Net_Types\<close>: addresses and the record \<open>env\<close> of third-party operations.
  \<^item> \<open>Sorted_Table\<close>: tables that the compiler sorts (\<open>sorted!\<close>) and \<open>binary_search_by\<close> in them; with
    distinct names a search is a lookup.

  \<^bold>\<open>Value types\<close> (\<open>proxmox-sdn-types\<close>). \<open>Sdn_Types\<close>: \<open>lib.rs\<close>, \<open>ospf.rs\<close>, \<open>wireguard.rs\<close>. \<open>Net_Title\<close>:
  \<open>net.rs\<close>, the NET of an OpenFabric node. The lemmas are round trips and the exact condition under
  which two addresses share a NET.

  \<^bold>\<open>Fabrics\<close> (\<open>sdn/fabric\<close>).
  \<^item> \<open>Section_Ids\<close>, \<open>Bgp_Router_Id\<close>, \<open>Fabric_Types\<close>, \<open>Fabric_Sections\<close>: \<open>section_config\<close> with its
    protocols: ids, router ids (FNV-1a on 32-bit words), data, checks of single sections.
  \<^item> \<open>Fabric_Entry\<close>, \<open>Fabric_Validate\<close>: \<open>Entry\<close> and \<open>FabricEntry\<close> of \<open>mod.rs\<close>, their operations,
    updates and validation. \<open>Fabric_Config\<close>: \<open>FabricConfig\<close>, its operations and validation.
  \<^item> \<open>Fabric_Config_Ops\<close>: the configuration as a state machine; \<open>config_reachable\<close> are the states that
    any sequence of operations reaches, failing ones included. \<open>Fabric_Config_Valid\<close>: the declarative
    predicate \<open>fc_valid\<close>. \<open>Fabric_Config_Sections\<close>: writing and reading sections.
  \<^item> \<open>Fabric_Sample\<close>, \<open>Fabric_Properties\<close>: validation accepts exactly what \<open>fc_valid\<close> describes, for
    every iteration order of the hash sets; sections round-trip; reachable states are well-formed and
    never run into \<open>unreachable!\<close>; addresses, interfaces and ports are unique; failing operations
    change nothing, with the one exception the theorem names.
  \<^item> \<open>Fabric_File\<close>: the file of the fabrics. Only valid configurations (\<open>into_valid\<close> of \<open>common/valid.rs\<close>,
    in the \<open>Prelude\<close>) are written, and reading the file gives the configuration back.
  \<^item> \<open>Fabric_Updates\<close>: nodes in the form of the API, and the updaters' \<open>is_empty\<close>; an empty update
    changes nothing, and deleting what was added restores the configuration. \<open>Fabric_Buildable\<close>: the
    operations never get stuck, every reachable configuration leads to every other one.

  \<^bold>\<open>WireGuard.\<close> \<open>Wireguard_Keys\<close>: the store of private keys of \<open>protocol/wireguard.rs\<close>, its clean-up
  and its sections. \<open>Wireguard_Build\<close>, \<open>Wireguard_Build_Props\<close>: \<open>sdn/wireguard.rs\<close>; for validated fabrics
  building never fails and every interface gets its key, its port and its peers. \<open>Wireguard_Cleanup\<close>
  puts both together: clean-up changes the configuration of no node and is done after one run.

  \<^bold>\<open>FRR\<close> (\<open>proxmox-frr/src/ser\<close>, \<open>sdn/fabric/frr.rs\<close>). \<open>Frr_Route_Map\<close>, \<open>Frr_Types\<close>: the data.
  \<open>Frr_Build\<close>: the generator. Its writes go through few primitives, stated as the interface
  \<open>frr_writes\<close> in \<open>Frr_Build_Props\<close> (existing parts are kept), which \<open>Frr_References\<close> interprets once
  more (no dangling references). \<open>Frr_Build_Total\<close>: no failure and no panic for validated fabrics.
  \<open>Frr_Sequences\<close>: sequence numbers increase. \<open>Frr_Templates\<close>: \<open>serializer.rs\<close>, which templates the
  engine finds and how the rendered text becomes the lines of the configuration.

  \<^bold>\<open>Prefix lists and route maps.\<close> \<open>Prefix_List\<close>, \<open>Prefix_List_Props\<close>: \<open>sdn/prefix_list.rs\<close>.
  \<open>Route_Map\<close>: \<open>sdn/route_map.rs\<close>.

  \<^bold>\<open>SDN configuration and IPAM.\<close> \<open>Sdn_Names\<close>: \<open>sdn/mod.rs\<close>. \<open>Sdn_Config\<close>, \<open>Sdn_Config_Props\<close>, \<open>Sdn_Read\<close>,
  \<open>Sdn_Properties\<close>: \<open>sdn/config.rs\<close>; reading is described by the interface \<open>keyed_loader\<close> (a loop that
  inserts under distinct keys), once for zones, vnets and subnets. \<open>Sdn_Ipam\<close>: \<open>sdn/ipam.rs\<close>.
  \<open>Ipset_Names\<close>: the IP sets that both generate have different names, and rules can refer to them.

  \<^bold>\<open>Firewall\<close> (\<open>firewall\<close>, \<open>guest\<close>).
  \<^item> \<open>Fw_Parse\<close>: \<open>parse.rs\<close>, the text helpers. \<open>Fw_Alias\<close>, \<open>Fw_Ipset\<close>: \<open>types/alias.rs\<close>,
    \<open>types/ipset.rs\<close>. \<open>Fw_Values\<close>: \<open>ports.rs\<close>, \<open>types/{port,log,address}.rs\<close>.
  \<^item> \<open>Fw_Icmp\<close>, \<open>Fw_Rule\<close>: \<open>types/rule_match.rs\<close> and \<open>types/rule.rs\<close>. The ICMP names are found in sorted
    tables. \<open>Fw_Rule_Props\<close>: a rule that was written out is read as its
    parts, the order of options does not matter, whatever is read is well-formed. The interface
    \<open>consuming\<close> says that a parser returns a shorter rest, \<open>field_setter\<close> that writing one field leaves
    the others alone.
  \<^item> \<open>Fw_Config\<close>: \<open>common.rs\<close> and \<open>types/group.rs\<close>, the state machine that reads a file line by line.
    \<open>Fw_Config_Props\<close>: its specification reads each section by itself, and the state machine
    implements it; \<open>section_loop\<close> is the contract of the lines of one kind of section.
  \<^item> \<open>Fw_Files\<close>: \<open>{cluster,bridge,host,fw_macros,ct_helper}.rs\<close>. \<open>Fw_Guest\<close>: \<open>guest.rs\<close> of the firewall
    and \<open>guest/{types,mod,vm}.rs\<close>. \<open>Fw_Guest_Props\<close>: what each file can hold, the devices of a guest,
    the names of its interfaces, the defaults of an empty file.
  \<^item> \<open>Host_Net\<close>: \<open>host\<close> and \<open>management_ips\<close> of \<open>firewall/host.rs\<close>: the networks of the host's interfaces
    and those among them that hold an address of the host. A panic of \<open>expect\<close> is an error value.

  \<^bold>\<open>Correspondence.\<close> A struct is a record, an enum a datatype with the constructors of the source (a
  prefix where two enums share a name), a function or method one definition with the name of the
  source, prefixed by its type where names repeat. \<open>Result\<close> is the datatype \<open>Ok\<close>/\<open>Err\<close>, an operation on
  \<open>&mut self\<close> returns the changed value along with its result, so that what a failing operation leaves
  behind is visible. Integers keep their width (\<open>8 word\<close> to \<open>64 word\<close>) and wrap as in a release
  build; where a debug build would panic the theorems carry the bound. A \<open>BTreeMap\<close> is a sorted
  list; a \<open>HashMap\<close> is a list whose order is a parameter wherever the code iterates over it. Strings
  are lists of characters and stand for the UTF-8 text.

  \<^bold>\<open>Parameters.\<close> What third-party code does is an argument: \<open>env\<close> (parsing, printing and comparing
  CIDR networks, from the \<open>proxmox-network-types\<close> crate, and the iteration order of hash sets),
  \<open>fw_env\<close> (address ranges, the lenient booleans and integers of \<open>proxmox-serde\<close>, the lines of
  \<open>/etc/services\<close>), \<open>guest_env\<close> (the readers of property strings), \<open>section_file\<close> (the text form of sections) and
  \<open>template_engine\<close> (the crate \<open>minijinja\<close>). So is what the system returns: the texts of the templates, the addresses a host name
  resolves to, the interfaces of the host, the list of guests and its JSON reader. Theorems that depend on their behaviour
  name the laws they use as hypotheses, and their witnesses give concrete functions for them.
  Helpers of the standard library (\<open>binary_search\<close>, \<open>unwrap_or\<close>, \<open>transpose\<close>, \<open>split_once\<close>) are defined
  here with the behaviour the Rust documentation gives, as are the projections that replace field
  access by name.

  \<^bold>\<open>Termination and bounds.\<close> No definition of the model uses fuel. Recursion is structural except
  for the loop over the options of a rule, whose remaining text becomes shorter with each option,
  and for binary search, whose remaining part does. \<open>run_options\<close> is the first of these loops with a
  limit on its iterations: each takes at least three characters, so a third of the text's length is
  enough. Generated sequence numbers (\<open>u16\<close>) do not wrap for up to 3,000 fabrics, which the theorem
  assumes; sequence numbers of prefix lists (\<open>u32\<close>) come after the existing ones as long as the
  highest leaves room for the next.

  \<^bold>\<open>Not modelled.\<close>
  \<^item> Serialisation derived by serde, API schemas and the adapters between both: deserialising the
    options of the firewall is written out for the fields each file has; its errors are one value,
    because the order in which a hash map yields the fields decides which is reported.
  \<^item> The JSON of FRR's status commands (\<open>proxmox-frr/src/de\<close>): data types with derived readers and no
    operations.
  \<^item> The FRR templates (\<open>proxmox-frr-templates\<close>): what they render to is the behaviour of \<open>minijinja\<close>.
  \<^item> Reading files: functions that parse take the lines of the file.
  \<^item> Log messages, and accessors that only return a field.
\<close>
end
